(* ===== verification/Prelude.thy ===== *)
theory Prelude
  imports Main "HOL-Library.Word" "HOL-Library.Sublist"
begin

text \<open>
  Shared vocabulary of the development.

  The program is written in Rust.  A Rust \<open>String\<close> or \<open>&str\<close> is its UTF-8 encoding, one
  \<open>char\<close> per byte, so \<open>length\<close> is Rust's \<open>len\<close>; a \<open>Vec<u8>\<close> is a list of 8-bit words.
  A \<open>Result<T, E>\<close> is the sum \<open>'e + 'a\<close> with \<open>Inl\<close> for \<open>Err\<close> and \<open>Inr\<close> for \<open>Ok\<close>.
  This theory defines the operators on results (\<open>?\<close>, \<open>map_err\<close>, \<open>ok_or\<close>) and the
  functions of Rust's standard library on strings that the program calls, with the lemmas
  about them that several components use.
\<close>

named_theorems result_simps \<open>rules that run a computation through the result operators\<close>
named_theorems string_simps \<open>rules on the string functions of the Rust standard library\<close>

type_synonym byte = "8 word"
type_synonym bytes = "byte list"

subsection \<open>Results\<close>

text \<open>The \<open>?\<close> operator: continue with the value, or return the error.\<close>

fun try_then :: "'e + 'a \<Rightarrow> ('a \<Rightarrow> 'e + 'b) \<Rightarrow> 'e + 'b" where
  "try_then (Inl e) f = Inl e"
| "try_then (Inr x) f = f x"

fun map_err :: "('e \<Rightarrow> 'f) \<Rightarrow> 'e + 'a \<Rightarrow> 'f + 'a" where
  "map_err f (Inl e) = Inl (f e)"
| "map_err f (Inr x) = Inr x"

fun map_ok :: "('a \<Rightarrow> 'b) \<Rightarrow> 'e + 'a \<Rightarrow> 'e + 'b" where
  "map_ok f (Inl e) = Inl e"
| "map_ok f (Inr x) = Inr (f x)"

fun ok_or :: "'e \<Rightarrow> 'a option \<Rightarrow> 'e + 'a" where
  "ok_or e None = Inl e"
| "ok_or e (Some x) = Inr x"

fun to_option :: "'e + 'a \<Rightarrow> 'a option" where
  "to_option (Inl e) = None"
| "to_option (Inr x) = Some x"

fun is_ok :: "'e + 'a \<Rightarrow> bool" where
  "is_ok (Inl e) = False"
| "is_ok (Inr x) = True"

lemma try_then_Inr_iff [result_simps]:
  "try_then r f = Inr y \<longleftrightarrow> (\<exists>x. r = Inr x \<and> f x = Inr y)"
  by (cases r) auto

lemma try_then_Inl_iff [result_simps]:
  "try_then r f = Inl e \<longleftrightarrow> r = Inl e \<or> (\<exists>x. r = Inr x \<and> f x = Inl e)"
  by (cases r) auto

lemma map_err_Inr_iff [simp, result_simps]: "map_err f r = Inr y \<longleftrightarrow> r = Inr y"
  by (cases r) auto

lemma map_err_Inl_iff [result_simps]: "map_err f r = Inl e \<longleftrightarrow> (\<exists>d. r = Inl d \<and> e = f d)"
  by (cases r) auto

lemma map_ok_Inr_iff [result_simps]: "map_ok f r = Inr y \<longleftrightarrow> (\<exists>x. r = Inr x \<and> y = f x)"
  by (cases r) auto

lemma map_ok_Inl_iff [simp, result_simps]: "map_ok f r = Inl e \<longleftrightarrow> r = Inl e"
  by (cases r) auto

lemma ok_or_Inr_iff [simp, result_simps]: "ok_or e m = Inr x \<longleftrightarrow> m = Some x"
  by (cases m) auto

lemma ok_or_Inl_iff [simp, result_simps]: "ok_or e m = Inl d \<longleftrightarrow> m = None \<and> d = e"
  by (cases m) auto

lemma to_option_Some_iff [simp, result_simps]: "to_option r = Some x \<longleftrightarrow> r = Inr x"
  by (cases r) auto

lemma to_option_None_iff [result_simps]: "to_option r = None \<longleftrightarrow> (\<exists>e. r = Inl e)"
  by (cases r) auto

lemma is_ok_iff [result_simps]: "is_ok r \<longleftrightarrow> (\<exists>x. r = Inr x)"
  by (cases r) auto

lemma try_then_assoc: "try_then (try_then r f) g = try_then r (\<lambda>x. try_then (f x) g)"
  by (cases r) auto

text \<open>A loop \<open>for x in xs\<close> whose body pushes one result and may return early with \<open>?\<close>.\<close>

fun collect_results :: "('a \<Rightarrow> 'e + 'b) \<Rightarrow> 'a list \<Rightarrow> 'e + 'b list" where
  "collect_results f [] = Inr []"
| "collect_results f (x # xs) =
     try_then (f x) (\<lambda>y. try_then (collect_results f xs) (\<lambda>ys. Inr (y # ys)))"

lemma collect_results_Inr_iff:
  "collect_results f xs = Inr ys \<longleftrightarrow> list_all2 (\<lambda>x y. f x = Inr y) xs ys"
proof (induction xs arbitrary: ys)
  case Nil
  then show ?case by auto
next
  case (Cons x xs)
  show ?case
    by (auto simp: try_then_Inr_iff Cons.IH list_all2_Cons1)
qed

lemma collect_results_Inl:
  "collect_results f xs = Inl e \<Longrightarrow> \<exists>x\<in>set xs. f x = Inl e"
  by (induction xs) (auto simp: try_then_Inl_iff)

lemma collect_results_total:
  "(\<And>x. x \<in> set xs \<Longrightarrow> f x = Inr (g x)) \<Longrightarrow> collect_results f xs = Inr (map g xs)"
  by (induction xs) auto

subsection \<open>Results of effectful calls\<close>

text \<open>
  A call with effects takes the state and returns its result with the new state.
  \<open>and_then\<close> is \<open>?\<close> on such a call; \<open>pure\<close> is a step without effects.
\<close>

type_synonym ('s, 'e, 'a) effect = "'s \<Rightarrow> ('e + 'a) \<times> 's"

definition and_then :: "('s, 'e, 'a) effect \<Rightarrow> ('a \<Rightarrow> ('s, 'e, 'b) effect) \<Rightarrow> ('s, 'e, 'b) effect" where
  "and_then m f s = (case m s of (Inl e, s1) \<Rightarrow> (Inl e, s1) | (Inr x, s1) \<Rightarrow> f x s1)"

definition pure :: "'e + 'a \<Rightarrow> ('s, 'e, 'a) effect" where
  "pure r s = (r, s)"

lemma pure_simp [simp]: "pure r s = (r, s)"
  by (simp add: pure_def)

lemma and_then_Inr:
  "and_then m f s = (Inr y, s2) \<longleftrightarrow> (\<exists>x s1. m s = (Inr x, s1) \<and> f x s1 = (Inr y, s2))"
  by (auto simp: and_then_def split: prod.splits sum.splits)

lemma and_then_Inl:
  "and_then m f s = (Inl e, s2) \<longleftrightarrow>
     m s = (Inl e, s2) \<or> (\<exists>x s1. m s = (Inr x, s1) \<and> f x s1 = (Inl e, s2))"
  by (auto simp: and_then_def split: prod.splits sum.splits)

lemma and_then_ok [simp]: "m s = (Inr x, s1) \<Longrightarrow> and_then m f s = f x s1"
  by (simp add: and_then_def)

lemma and_then_err [simp]: "m s = (Inl e, s1) \<Longrightarrow> and_then m f s = (Inl e, s1)"
  by (simp add: and_then_def)

lemma and_then_pure [simp]:
  "and_then (pure (Inr x)) f s = f x s" "and_then (pure (Inl e)) f s = (Inl e, s)"
  by (simp_all add: and_then_def)

text \<open>A property of the state that both parts keep is kept by the whole.\<close>

lemma and_then_keeps:
  assumes "P (snd (m s))" and "\<And>x s1. m s = (Inr x, s1) \<Longrightarrow> P s1 \<Longrightarrow> P (snd (f x s1))"
  shows "P (snd (and_then m f s))"
  using assms by (cases "m s"; cases "fst (m s)") (auto simp: and_then_def)

lemma snd_and_then_pure: "snd (and_then m (\<lambda>x. pure (f x)) s) = snd (m s)"
  by (cases "m s"; cases "fst (m s)") (simp_all add: and_then_def)

subsection \<open>Text and bytes\<close>

definition byte_of_char :: "char \<Rightarrow> byte" where
  "byte_of_char c = word_of_nat (of_char c)"

definition char_of_byte :: "byte \<Rightarrow> char" where
  "char_of_byte b = char_of (unat b)"

definition as_bytes :: "string \<Rightarrow> bytes" where
  "as_bytes s = map byte_of_char s"

definition text_of :: "bytes \<Rightarrow> string" where
  "text_of bs = map char_of_byte bs"

lemma of_char_less_256: "(of_char c :: nat) < 256"
  by (cases c) (simp add: of_char_def split: if_splits)

lemma unat_byte_of_char [simp]: "unat (byte_of_char c) = of_char c"
  using of_char_less_256 [of c] by (simp add: byte_of_char_def unat_of_nat)

lemma char_of_byte_of_char [simp]: "char_of_byte (byte_of_char c) = c"
  by (simp add: char_of_byte_def)

lemma byte_of_char_of_byte [simp]: "byte_of_char (char_of_byte b) = b"
proof -
  have "unat b < 2 ^ LENGTH(8)" by (rule unsigned_less)
  then have "unat b < 256" by simp
  then have "of_char (char_of (unat b)) = unat b"
    by (simp add: take_bit_eq_mod)
  then show ?thesis by (simp add: byte_of_char_def char_of_byte_def)
qed

lemma as_bytes_simps [simp]:
  "as_bytes [] = []" "as_bytes (c # s) = byte_of_char c # as_bytes s"
  "as_bytes (s @ t) = as_bytes s @ as_bytes t" "length (as_bytes s) = length s"
  by (simp_all add: as_bytes_def)

lemma text_of_as_bytes [simp]: "text_of (as_bytes s) = s"
  by (simp add: as_bytes_def text_of_def comp_def map_idI)

lemma as_bytes_text_of [simp]: "as_bytes (text_of bs) = bs"
  by (simp add: as_bytes_def text_of_def comp_def map_idI)

lemma as_bytes_inject [simp]: "as_bytes s = as_bytes t \<longleftrightarrow> s = t"
  by (metis text_of_as_bytes)

text \<open>
  \<open>std::str::from_utf8\<close>: the well-formed byte sequences of the Unicode standard
  (no overlong forms, no surrogates, nothing above U+10FFFF).
\<close>

definition utf8_cont :: "byte \<Rightarrow> bool" where
  "utf8_cont b \<longleftrightarrow> 0x80 \<le> b \<and> b \<le> 0xBF"

definition utf8_second_ok :: "byte \<Rightarrow> byte \<Rightarrow> bool" where
  "utf8_second_ok a b \<longleftrightarrow>
     (if a = 0xE0 then 0xA0 \<le> b \<and> b \<le> 0xBF
      else if a = 0xED then 0x80 \<le> b \<and> b \<le> 0x9F
      else if a = 0xF0 then 0x90 \<le> b \<and> b \<le> 0xBF
      else if a = 0xF4 then 0x80 \<le> b \<and> b \<le> 0x8F
      else utf8_cont b)"

fun utf8_valid :: "bytes \<Rightarrow> bool" where
  "utf8_valid [] = True"
| "utf8_valid (a # r) =
     (if a < 0x80 then utf8_valid r
      else if 0xC2 \<le> a \<and> a \<le> 0xDF then
        (case r of b # r1 \<Rightarrow> utf8_cont b \<and> utf8_valid r1 | _ \<Rightarrow> False)
      else if 0xE0 \<le> a \<and> a \<le> 0xEF then
        (case r of b # c # r2 \<Rightarrow> utf8_second_ok a b \<and> utf8_cont c \<and> utf8_valid r2 | _ \<Rightarrow> False)
      else if 0xF0 \<le> a \<and> a \<le> 0xF4 then
        (case r of b # c # d # r3 \<Rightarrow>
           utf8_second_ok a b \<and> utf8_cont c \<and> utf8_cont d \<and> utf8_valid r3 | _ \<Rightarrow> False)
      else False)"

definition from_utf8 :: "bytes \<Rightarrow> string option" where
  "from_utf8 bs = (if utf8_valid bs then Some (text_of bs) else None)"

definition ascii :: "string \<Rightarrow> bool" where
  "ascii s \<longleftrightarrow> list_all (\<lambda>c. (of_char c :: nat) < 128) s"

lemma utf8_valid_ascii:
  assumes "ascii s" shows "utf8_valid (as_bytes s)"
  using assms
proof (induction s)
  case Nil
  then show ?case by simp
next
  case (Cons c s)
  then have "byte_of_char c < 0x80"
    by (simp add: ascii_def word_less_nat_alt)
  with Cons show ?case by (simp add: ascii_def)
qed

lemma from_utf8_ascii: "ascii s \<Longrightarrow> from_utf8 (as_bytes s) = Some s"
  by (simp add: from_utf8_def utf8_valid_ascii)

lemma from_utf8_Some: "from_utf8 bs = Some s \<Longrightarrow> as_bytes s = bs"
  by (auto simp: from_utf8_def split: if_splits)

subsection \<open>Whitespace: \<open>trim\<close>, \<open>trim_start\<close>, \<open>char::is_whitespace\<close>\<close>

text \<open>
  The Unicode White\_Space code points in UTF-8: U+0009 to U+000D and U+0020 (one byte),
  U+0085 and U+00A0 (lead C2), U+1680 (lead E1), U+2000 to U+200A, U+2028, U+2029, U+202F
  and U+205F (lead E2), U+3000 (lead E3).  \<open>ws_bytes n d e\<close> is the length of the white
  space character that starts with the code \<open>n\<close> and goes on with \<open>d\<close> and \<open>e\<close>
  (0 where there is none).
\<close>

definition ws_seq :: "nat \<Rightarrow> nat option \<Rightarrow> nat option \<Rightarrow> nat" where
  "ws_seq a b c =
     (if (9 \<le> a \<and> a \<le> 13) \<or> a = 32 then 1
      else if a = 0xC2 \<and> (b = Some 0x85 \<or> b = Some 0xA0) then 2
      else if a = 0xE1 \<and> b = Some 0x9A \<and> c = Some 0x80 then 3
      else if a = 0xE2 \<and> b = Some 0x80 \<and>
          (case c of Some n \<Rightarrow> (0x80 \<le> n \<and> n \<le> 0x8A) \<or> n = 0xA8 \<or> n = 0xA9 \<or> n = 0xAF
                   | None \<Rightarrow> False) then 3
      else if a = 0xE2 \<and> b = Some 0x81 \<and> c = Some 0x9F then 3
      else if a = 0xE3 \<and> b = Some 0x80 \<and> c = Some 0x80 then 3
      else 0)"

fun code_at :: "string \<Rightarrow> nat \<Rightarrow> nat option" where
  "code_at [] i = None"
| "code_at (c # s) 0 = Some (of_char c)"
| "code_at (c # s) (Suc i) = code_at s i"

text \<open>Length of the white space character at the front of a string, 0 if there is none.\<close>

definition ws_front :: "string \<Rightarrow> nat" where
  "ws_front s = (case code_at s 0 of None \<Rightarrow> 0 | Some a \<Rightarrow> ws_seq a (code_at s 1) (code_at s 2))"

text \<open>The same at the back; the argument is the reversed string.\<close>

definition ws_back_rev :: "string \<Rightarrow> nat" where
  "ws_back_rev s =
     (case code_at s 0 of None \<Rightarrow> 0
      | Some a \<Rightarrow>
          if ws_seq a None None = 1 then 1
          else (case code_at s 1 of None \<Rightarrow> 0
                | Some b \<Rightarrow>
                    if ws_seq b (Some a) None = 2 then 2
                    else (case code_at s 2 of None \<Rightarrow> 0
                          | Some c \<Rightarrow> if ws_seq c (Some b) (Some a) = 3 then 3 else 0)))"

function drop_while_len :: "(string \<Rightarrow> nat) \<Rightarrow> string \<Rightarrow> string" where
  "drop_while_len f s =
     (if s = [] \<or> f s = 0 then s else drop_while_len f (drop (f s) s))"
  by pat_completeness auto
termination
  by (relation "measure (\<lambda>(f, s). length s)") auto

declare drop_while_len.simps [simp del]

definition trim_start :: "string \<Rightarrow> string" where
  "trim_start s = drop_while_len ws_front s"

definition trim_end :: "string \<Rightarrow> string" where
  "trim_end s = rev (drop_while_len ws_back_rev (rev s))"

definition trim :: "string \<Rightarrow> string" where
  "trim s = trim_end (trim_start s)"

text \<open>\<open>s.chars().filter(|c| !c.is_whitespace()).collect()\<close>\<close>

function remove_ws :: "string \<Rightarrow> string" where
  "remove_ws s =
     (case s of [] \<Rightarrow> []
      | c # r \<Rightarrow> if ws_front s = 0 then c # remove_ws r else remove_ws (drop (ws_front s) s))"
  by pat_completeness auto
termination
  by (relation "measure length") auto

declare remove_ws.simps [simp del]

text \<open>Strings that neither start nor end with white space are left alone.\<close>

lemma drop_while_len_id: "f s = 0 \<Longrightarrow> drop_while_len f s = s"
  by (simp add: drop_while_len.simps)

lemma trim_id: "ws_front s = 0 \<Longrightarrow> ws_back_rev (rev s) = 0 \<Longrightarrow> trim s = s"
  by (simp add: trim_def trim_start_def trim_end_def drop_while_len_id)

definition graphic :: "char \<Rightarrow> bool" where
  "graphic c \<longleftrightarrow> 33 \<le> (of_char c :: nat) \<and> (of_char c :: nat) < 127"

lemma ws_front_graphic: "graphic c \<Longrightarrow> ws_front (c # s) = 0"
  by (auto simp: ws_front_def ws_seq_def graphic_def)

lemma ws_seq_None: "ws_seq a None None \<le> 1"
  by (simp add: ws_seq_def)

lemma ws_seq_graphic_tail:
  "33 \<le> a \<Longrightarrow> a < 127 \<Longrightarrow> ws_seq b (Some a) None \<noteq> 2 \<and> ws_seq c (Some b) (Some a) \<noteq> 3"
  by (auto simp: ws_seq_def)

lemma ws_back_graphic: "graphic c \<Longrightarrow> ws_back_rev (c # s) = 0"
  using ws_seq_graphic_tail [of "of_char c"]
  by (auto simp: ws_back_rev_def graphic_def ws_seq_def [of "of_char c"] split: option.splits)

lemma trim_graphic:
  assumes "s \<noteq> []" "graphic (hd s)" "graphic (last s)"
  shows "trim s = s"
proof (rule trim_id)
  show "ws_front s = 0"
    using assms by (cases s) (auto intro: ws_front_graphic)
  show "ws_back_rev (rev s) = 0"
    using assms by (cases s rule: rev_cases) (auto intro: ws_back_graphic)
qed

lemma trim_all_graphic: "list_all graphic s \<Longrightarrow> trim s = s"
  by (cases "s = []")
    (auto simp: trim_id ws_front_def ws_back_rev_def list_all_iff intro!: trim_graphic)

lemma remove_ws_graphic: "list_all graphic s \<Longrightarrow> remove_ws s = s"
proof (induction s)
  case Nil
  then show ?case by (simp add: remove_ws.simps)
next
  case (Cons c s)
  then show ?case by (simp add: remove_ws.simps [of "c # s"] ws_front_graphic)
qed

subsection \<open>Prefixes, suffixes, searching, splitting\<close>

definition starts_with :: "string \<Rightarrow> string \<Rightarrow> bool" where
  "starts_with s p = prefix p s"

definition strip_prefix :: "string \<Rightarrow> string \<Rightarrow> string option" where
  "strip_prefix p s = (if prefix p s then Some (drop (length p) s) else None)"

definition strip_suffix :: "string \<Rightarrow> string \<Rightarrow> string option" where
  "strip_suffix p s = (if suffix p s then Some (take (length s - length p) s) else None)"

fun contains :: "string \<Rightarrow> string \<Rightarrow> bool" where
  "contains p [] = (p = [])"
| "contains p (c # s) = (prefix p (c # s) \<or> contains p s)"

definition trim_end_matches :: "char \<Rightarrow> string \<Rightarrow> string" where
  "trim_end_matches c s = rev (dropWhile (\<lambda>x. x = c) (rev s))"

text \<open>\<open>'{s}'\<close> inside a format string.\<close>

definition quoted :: "string \<Rightarrow> string" where
  "quoted s = [CHR 0x27] @ s @ [CHR 0x27]"

text \<open>\<open>str::split\<close> on one character: never empty.\<close>

fun split_on :: "char \<Rightarrow> string \<Rightarrow> string list" where
  "split_on c [] = [[]]"
| "split_on c (x # s) =
     (if x = c then [] # split_on c s
      else (case split_on c s of [] \<Rightarrow> [[x]] | p # ps \<Rightarrow> (x # p) # ps))"

text \<open>\<open>str::lines\<close>: LF ends a line, one CR before it is dropped, a last empty line is not
  produced.\<close>

definition strip_cr :: "string \<Rightarrow> string" where
  "strip_cr l = (if l \<noteq> [] \<and> last l = CHR 0x0D then butlast l else l)"

function lines :: "string \<Rightarrow> string list" where
  "lines s =
     (if s = [] then []
      else let l = takeWhile (\<lambda>c. c \<noteq> CHR 0x0A) s;
               r = dropWhile (\<lambda>c. c \<noteq> CHR 0x0A) s
           in if r = [] then [l] else strip_cr l # lines (tl r))"
  by pat_completeness auto
termination
proof (relation "measure length")
  fix s :: string and l r
  assume "s \<noteq> []" and "r = dropWhile (\<lambda>c. c \<noteq> CHR 0x0A) s" and "r \<noteq> []"
  then have "length (tl r) < length r" and "length r \<le> length s"
    by (simp_all add: length_dropWhile_le)
  then show "(tl r, s) \<in> measure length" by simp
qed simp

declare lines.simps [simp del]

text \<open>\<open>s.chars().take(n).collect()\<close>: code points are counted by their lead bytes.\<close>

fun take_chars :: "nat \<Rightarrow> string \<Rightarrow> string" where
  "take_chars n [] = []"
| "take_chars n (c # s) =
     (if utf8_cont (byte_of_char c) then c # take_chars n s
      else if n = 0 then [] else c # take_chars (n - 1) s)"

fun count_chars :: "string \<Rightarrow> nat" where
  "count_chars [] = 0"
| "count_chars (c # s) = (if utf8_cont (byte_of_char c) then 0 else 1) + count_chars s"

lemma count_take_chars: "count_chars (take_chars n s) \<le> n"
  by (induction n s rule: take_chars.induct) auto

lemma prefix_take_chars: "prefix (take_chars n s) s"
  by (induction n s rule: take_chars.induct) auto

lemma strip_prefix_append [simp, string_simps]: "strip_prefix p (p @ s) = Some s"
  by (simp add: strip_prefix_def)

lemma strip_suffix_append [simp, string_simps]: "strip_suffix p (s @ p) = Some s"
  by (simp add: strip_suffix_def suffix_def)

lemma strip_prefix_Some: "strip_prefix p s = Some r \<Longrightarrow> s = p @ r"
  by (auto simp: strip_prefix_def prefix_def split: if_splits)

lemma starts_with_append [simp, string_simps]: "starts_with (p @ s) p"
  by (simp add: starts_with_def)

lemma contains_append [string_simps]: "contains p (p @ s)"
proof (cases "p @ s")
  case Nil
  then show ?thesis by simp
next
  case (Cons c t)
  have "prefix p (p @ s)" by simp
  with Cons show ?thesis by simp
qed

lemma contains_prepend: "contains p s \<Longrightarrow> contains p (t @ s)"
  by (induction t) auto

lemma trim_end_matches_last: "trim_end_matches c s = [] \<or> last (trim_end_matches c s) \<noteq> c"
  by (metis (mono_tags, lifting) trim_end_matches_def hd_dropWhile last_rev rev_is_Nil_conv)

lemma trim_end_matches_idem [simp]:
  "trim_end_matches c (trim_end_matches c s) = trim_end_matches c s"
  by (simp add: trim_end_matches_def dropWhile_idem)

lemma split_on_nonempty [simp]: "split_on c s \<noteq> []"
  by (cases s) (auto split: list.splits)

lemma split_on_no_sep: "c \<notin> set s \<Longrightarrow> split_on c s = [s]"
  by (induction s) auto

lemma split_on_sep: "c \<notin> set s \<Longrightarrow> split_on c (s @ c # t) = s # split_on c t"
  by (induction s) auto

lemma lines_Nil [simp, string_simps]: "lines [] = []"
  by (simp add: lines.simps)

lemma lines_line:
  assumes "CHR 0x0A \<notin> set l"
  shows "lines (l @ CHR 0x0A # s) = strip_cr l # lines s"
proof -
  have *: "c \<in> set l \<Longrightarrow> c \<noteq> CHR 0x0A" for c using assms by auto
  have "takeWhile (\<lambda>c. c \<noteq> CHR 0x0A) (l @ CHR 0x0A # s) = l"
    using * by (simp add: takeWhile_append2)
  moreover have "dropWhile (\<lambda>c. c \<noteq> CHR 0x0A) (l @ CHR 0x0A # s) = CHR 0x0A # s"
    using * by (simp add: dropWhile_append2)
  ultimately show ?thesis by (simp add: lines.simps [of "l @ CHR 0x0A # s"])
qed

subsection \<open>Decimal numbers\<close>

definition digit :: "nat \<Rightarrow> char" where
  "digit d = char_of (48 + d)"

function dec :: "nat \<Rightarrow> string" where
  "dec n = (if n < 10 then [digit n] else dec (n div 10) @ [digit (n mod 10)])"
  by pat_completeness auto
termination
  by (relation "measure id") auto

declare dec.simps [simp del]

text \<open>The value a decimal string denotes, the specification of \<open>dec\<close>.\<close>

definition dec_value :: "string \<Rightarrow> nat" where
  "dec_value s = foldl (\<lambda>n c. 10 * n + (of_char c - 48)) 0 s"

text \<open>\<open>{:0w}\<close>: pad with zeros on the left to width \<open>w\<close>.\<close>

definition zero_pad :: "nat \<Rightarrow> string \<Rightarrow> string" where
  "zero_pad w s = replicate (w - length s) (CHR ''0'') @ s"

lemma of_char_digit: "d < 10 \<Longrightarrow> (of_char (digit d) :: nat) = 48 + d"
  by (simp add: digit_def take_bit_eq_mod)

lemma dec_value_dec: "dec_value (dec n) = n"
proof (induction n rule: dec.induct)
  case (1 n)
  show ?case
  proof (cases "n < 10")
    case True
    then show ?thesis by (simp add: dec.simps [of n] dec_value_def of_char_digit)
  next
    case False
    with 1 have "dec_value (dec (n div 10)) = n div 10" by simp
    with False show ?thesis
      by (simp add: dec.simps [of n] dec_value_def of_char_digit)
  qed
qed

lemma dec_inject: "dec m = dec n \<longleftrightarrow> m = n"
  by (metis dec_value_dec)

lemma length_dec_less: "n < 10 ^ k \<Longrightarrow> 0 < k \<Longrightarrow> length (dec n) \<le> k"
proof (induction n arbitrary: k rule: dec.induct)
  case (1 n)
  show ?case
  proof (cases "n < 10")
    case True
    with 1 show ?thesis by (simp add: dec.simps [of n])
  next
    case False
    with 1 obtain j where k: "k = Suc j" and j: "0 < j"
      by (cases k) (auto simp: not_less, metis gr0I not_less power_0 One_nat_def
          less_Suc0 less_one nat_less_le mult.right_neutral power_one_right)
    from 1 k have "n div 10 < 10 ^ j" by (simp add: less_mult_imp_div_less mult.commute)
    with 1 False j k show ?thesis by (simp add: dec.simps [of n])
  qed
qed

lemma length_zero_pad: "length (zero_pad w s) = max w (length s)"
  by (simp add: zero_pad_def)

subsection \<open>Searching lists\<close>

lemma find_append:
  "find P (xs @ ys) = (case find P xs of None \<Rightarrow> find P ys | Some x \<Rightarrow> Some x)"
  by (induction xs) auto

lemma set_map_filter_iff: "y \<in> set (List.map_filter f xs) \<longleftrightarrow> (\<exists>x\<in>set xs. f x = Some y)"
  by (induction xs) (auto simp: map_filter_simps split: option.splits)

end
