(* ===== verification/Errors.thy ===== *)
theory Errors
  imports Prelude
begin

text \<open>
  \<open>error.rs\<close>: the application error and its HTTP mapping.  The payload of
  \<open>Database\<close> and \<open>Other\<close> (an \<open>sqlx::Error\<close>, an \<open>anyhow::Error\<close>) is represented by
  its display text, the only thing the program ever reads of it.  The standard reason
  phrase of a status (\<open>StatusCode::canonical_reason\<close> of the \<open>http\<close> crate) is the
  parameter \<open>reason\<close>.  The \<open>tracing\<close> calls write logs only and are not modelled.
\<close>

datatype app_error =
    Config string
  | BadRequest string
  | NotFound string
  | Crypto string
  | Database string
  | Upstream string
  | Other string

type_synonym 'a app_result = "app_error + 'a"

definition crypto :: "string \<Rightarrow> app_error" where
  "crypto msg = Crypto msg"

definition bad_request :: "string \<Rightarrow> app_error" where
  "bad_request msg = BadRequest msg"

text \<open>The \<open>Display\<close> instance that \<open>thiserror\<close> derives from the \<open>#[error]\<close> attributes.\<close>

fun app_error_display :: "app_error \<Rightarrow> string" where
  "app_error_display (Config m) = ''configuration error: '' @ m"
| "app_error_display (BadRequest m) = ''bad request: '' @ m"
| "app_error_display (NotFound m) = ''not found: '' @ m"
| "app_error_display (Crypto m) = ''crypto error: '' @ m"
| "app_error_display (Database m) = ''database error: '' @ m"
| "app_error_display (Upstream m) = ''upstream (Intune) error: '' @ m"
| "app_error_display (Other m) = m"

record http_response =
  resp_status :: nat
  resp_content_type :: "string option"  \<comment> \<open>the header the handler sets, if it sets one\<close>
  resp_body :: bytes

fun error_status :: "app_error \<Rightarrow> nat" where
  "error_status (BadRequest m) = 400"
| "error_status (NotFound m) = 404"
| "error_status (Config m) = 500"
| "error_status (Crypto m) = 500"
| "error_status (Database m) = 500"
| "error_status (Upstream m) = 502"
| "error_status (Other m) = 500"

definition is_server_error :: "nat \<Rightarrow> bool" where
  "is_server_error s \<longleftrightarrow> 500 \<le> s \<and> s < 600"

definition into_response :: "(nat \<Rightarrow> string option) \<Rightarrow> app_error \<Rightarrow> http_response" where
  "into_response reason e =
     (let status = error_status e;
          body = (if is_server_error status
                  then (case reason status of Some r \<Rightarrow> r | None \<Rightarrow> ''error'')
                  else app_error_display e)
      in \<lparr>resp_status = status, resp_content_type = None, resp_body = as_bytes body\<rparr>)"

definition client_error :: "app_error \<Rightarrow> bool" where
  "client_error e \<longleftrightarrow> (\<exists>m. e = BadRequest m \<or> e = NotFound m)"

lemma client_error_status: "client_error e \<longleftrightarrow> \<not> is_server_error (error_status e)"
  by (cases e) (auto simp: client_error_def is_server_error_def)

text \<open>
  The body of an error response reveals the error text to the client exactly for the
  two client errors.  Server-side errors of the same status are answered with the same
  bytes whatever their message: no crypto, database or upstream detail leaves the server.
\<close>

theorem into_response_hides_detail:
  "(if client_error e
    then resp_body (into_response reason e) = as_bytes (app_error_display e)
    else resp_body (into_response reason e)
       = as_bytes (case reason (resp_status (into_response reason e)) of
                     Some r \<Rightarrow> r | None \<Rightarrow> ''error''))
   \<and> (resp_status (into_response reason e) \<in> {500, 502} \<longleftrightarrow> \<not> client_error e)"
  by (cases e) (auto simp: into_response_def client_error_def is_server_error_def Let_def
      split: option.splits)

end
