(* ===== verification/Externals.thy ===== *)
theory Externals
  imports Errors
begin

text \<open>
  The third-party crates the program calls, as data and parameters.

  The records and datatypes of the first part are the public data of the crates
  \<open>der\<close>, \<open>x509-cert\<close>, \<open>cms\<close>, \<open>x509-ocsp\<close> and \<open>rsa\<close> that the program reads field by
  field or builds itself.  The second part groups the functions of those crates (and of
  \<open>base64\<close>, \<open>hex\<close>, \<open>sha1\<close>, \<open>sha2\<close>, \<open>hmac\<close>, \<open>cbc\<close>, \<open>time\<close>) into records whose fields are
  parameters of every definition that calls them: nothing is assumed about them here.
  Where a property relies on their documented behaviour, it says so by a hypothesis.  A
  fallible function returns \<open>Inl\<close> of the display text of its error.

  Randomness is an argument: a stream of bytes, one stream per use of the generator.
\<close>

subsection \<open>ASN.1, X.509 and PKCS data\<close>

type_synonym oid = string          \<comment> \<open>\<open>ObjectIdentifier\<close>, in dotted form (its display)\<close>
type_synonym dn = bytes            \<comment> \<open>\<open>x509_cert::name::Name\<close>: the DER of the RDNSequence\<close>
type_synonym serial_number = bytes \<comment> \<open>\<open>SerialNumber\<close>: its \<open>as_bytes\<close>\<close>
type_synonym system_time = int     \<comment> \<open>\<open>SystemTime\<close>: nanoseconds since the Unix epoch\<close>

record any =
  any_tag :: nat
  any_value :: bytes

record attribute =
  attr_oid :: oid
  attr_values :: "any list"        \<comment> \<open>\<open>SetOfVec<AttributeValue>\<close> in its iteration order\<close>

record algorithm_identifier =
  alg_oid :: oid
  alg_parameters :: "any option"

record spki =
  spki_algorithm :: algorithm_identifier
  spki_public_key :: bytes         \<comment> \<open>\<open>subject_public_key.raw_bytes()\<close>\<close>

record datetime =
  dt_year :: nat
  dt_month :: nat
  dt_day :: nat
  dt_hour :: nat
  dt_minutes :: nat
  dt_seconds :: nat

datatype asn1_time = UtcTime datetime | GeneralTime datetime

record validity =
  not_before :: asn1_time
  not_after :: asn1_time

datatype general_name = UniformResourceIdentifier string | OtherGeneralName bytes

datatype key_usages =
    DigitalSignature | NonRepudiation | KeyEncipherment | DataEncipherment
  | KeyAgreement | KeyCertSign | CRLSign | EncipherOnly | DecipherOnly

record distribution_point =
  dp_distribution_point :: "general_name list option"
  dp_reasons :: "nat option"
  dp_crl_issuer :: "general_name list option"

text \<open>The typed extensions the program hands to the certificate builder.\<close>

datatype ext_value =
    BasicConstraints bool "nat option"
  | KeyUsage "key_usages set"
  | ExtendedKeyUsage "oid list"
  | SubjectKeyIdentifier bytes
  | AuthorityKeyIdentifier bytes
  | SubjectAltName "general_name list"
  | AuthorityInfoAccess "(oid \<times> general_name) list"
  | CrlDistributionPoints "distribution_point list"
  | UnknownExtension bytes

record certificate =
  cert_serial_number :: serial_number
  cert_issuer :: dn
  cert_validity :: validity
  cert_subject :: dn
  cert_spki :: spki
  cert_extensions :: "ext_value list"
  cert_signature :: bytes

record extension =
  extn_id :: oid
  extn_critical :: bool
  extn_value :: bytes

record cert_req =
  csr_subject :: dn
  csr_public_key :: spki
  csr_attributes :: "attribute list"

record rsa_public_key =
  pk_n :: nat
  pk_e :: nat

record rsa_private_key =
  sk_n :: nat
  sk_e :: nat
  sk_d :: nat

definition to_public_key :: "rsa_private_key \<Rightarrow> rsa_public_key" where
  "to_public_key k = \<lparr>pk_n = sk_n k, pk_e = sk_e k\<rparr>"

subsection \<open>CMS data\<close>

record content_info =
  ci_content_type :: oid
  ci_content :: any

datatype recipient_identifier =
    IssuerAndSerialNumber dn serial_number
  | RidSubjectKeyIdentifier bytes

record key_trans_recipient_info =
  ktri_rid :: recipient_identifier
  ktri_key_enc_alg :: algorithm_identifier
  ktri_enc_key :: bytes

datatype recipient_info = Ktri key_trans_recipient_info | OtherRecipient bytes

record encrypted_content_info =
  eci_content_type :: oid
  eci_content_enc_alg :: algorithm_identifier
  eci_encrypted_content :: "bytes option"

record enveloped_data =
  ed_recip_infos :: "recipient_info list"
  ed_encrypted_content :: encrypted_content_info

record encapsulated_content_info =
  encap_content_type :: oid
  encap_content :: "any option"

datatype block_cipher = Aes128 | Aes192 | Aes256 | TdesEde3 | Des

subsection \<open>Functions of the crates\<close>

record codec_lib =
  base64_encode :: "bytes \<Rightarrow> string"
  base64_decode :: "bytes \<Rightarrow> string + bytes"
  hex_encode :: "bytes \<Rightarrow> string"
  hex_encode_upper :: "bytes \<Rightarrow> string"
  hex_decode :: "string \<Rightarrow> string + bytes"

record der_lib =
  printable_string_new :: "string \<Rightarrow> string + string"
  octet_string_new :: "bytes \<Rightarrow> string + bytes"
  ia5_string_new :: "string \<Rightarrow> string + string"
  any_from_printable :: "string \<Rightarrow> string + any"
  any_from_octets :: "bytes \<Rightarrow> string + any"
  any_as_printable :: "any \<Rightarrow> string + string"
  any_as_utf8 :: "any \<Rightarrow> string + string"
  any_as_ia5 :: "any \<Rightarrow> string + string"
  any_as_octets :: "any \<Rightarrow> string + bytes"
  any_as_extensions :: "any \<Rightarrow> string + extension list"
  set_of_insert :: "any list \<Rightarrow> any \<Rightarrow> string + any list"
  oid_new :: "string \<Rightarrow> string + oid"

record digest_lib =
  sha1 :: "bytes \<Rightarrow> bytes"
  sha256 :: "bytes \<Rightarrow> bytes"
  hmac_sha256 :: "bytes \<Rightarrow> bytes \<Rightarrow> bytes"   \<comment> \<open>key, message\<close>

record rsa_lib =
  rsa_generate :: "(nat \<Rightarrow> byte) \<Rightarrow> nat \<Rightarrow> string + rsa_private_key"
  rsa_encrypt :: "(nat \<Rightarrow> byte) \<Rightarrow> rsa_public_key \<Rightarrow> bytes \<Rightarrow> string + bytes"
  rsa_decrypt :: "rsa_private_key \<Rightarrow> bytes \<Rightarrow> string + bytes"
  rsa_d_bytes_be :: "rsa_private_key \<Rightarrow> bytes"
  rsa_signature_parse :: "bytes \<Rightarrow> string + bytes"
  rsa_verify_sha256 :: "rsa_public_key \<Rightarrow> bytes \<Rightarrow> bytes \<Rightarrow> bool"  \<comment> \<open>key, message, signature\<close>
  rsa_verify_sha1 :: "rsa_public_key \<Rightarrow> bytes \<Rightarrow> bytes \<Rightarrow> bool"
  rsa_try_sign :: "rsa_private_key \<Rightarrow> bytes \<Rightarrow> string + bytes"
  rsa_signature_bitstring :: "bytes \<Rightarrow> string + bytes"
  rsa_signature_algorithm :: "rsa_private_key \<Rightarrow> string + algorithm_identifier"
  rsa_public_from_pkcs1 :: "bytes \<Rightarrow> string + rsa_public_key"
  rsa_private_from_pkcs8 :: "bytes \<Rightarrow> string + rsa_private_key"
  rsa_private_from_pkcs1 :: "bytes \<Rightarrow> string + rsa_private_key"
  encrypted_key_from_der :: "bytes \<Rightarrow> string + bytes"
  encrypted_key_decrypt :: "bytes \<Rightarrow> bytes \<Rightarrow> string + bytes"        \<comment> \<open>key info, password\<close>
  rsa_private_to_pkcs8_pem :: "rsa_private_key \<Rightarrow> string + string"
  rsa_spki_from_key :: "rsa_public_key \<Rightarrow> string + spki"

record cipher_lib =
  cbc_lengths_ok :: "block_cipher \<Rightarrow> bytes \<Rightarrow> bytes \<Rightarrow> bool"          \<comment> \<open>\<open>new_from_slices\<close> accepts key and IV\<close>
  cbc_decrypt :: "block_cipher \<Rightarrow> bytes \<Rightarrow> bytes \<Rightarrow> bytes \<Rightarrow> bytes option"  \<comment> \<open>key, IV, ciphertext\<close>
  cbc_encrypt :: "block_cipher \<Rightarrow> bytes \<Rightarrow> bytes \<Rightarrow> bytes \<Rightarrow> bytes"

record time_lib =
  parse_rfc3339_lib :: "string \<Rightarrow> system_time option"
  datetime_from_system_time :: "system_time \<Rightarrow> string + datetime"
  utc_time_from_date_time :: "datetime \<Rightarrow> string + datetime"
  ocsp_time_from_system_time :: "system_time \<Rightarrow> datetime option"
  validity_from :: "system_time \<Rightarrow> nat \<Rightarrow> string + validity"          \<comment> \<open>start, seconds\<close>

text \<open>The certificate builder of \<open>x509-cert\<close>: what it has been given so far.\<close>

datatype cert_profile = ProfileRoot | ProfileManual "dn option"

record cert_builder =
  bld_profile :: cert_profile
  bld_serial :: serial_number
  bld_validity :: validity
  bld_subject :: dn
  bld_spki :: spki
  bld_signer :: rsa_private_key
  bld_extensions :: "ext_value list"

record x509_lib =
  serial_new :: "bytes \<Rightarrow> string + serial_number"       \<comment> \<open>\<open>SerialNumber::new\<close>, at most 20 octets\<close>
  serial_new_raw :: "bytes \<Rightarrow> string + serial_number"   \<comment> \<open>\<open>SerialNumber::<Raw>::new\<close>\<close>
  name_from_str :: "string \<Rightarrow> string + dn"
  name_display :: "dn \<Rightarrow> string"
  cert_from_der :: "bytes \<Rightarrow> string + certificate"
  cert_to_der :: "certificate \<Rightarrow> string + bytes"
  cert_to_pem :: "certificate \<Rightarrow> string + string"
  cert_get_ski :: "certificate \<Rightarrow> string + (bool \<times> bytes) option"
  csr_from_der :: "bytes \<Rightarrow> string + cert_req"
  san_from_der :: "bytes \<Rightarrow> string + general_name list"
  ski_from_spki :: "spki \<Rightarrow> string + bytes"
  aki_from_spki :: "spki \<Rightarrow> string + bytes"
  builder_new :: "cert_profile \<Rightarrow> serial_number \<Rightarrow> validity \<Rightarrow> dn \<Rightarrow> spki \<Rightarrow> rsa_private_key
    \<Rightarrow> string + cert_builder"
  builder_add :: "cert_builder \<Rightarrow> ext_value \<Rightarrow> string + cert_builder"
  builder_build :: "cert_builder \<Rightarrow> string + certificate"

text \<open>\<open>der::DateTime::INFINITY\<close>, the last instant of year 9999, as its documentation says.\<close>

definition datetime_infinity :: datetime where
  "datetime_infinity = \<lparr>dt_year = 9999, dt_month = 12, dt_day = 31,
     dt_hour = 23, dt_minutes = 59, dt_seconds = 59\<rparr>"

subsection \<open>Randomness\<close>

text \<open>\<open>RngCore::fill_bytes\<close> on a buffer of \<open>n\<close> bytes.\<close>

definition fill_bytes :: "(nat \<Rightarrow> byte) \<Rightarrow> nat \<Rightarrow> bytes" where
  "fill_bytes r n = map r [0..<n]"

lemma length_fill_bytes [simp]: "length (fill_bytes r n) = n"
  by (simp add: fill_bytes_def)

end
