(* ===== verification/Attributes.thy ===== *)
theory Attributes
  imports Externals
begin

text \<open>
  \<open>scep/attributes.rs\<close>, \<open>scep/nonce.rs\<close> and \<open>scep/protocol.rs\<close>: the SCEP message
  attributes, their decimal codes, and the signed attributes of a \<open>CertRep\<close>.  The ASN.1
  string types come from the \<open>der\<close> crate, the parameter \<open>d\<close>.
\<close>

definition ID_MESSAGE_TYPE :: oid where
  "ID_MESSAGE_TYPE = ''2.16.840.1.113733.1.9.2''"
definition ID_PKI_STATUS :: oid where
  "ID_PKI_STATUS = ''2.16.840.1.113733.1.9.3''"
definition ID_FAIL_INFO :: oid where
  "ID_FAIL_INFO = ''2.16.840.1.113733.1.9.4''"
definition ID_SENDER_NONCE :: oid where
  "ID_SENDER_NONCE = ''2.16.840.1.113733.1.9.5''"
definition ID_RECIPIENT_NONCE :: oid where
  "ID_RECIPIENT_NONCE = ''2.16.840.1.113733.1.9.6''"
definition ID_TRANSACTION_ID :: oid where
  "ID_TRANSACTION_ID = ''2.16.840.1.113733.1.9.7''"
definition ID_FAIL_INFO_TEXT :: oid where
  "ID_FAIL_INFO_TEXT = ''2.16.840.1.113733.1.9.8''"
definition ID_CHALLENGE_PASSWORD :: oid where
  "ID_CHALLENGE_PASSWORD = ''1.2.840.113549.1.9.7''"

lemmas scep_oids =
  ID_MESSAGE_TYPE_def ID_PKI_STATUS_def ID_FAIL_INFO_def ID_SENDER_NONCE_def
  ID_RECIPIENT_NONCE_def ID_TRANSACTION_ID_def

lemma scep_oids_neq [simp]:
  "ID_MESSAGE_TYPE \<noteq> ID_PKI_STATUS" "ID_MESSAGE_TYPE \<noteq> ID_FAIL_INFO"
  "ID_MESSAGE_TYPE \<noteq> ID_SENDER_NONCE" "ID_MESSAGE_TYPE \<noteq> ID_RECIPIENT_NONCE"
  "ID_MESSAGE_TYPE \<noteq> ID_TRANSACTION_ID" "ID_PKI_STATUS \<noteq> ID_MESSAGE_TYPE"
  "ID_PKI_STATUS \<noteq> ID_FAIL_INFO" "ID_PKI_STATUS \<noteq> ID_SENDER_NONCE"
  "ID_PKI_STATUS \<noteq> ID_RECIPIENT_NONCE" "ID_PKI_STATUS \<noteq> ID_TRANSACTION_ID"
  "ID_FAIL_INFO \<noteq> ID_MESSAGE_TYPE" "ID_FAIL_INFO \<noteq> ID_PKI_STATUS"
  "ID_FAIL_INFO \<noteq> ID_SENDER_NONCE" "ID_FAIL_INFO \<noteq> ID_RECIPIENT_NONCE"
  "ID_FAIL_INFO \<noteq> ID_TRANSACTION_ID" "ID_SENDER_NONCE \<noteq> ID_MESSAGE_TYPE"
  "ID_SENDER_NONCE \<noteq> ID_PKI_STATUS" "ID_SENDER_NONCE \<noteq> ID_FAIL_INFO"
  "ID_SENDER_NONCE \<noteq> ID_RECIPIENT_NONCE" "ID_SENDER_NONCE \<noteq> ID_TRANSACTION_ID"
  "ID_RECIPIENT_NONCE \<noteq> ID_MESSAGE_TYPE" "ID_RECIPIENT_NONCE \<noteq> ID_PKI_STATUS"
  "ID_RECIPIENT_NONCE \<noteq> ID_FAIL_INFO" "ID_RECIPIENT_NONCE \<noteq> ID_SENDER_NONCE"
  "ID_RECIPIENT_NONCE \<noteq> ID_TRANSACTION_ID" "ID_TRANSACTION_ID \<noteq> ID_MESSAGE_TYPE"
  "ID_TRANSACTION_ID \<noteq> ID_PKI_STATUS" "ID_TRANSACTION_ID \<noteq> ID_FAIL_INFO"
  "ID_TRANSACTION_ID \<noteq> ID_SENDER_NONCE" "ID_TRANSACTION_ID \<noteq> ID_RECIPIENT_NONCE"
  by (simp_all add: scep_oids)

datatype message_type = CertRep | PkcsReq | RenewalReq | GetCertInitial | GetCert | GetCrl

fun message_type_value :: "message_type \<Rightarrow> string" where
  "message_type_value CertRep = ''3''"
| "message_type_value RenewalReq = ''17''"
| "message_type_value PkcsReq = ''19''"
| "message_type_value GetCertInitial = ''20''"
| "message_type_value GetCert = ''21''"
| "message_type_value GetCrl = ''22''"

definition message_type_from_value :: "string \<Rightarrow> message_type app_result" where
  "message_type_from_value s =
     (let t = trim s in
      if t = ''3'' then Inr CertRep
      else if t = ''17'' then Inr RenewalReq
      else if t = ''19'' then Inr PkcsReq
      else if t = ''20'' then Inr GetCertInitial
      else if t = ''21'' then Inr GetCert
      else if t = ''22'' then Inr GetCrl
      else Inl (bad_request (''unknown SCEP messageType '' @ quoted t)))"

datatype pki_status = Success | Failure | Pending

fun pki_status_value :: "pki_status \<Rightarrow> string" where
  "pki_status_value Success = ''0''"
| "pki_status_value Failure = ''2''"
| "pki_status_value Pending = ''3''"

datatype fail_info = BadAlg | BadMessageCheck | FailBadRequest | BadTime | BadCertId

fun fail_info_value :: "fail_info \<Rightarrow> string" where
  "fail_info_value BadAlg = ''0''"
| "fail_info_value BadMessageCheck = ''1''"
| "fail_info_value FailBadRequest = ''2''"
| "fail_info_value BadTime = ''3''"
| "fail_info_value BadCertId = ''4''"

subsection \<open>Building and reading attributes\<close>

definition der_err :: "string \<Rightarrow> app_error" where
  "der_err e = crypto (''DER error: '' @ e)"

definition single_value_attribute :: "der_lib \<Rightarrow> oid \<Rightarrow> any \<Rightarrow> attribute app_result" where
  "single_value_attribute d oid value =
     try_then (map_err der_err (set_of_insert d [] value)) (\<lambda>values.
       Inr \<lparr>attr_oid = oid, attr_values = values\<rparr>)"

definition printable_attribute :: "der_lib \<Rightarrow> oid \<Rightarrow> string \<Rightarrow> attribute app_result" where
  "printable_attribute d oid value =
     try_then (map_err (\<lambda>e. crypto (''invalid PrintableString: '' @ e)) (printable_string_new d value)) (\<lambda>ps.
     try_then (map_err der_err (any_from_printable d ps)) (\<lambda>any.
       single_value_attribute d oid any))"

definition octet_attribute :: "der_lib \<Rightarrow> oid \<Rightarrow> bytes \<Rightarrow> attribute app_result" where
  "octet_attribute d oid value =
     try_then (map_err der_err (octet_string_new d value)) (\<lambda>os.
     try_then (map_err der_err (any_from_octets d os)) (\<lambda>any.
       single_value_attribute d oid any))"

definition find_attribute :: "attribute list \<Rightarrow> oid \<Rightarrow> attribute option" where
  "find_attribute attrs oid = find (\<lambda>a. attr_oid a = oid) attrs"

fun first_value :: "any list \<Rightarrow> any option" where
  "first_value [] = None"
| "first_value (v # vs) = Some v"

definition attribute_value :: "attribute list \<Rightarrow> oid \<Rightarrow> any app_result" where
  "attribute_value attrs oid =
     try_then (ok_or (bad_request (''missing SCEP attribute '' @ oid)) (find_attribute attrs oid)) (\<lambda>attr.
       ok_or (bad_request (''empty SCEP attribute '' @ oid)) (first_value (attr_values attr)))"

text \<open>The string types a value is tried as, in this order.\<close>

definition decode_text :: "der_lib \<Rightarrow> any \<Rightarrow> string option" where
  "decode_text d v =
     (case any_as_printable d v of Inr s \<Rightarrow> Some s
      | Inl e1 \<Rightarrow>
          (case any_as_utf8 d v of Inr s \<Rightarrow> Some s
           | Inl e2 \<Rightarrow>
               (case any_as_ia5 d v of Inr s \<Rightarrow> Some s | Inl e3 \<Rightarrow> None)))"

definition read_string :: "der_lib \<Rightarrow> attribute list \<Rightarrow> oid \<Rightarrow> string app_result" where
  "read_string d attrs oid =
     try_then (attribute_value attrs oid) (\<lambda>value.
       ok_or (bad_request (''SCEP attribute '' @ oid @ '' is not a recognised string type''))
         (decode_text d value))"

definition read_octets :: "der_lib \<Rightarrow> attribute list \<Rightarrow> oid \<Rightarrow> bytes app_result" where
  "read_octets d attrs oid =
     try_then (attribute_value attrs oid) (\<lambda>value.
       map_err (\<lambda>e. bad_request (''SCEP attribute '' @ oid @ '' not OCTET STRING: '' @ e))
         (any_as_octets d value))"

subsection \<open>Nonces and the attributes of a \<open>CertRep\<close>\<close>

definition NONCE_LEN :: nat where
  "NONCE_LEN = 16"

definition generate_nonce :: "(nat \<Rightarrow> byte) \<Rightarrow> bytes" where
  "generate_nonce rng = fill_bytes rng NONCE_LEN"

definition CA_CAPS :: string where
  "CA_CAPS = ''Renewal'' @ [CHR 0x0A] @ ''SHA-512'' @ [CHR 0x0A] @ ''SHA-256'' @ [CHR 0x0A]
     @ ''SHA-1'' @ [CHR 0x0A] @ ''DES3'' @ [CHR 0x0A] @ ''AES'' @ [CHR 0x0A]
     @ ''POSTPKIOperation'' @ [CHR 0x0A] @ ''SCEPStandard''"

definition success_attrs ::
  "der_lib \<Rightarrow> (nat \<Rightarrow> byte) \<Rightarrow> string \<Rightarrow> bytes \<Rightarrow> attribute list app_result"
where
  "success_attrs d rng transaction_id recipient_nonce =
     collect_results (\<lambda>a. a)
       [printable_attribute d ID_MESSAGE_TYPE (message_type_value CertRep),
        printable_attribute d ID_PKI_STATUS (pki_status_value Success),
        printable_attribute d ID_TRANSACTION_ID transaction_id,
        octet_attribute d ID_SENDER_NONCE (generate_nonce rng),
        octet_attribute d ID_RECIPIENT_NONCE recipient_nonce]"

definition failure_attrs ::
  "der_lib \<Rightarrow> (nat \<Rightarrow> byte) \<Rightarrow> string \<Rightarrow> bytes \<Rightarrow> fail_info \<Rightarrow> attribute list app_result"
where
  "failure_attrs d rng transaction_id recipient_nonce fail_info =
     collect_results (\<lambda>a. a)
       [printable_attribute d ID_MESSAGE_TYPE (message_type_value CertRep),
        printable_attribute d ID_PKI_STATUS (pki_status_value Failure),
        printable_attribute d ID_FAIL_INFO (fail_info_value fail_info),
        printable_attribute d ID_TRANSACTION_ID transaction_id,
        octet_attribute d ID_SENDER_NONCE (generate_nonce rng),
        octet_attribute d ID_RECIPIENT_NONCE recipient_nonce]"

subsection \<open>The decimal codes\<close>

text \<open>
  The contract of an enumeration that travels as text: different values have different
  texts.  A decodable one also gets each value back from its text.
\<close>

locale wire_code =
  fixes as_value :: "'a \<Rightarrow> string"
  assumes as_value_inject: "as_value x = as_value y \<Longrightarrow> x = y"
    and as_value_graphic: "list_all graphic (as_value x)"
begin

lemma as_value_eq_iff: "as_value x = as_value y \<longleftrightarrow> x = y"
  by (blast dest: as_value_inject)

lemma as_value_trim: "trim (as_value x) = as_value x"
  by (rule trim_all_graphic) (rule as_value_graphic)

end

locale wire_decoder =
  fixes as_value :: "'a \<Rightarrow> string"
    and from_value :: "string \<Rightarrow> 'e + 'a"
  assumes from_as_value: "from_value (as_value x) = Inr x"
    and as_from_value: "from_value s = Inr x \<Longrightarrow> trim s = as_value x"
    and value_graphic: "list_all graphic (as_value x)"

sublocale wire_decoder \<subseteq> wire_code as_value
proof
  fix x y
  assume "as_value x = as_value y"
  then show "x = y" by (metis from_as_value sum.inject(2))
qed (rule value_graphic)

context wire_decoder
begin

lemma from_value_iff:
  assumes trimmed: "\<And>s. from_value s = from_value (trim s)"
  shows "from_value s = Inr x \<longleftrightarrow> trim s = as_value x"
  by (metis trimmed from_as_value as_from_value)

end

lemma graphic_digits [simp]:
  "graphic (CHR ''0'')" "graphic (CHR ''1'')" "graphic (CHR ''2'')" "graphic (CHR ''3'')"
  "graphic (CHR ''4'')" "graphic (CHR ''7'')" "graphic (CHR ''9'')"
  by (simp_all add: graphic_def)

lemma message_type_value_graphic: "list_all graphic (message_type_value m)"
  by (cases m) simp_all

interpretation message_types: wire_decoder message_type_value message_type_from_value
proof
  fix m :: message_type and s
  have "trim (message_type_value m) = message_type_value m"
    by (rule trim_all_graphic) (rule message_type_value_graphic)
  then show "message_type_from_value (message_type_value m) = Inr m"
    by (cases m) (simp_all add: message_type_from_value_def)
  show "message_type_from_value s = Inr m \<Longrightarrow> trim s = message_type_value m"
    by (auto simp: message_type_from_value_def Let_def split: if_splits)
  show "list_all graphic (message_type_value m)"
    by (rule message_type_value_graphic)
qed

interpretation pki_statuses: wire_code pki_status_value
proof
  fix x y :: pki_status
  show "pki_status_value x = pki_status_value y \<Longrightarrow> x = y"
    by (cases x; cases y) simp_all
  show "list_all graphic (pki_status_value x)"
    by (cases x) simp_all
qed

interpretation fail_infos: wire_code fail_info_value
proof
  fix x y :: fail_info
  show "fail_info_value x = fail_info_value y \<Longrightarrow> x = y"
    by (cases x; cases y) simp_all
  show "list_all graphic (fail_info_value x)"
    by (cases x) simp_all
qed

lemma message_type_from_value_trim: "message_type_from_value s = message_type_from_value (trim s)"
  if "trim (trim s) = trim s"
  using that by (simp add: message_type_from_value_def)

subsection \<open>What is built can be read back\<close>

text \<open>
  The documented behaviour of the \<open>der\<close> crate the reading relies on: a constructor that
  accepts its argument keeps it, and decoding an encoded value with its own type gives the
  value back; inserting into an empty set gives the singleton.
\<close>

definition der_documented :: "der_lib \<Rightarrow> bool" where
  "der_documented d \<longleftrightarrow>
     (\<forall>s t. printable_string_new d s = Inr t \<longrightarrow> t = s) \<and>
     (\<forall>s v. any_from_printable d s = Inr v \<longrightarrow> any_as_printable d v = Inr s) \<and>
     (\<forall>b c. octet_string_new d b = Inr c \<longrightarrow> c = b) \<and>
     (\<forall>b v. any_from_octets d b = Inr v \<longrightarrow> any_as_octets d v = Inr b) \<and>
     (\<forall>v vs. set_of_insert d [] v = Inr vs \<longrightarrow> vs = [v])"

lemma printable_attribute_reads:
  assumes "der_documented d" "printable_attribute d oid s = Inr a"
  shows "attr_oid a = oid \<and> (\<exists>v. attr_values a = [v] \<and> any_as_printable d v = Inr s)"
  using assms by (fastforce simp: printable_attribute_def single_value_attribute_def der_documented_def
      try_then_Inr_iff)

lemma octet_attribute_reads:
  assumes "der_documented d" "octet_attribute d oid b = Inr a"
  shows "attr_oid a = oid \<and> (\<exists>v. attr_values a = [v] \<and> any_as_octets d v = Inr b)"
  using assms by (fastforce simp: octet_attribute_def single_value_attribute_def der_documented_def
      try_then_Inr_iff)

lemma read_string_Cons:
  "read_string d (a # as) oid =
     (if attr_oid a = oid
      then try_then (ok_or (bad_request (''empty SCEP attribute '' @ oid)) (first_value (attr_values a)))
             (\<lambda>v. ok_or (bad_request (''SCEP attribute '' @ oid @ '' is not a recognised string type''))
                     (decode_text d v))
      else read_string d as oid)"
  by (simp add: read_string_def attribute_value_def find_attribute_def)

lemma read_octets_Cons:
  "read_octets d (a # as) oid =
     (if attr_oid a = oid
      then try_then (ok_or (bad_request (''empty SCEP attribute '' @ oid)) (first_value (attr_values a)))
             (\<lambda>v. map_err (\<lambda>e. bad_request (''SCEP attribute '' @ oid @ '' not OCTET STRING: '' @ e))
                     (any_as_octets d v))
      else read_octets d as oid)"
  by (simp add: read_octets_def attribute_value_def find_attribute_def)

lemma find_attribute_simps [simp]:
  "find_attribute [] oid = None"
  "find_attribute (a # as) oid = (if attr_oid a = oid then Some a else find_attribute as oid)"
  by (simp_all add: find_attribute_def)

lemma read_printable:
  "der_documented d \<Longrightarrow> printable_attribute d oid s = Inr a \<Longrightarrow>
     read_string d (a # as) oid' = (if oid' = oid then Inr s else read_string d as oid')"
  by (drule (1) printable_attribute_reads) (auto simp: read_string_Cons decode_text_def)

lemma read_printable_octets:
  "der_documented d \<Longrightarrow> printable_attribute d oid s = Inr a \<Longrightarrow> oid' \<noteq> oid \<Longrightarrow>
     read_octets d (a # as) oid' = read_octets d as oid'"
  by (drule (1) printable_attribute_reads) (auto simp: read_octets_Cons)

lemma read_octet:
  "der_documented d \<Longrightarrow> octet_attribute d oid b = Inr a \<Longrightarrow>
     read_octets d (a # as) oid' = (if oid' = oid then Inr b else read_octets d as oid')"
  by (drule (1) octet_attribute_reads) (auto simp: read_octets_Cons)

lemma read_octet_string:
  "der_documented d \<Longrightarrow> octet_attribute d oid b = Inr a \<Longrightarrow> oid' \<noteq> oid \<Longrightarrow>
     read_string d (a # as) oid' = read_string d as oid'"
  by (drule (1) octet_attribute_reads) (auto simp: read_string_Cons)

lemma attribute_oids:
  "printable_attribute d oid s = Inr a \<Longrightarrow> attr_oid a = oid"
  "octet_attribute d oid b = Inr a \<Longrightarrow> attr_oid a = oid"
  by (auto simp: printable_attribute_def octet_attribute_def single_value_attribute_def
      try_then_Inr_iff)

lemma read_string_Nil [simp]: "to_option (read_string d [] oid) = None"
  by (simp add: read_string_def attribute_value_def)

lemmas read_attribute =
  read_printable read_printable_octets read_octet read_octet_string

text \<open>The view of a reply that a SCEP client has: the attributes it reads.\<close>

record reply_view =
  rv_message_type :: "string app_result"
  rv_status :: "string app_result"
  rv_fail_info :: "string option"
  rv_transaction :: "string app_result"
  rv_sender_nonce :: "bytes app_result"
  rv_recipient_nonce :: "bytes app_result"

definition view_reply :: "der_lib \<Rightarrow> attribute list \<Rightarrow> reply_view" where
  "view_reply d as =
     \<lparr>rv_message_type = read_string d as ID_MESSAGE_TYPE,
      rv_status = read_string d as ID_PKI_STATUS,
      rv_fail_info = to_option (read_string d as ID_FAIL_INFO),
      rv_transaction = read_string d as ID_TRANSACTION_ID,
      rv_sender_nonce = read_octets d as ID_SENDER_NONCE,
      rv_recipient_nonce = read_octets d as ID_RECIPIENT_NONCE\<rparr>"

lemma view_success:
  assumes "der_documented d" and "success_attrs d rng txn nonce = Inr as"
  shows "view_reply d as =
     \<lparr>rv_message_type = Inr ''3'', rv_status = Inr ''0'', rv_fail_info = None,
      rv_transaction = Inr txn, rv_sender_nonce = Inr (generate_nonce rng),
      rv_recipient_nonce = Inr nonce\<rparr>"
proof -
  from assms(2) obtain a1 a2 a3 a4 a5 where as: "as = [a1, a2, a3, a4, a5]"
    and built: "printable_attribute d ID_MESSAGE_TYPE ''3'' = Inr a1"
      "printable_attribute d ID_PKI_STATUS ''0'' = Inr a2"
      "printable_attribute d ID_TRANSACTION_ID txn = Inr a3"
      "octet_attribute d ID_SENDER_NONCE (generate_nonce rng) = Inr a4"
      "octet_attribute d ID_RECIPIENT_NONCE nonce = Inr a5"
    by (auto simp: success_attrs_def try_then_Inr_iff)
  show ?thesis
    unfolding as view_reply_def
    by (simp add: read_printable [OF assms(1) built(1)] read_printable_octets [OF assms(1) built(1)]
      read_printable [OF assms(1) built(2)] read_printable_octets [OF assms(1) built(2)]
      read_printable [OF assms(1) built(3)] read_printable_octets [OF assms(1) built(3)]
      read_octet [OF assms(1) built(4)] read_octet_string [OF assms(1) built(4)]
      read_octet [OF assms(1) built(5)] read_octet_string [OF assms(1) built(5)])
qed

lemma view_failure:
  assumes "der_documented d" and "failure_attrs d rng txn nonce f = Inr as"
  shows "view_reply d as =
     \<lparr>rv_message_type = Inr ''3'', rv_status = Inr ''2'', rv_fail_info = Some (fail_info_value f),
      rv_transaction = Inr txn, rv_sender_nonce = Inr (generate_nonce rng),
      rv_recipient_nonce = Inr nonce\<rparr>"
proof -
  from assms(2) obtain a1 a2 a3 a4 a5 a6 where as: "as = [a1, a2, a3, a4, a5, a6]"
    and built: "printable_attribute d ID_MESSAGE_TYPE ''3'' = Inr a1"
      "printable_attribute d ID_PKI_STATUS ''2'' = Inr a2"
      "printable_attribute d ID_FAIL_INFO (fail_info_value f) = Inr a3"
      "printable_attribute d ID_TRANSACTION_ID txn = Inr a4"
      "octet_attribute d ID_SENDER_NONCE (generate_nonce rng) = Inr a5"
      "octet_attribute d ID_RECIPIENT_NONCE nonce = Inr a6"
    by (auto simp: failure_attrs_def try_then_Inr_iff)
  show ?thesis
    unfolding as view_reply_def
    by (simp add: read_printable [OF assms(1) built(1)] read_printable_octets [OF assms(1) built(1)]
      read_printable [OF assms(1) built(2)] read_printable_octets [OF assms(1) built(2)]
      read_printable [OF assms(1) built(3)] read_printable_octets [OF assms(1) built(3)]
      read_printable [OF assms(1) built(4)] read_printable_octets [OF assms(1) built(4)]
      read_octet [OF assms(1) built(5)] read_octet_string [OF assms(1) built(5)]
      read_octet [OF assms(1) built(6)] read_octet_string [OF assms(1) built(6)])
qed

subsection \<open>A concrete \<open>der\<close>\<close>

text \<open>
  An instance of the \<open>der\<close> parameter used by the witnesses: a value is its text under the
  ASN.1 tag of its type (PrintableString 19, UTF8String 12, IA5String 22, OCTET STRING 4).
\<close>

definition tagged_text :: "nat \<Rightarrow> any \<Rightarrow> string + string" where
  "tagged_text n v = (if any_tag v = n then Inr (text_of (any_value v)) else Inl ''unexpected tag'')"

definition demo_der :: der_lib where
  "demo_der =
     \<lparr>printable_string_new = (\<lambda>s. Inr s),
      octet_string_new = (\<lambda>b. Inr b),
      ia5_string_new = (\<lambda>s. if ascii s then Inr s else Inl ''invalid IA5String''),
      any_from_printable = (\<lambda>s. Inr \<lparr>any_tag = 19, any_value = as_bytes s\<rparr>),
      any_from_octets = (\<lambda>b. Inr \<lparr>any_tag = 4, any_value = b\<rparr>),
      any_as_printable = tagged_text 19,
      any_as_utf8 = tagged_text 12,
      any_as_ia5 = tagged_text 22,
      any_as_octets = (\<lambda>v. if any_tag v = 4 then Inr (any_value v) else Inl ''unexpected tag''),
      any_as_extensions = (\<lambda>v. if any_tag v = 48
        then Inr [\<lparr>extn_id = ''2.5.29.17'', extn_critical = False, extn_value = any_value v\<rparr>]
        else Inl ''unexpected tag''),
      set_of_insert = (\<lambda>vs v. if v \<in> set vs then Inl ''duplicate'' else Inr (vs @ [v])),
      oid_new = (\<lambda>s. if s = [] \<or> \<not> list_all (\<lambda>c. c = CHR ''.'' \<or> c \<in> set ''0123456789'') s
                     then Inl ''malformed OID'' else Inr s)\<rparr>"

lemma demo_der_documented: "der_documented demo_der"
  by (simp add: der_documented_def demo_der_def tagged_text_def)

lemmas demo_der_eval =
  demo_der_def tagged_text_def success_attrs_def failure_attrs_def printable_attribute_def
  octet_attribute_def single_value_attribute_def

lemma message_type_UNIV: "UNIV = {CertRep, PkcsReq, RenewalReq, GetCertInitial, GetCert, GetCrl}"
  using message_type.exhaust by blast

text \<open>
  Every message type survives the trip through its decimal code, with any white space
  around it, and a text is accepted only if it is the code of the type it is read as;
  anything else is a 400 error.
\<close>

theorem message_type_codes:
  "(message_type_from_value s = Inr m \<longleftrightarrow> trim s = message_type_value m)
   \<and> ((\<exists>e. message_type_from_value s = Inl e)
       \<longleftrightarrow> trim s \<notin> message_type_value ` {CertRep, PkcsReq, RenewalReq, GetCertInitial, GetCert, GetCrl})
   \<and> message_type_from_value (message_type_value m) = Inr m"
proof (intro conjI)
  have codes: "message_type_from_value s = message_type_from_value t" if "trim s = trim t" for s t
    using that by (simp add: message_type_from_value_def)
  show iff: "message_type_from_value s = Inr m \<longleftrightarrow> trim s = message_type_value m" for m
  proof
    show "trim s = message_type_value m" if "message_type_from_value s = Inr m"
      using that by (rule message_types.as_from_value)
  next
    assume "trim s = message_type_value m"
    then have "trim s = trim (message_type_value m)"
      by (simp add: message_types.as_value_trim)
    from codes [OF this] show "message_type_from_value s = Inr m"
      by (simp add: message_types.from_as_value)
  qed
  have "(\<exists>e. message_type_from_value s = Inl e) \<longleftrightarrow> (\<forall>m. message_type_from_value s \<noteq> Inr m)"
    by (cases "message_type_from_value s") auto
  then show "(\<exists>e. message_type_from_value s = Inl e)
       \<longleftrightarrow> trim s \<notin> message_type_value ` {CertRep, PkcsReq, RenewalReq, GetCertInitial, GetCert, GetCrl}"
    unfolding iff by (simp only: message_type_UNIV [symmetric]) blast
  show "message_type_from_value (message_type_value m) = Inr m"
    by (rule message_types.from_as_value)
qed

text \<open>
  The replies a client can tell apart.  A success reply and a failure reply both are
  \<open>CertRep\<close> messages that echo the request's transaction identifier and its nonce and carry
  a fresh 16-byte sender nonce; the status is 0 or 2, and exactly the failure carries a
  failInfo, from which the reason can be recovered.
\<close>

theorem replies_read_back:
  assumes d: "der_documented d"
    and ok: "success_attrs d rng txn nonce = Inr sa"
    and bad: "failure_attrs d rng txn nonce f = Inr fa"
  shows "rv_status (view_reply d sa) = Inr ''0'' \<and> rv_status (view_reply d fa) = Inr ''2''
    \<and> rv_fail_info (view_reply d sa) = None
    \<and> (\<forall>g. rv_fail_info (view_reply d fa) = Some (fail_info_value g) \<longleftrightarrow> g = f)
    \<and> (\<forall>as\<in>{sa, fa}. rv_message_type (view_reply d as) = Inr (message_type_value CertRep)
         \<and> rv_transaction (view_reply d as) = Inr txn
         \<and> rv_recipient_nonce (view_reply d as) = Inr nonce
         \<and> (\<exists>n. rv_sender_nonce (view_reply d as) = Inr n \<and> length n = NONCE_LEN))"
  using fail_infos.as_value_eq_iff
  by (auto simp: view_success [OF d ok] view_failure [OF d bad] generate_nonce_def)

theorem replies_read_back_witness:
  "\<exists>sa fa. success_attrs demo_der (\<lambda>_. 7) ''txn-1'' [1, 2] = Inr sa
     \<and> failure_attrs demo_der (\<lambda>_. 7) ''txn-1'' [1, 2] BadMessageCheck = Inr fa
     \<and> rv_status (view_reply demo_der sa) = Inr ''0''
     \<and> rv_fail_info (view_reply demo_der fa) = Some ''1''"
proof -
  obtain sa where sa: "success_attrs demo_der (\<lambda>_. 7) ''txn-1'' [1, 2] = Inr sa"
    by (simp add: demo_der_eval)
  obtain fa where fa: "failure_attrs demo_der (\<lambda>_. 7) ''txn-1'' [1, 2] BadMessageCheck = Inr fa"
    by (simp add: demo_der_eval)
  note both = replies_read_back [OF demo_der_documented sa fa]
  from both have "rv_status (view_reply demo_der sa) = Inr ''0''"
    by (elim conjE)
  moreover from both have "rv_fail_info (view_reply demo_der fa) = Some (fail_info_value BadMessageCheck)"
    by blast
  ultimately show ?thesis
    using sa fa unfolding fail_info_value.simps by blast
qed

end
