(* ===== verification/Extensions.thy ===== *)
theory Extensions
  imports Attributes
begin

text \<open>
  \<open>ca/extensions.rs\<close>: certificate extensions from the names of a profile, the pointers to
  the OCSP responder and the CRL, and the subject alternative name a request asks for.
\<close>

definition ID_CE_SUBJECT_ALT_NAME :: oid where
  "ID_CE_SUBJECT_ALT_NAME = ''2.5.29.17''"
definition ID_AD_OCSP :: oid where
  "ID_AD_OCSP = ''1.3.6.1.5.5.7.48.1''"
definition ID_EXTENSION_REQ :: oid where
  "ID_EXTENSION_REQ = ''1.2.840.113549.1.9.14''"

text \<open>The key purposes of RFC 5280, section 4.2.1.12, that \<open>const_oid\<close> names.\<close>

definition ID_KP_CLIENT_AUTH :: oid where
  "ID_KP_CLIENT_AUTH = ''1.3.6.1.5.5.7.3.2''"
definition ID_KP_SERVER_AUTH :: oid where
  "ID_KP_SERVER_AUTH = ''1.3.6.1.5.5.7.3.1''"
definition ID_KP_EMAIL_PROTECTION :: oid where
  "ID_KP_EMAIL_PROTECTION = ''1.3.6.1.5.5.7.3.4''"

text \<open>The \<open>match\<close> of \<open>key_usage\<close> on one name.\<close>

definition usage_flag :: "string \<Rightarrow> key_usages option" where
  "usage_flag name =
     (if name = ''digitalSignature'' then Some DigitalSignature
      else if name = ''nonRepudiation'' \<or> name = ''contentCommitment'' then Some NonRepudiation
      else if name = ''keyEncipherment'' then Some KeyEncipherment
      else if name = ''dataEncipherment'' then Some DataEncipherment
      else if name = ''keyAgreement'' then Some KeyAgreement
      else if name = ''keyCertSign'' then Some KeyCertSign
      else if name = ''cRLSign'' \<or> name = ''crlSign'' then Some CRLSign
      else None)"

fun key_usage_loop :: "key_usages set \<Rightarrow> string list \<Rightarrow> key_usages set app_result" where
  "key_usage_loop flags [] = Inr flags"
| "key_usage_loop flags (name # names) =
     (case usage_flag name of
        None \<Rightarrow> Inl (Config (''unknown key usage '' @ quoted name))
      | Some flag \<Rightarrow> key_usage_loop (insert flag flags) names)"

definition key_usage :: "string list \<Rightarrow> key_usages set app_result" where
  "key_usage names = key_usage_loop {} names"

definition eku_oid :: "der_lib \<Rightarrow> string \<Rightarrow> oid app_result" where
  "eku_oid d name =
     (if name = ''clientAuth'' then Inr ID_KP_CLIENT_AUTH
      else if name = ''serverAuth'' then Inr ID_KP_SERVER_AUTH
      else if name = ''emailProtection'' then Inr ID_KP_EMAIL_PROTECTION
      else map_err (\<lambda>e. Config (''invalid EKU '' @ quoted name)) (oid_new d name))"

definition extended_key_usage :: "der_lib \<Rightarrow> string list \<Rightarrow> oid list app_result" where
  "extended_key_usage d names = collect_results (eku_oid d) names"

text \<open>The inner loop of \<open>requested_san\<close>: \<open>Some\<close> is its early return.\<close>

fun san_of_extensions :: "x509_lib \<Rightarrow> extension list \<Rightarrow> general_name list option app_result" where
  "san_of_extensions x [] = Inr None"
| "san_of_extensions x (ext # exts) =
     (if extn_id ext = ID_CE_SUBJECT_ALT_NAME
      then map_ok Some (map_err (\<lambda>e. bad_request (''bad SAN in CSR: '' @ e)) (san_from_der x (extn_value ext)))
      else san_of_extensions x exts)"

fun san_of_attributes :: "der_lib \<Rightarrow> x509_lib \<Rightarrow> attribute list \<Rightarrow> general_name list option app_result" where
  "san_of_attributes d x [] = Inr None"
| "san_of_attributes d x (attr # attrs) =
     (if attr_oid attr \<noteq> ID_EXTENSION_REQ then san_of_attributes d x attrs
      else case attr_values attr of
        [] \<Rightarrow> san_of_attributes d x attrs
      | value # _ \<Rightarrow>
          try_then (map_err (\<lambda>e. bad_request (''bad extensionRequest: '' @ e)) (any_as_extensions d value))
            (\<lambda>extensions. try_then (san_of_extensions x extensions)
              (\<lambda>r. case r of Some san \<Rightarrow> Inr (Some san) | None \<Rightarrow> san_of_attributes d x attrs)))"

definition requested_san :: "der_lib \<Rightarrow> x509_lib \<Rightarrow> cert_req \<Rightarrow> general_name list option app_result" where
  "requested_san d x csr = san_of_attributes d x (csr_attributes csr)"

definition authority_info_access :: "der_lib \<Rightarrow> string \<Rightarrow> (oid \<times> general_name) list app_result" where
  "authority_info_access d ocsp_url =
     try_then (map_err (\<lambda>e. Config (''invalid OCSP URL: '' @ e)) (ia5_string_new d ocsp_url))
       (\<lambda>uri. Inr [(ID_AD_OCSP, UniformResourceIdentifier uri)])"

definition crl_distribution_points :: "der_lib \<Rightarrow> string \<Rightarrow> distribution_point list app_result" where
  "crl_distribution_points d crl_url =
     try_then (map_err (\<lambda>e. Config (''invalid CRL URL: '' @ e)) (ia5_string_new d crl_url))
       (\<lambda>uri. Inr [\<lparr>dp_distribution_point = Some [UniformResourceIdentifier uri],
                    dp_reasons = None, dp_crl_issuer = None\<rparr>])"

subsection \<open>Key usages\<close>

lemma key_usage_loop_Inr:
  "key_usage_loop F names = Inr G \<longleftrightarrow>
     list_all (\<lambda>n. usage_flag n \<noteq> None) names \<and> G = F \<union> Option.these (usage_flag ` set names)"
  by (induction names arbitrary: F) (auto split: option.splits)

lemma key_usage_loop_Inl:
  "find (\<lambda>n. usage_flag n = None) names = Some n \<Longrightarrow>
     key_usage_loop F names = Inl (Config (''unknown key usage '' @ quoted n))"
proof (induction names arbitrary: F)
  case Nil
  then show ?case by simp
next
  case (Cons m names)
  then show ?case by (cases "usage_flag m") simp_all
qed

lemma key_usage_cases:
  "key_usage names =
     (case find (\<lambda>n. usage_flag n = None) names of
        Some n \<Rightarrow> Inl (Config (''unknown key usage '' @ quoted n))
      | None \<Rightarrow> Inr ({} \<union> Option.these (usage_flag ` set names)))"
proof (cases "find (\<lambda>n. usage_flag n = None) names")
  case None
  then have "list_all (\<lambda>n. usage_flag n \<noteq> None) names"
    by (simp add: find_None_iff list_all_iff)
  then have "key_usage_loop {} names = Inr ({} \<union> Option.these (usage_flag ` set names))"
    by (simp only: key_usage_loop_Inr simp_thms)
  with None show ?thesis by (simp only: key_usage_def option.case)
next
  case (Some n)
  then show ?thesis by (simp only: key_usage_def key_usage_loop_Inl option.case)
qed

text \<open>
  The key usage of a profile: it is refused, with the first unknown name in the message,
  exactly when some name is unknown, and otherwise holds exactly the flags the names stand for,
  whatever their order and repetitions.
\<close>

theorem key_usage_decides:
  "key_usage names =
     (case find (\<lambda>n. usage_flag n = None) names of
        Some n \<Rightarrow> Inl (Config (''unknown key usage '' @ quoted n))
      | None \<Rightarrow> Inr {flag. Some flag \<in> usage_flag ` set names})"
proof -
  have "{} \<union> Option.these (usage_flag ` set names) = {flag. Some flag \<in> usage_flag ` set names}"
    by (auto simp: in_these_eq)
  then show ?thesis by (simp only: key_usage_cases)
qed

subsection \<open>The requested subject alternative name\<close>

text \<open>
  The specification: the extension lists of the extension requests of a CSR, and the first
  subject alternative name among their entries.
\<close>

fun requested_extensions :: "der_lib \<Rightarrow> attribute list \<Rightarrow> extension list option" where
  "requested_extensions d [] = Some []"
| "requested_extensions d (a # as) =
     (case requested_extensions d as of None \<Rightarrow> None
      | Some rest \<Rightarrow>
          if attr_oid a \<noteq> ID_EXTENSION_REQ \<or> attr_values a = [] then Some rest
          else (case any_as_extensions d (hd (attr_values a)) of
                  Inl e \<Rightarrow> None | Inr exts \<Rightarrow> Some (exts @ rest)))"

definition is_san :: "extension \<Rightarrow> bool" where
  "is_san e \<longleftrightarrow> extn_id e = ID_CE_SUBJECT_ALT_NAME"

lemma san_of_extensions_find:
  "san_of_extensions x exts =
     (case find is_san exts of
        None \<Rightarrow> Inr None
      | Some e \<Rightarrow> map_ok Some (map_err (\<lambda>m. bad_request (''bad SAN in CSR: '' @ m))
                    (san_from_der x (extn_value e))))"
  by (induction exts) (auto simp: is_san_def)

lemma san_of_attributes_spec:
  "requested_extensions d as = Some exts \<Longrightarrow> san_of_attributes d x as = san_of_extensions x exts"
proof (induction as arbitrary: exts)
  case Nil
  then show ?case by simp
next
  case (Cons a as)
  then obtain rest where rest: "requested_extensions d as = Some rest"
    by (auto split: option.splits)
  note IH = Cons.IH [OF rest]
  show ?case
  proof (cases "attr_values a")
    case Nil
    with Cons.prems rest IH show ?thesis by simp
  next
    case (Cons v vs)
    show ?thesis
    proof (cases "any_as_extensions d v")
      case (Inl e)
      with Cons Cons.prems rest IH show ?thesis by (simp split: if_splits)
    next
      case (Inr es)
      with Cons Cons.prems rest IH show ?thesis
        by (cases "map_err (\<lambda>m. bad_request (''bad SAN in CSR: '' @ m))
              (san_from_der x (extn_value (the (find is_san es))))")
           (auto simp: san_of_extensions_find find_append split: if_splits option.splits)
    qed
  qed
qed

text \<open>
  The subject alternative name copied into a certificate is the first one among all the
  extensions the request asks for: when every extension request decodes, \<open>requested_san\<close>
  returns it decoded, an error exactly when that one does not decode, and nothing when there is
  none.
\<close>

theorem requested_san_is_first:
  assumes "requested_extensions d (csr_attributes csr) = Some exts"
  shows "requested_san d x csr =
     (case find is_san exts of
        None \<Rightarrow> Inr None
      | Some e \<Rightarrow> map_ok Some (map_err (\<lambda>m. bad_request (''bad SAN in CSR: '' @ m))
                    (san_from_der x (extn_value e))))"
  using assms by (simp add: requested_san_def san_of_attributes_spec san_of_extensions_find)

definition san_request :: cert_req where
  "san_request =
     \<lparr>csr_subject = [1], csr_public_key = \<lparr>spki_algorithm = \<lparr>alg_oid = [], alg_parameters = None\<rparr>,
        spki_public_key = []\<rparr>,
      csr_attributes = [\<lparr>attr_oid = ''1.2.840.113549.1.9.7'', attr_values = []\<rparr>,
        \<lparr>attr_oid = ''1.2.840.113549.1.9.14'', attr_values = [\<lparr>any_tag = 48, any_value = [5]\<rparr>]\<rparr>]\<rparr>"

lemma requested_san_is_first_witness:
  "map_ok (\<lambda>s. s \<noteq> None) (requested_san demo_der
      (undefined\<lparr>san_from_der := \<lambda>b. Inr [OtherGeneralName b]\<rparr>) san_request) = Inr True"
  using requested_san_is_first [of demo_der san_request
      "[\<lparr>extn_id = ''2.5.29.17'', extn_critical = False, extn_value = [5]\<rparr>]"
      "undefined\<lparr>san_from_der := \<lambda>b. Inr [OtherGeneralName b]\<rparr>"]
  by (simp add: san_request_def demo_der_def is_san_def ID_EXTENSION_REQ_def ID_CE_SUBJECT_ALT_NAME_def)

end
