(* ===== verification/Csr.thy ===== *)
theory Csr
  imports Extensions
begin

text \<open>
  \<open>ca/csr.rs\<close>: a parsed certificate signing request and its challenge password.
\<close>

record parsed_csr =
  pc_req :: cert_req
  pc_der :: bytes
  pc_challenge_password :: "string option"

definition parsed_subject :: "x509_lib \<Rightarrow> parsed_csr \<Rightarrow> string" where
  "parsed_subject x p = name_display x (csr_subject (pc_req p))"

definition extract_challenge_password :: "der_lib \<Rightarrow> cert_req \<Rightarrow> string option" where
  "extract_challenge_password d req =
     (case find (\<lambda>a. attr_oid a = ID_CHALLENGE_PASSWORD) (csr_attributes req) of
        None \<Rightarrow> None
      | Some attr \<Rightarrow>
          (case attr_values attr of
             [] \<Rightarrow> None
           | value # _ \<Rightarrow>
               (case any_as_printable d value of
                  Inr ps \<Rightarrow> Some ps
                | Inl _ \<Rightarrow>
                    (case any_as_utf8 d value of
                       Inr s \<Rightarrow> Some s
                     | Inl _ \<Rightarrow>
                         (case any_as_ia5 d value of
                            Inr s \<Rightarrow> Some s
                          | Inl _ \<Rightarrow> None)))))"

definition parse :: "der_lib \<Rightarrow> x509_lib \<Rightarrow> bytes \<Rightarrow> parsed_csr app_result" where
  "parse d x der =
     try_then (map_err (\<lambda>e. bad_request (''invalid CSR: '' @ e)) (csr_from_der x der))
       (\<lambda>req. let challenge_password = extract_challenge_password d req
              in Inr \<lparr>pc_req = req, pc_der = der, pc_challenge_password = challenge_password\<rparr>)"

subsection \<open>Lemmas\<close>

lemma parse_Inr:
  "parse d x der = Inr p \<longleftrightarrow>
     csr_from_der x der = Inr (pc_req p) \<and> pc_der p = der
     \<and> pc_challenge_password p = extract_challenge_password d (pc_req p)"
  by (cases p) (auto simp: parse_def Let_def try_then_Inr_iff)

lemma parse_Inl: "parse d x der = Inl e \<Longrightarrow> \<exists>m. e = BadRequest (''invalid CSR: '' @ m)"
  by (auto simp: parse_def Let_def try_then_Inl_iff map_err_Inl_iff bad_request_def)

end
