(* ===== verification/Serial.thy ===== *)
theory Serial
  imports Externals
begin

unbundle bit_operations_syntax

text \<open>
  \<open>ca/serial.rs\<close>, and the renderings of a serial number in \<open>http/scep.rs\<close>: the hexadecimal
  key of the certificate table and the decimal form Intune expects.

  A panic (\<open>expect\<close>) is represented by its message in the error position; the theorem below
  shows when it cannot happen.
\<close>

definition serial_bytes :: "(nat \<Rightarrow> byte) \<Rightarrow> bytes" where
  "serial_bytes rng =
     (let bytes = fill_bytes rng 16;
          bytes = bytes[0 := (bytes ! 0) AND 0x7f]
      in if bytes ! 0 = 0 then bytes[0 := 0x01] else bytes)"

definition random_serial :: "x509_lib \<Rightarrow> (nat \<Rightarrow> byte) \<Rightarrow> string + serial_number" where
  "random_serial x rng =
     map_err (\<lambda>e. ''16-byte serial is always valid: '' @ e) (serial_new x (serial_bytes rng))"

definition serial_hex :: "codec_lib \<Rightarrow> certificate \<Rightarrow> string" where
  "serial_hex co cert = hex_encode co (cert_serial_number cert)"

text \<open>\<open>v = (v << 8) | *b as u128\<close> over the bytes.\<close>

definition shift_in :: "128 word \<Rightarrow> byte \<Rightarrow> 128 word" where
  "shift_in v b = (push_bit 8 v) OR (ucast b)"

definition serial_decimal :: "codec_lib \<Rightarrow> certificate \<Rightarrow> string" where
  "serial_decimal co cert =
     (let bytes = cert_serial_number cert
      in if length bytes \<le> 16 then dec (unat (foldl shift_in 0 bytes))
         else hex_encode co bytes)"

subsection \<open>Big-endian values\<close>

text \<open>The number a list of bytes denotes.\<close>

definition be_value :: "bytes \<Rightarrow> nat" where
  "be_value bs = foldl (\<lambda>n b. n * 256 + unat b) 0 bs"

lemma unat_byte_less: "unat (b :: byte) < 256"
proof -
  have "unat b < 2 ^ LENGTH(8)" by (rule unsigned_less)
  then show ?thesis by simp
qed

lemma be_value_snoc: "be_value (bs @ [b]) = be_value bs * 256 + unat b"
  by (simp add: be_value_def)

lemma be_value_less: "be_value bs < 256 ^ length bs"
proof (induction bs rule: rev_induct)
  case Nil
  then show ?case by (simp add: be_value_def)
next
  case (snoc b bs)
  then have "be_value bs + 1 \<le> 256 ^ length bs" by simp
  then have "(be_value bs + 1) * 256 \<le> 256 ^ length bs * 256" by (rule mult_le_mono1)
  with unat_byte_less [of b] show ?case by (simp add: be_value_snoc)
qed

lemma unat_ucast_byte: "unat (ucast (b :: byte) :: 128 word) = unat b"
proof -
  have "unat b < 2 ^ 128"
    using unat_byte_less [of b] by (rule less_le_trans) simp
  then show ?thesis
    by (simp add: unsigned_ucast_eq take_bit_nat_eq_self)
qed

lemma shift_in_add:
  assumes "unat v < 2 ^ 120"
  shows "unat (shift_in v b) = unat v * 256 + unat b"
proof -
  have "push_bit 8 v OR ucast b = push_bit 8 v + (ucast b :: 128 word)"
    by (rule disjunctive_add [symmetric]) (auto simp: bit_push_bit_iff bit_ucast_iff dest: bit_imp_le_length)
  also have "\<dots> = v * 256 + ucast b"
    by (simp add: push_bit_eq_mult)
  finally have eq: "shift_in v b = v * 256 + ucast b"
    by (simp add: shift_in_def)
  have "unat v * 256 + unat b < 2 ^ 128"
    using assms unat_byte_less [of b] by simp
  then show ?thesis
    by (simp add: eq unat_word_ariths unat_ucast_byte)
qed

lemma shift_loop_value:
  "length bs \<le> 16 \<Longrightarrow> unat (foldl shift_in 0 bs) = be_value bs"
proof (induction bs rule: rev_induct)
  case Nil
  then show ?case by (simp add: be_value_def)
next
  case (snoc b bs)
  then have IH: "unat (foldl shift_in 0 bs) = be_value bs" and "length bs \<le> 15" by simp_all
  have "(256 :: nat) ^ length bs \<le> 256 ^ 15"
    by (rule power_increasing) (use \<open>length bs \<le> 15\<close> in simp_all)
  with be_value_less [of bs] have "be_value bs < 256 ^ 15" by (rule less_le_trans)
  then have "unat (foldl shift_in 0 bs) < 2 ^ 120"
    using IH by simp
  then show ?case
    by (simp add: shift_in_add IH be_value_snoc)
qed

subsection \<open>Properties\<close>

definition serial_ok :: "serial_number \<Rightarrow> bool" where
  "serial_ok s \<longleftrightarrow> length s = 16 \<and> s ! 0 \<noteq> 0 \<and> \<not> bit (s ! 0) 7"

lemma serial_bytes_ok: "serial_ok (serial_bytes rng)"
proof -
  have "\<not> bit (b AND 0x7f) 7" for b :: byte
    by (simp add: bit_and_iff bit_numeral_rec)
  then show ?thesis
    by (simp add: serial_ok_def serial_bytes_def Let_def bit_1_iff)
qed

lemma serial_ok_value: "serial_ok s \<Longrightarrow> 2 ^ 120 \<le> be_value s \<and> be_value s < 2 ^ 127"
proof -
  assume ok: "serial_ok s"
  then obtain h t where s: "s = h # t" "length t = 15" "h \<noteq> 0" "\<not> bit h 7"
    by (cases s) (auto simp: serial_ok_def)
  have split: "be_value (h # t) = unat h * 256 ^ length t + be_value t" for h t
  proof (induction t rule: rev_induct)
    case Nil
    then show ?case by (simp add: be_value_def)
  next
    case (snoc b t)
    then show ?case
      using be_value_snoc [of "h # t" b] be_value_snoc [of t b] by (simp add: algebra_simps)
  qed
  have low: "1 \<le> unat h"
    using s(3) by (metis One_nat_def Suc_leI gr0I unat_eq_zero)
  have "take_bit 7 h = h"
  proof (rule bit_eqI)
    fix n
    show "bit (take_bit 7 h) n = bit h n"
      using s(4) bit_imp_le_length [of h n]
      by (cases "n = 7") (auto simp: bit_take_bit_iff)
  qed
  then have "unat h = take_bit 7 (unat h)"
    by (metis unsigned_take_bit_eq)
  then have high: "unat h < 2 ^ 7"
    by (metis take_bit_nat_less_exp)
  have t: "be_value t < 256 ^ 15"
    using be_value_less [of t] s(2) by simp
  have v: "be_value s = unat h * 256 ^ 15 + be_value t"
    using split [of h t] s(1,2) by simp
  from low high t show ?thesis
    unfolding v by simp
qed

text \<open>The documented acceptance of \<open>SerialNumber::new\<close>: at most 20 octets, kept verbatim.\<close>

definition serial_new_documented :: "x509_lib \<Rightarrow> bool" where
  "serial_new_documented x \<longleftrightarrow>
     (\<forall>bs. bs \<noteq> [] \<and> length bs \<le> 20 \<and> \<not> bit (bs ! 0) 7 \<and> bs ! 0 \<noteq> 0 \<longrightarrow> serial_new x bs = Inr bs)"

lemma serial_new_ok:
  assumes "serial_new_documented x" and "serial_ok bs"
  shows "serial_new x bs = Inr bs"
proof -
  have "bs \<noteq> []" using assms(2) by (auto simp: serial_ok_def)
  with assms show ?thesis by (simp add: serial_new_documented_def serial_ok_def)
qed

lemma random_serial_value:
  assumes "serial_new_documented x"
  shows "random_serial x rng = Inr (serial_bytes rng)"
  by (simp add: random_serial_def serial_new_ok [OF assms serial_bytes_ok])

subsection \<open>A concrete certificate library\<close>

text \<open>
  A builder that keeps what it is given, used to show that the hypotheses of the theorems
  about issuance can hold.  Names and requests are their own encodings.
\<close>

definition demo_spki :: spki where
  "demo_spki = \<lparr>spki_algorithm = \<lparr>alg_oid = ''1.2.840.113549.1.1.1'', alg_parameters = None\<rparr>,
     spki_public_key = [1, 2, 3]\<rparr>"

definition demo_build :: "cert_builder \<Rightarrow> certificate" where
  "demo_build b =
     \<lparr>cert_serial_number = bld_serial b,
      cert_issuer = (case bld_profile b of ProfileManual (Some i) \<Rightarrow> i | _ \<Rightarrow> bld_subject b),
      cert_validity = bld_validity b, cert_subject = bld_subject b, cert_spki = bld_spki b,
      cert_extensions = bld_extensions b, cert_signature = [9]\<rparr>"

definition demo_x509 :: x509_lib where
  "demo_x509 =
     \<lparr>serial_new = (\<lambda>bs. if length bs \<le> 20 then Inr bs else Inl ''too long''),
      serial_new_raw = (\<lambda>bs. Inr bs),
      name_from_str = (\<lambda>s. Inr (as_bytes s)),
      name_display = text_of,
      cert_from_der = (\<lambda>bs. Inl ''not a certificate''),
      cert_to_der = (\<lambda>c. Inr (cert_serial_number c)),
      cert_to_pem = (\<lambda>c. Inr ''PEM''),
      cert_get_ski = (\<lambda>c. Inr None),
      csr_from_der = (\<lambda>bs. Inr \<lparr>csr_subject = bs, csr_public_key = demo_spki, csr_attributes = []\<rparr>),
      san_from_der = (\<lambda>bs. Inr [OtherGeneralName bs]),
      ski_from_spki = (\<lambda>k. Inr [1]),
      aki_from_spki = (\<lambda>k. Inr [2]),
      builder_new = (\<lambda>p s v su k sg. Inr \<lparr>bld_profile = p, bld_serial = s, bld_validity = v,
        bld_subject = su, bld_spki = k, bld_signer = sg, bld_extensions = []\<rparr>),
      builder_add = (\<lambda>b e. Inr (b\<lparr>bld_extensions := bld_extensions b @ [e]\<rparr>)),
      builder_build = (\<lambda>b. Inr (demo_build b))\<rparr>"

lemma demo_x509_fields [simp]:
  "name_from_str demo_x509 s = Inr (as_bytes s)"
  "name_display demo_x509 n = text_of n"
  "cert_from_der demo_x509 b = Inl ''not a certificate''"
  "cert_to_der demo_x509 c = Inr (cert_serial_number c)"
  "cert_to_pem demo_x509 c = Inr ''PEM''"
  "cert_get_ski demo_x509 c = Inr None"
  "csr_from_der demo_x509 b = Inr \<lparr>csr_subject = b, csr_public_key = demo_spki, csr_attributes = []\<rparr>"
  "ski_from_spki demo_x509 k = Inr [1]"
  "aki_from_spki demo_x509 k = Inr [2]"
  "builder_new demo_x509 p s' v su k sg = Inr \<lparr>bld_profile = p, bld_serial = s', bld_validity = v,
     bld_subject = su, bld_spki = k, bld_signer = sg, bld_extensions = []\<rparr>"
  "builder_add demo_x509 bu e = Inr (bu\<lparr>bld_extensions := bld_extensions bu @ [e]\<rparr>)"
  "builder_build demo_x509 bu = Inr (demo_build bu)"
  by (simp_all add: demo_x509_def)

definition demo_validity :: validity where
  "demo_validity =
     \<lparr>not_before = UtcTime \<lparr>dt_year = 2024, dt_month = 1, dt_day = 1, dt_hour = 0, dt_minutes = 0,
        dt_seconds = 0\<rparr>,
      not_after = UtcTime \<lparr>dt_year = 2025, dt_month = 1, dt_day = 1, dt_hour = 0, dt_minutes = 0,
        dt_seconds = 0\<rparr>\<rparr>"

definition demo_cert :: "serial_number \<Rightarrow> certificate" where
  "demo_cert s =
     \<lparr>cert_serial_number = s, cert_issuer = [1], cert_validity = demo_validity, cert_subject = [1],
      cert_spki = demo_spki, cert_extensions = [], cert_signature = [9]\<rparr>"

lemma demo_serial_documented: "serial_new_documented demo_x509"
  by (simp add: serial_new_documented_def demo_x509_def)

text \<open>
  C40: every serial the server issues is a positive 16-byte integer with no leading zero and a
  value between 2^120 and 2^127; the generator never panics; and the decimal form sent to
  Intune is exactly its value: the 128-bit accumulator of the conversion never overflows.
\<close>

theorem issued_serials_are_positive:
  assumes "serial_new_documented x"
  shows "\<exists>s. random_serial x rng = Inr s \<and> length s = 16 \<and> \<not> bit (s ! 0) 7 \<and> s ! 0 \<noteq> 0
    \<and> 2 ^ 120 \<le> be_value s \<and> be_value s < 2 ^ 127
    \<and> (\<forall>co cert. cert_serial_number cert = s \<longrightarrow> serial_decimal co cert = dec (be_value s))"
proof -
  let ?s = "serial_bytes rng"
  have ok: "serial_ok ?s" by (rule serial_bytes_ok)
  then have "unat (foldl shift_in 0 ?s) = be_value ?s"
    by (intro shift_loop_value) (simp add: serial_ok_def)
  with ok serial_ok_value [OF ok] random_serial_value [OF assms] show ?thesis
    by (intro exI [of _ ?s]) (simp add: serial_ok_def serial_decimal_def Let_def)
qed

lemma issued_serials_are_positive_witness:
  "serial_new_documented demo_x509
    \<and> (\<exists>s. random_serial demo_x509 (\<lambda>i. 0xff) = Inr s \<and> length s = 16 \<and> \<not> bit (s ! 0) 7 \<and> s ! 0 \<noteq> 0
        \<and> 2 ^ 120 \<le> be_value s \<and> be_value s < 2 ^ 127
        \<and> (\<forall>co cert. cert_serial_number cert = s \<longrightarrow> serial_decimal co cert = dec (be_value s)))"
  using issued_serials_are_positive [OF demo_serial_documented, of "\<lambda>i. 0xff"] demo_serial_documented
  by (rule conjI [rotated])

text \<open>
  The decimal conversion is exact and injective on every serial of at most 16 bytes, also
  on serials this server did not issue: equal decimals mean equal numbers.
\<close>

theorem serial_decimal_exact:
  assumes "length (cert_serial_number c) \<le> 16" and "length (cert_serial_number d) \<le> 16"
  shows "dec_value (serial_decimal co c) = be_value (cert_serial_number c)
    \<and> (serial_decimal co c = serial_decimal co d \<longleftrightarrow>
         be_value (cert_serial_number c) = be_value (cert_serial_number d))"
  using assms by (simp add: serial_decimal_def Let_def shift_loop_value dec_value_dec dec_inject)

lemma serial_decimal_exact_witness:
  "dec_value (serial_decimal undefined (demo_cert [1, 0])) = be_value [1, 0]
    \<and> (serial_decimal undefined (demo_cert [1, 0]) = serial_decimal undefined (demo_cert [0, 1, 0]) \<longleftrightarrow>
         be_value [1, 0] = be_value [0, 1, 0])"
  using serial_decimal_exact [of "demo_cert [1, 0]" "demo_cert [0, 1, 0]" undefined]
  by (simp add: demo_cert_def)

end
