(* ===== verification/Authority.thy ===== *)
theory Authority
  imports Csr Serial
begin

text \<open>
  \<open>ca/authority.rs\<close>: a certificate authority and the issuance of leaf certificates.  The
  certificate builder of \<open>x509-cert\<close> is the parameter \<open>x\<close>, the DER types \<open>d\<close>, the clock
  \<open>now\<close> with the conversions \<open>tm\<close>, and each use of the random generator a byte stream.
  \<open>CaSigningKey\<close> (\<open>rsa::pkcs1v15::SigningKey<Sha256>\<close>) is the private key it wraps.  The
  panic of \<open>random_serial\<close> becomes an \<open>Other\<close> error; \<open>issued_serials_are_positive\<close> of
  the serial numbers shows it never happens.
\<close>

record issue_options =
  opt_validity_days :: "32 word"
  opt_key_usage :: "string list"
  opt_extended_key_usage :: "string list"
  opt_ocsp_url :: "string option"
  opt_crl_url :: "string option"

record certificate_authority =
  ca_id :: string
  ca_cert :: certificate
  ca_signing_key :: rsa_private_key
  ca_private_key :: rsa_private_key

definition ca_new :: "string \<Rightarrow> certificate \<Rightarrow> rsa_private_key \<Rightarrow> certificate_authority" where
  "ca_new i cert private_key =
     (let signing_key = private_key
      in \<lparr>ca_id = i, ca_cert = cert, ca_signing_key = signing_key, ca_private_key = private_key\<rparr>)"

definition bld_err :: "string \<Rightarrow> app_error" where
  "bld_err e = crypto (''certificate builder error: '' @ e)"

definition der_err :: "string \<Rightarrow> app_error" where
  "der_err e = crypto (''DER error: '' @ e)"

definition generate_self_signed ::
  "rsa_lib \<Rightarrow> x509_lib \<Rightarrow> time_lib \<Rightarrow> system_time \<Rightarrow> (nat \<Rightarrow> byte) \<Rightarrow> (nat \<Rightarrow> byte) \<Rightarrow>
     string \<Rightarrow> string \<Rightarrow> nat \<Rightarrow> certificate_authority app_result" where
  "generate_self_signed r x tm now key_rng serial_rng i common_name bits =
     try_then (map_err (\<lambda>e. crypto (''RSA keygen failed: '' @ e)) (rsa_generate r key_rng bits)) (\<lambda>private_key.
     let signing_key = private_key in
     try_then (map_err (\<lambda>e. Config (''invalid CA subject: '' @ e)) (name_from_str x (''CN='' @ common_name))) (\<lambda>subject.
     try_then (map_err Other (random_serial x serial_rng)) (\<lambda>serial.
     try_then (map_err der_err (validity_from tm now (3650 * 86400))) (\<lambda>validity.
     try_then (map_err (\<lambda>e. crypto (''SPKI encode: '' @ e)) (rsa_spki_from_key r (to_public_key signing_key))) (\<lambda>spki.
     try_then (map_err bld_err (builder_new x ProfileRoot serial validity subject spki signing_key)) (\<lambda>builder.
     try_then (map_err bld_err (builder_build x builder)) (\<lambda>cert.
     Inr \<lparr>ca_id = i, ca_cert = cert, ca_signing_key = signing_key, ca_private_key = private_key\<rparr>)))))))"

definition ca_subject :: "certificate_authority \<Rightarrow> dn" where
  "ca_subject ca = cert_subject (ca_cert ca)"

text \<open>\<open>opts.validity_days as u64 * 86_400\<close>\<close>

definition validity_seconds :: "32 word \<Rightarrow> 64 word" where
  "validity_seconds days = ucast days * 86400"

definition add_extension :: "x509_lib \<Rightarrow> ext_value \<Rightarrow> cert_builder \<Rightarrow> cert_builder app_result" where
  "add_extension x ext b = map_err bld_err (builder_add x b ext)"

text \<open>\<open>if let Some(v) = v { builder.add_extension(&f(v)?) }\<close>\<close>

definition add_optional ::
  "x509_lib \<Rightarrow> ('a \<Rightarrow> ext_value app_result) \<Rightarrow> 'a option \<Rightarrow> cert_builder \<Rightarrow> cert_builder app_result" where
  "add_optional x f v b =
     (case v of None \<Rightarrow> Inr b | Some a \<Rightarrow> try_then (f a) (\<lambda>ext. add_extension x ext b))"

definition issue ::
  "der_lib \<Rightarrow> x509_lib \<Rightarrow> time_lib \<Rightarrow> system_time \<Rightarrow> (nat \<Rightarrow> byte) \<Rightarrow> certificate_authority \<Rightarrow>
     cert_req \<Rightarrow> issue_options \<Rightarrow> certificate app_result" where
  "issue d x tm now rng ca csr opts =
     try_then (map_err Other (random_serial x rng)) (\<lambda>serial.
     try_then (map_err der_err (validity_from tm now (unat (validity_seconds (opt_validity_days opts))))) (\<lambda>validity.
     let subject = csr_subject csr; spki = csr_public_key csr in
     try_then (map_err (\<lambda>e. crypto (''subject key identifier: '' @ e)) (ski_from_spki x spki)) (\<lambda>ski.
     try_then (map_err (\<lambda>e. crypto (''authority key identifier: '' @ e)) (aki_from_spki x (cert_spki (ca_cert ca)))) (\<lambda>aki.
     try_then (map_err bld_err (builder_new x (ProfileManual (Some (ca_subject ca))) serial validity
                 subject spki (ca_signing_key ca))) (\<lambda>b.
     try_then (add_extension x (BasicConstraints False None) b) (\<lambda>b.
     try_then (key_usage (opt_key_usage opts)) (\<lambda>flags.
     try_then (add_extension x (KeyUsage flags) b) (\<lambda>b.
     try_then (extended_key_usage d (opt_extended_key_usage opts)) (\<lambda>eku.
     try_then (if eku \<noteq> [] then add_extension x (ExtendedKeyUsage eku) b else Inr b) (\<lambda>b.
     try_then (add_extension x (SubjectKeyIdentifier ski) b) (\<lambda>b.
     try_then (add_extension x (AuthorityKeyIdentifier aki) b) (\<lambda>b.
     try_then (requested_san d x csr) (\<lambda>san.
     try_then (add_optional x (\<lambda>n. Inr (SubjectAltName n)) san b) (\<lambda>b.
     try_then (add_optional x (\<lambda>u. map_ok AuthorityInfoAccess (authority_info_access d u)) (opt_ocsp_url opts) b) (\<lambda>b.
     try_then (add_optional x (\<lambda>u. map_ok CrlDistributionPoints (crl_distribution_points d u)) (opt_crl_url opts) b) (\<lambda>b.
     map_err bld_err (builder_build x b)))))))))))))))))"

subsection \<open>The documented builder\<close>

text \<open>
  The contract of \<open>CertificateBuilder\<close>: it keeps what it is given, appends extensions in the
  order of the calls, and a manual profile adds none of its own; the root profile issues under
  the subject itself.
\<close>

definition built_from :: "cert_builder \<Rightarrow> certificate \<Rightarrow> bool" where
  "built_from b c \<longleftrightarrow>
     cert_serial_number c = bld_serial b \<and> cert_validity c = bld_validity b
     \<and> cert_subject c = bld_subject b \<and> cert_spki c = bld_spki b
     \<and> (case bld_profile b of
          ProfileRoot \<Rightarrow> cert_issuer c = bld_subject b
        | ProfileManual (Some i) \<Rightarrow> cert_issuer c = i \<and> cert_extensions c = bld_extensions b
        | ProfileManual None \<Rightarrow> True)"

definition builder_documented :: "x509_lib \<Rightarrow> bool" where
  "builder_documented x \<longleftrightarrow>
     (\<forall>p s v su k sg b. builder_new x p s v su k sg = Inr b \<longrightarrow>
        b = \<lparr>bld_profile = p, bld_serial = s, bld_validity = v, bld_subject = su, bld_spki = k,
             bld_signer = sg, bld_extensions = []\<rparr>) \<and>
     (\<forall>b e b'. builder_add x b e = Inr b' \<longrightarrow> b' = b\<lparr>bld_extensions := bld_extensions b @ [e]\<rparr>) \<and>
     (\<forall>b c. builder_build x b = Inr c \<longrightarrow> built_from b c)"

lemma builder_new_fields:
  "builder_documented x \<Longrightarrow> builder_new x p s v su k sg = Inr b \<Longrightarrow>
     bld_profile b = p \<and> bld_serial b = s \<and> bld_validity b = v \<and> bld_subject b = su \<and> bld_spki b = k
     \<and> bld_signer b = sg \<and> bld_extensions b = []"
  unfolding builder_documented_def by fastforce

lemma add_extension_appends:
  "builder_documented x \<Longrightarrow> add_extension x e b = Inr b' \<Longrightarrow>
     b' = b\<lparr>bld_extensions := bld_extensions b @ [e]\<rparr>"
  by (simp add: builder_documented_def add_extension_def)

lemma add_optional_appends:
  "builder_documented x \<Longrightarrow> add_optional x f v b = Inr b' \<Longrightarrow>
     \<exists>es. (case v of None \<Rightarrow> es = [] | Some a \<Rightarrow> (\<exists>e. f a = Inr e \<and> es = [e]))
        \<and> b' = b\<lparr>bld_extensions := bld_extensions b @ es\<rparr>"
  by (auto simp: add_optional_def try_then_Inr_iff dest!: add_extension_appends split: option.splits)

lemma build_fields:
  "builder_documented x \<Longrightarrow> builder_build x b = Inr c \<Longrightarrow> built_from b c"
  by (simp add: builder_documented_def)

lemma issue_Inr:
  assumes "issue d x tm now rng ca csr opts = Inr c"
  shows "\<exists>serial validity ski aki flags eku san b0 b1 b2 b3 b4 b5 b6 b7 b8.
     random_serial x rng = Inr serial
     \<and> validity_from tm now (unat (validity_seconds (opt_validity_days opts))) = Inr validity
     \<and> ski_from_spki x (csr_public_key csr) = Inr ski
     \<and> aki_from_spki x (cert_spki (ca_cert ca)) = Inr aki
     \<and> builder_new x (ProfileManual (Some (ca_subject ca))) serial validity (csr_subject csr)
         (csr_public_key csr) (ca_signing_key ca) = Inr b0
     \<and> add_extension x (BasicConstraints False None) b0 = Inr b1
     \<and> key_usage (opt_key_usage opts) = Inr flags
     \<and> add_extension x (KeyUsage flags) b1 = Inr b2
     \<and> extended_key_usage d (opt_extended_key_usage opts) = Inr eku
     \<and> (if eku \<noteq> [] then add_extension x (ExtendedKeyUsage eku) b2 else Inr b2) = Inr b3
     \<and> add_extension x (SubjectKeyIdentifier ski) b3 = Inr b4
     \<and> add_extension x (AuthorityKeyIdentifier aki) b4 = Inr b5
     \<and> requested_san d x csr = Inr san
     \<and> add_optional x (\<lambda>n. Inr (SubjectAltName n)) san b5 = Inr b6
     \<and> add_optional x (\<lambda>u. map_ok AuthorityInfoAccess (authority_info_access d u)) (opt_ocsp_url opts) b6 = Inr b7
     \<and> add_optional x (\<lambda>u. map_ok CrlDistributionPoints (crl_distribution_points d u)) (opt_crl_url opts) b7 = Inr b8
     \<and> builder_build x b8 = Inr c"
  using assms unfolding issue_def Let_def try_then_Inr_iff map_err_Inr_iff by blast

subsection \<open>What a leaf certificate holds\<close>

text \<open>
  The specification of the extensions of a leaf, in their order: never a CA, the configured
  usages, the extended usages if there are any, the two key identifiers, the alternative name
  the request asks for, and the pointers to OCSP and CRL where they are configured.
\<close>

definition leaf_extensions ::
  "key_usages set \<Rightarrow> oid list \<Rightarrow> bytes \<Rightarrow> bytes \<Rightarrow> general_name list option \<Rightarrow> string option \<Rightarrow>
     string option \<Rightarrow> ext_value list" where
  "leaf_extensions flags eku ski aki san ocsp crl =
     [BasicConstraints False None, KeyUsage flags]
     @ (if eku = [] then [] else [ExtendedKeyUsage eku])
     @ [SubjectKeyIdentifier ski, AuthorityKeyIdentifier aki]
     @ (case san of None \<Rightarrow> [] | Some n \<Rightarrow> [SubjectAltName n])
     @ (case ocsp of None \<Rightarrow> []
        | Some u \<Rightarrow> [AuthorityInfoAccess [(ID_AD_OCSP, UniformResourceIdentifier u)]])
     @ (case crl of None \<Rightarrow> []
        | Some u \<Rightarrow> [CrlDistributionPoints [\<lparr>dp_distribution_point = Some [UniformResourceIdentifier u],
                       dp_reasons = None, dp_crl_issuer = None\<rparr>]])"

text \<open>The documented \<open>Ia5String::new\<close> keeps the text it accepts.\<close>

definition ia5_documented :: "der_lib \<Rightarrow> bool" where
  "ia5_documented d \<longleftrightarrow> (\<forall>s t. ia5_string_new d s = Inr t \<longrightarrow> t = s)"

lemma aia_value:
  assumes "ia5_documented d" and "map_ok AuthorityInfoAccess (authority_info_access d u) = Inr e"
  shows "e = AuthorityInfoAccess [(ID_AD_OCSP, UniformResourceIdentifier u)]"
  using assms by (auto simp: authority_info_access_def map_ok_Inr_iff try_then_Inr_iff ia5_documented_def)

lemma crl_value:
  assumes "ia5_documented d" and "map_ok CrlDistributionPoints (crl_distribution_points d u) = Inr e"
  shows "e = CrlDistributionPoints [\<lparr>dp_distribution_point = Some [UniformResourceIdentifier u],
             dp_reasons = None, dp_crl_issuer = None\<rparr>]"
  using assms by (auto simp: crl_distribution_points_def map_ok_Inr_iff try_then_Inr_iff ia5_documented_def)

lemma unat_validity_seconds: "unat (validity_seconds days) = unat days * 86400"
proof -
  have "unat days < 2 ^ LENGTH(32)" by (rule unsigned_less)
  then have lt: "unat days < 4294967296" by simp
  then have "unat (ucast days :: 64 word) = unat days"
    by (simp add: unsigned_ucast_eq take_bit_nat_eq_self)
  moreover have "unat days * 86400 < 18446744073709551616" using lt by simp
  ultimately show ?thesis
    by (simp add: validity_seconds_def unat_word_ariths)
qed

lemma issue_builds:
  assumes x: "builder_documented x" and d: "ia5_documented d"
    and ok: "issue d x tm now rng ca csr opts = Inr c"
  shows "\<exists>serial validity ski aki flags eku san.
     random_serial x rng = Inr serial \<and> cert_serial_number c = serial
     \<and> validity_from tm now (unat (opt_validity_days opts) * 86400) = Inr validity
     \<and> cert_validity c = validity
     \<and> cert_issuer c = ca_subject ca \<and> cert_subject c = csr_subject csr
     \<and> cert_spki c = csr_public_key csr
     \<and> key_usage (opt_key_usage opts) = Inr flags
     \<and> extended_key_usage d (opt_extended_key_usage opts) = Inr eku
     \<and> ski_from_spki x (csr_public_key csr) = Inr ski
     \<and> aki_from_spki x (cert_spki (ca_cert ca)) = Inr aki
     \<and> requested_san d x csr = Inr san
     \<and> cert_extensions c = leaf_extensions flags eku ski aki san (opt_ocsp_url opts) (opt_crl_url opts)"
proof -
  from issue_Inr [OF ok] obtain serial validity ski aki flags eku san b0 b1 b2 b3 b4 b5 b6 b7 b8
    where vals: "random_serial x rng = Inr serial"
      "validity_from tm now (unat (validity_seconds (opt_validity_days opts))) = Inr validity"
      "ski_from_spki x (csr_public_key csr) = Inr ski"
      "aki_from_spki x (cert_spki (ca_cert ca)) = Inr aki"
      "key_usage (opt_key_usage opts) = Inr flags"
      "extended_key_usage d (opt_extended_key_usage opts) = Inr eku"
      "requested_san d x csr = Inr san"
    and b0: "builder_new x (ProfileManual (Some (ca_subject ca))) serial validity (csr_subject csr)
         (csr_public_key csr) (ca_signing_key ca) = Inr b0"
    and b1: "add_extension x (BasicConstraints False None) b0 = Inr b1"
    and b2: "add_extension x (KeyUsage flags) b1 = Inr b2"
    and b3: "(if eku \<noteq> [] then add_extension x (ExtendedKeyUsage eku) b2 else Inr b2) = Inr b3"
    and b4: "add_extension x (SubjectKeyIdentifier ski) b3 = Inr b4"
    and b5: "add_extension x (AuthorityKeyIdentifier aki) b4 = Inr b5"
    and b6: "add_optional x (\<lambda>n. Inr (SubjectAltName n)) san b5 = Inr b6"
    and b7: "add_optional x (\<lambda>u. map_ok AuthorityInfoAccess (authority_info_access d u)) (opt_ocsp_url opts) b6 = Inr b7"
    and b8: "add_optional x (\<lambda>u. map_ok CrlDistributionPoints (crl_distribution_points d u)) (opt_crl_url opts) b7 = Inr b8"
    and built: "builder_build x b8 = Inr c"
    by blast
  note appends = add_extension_appends [OF x]
  have e3: "b3 = b2\<lparr>bld_extensions := bld_extensions b2 @ (if eku = [] then [] else [ExtendedKeyUsage eku])\<rparr>"
    using b3 by (cases "eku = []") (auto dest: appends)
  have e5: "b5 = b0\<lparr>bld_extensions := [BasicConstraints False None, KeyUsage flags]
      @ (if eku = [] then [] else [ExtendedKeyUsage eku]) @ [SubjectKeyIdentifier ski, AuthorityKeyIdentifier aki]\<rparr>"
    using appends [OF b1] appends [OF b2] e3 appends [OF b4] appends [OF b5] builder_new_fields [OF x b0]
    by simp
  have e6: "b6 = b5\<lparr>bld_extensions := bld_extensions b5 @ (case san of None \<Rightarrow> [] | Some n \<Rightarrow> [SubjectAltName n])\<rparr>"
    using add_optional_appends [OF x b6] by (auto split: option.splits)
  have e7: "b7 = b6\<lparr>bld_extensions := bld_extensions b6 @ (case opt_ocsp_url opts of None \<Rightarrow> []
      | Some u \<Rightarrow> [AuthorityInfoAccess [(ID_AD_OCSP, UniformResourceIdentifier u)]])\<rparr>"
    using add_optional_appends [OF x b7] by (auto split: option.splits dest: aia_value [OF d])
  have e8: "b8 = b7\<lparr>bld_extensions := bld_extensions b7 @ (case opt_crl_url opts of None \<Rightarrow> []
      | Some u \<Rightarrow> [CrlDistributionPoints [\<lparr>dp_distribution_point = Some [UniformResourceIdentifier u],
                       dp_reasons = None, dp_crl_issuer = None\<rparr>]])\<rparr>"
    using add_optional_appends [OF x b8] by (auto split: option.splits dest: crl_value [OF d])
  have "built_from b8 c" by (rule build_fields [OF x built])
  then show ?thesis
    using vals builder_new_fields [OF x b0]
    by (auto simp: built_from_def e8 e7 e6 e5 leaf_extensions_def unat_validity_seconds)
qed

subsection \<open>Errors\<close>

lemma config_errors:
  "key_usage ns = Inl e \<Longrightarrow> \<exists>m. e = Config m"
  "extended_key_usage d ns = Inl e \<Longrightarrow> \<exists>m. e = Config m"
  "authority_info_access d u = Inl e \<Longrightarrow> \<exists>m. e = Config m"
  "crl_distribution_points d u = Inl e \<Longrightarrow> \<exists>m. e = Config m"
  by (auto simp: key_usage_cases extended_key_usage_def eku_oid_def
      authority_info_access_def crl_distribution_points_def try_then_Inl_iff map_err_Inl_iff
      split: if_splits option.splits dest!: collect_results_Inl)

lemma san_errors: "requested_san d x csr = Inl e \<Longrightarrow> \<exists>m. e = BadRequest m"
proof -
  have ext: "san_of_extensions x exts = Inl e \<Longrightarrow> \<exists>m. e = BadRequest m" for exts
    by (auto simp: san_of_extensions_find map_err_Inl_iff bad_request_def split: option.splits)
  have "san_of_attributes d x as = Inl e \<Longrightarrow> \<exists>m. e = BadRequest m" for as
    by (induction as)
       (auto simp: try_then_Inl_iff map_err_Inl_iff bad_request_def split: if_splits list.splits option.splits
         dest: ext)
  then show "requested_san d x csr = Inl e \<Longrightarrow> \<exists>m. e = BadRequest m"
    by (simp add: requested_san_def)
qed

text \<open>One step of \<open>issue\<close>: where its error comes from.\<close>

lemma step_error:
  assumes "try_then r f = Inl e" and "r = Inl e \<Longrightarrow> P" and "\<And>y. r = Inr y \<Longrightarrow> f y = Inl e \<Longrightarrow> P"
  shows P
  using assms by (cases r) auto

lemma crypto_errors:
  "map_err der_err r = Inl e \<Longrightarrow> \<exists>m. e = Crypto m"
  "map_err bld_err r' = Inl e \<Longrightarrow> \<exists>m. e = Crypto m"
  "map_err (\<lambda>m. crypto (s @ m)) r'' = Inl e \<Longrightarrow> \<exists>m. e = Crypto m"
  "add_extension x ext b = Inl e \<Longrightarrow> \<exists>m. e = Crypto m"
  by (auto simp: map_err_Inl_iff der_err_def bld_err_def crypto_def add_extension_def)

lemma add_optional_error:
  "add_optional x f v b = Inl e \<Longrightarrow> (\<exists>m. e = Crypto m) \<or> (\<exists>a. v = Some a \<and> f a = Inl e)"
  by (auto simp: add_optional_def try_then_Inl_iff dest: crypto_errors split: option.splits)

subsection \<open>A concrete authority\<close>

definition demo_time :: time_lib where
  "demo_time =
     \<lparr>parse_rfc3339_lib = (\<lambda>s. None),
      datetime_from_system_time = (\<lambda>t. if t < 0 then Inl ''before 1970'' else Inr datetime_infinity),
      utc_time_from_date_time = (\<lambda>dt. Inr dt),
      ocsp_time_from_system_time = (\<lambda>t. if t < 0 then None else Some datetime_infinity),
      validity_from = (\<lambda>t n. Inr demo_validity)\<rparr>"

definition demo_key :: rsa_private_key where
  "demo_key = \<lparr>sk_n = 3233, sk_e = 17, sk_d = 413\<rparr>"

definition demo_ca :: certificate_authority where
  "demo_ca = ca_new ''corp'' (demo_cert [7]) demo_key"

definition demo_options :: issue_options where
  "demo_options = \<lparr>opt_validity_days = 365, opt_key_usage = [''keyEncipherment''],
     opt_extended_key_usage = [''clientAuth''], opt_ocsp_url = Some ''http://o'', opt_crl_url = None\<rparr>"

definition demo_csr :: cert_req where
  "demo_csr = \<lparr>csr_subject = [5], csr_public_key = demo_spki, csr_attributes = []\<rparr>"

lemma demo_builder_documented: "builder_documented demo_x509"
  by (simp add: builder_documented_def demo_x509_def demo_build_def built_from_def
      split: cert_profile.splits option.splits)

lemma demo_ia5_documented: "ia5_documented demo_der"
  by (simp add: ia5_documented_def demo_der_def)

lemma demo_random_serial: "random_serial demo_x509 rng = Inr (serial_bytes rng)"
  by (rule random_serial_value [OF demo_serial_documented])

lemma demo_issue:
  "issue demo_der demo_x509 demo_time 0 rng demo_ca demo_csr demo_options =
     Inr (demo_build \<lparr>bld_profile = ProfileManual (Some [1]), bld_serial = serial_bytes rng,
       bld_validity = demo_validity, bld_subject = [5], bld_spki = demo_spki, bld_signer = demo_key,
       bld_extensions = leaf_extensions {KeyEncipherment} [ID_KP_CLIENT_AUTH] [1] [2] None (Some ''http://o'') None\<rparr>)"
proof -
  have a: "random_serial demo_x509 rng = Inr (serial_bytes rng)" by (rule demo_random_serial)
  have k: "key_usage [''keyEncipherment''] = Inr {KeyEncipherment}"
    by (simp add: key_usage_def usage_flag_def)
  have e: "extended_key_usage demo_der [''clientAuth''] = Inr [ID_KP_CLIENT_AUTH]"
    by (simp add: extended_key_usage_def eku_oid_def)
  have o: "authority_info_access demo_der ''http://o'' = Inr [(ID_AD_OCSP, UniformResourceIdentifier ''http://o'')]"
    by (simp add: authority_info_access_def demo_der_def ascii_def)
  have s: "requested_san demo_der demo_x509
      \<lparr>csr_subject = [5], csr_public_key = demo_spki, csr_attributes = []\<rparr> = Inr None"
    by (simp add: requested_san_def)
  show ?thesis
    unfolding issue_def demo_options_def
    by (simp add: a k e o s Let_def demo_time_def add_extension_def add_optional_def leaf_extensions_def
        demo_ca_def ca_new_def ca_subject_def demo_cert_def demo_csr_def)
qed

subsection \<open>Properties\<close>

text \<open>
  C33: every certificate the server issues has exactly the contents it should: the fresh serial,
  the CA's subject as issuer, the subject and key of the request, a validity of exactly the
  configured number of days (the product never wraps around), and, in this order and with
  nothing else, the extensions of the leaf specification.  A request contributes its subject, its
  key and its alternative name, never any other extension.
\<close>

theorem issued_certificate_profile:
  assumes "builder_documented x" and "ia5_documented d" and "issue d x tm now rng ca csr opts = Inr c"
  shows "random_serial x rng = Inr (cert_serial_number c)
    \<and> validity_from tm now (unat (opt_validity_days opts) * 86400) = Inr (cert_validity c)
    \<and> cert_issuer c = ca_subject ca \<and> cert_subject c = csr_subject csr \<and> cert_spki c = csr_public_key csr
    \<and> (\<exists>flags eku ski aki san.
         key_usage (opt_key_usage opts) = Inr flags
         \<and> extended_key_usage d (opt_extended_key_usage opts) = Inr eku
         \<and> ski_from_spki x (csr_public_key csr) = Inr ski
         \<and> aki_from_spki x (cert_spki (ca_cert ca)) = Inr aki
         \<and> requested_san d x csr = Inr san
         \<and> cert_extensions c = leaf_extensions flags eku ski aki san (opt_ocsp_url opts) (opt_crl_url opts))"
  using issue_builds [OF assms] by blast

lemma usage_flag_signing:
  "Some KeyCertSign \<in> usage_flag ` set names \<longleftrightarrow> ''keyCertSign'' \<in> set names"
  "Some CRLSign \<in> usage_flag ` set names \<longleftrightarrow> ''cRLSign'' \<in> set names \<or> ''crlSign'' \<in> set names"
proof -
  have "Some KeyCertSign = usage_flag n \<longleftrightarrow> n = ''keyCertSign''" for n
    by (simp add: usage_flag_def)
  then show "Some KeyCertSign \<in> usage_flag ` set names \<longleftrightarrow> ''keyCertSign'' \<in> set names"
    by (auto simp only: image_iff)
  have "Some CRLSign = usage_flag n \<longleftrightarrow> n = ''cRLSign'' \<or> n = ''crlSign''" for n
    by (simp add: usage_flag_def)
  then show "Some CRLSign \<in> usage_flag ` set names \<longleftrightarrow> ''cRLSign'' \<in> set names \<or> ''crlSign'' \<in> set names"
    by (auto simp only: image_iff)
qed

lemma key_usage_flags:
  assumes "key_usage names = Inr flags"
  shows "flag \<in> flags \<longleftrightarrow> Some flag \<in> usage_flag ` set names"
proof -
  have "flags = {} \<union> Option.these (usage_flag ` set names)"
    using assms unfolding key_usage_def key_usage_loop_Inr by blast
  then show ?thesis by (simp add: in_these_eq)
qed

lemma leaf_extensions_members:
  "BasicConstraints ca_flag path \<in> set (leaf_extensions flags eku ski aki san ocsp crl) \<longleftrightarrow> \<not> ca_flag \<and> path = None"
  "KeyUsage fl \<in> set (leaf_extensions flags eku ski aki san ocsp crl) \<longleftrightarrow> fl = flags"
  by (auto simp: leaf_extensions_def split: if_splits option.splits)

lemma issued_certificate_profile_witness:
  "\<exists>c. issue demo_der demo_x509 demo_time 0 (\<lambda>i. 3) demo_ca demo_csr demo_options = Inr c
     \<and> cert_issuer c = ca_subject demo_ca \<and> cert_subject c = [5]"
  using issued_certificate_profile [OF demo_builder_documented demo_ia5_documented demo_issue [of "\<lambda>i. 3"]]
    demo_issue [of "\<lambda>i. 3"]
  by (simp add: demo_csr_def)



text \<open>
  Why issuance fails.  A client gets a bad request only for an alternative name it asked for
  itself; a configuration error only for a usage name or URL of the profile; every other failure
  is a crypto error of the certificate libraries, and the panic of the serial generator never
  happens.
\<close>

theorem issue_errors_classified:
  assumes "serial_new_documented x" and "issue d x tm now rng ca csr opts = Inl e"
  shows "(\<exists>m. e = Crypto m)
    \<or> (\<exists>m. e = Config m) \<and> (key_usage (opt_key_usage opts) = Inl e
         \<or> extended_key_usage d (opt_extended_key_usage opts) = Inl e
         \<or> (\<exists>u. opt_ocsp_url opts = Some u \<and> authority_info_access d u = Inl e)
         \<or> (\<exists>u. opt_crl_url opts = Some u \<and> crl_distribution_points d u = Inl e))
    \<or> (\<exists>m. e = BadRequest m) \<and> requested_san d x csr = Inl e"
proof -
  let ?P = "(\<exists>m. e = Crypto m)
    \<or> (\<exists>m. e = Config m) \<and> (key_usage (opt_key_usage opts) = Inl e
         \<or> extended_key_usage d (opt_extended_key_usage opts) = Inl e
         \<or> (\<exists>u. opt_ocsp_url opts = Some u \<and> authority_info_access d u = Inl e)
         \<or> (\<exists>u. opt_crl_url opts = Some u \<and> crl_distribution_points d u = Inl e))
    \<or> (\<exists>m. e = BadRequest m) \<and> requested_san d x csr = Inl e"
  have crypto: "\<exists>m. e = Crypto m \<Longrightarrow> ?P" by blast
  have serial: "map_err Other (random_serial x rng) = Inl e \<Longrightarrow> ?P"
    using random_serial_value [OF assms(1)] by simp
  have ku: "key_usage (opt_key_usage opts) = Inl e \<Longrightarrow> ?P"
    using config_errors(1) by blast
  have eku: "extended_key_usage d (opt_extended_key_usage opts) = Inl e \<Longrightarrow> ?P"
    using config_errors(2) by blast
  have eku_add: "(if eku \<noteq> [] then add_extension x (ExtendedKeyUsage eku) b else Inr b) = Inl e \<Longrightarrow> ?P" for eku b
    using crypto_errors(4) by (auto split: if_splits)
  have san: "requested_san d x csr = Inl e \<Longrightarrow> ?P"
    using san_errors by blast
  have san_add: "add_optional x (\<lambda>n. Inr (SubjectAltName n)) san b = Inl e \<Longrightarrow> ?P" for san b
    by (drule add_optional_error) auto
  have aia: "add_optional x (\<lambda>u. map_ok AuthorityInfoAccess (authority_info_access d u)) (opt_ocsp_url opts) b = Inl e \<Longrightarrow> ?P" for b
    by (drule add_optional_error) (auto dest: config_errors(3))
  have crl: "add_optional x (\<lambda>u. map_ok CrlDistributionPoints (crl_distribution_points d u)) (opt_crl_url opts) b = Inl e \<Longrightarrow> ?P" for b
    by (drule add_optional_error) (auto dest: config_errors(4))
  note crypto_steps = crypto [OF crypto_errors(1)] crypto [OF crypto_errors(2)]
    crypto [OF crypto_errors(3)] crypto [OF crypto_errors(4)]
  show ?thesis
    using assms(2) unfolding issue_def Let_def
    by (elim step_error) (erule serial ku eku eku_add san san_add aia crl crypto_steps)+
qed

lemma issue_errors_classified_witness:
  "\<exists>e. issue demo_der demo_x509 demo_time 0 (\<lambda>i. 3) demo_ca demo_csr
         (demo_options\<lparr>opt_key_usage := [''telepathy'']\<rparr>) = Inl e \<and> (\<exists>m. e = Config m)"
proof -
  have k: "key_usage [''telepathy''] = Inl (Config (''unknown key usage '' @ quoted ''telepathy''))"
    by (simp add: key_usage_def usage_flag_def)
  have i: "issue demo_der demo_x509 demo_time 0 (\<lambda>i. 3) demo_ca demo_csr
      (demo_options\<lparr>opt_key_usage := [''telepathy'']\<rparr>) = Inl (Config (''unknown key usage '' @ quoted ''telepathy''))"
    unfolding issue_def demo_options_def
    by (simp add: k demo_random_serial Let_def demo_time_def add_extension_def)
  have "requested_san demo_der demo_x509 demo_csr = Inr None"
    by (simp add: requested_san_def demo_csr_def)
  then show ?thesis
    using issue_errors_classified [OF demo_serial_documented i] i by simp
qed

text \<open>
  A bootstrapped CA is consistent: it issues under its own subject, which is the configured
  common name, its certificate holds the public half of the very key it signs and decrypts with,
  and its serial is a fresh positive one.
\<close>

theorem generated_ca_is_consistent:
  assumes "builder_documented x" and "serial_new_documented x"
    and "generate_self_signed r x tm now key_rng serial_rng i common_name bits = Inr ca"
  shows "ca_id ca = i \<and> ca_signing_key ca = ca_private_key ca
    \<and> rsa_generate r key_rng bits = Inr (ca_private_key ca)
    \<and> rsa_spki_from_key r (to_public_key (ca_private_key ca)) = Inr (cert_spki (ca_cert ca))
    \<and> name_from_str x (''CN='' @ common_name) = Inr (ca_subject ca)
    \<and> cert_issuer (ca_cert ca) = ca_subject ca
    \<and> cert_serial_number (ca_cert ca) = serial_bytes serial_rng
    \<and> validity_from tm now 315360000 = Inr (cert_validity (ca_cert ca))"
proof -
  from assms(3) obtain k su v sp b c
    where k: "rsa_generate r key_rng bits = Inr k" and su: "name_from_str x (''CN='' @ common_name) = Inr su"
      and v: "validity_from tm now (3650 * 86400) = Inr v"
      and sp: "rsa_spki_from_key r (to_public_key k) = Inr sp"
      and b: "builder_new x ProfileRoot (serial_bytes serial_rng) v su sp k = Inr b"
      and c: "builder_build x b = Inr c"
      and ca: "ca = \<lparr>ca_id = i, ca_cert = c, ca_signing_key = k, ca_private_key = k\<rparr>"
    unfolding generate_self_signed_def Let_def try_then_Inr_iff map_err_Inr_iff
      random_serial_value [OF assms(2)] sum.inject by blast
  have "built_from b c" by (rule build_fields [OF assms(1) c])
  with builder_new_fields [OF assms(1) b] show ?thesis
    using k su v sp by (simp add: ca built_from_def ca_subject_def)
qed

definition demo_rsa :: rsa_lib where
  "demo_rsa =
     \<lparr>rsa_generate = (\<lambda>rng bits. Inr demo_key),
      rsa_encrypt = (\<lambda>rng k m. if length m \<le> 32 then Inr m else Inl ''message too long''),
      rsa_decrypt = (\<lambda>k c. if length c \<le> 32 then Inr c else Inl ''decryption error''),
      rsa_d_bytes_be = (\<lambda>k. [1, 157]),
      rsa_signature_parse = (\<lambda>b. Inr b),
      rsa_verify_sha256 = (\<lambda>k m s. s = m),
      rsa_verify_sha1 = (\<lambda>k m s. s = m),
      rsa_try_sign = (\<lambda>k m. Inr m),
      rsa_signature_bitstring = (\<lambda>b. Inr b),
      rsa_signature_algorithm = (\<lambda>k. Inr \<lparr>alg_oid = ''1.2.840.113549.1.1.11'', alg_parameters = None\<rparr>),
      rsa_public_from_pkcs1 = (\<lambda>b. if b = [1, 2, 3] then Inr (to_public_key demo_key) else Inl ''not a key''),
      rsa_private_from_pkcs8 = (\<lambda>b. if b = [8] then Inr demo_key else Inl ''not PKCS#8''),
      rsa_private_from_pkcs1 = (\<lambda>b. if b = [1] then Inr demo_key else Inl ''not PKCS#1''),
      encrypted_key_from_der = (\<lambda>b. Inr b),
      encrypted_key_decrypt = (\<lambda>b p. if p = [112] then Inr b else Inl ''bad password''),
      rsa_private_to_pkcs8_pem = (\<lambda>k. Inr ''PEM''),
      rsa_spki_from_key = (\<lambda>k. Inr demo_spki)\<rparr>"

lemma generated_ca_is_consistent_witness:
  "\<exists>ca. generate_self_signed demo_rsa demo_x509 demo_time 0 (\<lambda>i. 3) (\<lambda>i. 4) ''corp'' ''Root'' 2048 = Inr ca
     \<and> cert_issuer (ca_cert ca) = ca_subject ca"
proof -
  have "\<exists>ca. generate_self_signed demo_rsa demo_x509 demo_time 0 (\<lambda>i. 3) (\<lambda>i. 4) ''corp'' ''Root'' 2048 = Inr ca"
    unfolding generate_self_signed_def
    by (simp add: demo_random_serial Let_def demo_time_def demo_rsa_def)
  then obtain ca where
    "generate_self_signed demo_rsa demo_x509 demo_time 0 (\<lambda>i. 3) (\<lambda>i. 4) ''corp'' ''Root'' 2048 = Inr ca" ..
  with generated_ca_is_consistent [OF demo_builder_documented demo_serial_documented this] show ?thesis
    by blast
qed

end
