(* ===== verification/Keystore.thy ===== *)
theory Keystore
  imports Authority
begin

text \<open>
  \<open>ca/keystore.rs\<close>: where a CA's certificate and key come from.  The file system is the
  parameter \<open>read_file\<close> (\<open>std::fs::read\<close>), base64 the parameter \<open>co\<close>, the certificate and
  key decoders \<open>x\<close> and \<open>r\<close>.
\<close>

record file_key_store =
  fks_path :: string
  fks_password :: "string option"

record inline_key_store =
  iks_cert :: bytes
  iks_key :: bytes
  iks_password :: "string option"

text \<open>One header line of a PEM block: the label between the dashes.\<close>

definition pem_label :: "string \<Rightarrow> string option" where
  "pem_label line =
     (case strip_prefix ''-----BEGIN '' (trim line) of
        None \<Rightarrow> None | Some s \<Rightarrow> strip_suffix ''-----'' s)"

text \<open>The inner loop: the body up to the end line, and the lines after it.\<close>

fun pem_body :: "string list \<Rightarrow> string \<times> string list" where
  "pem_body [] = ([], [])"
| "pem_body (l # ls) =
     (if starts_with (trim l) ''-----END '' then ([], ls)
      else let (b64, rest) = pem_body ls in (trim l @ b64, rest))"

lemma length_pem_body: "length (snd (pem_body ls)) \<le> length ls"
  by (induction ls) (auto simp: case_prod_beta Let_def)

function pem_lines :: "codec_lib \<Rightarrow> string list \<Rightarrow> (string \<times> bytes) list" where
  "pem_lines co [] = []"
| "pem_lines co (line # ls) =
     (case pem_label line of
        None \<Rightarrow> pem_lines co ls
      | Some label \<Rightarrow>
          (case base64_decode co (as_bytes (fst (pem_body ls))) of
             Inr der \<Rightarrow> (label, der) # pem_lines co (snd (pem_body ls))
           | Inl _ \<Rightarrow> pem_lines co (snd (pem_body ls))))"
  by pat_completeness auto
termination
  by (relation "measure (\<lambda>(co, ls). length ls)") (auto simp: le_imp_less_Suc length_pem_body)

definition pem_blocks :: "codec_lib \<Rightarrow> string \<Rightarrow> (string \<times> bytes) list" where
  "pem_blocks co t = pem_lines co (lines t)"

definition as_pem_blocks :: "codec_lib \<Rightarrow> bytes \<Rightarrow> (string \<times> bytes) list option" where
  "as_pem_blocks co bs =
     (case from_utf8 bs of
        None \<Rightarrow> None
      | Some t \<Rightarrow> if \<not> contains ''-----BEGIN '' t then None else Some (pem_blocks co t))"

definition parse_certificate :: "codec_lib \<Rightarrow> x509_lib \<Rightarrow> bytes \<Rightarrow> certificate app_result" where
  "parse_certificate co x bs =
     (case as_pem_blocks co bs of
        Some blocks \<Rightarrow>
          try_then (ok_or (Config ''no CERTIFICATE block in CA cert material'')
                     (map_option snd (find (\<lambda>(label, _). label = ''CERTIFICATE'') blocks)))
            (\<lambda>der. map_err (\<lambda>e. Config (''bad CA certificate: '' @ e)) (cert_from_der x der))
      | None \<Rightarrow> map_err (\<lambda>e. Config (''bad CA certificate DER: '' @ e)) (cert_from_der x bs))"

definition decrypt_pkcs8 :: "rsa_lib \<Rightarrow> bytes \<Rightarrow> string option \<Rightarrow> rsa_private_key app_result" where
  "decrypt_pkcs8 r der password =
     try_then (ok_or (Config ''CA key is encrypted but no password given'') password) (\<lambda>password.
     try_then (map_err (\<lambda>e. Config (''bad encrypted key: '' @ e)) (encrypted_key_from_der r der)) (\<lambda>epki.
     try_then (map_err (\<lambda>e. Config (''CA key decryption failed: '' @ e))
                (encrypted_key_decrypt r epki (as_bytes password))) (\<lambda>secret.
     map_err (\<lambda>e. Config (''decrypted key is not RSA PKCS#8: '' @ e)) (rsa_private_from_pkcs8 r secret))))"

definition load_key_block ::
  "rsa_lib \<Rightarrow> string option \<Rightarrow> string \<Rightarrow> bytes \<Rightarrow> rsa_private_key app_result option" where
  "load_key_block r password label der =
     (if label = ''PRIVATE KEY''
      then Some (map_err (\<lambda>e. Config (''bad PKCS#8 key: '' @ e)) (rsa_private_from_pkcs8 r der))
      else if label = ''RSA PRIVATE KEY''
      then Some (map_err (\<lambda>e. Config (''bad PKCS#1 key: '' @ e)) (rsa_private_from_pkcs1 r der))
      else if label = ''ENCRYPTED PRIVATE KEY'' then Some (decrypt_pkcs8 r der password)
      else None)"

definition key_from_der :: "rsa_lib \<Rightarrow> bytes \<Rightarrow> string option \<Rightarrow> rsa_private_key app_result" where
  "key_from_der r der password =
     (case rsa_private_from_pkcs8 r der of
        Inr key \<Rightarrow> Inr key
      | Inl _ \<Rightarrow>
          (case rsa_private_from_pkcs1 r der of
             Inr key \<Rightarrow> Inr key
           | Inl _ \<Rightarrow>
               if is_ok (encrypted_key_from_der r der) then decrypt_pkcs8 r der password
               else Inl (Config ''CA key DER is not a recognised RSA key (PKCS#8/PKCS#1)'')))"

text \<open>\<open>Iterator::find_map\<close>\<close>

fun find_map :: "('a \<Rightarrow> 'b option) \<Rightarrow> 'a list \<Rightarrow> 'b option" where
  "find_map f [] = None"
| "find_map f (x # xs) = (case f x of None \<Rightarrow> find_map f xs | Some y \<Rightarrow> Some y)"

definition parse_private_key ::
  "codec_lib \<Rightarrow> rsa_lib \<Rightarrow> bytes \<Rightarrow> string option \<Rightarrow> rsa_private_key app_result" where
  "parse_private_key co r bs password =
     (case as_pem_blocks co bs of
        Some blocks \<Rightarrow>
          (case find_map (\<lambda>(label, der). load_key_block r password label der) blocks of
             Some res \<Rightarrow> res
           | None \<Rightarrow> Inl (Config ''no private key block in CA key material''))
      | None \<Rightarrow> key_from_der r bs password)"

definition file_load ::
  "(string \<Rightarrow> string + bytes) \<Rightarrow> codec_lib \<Rightarrow> x509_lib \<Rightarrow> rsa_lib \<Rightarrow> file_key_store \<Rightarrow>
     (certificate \<times> rsa_private_key) app_result" where
  "file_load read_file co x r s =
     try_then (map_err (\<lambda>e. Config (''cannot read CA key file '' @ fks_path s @ '': '' @ e))
                (read_file (fks_path s))) (\<lambda>bytes.
     try_then (parse_certificate co x bytes) (\<lambda>cert.
     try_then (parse_private_key co r bytes (fks_password s)) (\<lambda>key.
     Inr (cert, key))))"

definition material_to_bytes :: "codec_lib \<Rightarrow> string \<Rightarrow> string \<Rightarrow> bytes app_result" where
  "material_to_bytes co val what =
     (if starts_with (trim_start val) ''-----BEGIN'' then Inr (as_bytes val)
      else let cleaned = remove_ws val
           in map_err (\<lambda>e. Config (what @ '' is neither PEM nor valid base64: '' @ e))
                (base64_decode co (as_bytes cleaned)))"

definition from_material ::
  "codec_lib \<Rightarrow> string \<Rightarrow> string \<Rightarrow> string option \<Rightarrow> inline_key_store app_result" where
  "from_material co cert key password =
     try_then (material_to_bytes co cert ''CA certificate'') (\<lambda>c.
     try_then (material_to_bytes co key ''CA key'') (\<lambda>k.
     Inr \<lparr>iks_cert = c, iks_key = k, iks_password = password\<rparr>))"

definition inline_load ::
  "codec_lib \<Rightarrow> x509_lib \<Rightarrow> rsa_lib \<Rightarrow> inline_key_store \<Rightarrow> (certificate \<times> rsa_private_key) app_result" where
  "inline_load co x r s =
     try_then (parse_certificate co x (iks_cert s)) (\<lambda>cert.
     try_then (parse_private_key co r (iks_key s) (iks_password s)) (\<lambda>key.
     Inr (cert, key)))"

subsection \<open>Errors\<close>

lemma decrypt_pkcs8_error: "decrypt_pkcs8 r der pw = Inl e \<Longrightarrow> \<exists>m. e = Config m"
  by (auto simp: decrypt_pkcs8_def try_then_Inl_iff map_err_Inl_iff)

lemma parse_certificate_error: "parse_certificate co x bs = Inl e \<Longrightarrow> \<exists>m. e = Config m"
  by (auto simp: parse_certificate_def try_then_Inl_iff map_err_Inl_iff split: option.splits)

lemma load_key_block_error: "load_key_block r pw l der = Some (Inl e) \<Longrightarrow> \<exists>m. e = Config m"
  unfolding load_key_block_def
  by (auto simp: map_err_Inl_iff dest: decrypt_pkcs8_error split: if_splits simp del: list.inject char.inject)

lemma find_map_Some: "find_map f xs = Some y \<Longrightarrow> \<exists>x\<in>set xs. f x = Some y"
  by (induction xs) (auto split: option.splits)

lemma parse_private_key_error: "parse_private_key co r bs pw = Inl e \<Longrightarrow> \<exists>m. e = Config m"
  by (auto simp: parse_private_key_def key_from_der_def dest!: find_map_Some
      dest: load_key_block_error decrypt_pkcs8_error split: option.splits sum.splits if_splits)

subsection \<open>The interface of a key store\<close>

text \<open>
  The trait \<open>KeyStore\<close> as a contract: a store knows its certificate and key material and its
  password; when the material can be read, loading parses both, the certificate first, and when
  it cannot, loading is a configuration error.
\<close>

locale key_store =
  fixes load :: "'s \<Rightarrow> (certificate \<times> rsa_private_key) app_result"
    and material :: "'s \<Rightarrow> (bytes \<times> bytes) option"
    and password :: "'s \<Rightarrow> string option"
    and co :: codec_lib and x :: x509_lib and r :: rsa_lib
  assumes load_parses: "material s = Some (c, k) \<Longrightarrow>
      load s = try_then (parse_certificate co x c) (\<lambda>cert.
               try_then (parse_private_key co r k (password s)) (\<lambda>key. Inr (cert, key)))"
    and load_unreadable: "material s = None \<Longrightarrow> \<exists>m. load s = Inl (Config m)"
begin

lemma load_Inr:
  "load s = Inr (cert, key) \<longleftrightarrow>
     (\<exists>c k. material s = Some (c, k) \<and> parse_certificate co x c = Inr cert
        \<and> parse_private_key co r k (password s) = Inr key)"
proof (cases "material s")
  case None
  with load_unreadable [OF None] show ?thesis by auto
next
  case (Some m)
  then show ?thesis by (cases m) (auto simp: load_parses try_then_Inr_iff)
qed

lemma load_error: "load s = Inl e \<Longrightarrow> \<exists>m. e = Config m"
proof (cases "material s")
  case None
  assume "load s = Inl e"
  with load_unreadable [OF None] show ?thesis by auto
next
  case (Some m)
  assume "load s = Inl e"
  with Some show ?thesis
    by (cases m) (auto simp: load_parses try_then_Inl_iff dest: parse_certificate_error parse_private_key_error)
qed

lemma load_determined:
  "material s = Some m \<Longrightarrow> material t = Some m \<Longrightarrow> password s = password t \<Longrightarrow> load s = load t"
  by (cases m) (simp add: load_parses)

end

definition file_material :: "(string \<Rightarrow> string + bytes) \<Rightarrow> file_key_store \<Rightarrow> (bytes \<times> bytes) option" where
  "file_material read_file s = map_option (\<lambda>b. (b, b)) (to_option (read_file (fks_path s)))"

definition inline_material_of :: "inline_key_store \<Rightarrow> (bytes \<times> bytes) option" where
  "inline_material_of s = Some (iks_cert s, iks_key s)"

interpretation file_store: key_store "file_load read_file co x r" "file_material read_file" fks_password co x r
  for read_file co x r
proof unfold_locales
  fix s c k
  assume "file_material read_file s = Some (c, k)"
  then show "file_load read_file co x r s =
      try_then (parse_certificate co x c) (\<lambda>cert.
      try_then (parse_private_key co r k (fks_password s)) (\<lambda>key. Inr (cert, key)))"
    by (auto simp: file_material_def file_load_def)
next
  fix s
  assume "file_material read_file s = None"
  then show "\<exists>m. file_load read_file co x r s = Inl (Config m)"
    by (auto simp: file_material_def file_load_def to_option_None_iff)
qed

interpretation inline_store: key_store "inline_load co x r" inline_material_of iks_password co x r
  for co x r
  by unfold_locales (auto simp: inline_load_def inline_material_of_def)

subsection \<open>Writing PEM\<close>

text \<open>
  A PEM block as a writer produces it: the header, the base64 text of the contents broken into
  lines in any way, the footer, each ended by LF or CR LF.
\<close>

definition pem_text :: "string \<Rightarrow> string \<Rightarrow> string list \<Rightarrow> string list" where
  "pem_text label eol body =
     map (\<lambda>l. l @ eol) ([''-----BEGIN '' @ label @ ''-----''] @ body @ [''-----END '' @ label @ ''-----''])"

fun render_pem :: "string \<Rightarrow> (string \<times> string list) list \<Rightarrow> string" where
  "render_pem eol [] = []"
| "render_pem eol ((label, body) # blocks) = concat (pem_text label eol body) @ render_pem eol blocks"

definition printable :: "char \<Rightarrow> bool" where
  "printable c \<longleftrightarrow> 32 \<le> (of_char c :: nat) \<and> (of_char c :: nat) < 127"

definition base64_line :: "string \<Rightarrow> bool" where
  "base64_line l \<longleftrightarrow> list_all (\<lambda>c. graphic c \<and> c \<noteq> CHR ''-'') l"

definition line_end :: "string \<Rightarrow> bool" where
  "line_end eol \<longleftrightarrow> eol = [CHR 0x0A] \<or> eol = [CHR 0x0D, CHR 0x0A]"

lemma not_printable: "\<not> printable (CHR 0x0A)" "\<not> printable (CHR 0x0D)"
  by (simp_all add: printable_def)

lemma printable_not_newline: "list_all printable l \<Longrightarrow> CHR 0x0A \<notin> set l \<and> CHR 0x0D \<notin> set l"
  using not_printable by (auto simp only: list_all_iff)

lemma graphic_printable: "graphic c \<Longrightarrow> printable c"
  by (simp add: graphic_def printable_def)

lemma base64_line_printable: "base64_line l \<Longrightarrow> list_all printable l"
  unfolding base64_line_def by (erule list.pred_mono_strong) (blast intro: graphic_printable)

lemma printable_ascii: "list_all printable l \<Longrightarrow> ascii l"
  unfolding ascii_def by (erule list.pred_mono_strong) (simp add: printable_def)

lemma lines_printable:
  assumes "list_all printable l" and "line_end eol"
  shows "lines (l @ eol @ s) = l # lines s"
proof -
  note no = printable_not_newline [OF assms(1)]
  have "last l \<noteq> CHR 0x0D" if "l \<noteq> []"
    using no last_in_set [OF that] by auto
  then have "strip_cr l = l" by (auto simp: strip_cr_def)
  moreover have "strip_cr (l @ [CHR 0x0D]) = l" by (simp add: strip_cr_def)
  ultimately show ?thesis
    using assms(2) no lines_line [of l s] lines_line [of "l @ [CHR 0x0D]" s]
    by (auto simp: line_end_def)
qed

lemma lines_render:
  assumes "list_all (list_all printable) ls" and "line_end eol"
  shows "lines (concat (map (\<lambda>l. l @ eol) ls) @ s) = ls @ lines s"
  using assms(1) by (induction ls) (simp_all add: lines_printable [OF _ assms(2)])

lemma graphic_dash: "graphic (CHR ''-'')"
  by (simp add: graphic_def)

lemma pem_label_header: "pem_label (''-----BEGIN '' @ label @ ''-----'') = Some label"
proof -
  let ?l = "''-----BEGIN '' @ label @ ''-----''"
  have "trim ?l = ?l"
    by (rule trim_graphic) (simp_all add: graphic_dash)
  then have "pem_label ?l = strip_suffix ''-----'' (label @ ''-----'')"
    unfolding pem_label_def by (simp only: strip_prefix_append option.case)
  then show ?thesis by (simp only: strip_suffix_append)
qed

lemma base64_line_trim: "base64_line l \<Longrightarrow> trim l = l"
  unfolding base64_line_def by (rule trim_all_graphic, erule list.pred_mono_strong) blast

lemma base64_line_no_footer: "base64_line l \<Longrightarrow> \<not> starts_with l ''-----END ''"
proof
  assume "base64_line l" and "starts_with l ''-----END ''"
  then obtain t where "l = CHR ''-'' # t" by (auto simp: starts_with_def prefix_def)
  with \<open>base64_line l\<close> show False by (simp add: base64_line_def)
qed

lemma footer_found: "starts_with (trim (''-----END '' @ label @ ''-----'')) ''-----END ''"
proof -
  have "trim (''-----END '' @ label @ ''-----'') = ''-----END '' @ label @ ''-----''"
    by (rule trim_graphic) (simp_all add: graphic_dash)
  then show ?thesis by (simp only: starts_with_append)
qed

lemma pem_body_until:
  assumes "list_all base64_line body" and "starts_with (trim footer) ''-----END ''"
  shows "pem_body (body @ footer # rest) = (concat body, rest)"
  using assms(1)
proof (induction body)
  case Nil
  show ?case unfolding append_Nil pem_body.simps by (simp only: assms(2) if_True concat.simps)
next
  case (Cons l body)
  then show ?case by (simp add: base64_line_no_footer base64_line_trim)
qed

lemma pem_lines_block:
  assumes "list_all base64_line body"
  shows "pem_lines co ((''-----BEGIN '' @ label @ ''-----'') # body @ (''-----END '' @ label @ ''-----'') # rest) =
    (case base64_decode co (as_bytes (concat body)) of
       Inr der \<Rightarrow> (label, der) # pem_lines co rest | Inl e \<Rightarrow> pem_lines co rest)"
  unfolding pem_lines.simps pem_label_header pem_body_until [OF assms footer_found] option.case fst_conv snd_conv ..

lemma pem_lines_nil_line [simp]: "pem_lines co [] = []"
  by simp

text \<open>What a reader should find in rendered blocks: the decodable ones.\<close>

definition decoded_blocks :: "codec_lib \<Rightarrow> (string \<times> string list) list \<Rightarrow> (string \<times> bytes) list" where
  "decoded_blocks co blocks =
     List.map_filter (\<lambda>(label, body).
       map_option (Pair label) (to_option (base64_decode co (as_bytes (concat body))))) blocks"

definition pem_block_ok :: "string \<times> string list \<Rightarrow> bool" where
  "pem_block_ok b \<longleftrightarrow> list_all printable (fst b) \<and> list_all base64_line (snd b)"

lemma pem_blocks_render:
  assumes "list_all pem_block_ok blocks" and "line_end eol"
  shows "pem_lines co (lines (render_pem eol blocks)) = decoded_blocks co blocks"
  using assms(1)
proof (induction blocks)
  case Nil
  then show ?case by (simp add: decoded_blocks_def map_filter_simps)
next
  case (Cons b blocks)
  obtain label body where b: "b = (label, body)" by force
  with Cons have ok: "list_all printable label" "list_all base64_line body" by (simp_all add: pem_block_ok_def)
  let ?ls = "[''-----BEGIN '' @ label @ ''-----''] @ body @ [''-----END '' @ label @ ''-----'']"
  have "list_all (list_all printable) ?ls"
    using ok base64_line_printable by (auto simp: list_all_iff printable_def)
  then have "lines (concat (map (\<lambda>l. l @ eol) ?ls) @ render_pem eol blocks) = ?ls @ lines (render_pem eol blocks)"
    by (rule lines_render [OF _ assms(2)])
  then have l: "lines (render_pem eol (b # blocks)) = ?ls @ lines (render_pem eol blocks)"
    by (simp only: b render_pem.simps pem_text_def)
  have "pem_lines co (lines (render_pem eol (b # blocks))) =
    (case base64_decode co (as_bytes (concat body)) of
       Inr der \<Rightarrow> (label, der) # pem_lines co (lines (render_pem eol blocks))
     | Inl e \<Rightarrow> pem_lines co (lines (render_pem eol blocks)))"
    unfolding l append_assoc append.simps(1) append_Cons by (rule pem_lines_block [OF ok(2), unfolded append.simps])
  with Cons show ?case
    by (simp add: decoded_blocks_def b map_filter_simps split: sum.splits)
qed

lemma ascii_append [simp]: "ascii (s @ t) \<longleftrightarrow> ascii s \<and> ascii t"
  by (simp add: ascii_def)

lemma ascii_concat: "list_all ascii ls \<Longrightarrow> ascii (concat ls)"
  by (induction ls) (simp_all add: ascii_def)

lemma ascii_render:
  assumes "list_all pem_block_ok blocks" and "line_end eol"
  shows "ascii (render_pem eol blocks)"
  using assms(1)
proof (induction blocks)
  case Nil
  then show ?case by (simp add: ascii_def)
next
  case (Cons b blocks)
  obtain label body where b: "b = (label, body)" by force
  with Cons have "ascii label" "list_all (list_all printable) body"
    by (auto simp: pem_block_ok_def printable_ascii list_all_iff dest: base64_line_printable [unfolded list_all_iff])
  moreover have "ascii eol" using assms(2) by (auto simp: line_end_def ascii_def)
  moreover have "ascii ''-----BEGIN ''" "ascii ''-----''" "ascii ''-----END ''"
    by (simp_all add: ascii_def)
  ultimately have "list_all ascii (pem_text label eol body)"
    by (auto simp: pem_text_def list_all_iff intro: printable_ascii [unfolded list_all_iff]
        simp del: append.simps(2))
  with Cons b show ?case by (simp add: ascii_concat)
qed

lemma contains_render: "blocks \<noteq> [] \<Longrightarrow> contains ''-----BEGIN '' (render_pem eol blocks)"
proof (cases blocks)
  case (Cons b bs)
  obtain label body where b: "b = (label, body)" by force
  have "render_pem eol blocks = ''-----BEGIN '' @ (label @ ''-----'' @ eol
      @ concat (map (\<lambda>l. l @ eol) (body @ [''-----END '' @ label @ ''-----''])) @ render_pem eol bs)"
    by (simp add: Cons b pem_text_def)
  then show ?thesis by (metis contains_append)
qed simp

lemma as_pem_blocks_render:
  assumes "list_all pem_block_ok blocks" and "line_end eol" and "blocks \<noteq> []"
  shows "as_pem_blocks co (as_bytes (render_pem eol blocks)) = Some (decoded_blocks co blocks)"
  using assms contains_render [OF assms(3), of eol]
  by (simp add: as_pem_blocks_def from_utf8_ascii ascii_render pem_blocks_def pem_blocks_render
      del: contains.simps)

definition key_label :: "string \<Rightarrow> bool" where
  "key_label l \<longleftrightarrow> l = ''PRIVATE KEY'' \<or> l = ''RSA PRIVATE KEY'' \<or> l = ''ENCRYPTED PRIVATE KEY''"

lemma load_key_block_None: "load_key_block r pw l der = None \<longleftrightarrow> \<not> key_label l"
  unfolding load_key_block_def key_label_def by (simp del: list.inject char.inject)

lemma find_map_first_key:
  assumes "list_all (\<lambda>(l, _). \<not> key_label l) pre" and "key_label l"
  shows "find_map (\<lambda>(l, der). load_key_block r pw l der) (pre @ (l, k) # post) = load_key_block r pw l k"
  using assms(1)
proof (induction pre)
  case Nil
  then show ?case
    using assms(2) load_key_block_None [of r pw l k] by (auto split: option.splits)
next
  case (Cons b pre)
  then show ?case
    using load_key_block_None [of r pw "fst b" "snd b"] by (cases b) simp
qed

lemma find_first_cert:
  "list_all (\<lambda>(l, _). l \<noteq> ''CERTIFICATE'') pre \<Longrightarrow>
     find (\<lambda>(l, _). l = ''CERTIFICATE'') (pre @ (''CERTIFICATE'', c) # post) = Some (''CERTIFICATE'', c)"
  by (induction pre) (auto simp del: list.inject char.inject)

lemma bundle_loads:
  assumes ok: "list_all pem_block_ok blocks" "line_end eol"
    and cert: "decoded_blocks co blocks = pre @ (''CERTIFICATE'', c) # post"
      "list_all (\<lambda>(l, _). l \<noteq> ''CERTIFICATE'') pre" "cert_from_der x c = Inr ca_certificate"
    and key: "decoded_blocks co blocks = pre' @ (label, k) # post'"
      "list_all (\<lambda>(l, _). \<not> key_label l) pre'" "load_key_block r (fks_password s) label k = Some (Inr ca_key)"
    and reads: "read_file (fks_path s) = Inr (as_bytes (render_pem eol blocks))"
  shows "file_load read_file co x r s = Inr (ca_certificate, ca_key)"
proof -
  have "blocks \<noteq> []" using cert(1) by (auto simp: decoded_blocks_def map_filter_simps)
  note blocks = as_pem_blocks_render [OF ok this, of co]
  have "key_label label" using load_key_block_None key(3) by (metis option.distinct(1))
  note first_key = find_map_first_key [OF key(2) this, of r "fks_password s" k post']
  have "parse_certificate co x (as_bytes (render_pem eol blocks)) = Inr ca_certificate"
    unfolding parse_certificate_def blocks option.case cert(1) find_first_cert [OF cert(2)]
    by (simp add: cert(3))
  moreover have "parse_private_key co r (as_bytes (render_pem eol blocks)) (fks_password s) = Inr ca_key"
    unfolding parse_private_key_def blocks option.case key(1) first_key
    by (simp add: key(3))
  ultimately show ?thesis
    using reads by (auto simp: file_store.load_Inr file_material_def)
qed

subsection \<open>A concrete codec\<close>

definition demo_pem_codec :: codec_lib where
  "demo_pem_codec =
     \<lparr>base64_encode = text_of,
      base64_decode = (\<lambda>b. if CHR ''!'' \<in> set (text_of b) then Inl ''Invalid symbol'' else Inr b),
      hex_encode = text_of, hex_encode_upper = text_of,
      hex_decode = (\<lambda>s. Inr (as_bytes s))\<rparr>"

subsection \<open>Properties\<close>



text \<open>
  A key store loads a PEM bundle: the first certificate and the first block that is a private
  key of any of the three kinds, in either order and among any other blocks.
\<close>

theorem pem_bundle_loads:
  assumes ok: "list_all pem_block_ok blocks" "line_end eol"
    and cert: "decoded_blocks co blocks = pre @ (''CERTIFICATE'', c) # post"
      "list_all (\<lambda>(l, _). l \<noteq> ''CERTIFICATE'') pre" "cert_from_der x c = Inr ca_certificate"
    and key: "decoded_blocks co blocks = pre' @ (label, k) # post'"
      "list_all (\<lambda>(l, _). \<not> key_label l) pre'" "load_key_block r (fks_password s) label k = Some (Inr ca_key)"
    and reads: "read_file (fks_path s) = Inr (as_bytes (render_pem eol blocks))"
  shows "file_load read_file co x r s = Inr (ca_certificate, ca_key)"
  using assms by (rule bundle_loads)

definition demo_bundle :: "(string \<times> string list) list" where
  "demo_bundle = [(''NOTE'', [''!'']), (''ENCRYPTED PRIVATE KEY'', [''k'']), (''CERTIFICATE'', [''c''])]"

lemma demo_bundle_blocks:
  "decoded_blocks demo_pem_codec demo_bundle
     = [(''ENCRYPTED PRIVATE KEY'', as_bytes ''k''), (''CERTIFICATE'', as_bytes ''c'')]"
  by (simp add: demo_bundle_def decoded_blocks_def map_filter_simps demo_pem_codec_def del: as_bytes_simps)

lemma demo_bundle_ok: "list_all pem_block_ok demo_bundle" "line_end [CHR 0x0A]" "demo_bundle \<noteq> []"
  by (simp_all add: demo_bundle_def pem_block_ok_def printable_def base64_line_def graphic_def line_end_def)

definition demo_x509_certs :: x509_lib where
  "demo_x509_certs = demo_x509\<lparr>cert_from_der := \<lambda>b. Inr (demo_cert b)\<rparr>"

definition demo_rsa_keys :: rsa_lib where
  "demo_rsa_keys = demo_rsa\<lparr>rsa_private_from_pkcs8 := \<lambda>b. Inr demo_key,
     encrypted_key_decrypt := \<lambda>b p. if text_of p = ''pw'' then Inr b else Inl ''bad password''\<rparr>"

definition demo_store :: file_key_store where
  "demo_store = \<lparr>fks_path = ''ca.pem'', fks_password = Some ''pw''\<rparr>"

lemma demo_decrypt:
  "load_key_block demo_rsa_keys (Some ''pw'') ''ENCRYPTED PRIVATE KEY'' (as_bytes ''k'') = Some (Inr demo_key)"
proof -
  have "decrypt_pkcs8 demo_rsa_keys (as_bytes ''k'') (Some ''pw'') = Inr demo_key"
    unfolding decrypt_pkcs8_def
    by (simp add: demo_rsa_keys_def demo_rsa_def del: as_bytes_simps(2))
  then show ?thesis by (simp add: load_key_block_def)
qed

lemma pem_bundle_loads_witness:
  "file_load (\<lambda>p. Inr (as_bytes (render_pem [CHR 0x0A] demo_bundle))) demo_pem_codec demo_x509_certs
     demo_rsa_keys demo_store = Inr (demo_cert (as_bytes ''c''), demo_key)"
proof (rule pem_bundle_loads [OF demo_bundle_ok(1,2)])
  show "decoded_blocks demo_pem_codec demo_bundle =
      [(''ENCRYPTED PRIVATE KEY'', as_bytes ''k'')] @ (''CERTIFICATE'', as_bytes ''c'') # []"
    by (simp only: demo_bundle_blocks append.simps)
  show "decoded_blocks demo_pem_codec demo_bundle =
      [] @ (''ENCRYPTED PRIVATE KEY'', as_bytes ''k'') # [(''CERTIFICATE'', as_bytes ''c'')]"
    by (simp only: demo_bundle_blocks append.simps)
  show "load_key_block demo_rsa_keys (fks_password demo_store) ''ENCRYPTED PRIVATE KEY'' (as_bytes ''k'')
      = Some (Inr demo_key)"
    using demo_decrypt by (simp only: demo_store_def file_key_store.simps)
qed (simp_all add: demo_x509_certs_def)

text \<open>
  An encrypted key stays locked: when the first private key of the material is encrypted,
  loading succeeds only with a password that decrypts it, and gives exactly the key inside; no
  later block of the material is tried in its place.
\<close>

theorem encrypted_key_stays_locked:
  assumes "as_pem_blocks co bs = Some (pre @ (''ENCRYPTED PRIVATE KEY'', der) # post)"
    and "list_all (\<lambda>(l, _). \<not> key_label l) pre"
    and "parse_private_key co r bs password = Inr key"
  shows "\<exists>pw info secret. password = Some pw \<and> encrypted_key_from_der r der = Inr info
    \<and> encrypted_key_decrypt r info (as_bytes pw) = Inr secret \<and> rsa_private_from_pkcs8 r secret = Inr key"
proof -
  have enc: "key_label ''ENCRYPTED PRIVATE KEY''" by (simp add: key_label_def)
  have "load_key_block r password ''ENCRYPTED PRIVATE KEY'' der = Some (decrypt_pkcs8 r der password)"
    by (simp add: load_key_block_def)
  then have "decrypt_pkcs8 r der password = Inr key"
    using assms(3) unfolding parse_private_key_def assms(1) option.case find_map_first_key [OF assms(2) enc]
    by simp
  then show ?thesis by (auto simp: decrypt_pkcs8_def try_then_Inr_iff)
qed

lemma encrypted_key_stays_locked_witness:
  "parse_private_key demo_pem_codec demo_rsa_keys (as_bytes (render_pem [CHR 0x0A] demo_bundle)) (Some ''pw'') = Inr demo_key
   \<and> (\<exists>pw info secret. Some ''pw'' = Some pw \<and> encrypted_key_from_der demo_rsa_keys (as_bytes ''k'') = Inr info
      \<and> encrypted_key_decrypt demo_rsa_keys info (as_bytes pw) = Inr secret
      \<and> rsa_private_from_pkcs8 demo_rsa_keys secret = Inr demo_key)"
proof -
  have blocks: "as_pem_blocks demo_pem_codec (as_bytes (render_pem [CHR 0x0A] demo_bundle))
      = Some ([] @ (''ENCRYPTED PRIVATE KEY'', as_bytes ''k'') # [(''CERTIFICATE'', as_bytes ''c'')])"
    using as_pem_blocks_render [OF demo_bundle_ok, of demo_pem_codec]
    by (simp only: demo_bundle_blocks append.simps)
  have parsed: "parse_private_key demo_pem_codec demo_rsa_keys (as_bytes (render_pem [CHR 0x0A] demo_bundle)) (Some ''pw'') = Inr demo_key"
    unfolding parse_private_key_def blocks append_Nil option.case find_map.simps prod.case demo_decrypt ..
  show ?thesis
    using parsed encrypted_key_stays_locked [OF blocks _ parsed] by simp
qed

text \<open>
  The two key stores agree: a file and inline material with the same bytes and password load
  the same certificate and key or fail with the same error, and every failure of either is a
  configuration error, which the server does not show to clients.
\<close>

theorem key_stores_agree:
  assumes "read_file (fks_path s) = Inr b"
  shows "file_load read_file co x r s
      = inline_load co x r \<lparr>iks_cert = b, iks_key = b, iks_password = fks_password s\<rparr>
    \<and> (file_load read_file co x r s = Inl e \<longrightarrow> error_status e = 500)"
proof -
  have "file_material read_file s = Some (b, b)" using assms by (simp add: file_material_def)
  then have "file_load read_file co x r s
      = inline_load co x r \<lparr>iks_cert = b, iks_key = b, iks_password = fks_password s\<rparr>"
    by (simp add: file_store.load_parses inline_load_def)
  moreover have "error_status e = 500" if "file_load read_file co x r s = Inl e"
    using file_store.load_error [OF that] by auto
  ultimately show ?thesis by blast
qed

lemma key_stores_agree_witness:
  "file_load (\<lambda>p. Inr [7]) demo_pem_codec demo_x509 demo_rsa demo_store
     = inline_load demo_pem_codec demo_x509 demo_rsa \<lparr>iks_cert = [7], iks_key = [7], iks_password = Some ''pw''\<rparr>"
  using key_stores_agree [of "\<lambda>p. Inr [7]" demo_store "[7]"] by (simp add: demo_store_def)

end
