(* ===== verification/Cms.thy ===== *)
theory Cms
  imports Authority
begin

text \<open>
  \<open>crypto/mod.rs\<close>: the object identifiers, algorithm identifiers and key extraction the CMS
  code shares, with the parameters that stand for the ASN.1 codecs and builders of the \<open>cms\<close>
  crate.  The relaxed ASN.1 records of \<open>crypto/verify.rs\<close> and the outgoing ones of
  \<open>crypto/envelope.rs\<close> are here because their derived codecs are such parameters.
\<close>

subsection \<open>Object identifiers\<close>

definition ID_DATA :: oid where "ID_DATA = ''1.2.840.113549.1.7.1''"
definition ID_SIGNED_DATA :: oid where "ID_SIGNED_DATA = ''1.2.840.113549.1.7.2''"
definition ID_ENVELOPED_DATA :: oid where "ID_ENVELOPED_DATA = ''1.2.840.113549.1.7.3''"
definition ID_SHA1 :: oid where "ID_SHA1 = ''1.3.14.3.2.26''"
definition ID_SHA256 :: oid where "ID_SHA256 = ''2.16.840.1.101.3.4.2.1''"
definition ID_AES_128_CBC :: oid where "ID_AES_128_CBC = ''2.16.840.1.101.3.4.1.2''"
definition ID_AES_192_CBC :: oid where "ID_AES_192_CBC = ''2.16.840.1.101.3.4.1.22''"
definition ID_AES_256_CBC :: oid where "ID_AES_256_CBC = ''2.16.840.1.101.3.4.1.42''"
definition ID_DES_EDE3_CBC :: oid where "ID_DES_EDE3_CBC = ''1.2.840.113549.3.7''"
definition ID_DES_CBC :: oid where "ID_DES_CBC = ''1.3.14.3.2.7''"

text \<open>\<open>const_oid::db\<close>: \<open>rsaEncryption\<close> and the \<open>messageDigest\<close> attribute.\<close>

definition RSA_ENCRYPTION :: oid where "RSA_ENCRYPTION = ''1.2.840.113549.1.1.1''"
definition ID_MESSAGE_DIGEST :: oid where "ID_MESSAGE_DIGEST = ''1.2.840.113549.1.9.4''"

lemmas cms_oids =
  ID_DATA_def ID_SIGNED_DATA_def ID_ENVELOPED_DATA_def ID_SHA1_def ID_SHA256_def ID_AES_128_CBC_def
  ID_AES_192_CBC_def ID_AES_256_CBC_def ID_DES_EDE3_CBC_def ID_DES_CBC_def

lemma cipher_oids_neq [simp]:
  "ID_AES_192_CBC \<noteq> ID_AES_128_CBC" "ID_AES_256_CBC \<noteq> ID_AES_128_CBC"
  "ID_DES_EDE3_CBC \<noteq> ID_AES_128_CBC" "ID_DES_CBC \<noteq> ID_AES_128_CBC"
  "ID_AES_256_CBC \<noteq> ID_AES_192_CBC" "ID_DES_EDE3_CBC \<noteq> ID_AES_192_CBC"
  "ID_DES_CBC \<noteq> ID_AES_192_CBC" "ID_DES_EDE3_CBC \<noteq> ID_AES_256_CBC"
  "ID_DES_CBC \<noteq> ID_AES_256_CBC" "ID_DES_CBC \<noteq> ID_DES_EDE3_CBC"
  "ID_SHA1 \<noteq> ID_SHA256" "ID_SHA256 \<noteq> ID_SHA1"
  by (simp_all add: cms_oids)

definition any_null :: any where
  "any_null = \<lparr>any_tag = 5, any_value = []\<rparr>"

definition digest_alg :: "oid \<Rightarrow> algorithm_identifier" where
  "digest_alg oid = \<lparr>alg_oid = oid, alg_parameters = None\<rparr>"

definition sha256_alg :: algorithm_identifier where
  "sha256_alg = \<lparr>alg_oid = ID_SHA256, alg_parameters = Some any_null\<rparr>"

text \<open>\<open>der_err\<close> of \<open>crypto/mod.rs\<close>.\<close>

definition crypto_der_err :: "string \<Rightarrow> app_error" where
  "crypto_der_err e = crypto (''DER error: '' @ e)"

definition rsa_public_key_from_spki :: "rsa_lib \<Rightarrow> spki \<Rightarrow> rsa_public_key app_result" where
  "rsa_public_key_from_spki r k =
     map_err (\<lambda>e. crypto (''not an RSA key: '' @ e)) (rsa_public_from_pkcs1 r (spki_public_key k))"

definition rsa_public_key :: "rsa_lib \<Rightarrow> certificate \<Rightarrow> rsa_public_key app_result" where
  "rsa_public_key r cert = rsa_public_key_from_spki r (cert_spki cert)"

subsection \<open>Relaxed and outgoing ASN.1 records\<close>

record relaxed_signed_data =
  rsd_version :: any
  rsd_digest_algorithms :: any
  rsd_encap_content_info :: encapsulated_content_info
  rsd_certificates :: "any option"
  rsd_crls :: "any option"
  rsd_signer_infos :: any

record relaxed_signer_info =
  rsi_version :: any
  rsi_sid :: any
  rsi_digest_alg :: algorithm_identifier
  rsi_signed_attrs :: "attribute list option"
  rsi_signature_algorithm :: algorithm_identifier
  rsi_signature :: bytes
  rsi_unsigned_attrs :: "any option"

record out_issuer_and_serial =
  ois_issuer :: dn
  ois_serial_number :: serial_number

record out_key_trans_recipient_info =
  okt_version :: nat
  okt_rid :: out_issuer_and_serial
  okt_key_enc_alg :: algorithm_identifier
  okt_enc_key :: bytes

record out_enveloped_data =
  oed_version :: nat
  oed_recip_infos :: "any list"
  oed_encrypted_content :: encrypted_content_info

subsection \<open>The builders of the \<open>cms\<close> crate\<close>

text \<open>What a \<open>SignerInfoBuilder\<close> and a \<open>SignedDataBuilder\<close> have been given so far.\<close>

record signer_info_builder =
  sib_signer :: rsa_private_key
  sib_sid :: recipient_identifier     \<comment> \<open>\<open>SignerIdentifier::IssuerAndSerialNumber\<close>\<close>
  sib_digest_alg :: algorithm_identifier
  sib_encap :: encapsulated_content_info
  sib_signed_attrs :: "attribute list"

record signed_data_builder =
  sdb_encap :: encapsulated_content_info
  sdb_digest_algs :: "algorithm_identifier list"
  sdb_certificates :: "certificate list"
  sdb_signer_infos :: "signer_info_builder list"

record cms_lib =
  content_info_from_der :: "bytes \<Rightarrow> string + content_info"
  content_info_to_der :: "content_info \<Rightarrow> string + bytes"
  decode_signed_data :: "any \<Rightarrow> string + relaxed_signed_data"
  slice_reader :: "bytes \<Rightarrow> string + bytes"                     \<comment> \<open>\<open>SliceReader::new\<close>\<close>
  decode_signer_info :: "bytes \<Rightarrow> string + relaxed_signer_info"  \<comment> \<open>the first element of the reader\<close>
  decode_relaxed_certificate :: "bytes \<Rightarrow> string + certificate"
  attributes_to_der :: "attribute list \<Rightarrow> string + bytes"        \<comment> \<open>as a SET OF\<close>
  decode_enveloped :: "any \<Rightarrow> string + enveloped_data"
  enveloped_from_der :: "bytes \<Rightarrow> string + enveloped_data"
  any_new :: "nat \<Rightarrow> bytes \<Rightarrow> string + any"
  any_encode_ktri :: "out_key_trans_recipient_info \<Rightarrow> string + any"
  any_encode_enveloped :: "out_enveloped_data \<Rightarrow> string + any"
  signer_info_new :: "rsa_private_key \<Rightarrow> recipient_identifier \<Rightarrow> algorithm_identifier \<Rightarrow>
    encapsulated_content_info \<Rightarrow> string + signer_info_builder"
  content_type_attribute :: "oid \<Rightarrow> string + attribute"
  add_signed_attribute :: "signer_info_builder \<Rightarrow> attribute \<Rightarrow> string + signer_info_builder"
  signed_data_new :: "encapsulated_content_info \<Rightarrow> signed_data_builder"
  add_digest_algorithm :: "signed_data_builder \<Rightarrow> algorithm_identifier \<Rightarrow> string + signed_data_builder"
  add_certificate :: "signed_data_builder \<Rightarrow> certificate \<Rightarrow> string + signed_data_builder"
  add_signer_info :: "signed_data_builder \<Rightarrow> signer_info_builder \<Rightarrow> string + signed_data_builder"
  signed_data_build :: "signed_data_builder \<Rightarrow> string + content_info"
  content_info_of_cert :: "certificate \<Rightarrow> string + content_info"
  content_info_of_chain :: "certificate list \<Rightarrow> string + content_info"

end
