(* ===== verification/Envelope.thy ===== *)
theory Envelope
  imports Cms
begin

text \<open>
  \<open>crypto/envelope.rs\<close>: opening the \<open>EnvelopedData\<close> of a request and building the one of a
  reply.  RSA, HMAC and the block ciphers are the parameters \<open>r\<close>, \<open>dg\<close> and \<open>cl\<close>.  RSA
  blinding does not change the result of a decryption, so its randomness is left out.
\<close>

record recipient =
  rcp_public_key :: rsa_public_key
  rcp_issuer :: dn
  rcp_serial :: serial_number

definition content_key_len :: "oid \<Rightarrow> nat app_result" where
  "content_key_len alg =
     (if alg = ID_AES_128_CBC then Inr 16
      else if alg = ID_AES_192_CBC then Inr 24
      else if alg = ID_AES_256_CBC then Inr 32
      else if alg = ID_DES_EDE3_CBC then Inr 24
      else if alg = ID_DES_CBC then Inr 8
      else Inl (crypto (''unsupported content encryption algorithm '' @ alg)))"

definition read_iv :: "der_lib \<Rightarrow> any option \<Rightarrow> bytes app_result" where
  "read_iv d parameters =
     try_then (ok_or (crypto ''content encryption algorithm has no IV parameter'') parameters) (\<lambda>any.
     map_err (\<lambda>e. crypto (''IV is not an OCTET STRING: '' @ e)) (any_as_octets d any))"

text \<open>The source's \<open>unpad\<close> and \<open>bad_key\<close> around one cipher.\<close>

definition unpad_error :: app_error where
  "unpad_error = crypto ''content decryption / unpad failed''"

definition decrypt_with ::
  "cipher_lib \<Rightarrow> block_cipher \<Rightarrow> bytes \<Rightarrow> bytes \<Rightarrow> bytes \<Rightarrow> bytes app_result" where
  "decrypt_with cl c key iv ciphertext =
     (if cbc_lengths_ok cl c key iv
      then ok_or unpad_error (cbc_decrypt cl c key iv ciphertext)
      else Inl (crypto ''invalid key/IV length for content cipher''))"

definition decrypt_symmetric :: "cipher_lib \<Rightarrow> oid \<Rightarrow> bytes \<Rightarrow> bytes \<Rightarrow> bytes \<Rightarrow> bytes app_result" where
  "decrypt_symmetric cl alg key iv ciphertext =
     (if alg = ID_AES_128_CBC then decrypt_with cl Aes128 key iv ciphertext
      else if alg = ID_AES_192_CBC then decrypt_with cl Aes192 key iv ciphertext
      else if alg = ID_AES_256_CBC then decrypt_with cl Aes256 key iv ciphertext
      else if alg = ID_DES_EDE3_CBC then decrypt_with cl TdesEde3 key iv ciphertext
      else if alg = ID_DES_CBC then decrypt_with cl Des key iv ciphertext
      else Inl (crypto (''unsupported content encryption algorithm '' @ alg)))"

text \<open>\<open>as_bytes()[..key_len]\<close> panics when the MAC is shorter; see \<open>unwrap_cek_length\<close>.\<close>

definition synthetic_cek :: "digest_lib \<Rightarrow> rsa_lib \<Rightarrow> rsa_private_key \<Rightarrow> bytes \<Rightarrow> nat \<Rightarrow> bytes" where
  "synthetic_cek dg r ca_key encrypted_key key_len =
     (let kdk = sha256 dg (as_bytes ''blapki implicit rejection'' @ rsa_d_bytes_be r ca_key)
      in take key_len (hmac_sha256 dg kdk encrypted_key))"

definition unwrap_cek :: "digest_lib \<Rightarrow> rsa_lib \<Rightarrow> rsa_private_key \<Rightarrow> bytes \<Rightarrow> nat \<Rightarrow> bytes" where
  "unwrap_cek dg r ca_key encrypted_key key_len =
     (let synthetic = synthetic_cek dg r ca_key encrypted_key key_len
      in case rsa_decrypt r ca_key encrypted_key of
           Inr cek \<Rightarrow> if length cek = key_len then cek else synthetic
         | Inl _ \<Rightarrow> synthetic)"

definition ktri_matches :: "x509_lib \<Rightarrow> key_trans_recipient_info \<Rightarrow> certificate \<Rightarrow> bool" where
  "ktri_matches x ktri cert =
     (case ktri_rid ktri of
        IssuerAndSerialNumber issuer serial \<Rightarrow> issuer = cert_issuer cert \<and> serial = cert_serial_number cert
      | RidSubjectKeyIdentifier ski \<Rightarrow>
          (case cert_get_ski x cert of
             Inr (Some (_, ca_ski)) \<Rightarrow> ca_ski = ski
           | _ \<Rightarrow> False))"

fun ktri_of :: "recipient_info \<Rightarrow> key_trans_recipient_info option" where
  "ktri_of (Ktri k) = Some k"
| "ktri_of (OtherRecipient b) = None"

definition select_recipient ::
  "x509_lib \<Rightarrow> enveloped_data \<Rightarrow> certificate \<Rightarrow> key_trans_recipient_info app_result" where
  "select_recipient x enveloped cert =
     (let ktris = List.map_filter ktri_of (ed_recip_infos enveloped)
      in case find (\<lambda>ktri. ktri_matches x ktri cert) ktris of
           Some ktri \<Rightarrow> Inr ktri
         | None \<Rightarrow>
             (case ktris of
                [only] \<Rightarrow> Inr only
              | _ \<Rightarrow> Inl (crypto ''no key-transport recipient names the CA certificate'')))"

text \<open>\<open>open\<close>; \<open>open\<close> itself is a keyword-like name of topology in HOL, hence the suffix.\<close>

definition open_envelope ::
  "der_lib \<Rightarrow> x509_lib \<Rightarrow> digest_lib \<Rightarrow> rsa_lib \<Rightarrow> cipher_lib \<Rightarrow> enveloped_data \<Rightarrow> certificate \<Rightarrow>
     rsa_private_key \<Rightarrow> bytes app_result" where
  "open_envelope d x dg r cl enveloped cert ca_key =
     (let eci = ed_encrypted_content enveloped in
      try_then (content_key_len (alg_oid (eci_content_enc_alg eci))) (\<lambda>key_len.
      try_then (ok_or (crypto ''enveloped data has no encrypted content'') (eci_encrypted_content eci)) (\<lambda>ciphertext.
      try_then (read_iv d (alg_parameters (eci_content_enc_alg eci))) (\<lambda>iv.
      try_then (select_recipient x enveloped cert) (\<lambda>ktri.
      let cek = unwrap_cek dg r ca_key (ktri_enc_key ktri) key_len
      in decrypt_symmetric cl (alg_oid (eci_content_enc_alg eci)) cek iv ciphertext)))))"

definition build_for ::
  "der_lib \<Rightarrow> cms_lib \<Rightarrow> rsa_lib \<Rightarrow> cipher_lib \<Rightarrow> (nat \<Rightarrow> byte) \<Rightarrow> (nat \<Rightarrow> byte) \<Rightarrow> (nat \<Rightarrow> byte) \<Rightarrow>
     bytes \<Rightarrow> recipient \<Rightarrow> bytes app_result" where
  "build_for d cm r cl cek_rng iv_rng wrap_rng plaintext rcp =
     (let cek = fill_bytes cek_rng 32; iv = fill_bytes iv_rng 16 in
      try_then (if cbc_lengths_ok cl Aes256 cek iv then Inr (cbc_encrypt cl Aes256 cek iv plaintext)
                else Inl (crypto ''invalid AES key/IV length'')) (\<lambda>ciphertext.
      try_then (map_err (\<lambda>e. crypto (''RSA key wrap failed: '' @ e))
                 (rsa_encrypt r wrap_rng (rcp_public_key rcp) cek)) (\<lambda>encrypted_key.
      try_then (map_err crypto_der_err (octet_string_new d encrypted_key)) (\<lambda>enc_key.
      let ktri = \<lparr>okt_version = 0,
            okt_rid = \<lparr>ois_issuer = rcp_issuer rcp, ois_serial_number = rcp_serial rcp\<rparr>,
            okt_key_enc_alg = \<lparr>alg_oid = RSA_ENCRYPTION, alg_parameters = Some any_null\<rparr>,
            okt_enc_key = enc_key\<rparr> in
      try_then (map_err crypto_der_err (any_encode_ktri cm ktri)) (\<lambda>ktri_any.
      try_then (map_err crypto_der_err (set_of_insert d [] ktri_any)) (\<lambda>recip_infos.
      try_then (map_err crypto_der_err (any_new cm 4 iv)) (\<lambda>iv_any.
      try_then (map_err crypto_der_err (octet_string_new d ciphertext)) (\<lambda>content.
      let encrypted_content = \<lparr>eci_content_type = ID_DATA,
            eci_content_enc_alg = \<lparr>alg_oid = ID_AES_256_CBC, alg_parameters = Some iv_any\<rparr>,
            eci_encrypted_content = Some content\<rparr>;
          enveloped = \<lparr>oed_version = 0, oed_recip_infos = recip_infos,
            oed_encrypted_content = encrypted_content\<rparr> in
      try_then (map_err crypto_der_err (any_encode_enveloped cm enveloped)) (\<lambda>content.
      map_err crypto_der_err (content_info_to_der cm
        \<lparr>ci_content_type = ID_ENVELOPED_DATA, ci_content = content\<rparr>))))))))))"

definition build ::
  "der_lib \<Rightarrow> cms_lib \<Rightarrow> x509_lib \<Rightarrow> rsa_lib \<Rightarrow> cipher_lib \<Rightarrow> (nat \<Rightarrow> byte) \<Rightarrow> (nat \<Rightarrow> byte) \<Rightarrow>
     (nat \<Rightarrow> byte) \<Rightarrow> bytes \<Rightarrow> certificate \<Rightarrow> bytes app_result" where
  "build d cm x r cl cek_rng iv_rng wrap_rng plaintext recipient_cert =
     try_then (rsa_public_key r recipient_cert) (\<lambda>public_key.
     let issuer = cert_issuer recipient_cert in
     try_then (map_err crypto_der_err (serial_new_raw x (cert_serial_number recipient_cert))) (\<lambda>serial.
     build_for d cm r cl cek_rng iv_rng wrap_rng plaintext
       \<lparr>rcp_public_key = public_key, rcp_issuer = issuer, rcp_serial = serial\<rparr>))"

definition parse_enveloped :: "cms_lib \<Rightarrow> bytes \<Rightarrow> enveloped_data app_result" where
  "parse_enveloped cm der =
     (let bare = map_err (\<lambda>e. crypto (''not an EnvelopedData: '' @ e)) (enveloped_from_der cm der)
      in case content_info_from_der cm der of
           Inr ci \<Rightarrow>
             if ci_content_type ci = ID_ENVELOPED_DATA
             then map_err (\<lambda>e. crypto (''bad EnvelopedData in ContentInfo: '' @ e))
                    (decode_enveloped cm (ci_content ci))
             else bare
         | Inl _ \<Rightarrow> bare)"

subsection \<open>Documented behaviour of the ciphers\<close>

fun key_size :: "block_cipher \<Rightarrow> nat" where
  "key_size Aes128 = 16" | "key_size Aes192 = 24" | "key_size Aes256 = 32"
| "key_size TdesEde3 = 24" | "key_size Des = 8"

fun block_size :: "block_cipher \<Rightarrow> nat" where
  "block_size Aes128 = 16" | "block_size Aes192 = 16" | "block_size Aes256 = 16"
| "block_size TdesEde3 = 8" | "block_size Des = 8"

text \<open>A cipher checks the lengths of key and IV, and decryption undoes encryption.\<close>

definition cipher_documented :: "cipher_lib \<Rightarrow> bool" where
  "cipher_documented cl \<longleftrightarrow>
     (\<forall>c k iv. cbc_lengths_ok cl c k iv \<longleftrightarrow> length k = key_size c \<and> length iv = block_size c) \<and>
     (\<forall>c k iv m. length k = key_size c \<longrightarrow> length iv = block_size c \<longrightarrow>
        cbc_decrypt cl c k iv (cbc_encrypt cl c k iv m) = Some m)"

text \<open>The output size of HMAC-SHA256.\<close>

definition hmac_documented :: "digest_lib \<Rightarrow> bool" where
  "hmac_documented dg \<longleftrightarrow> (\<forall>k m. length (hmac_sha256 dg k m) = 32)"

text \<open>The cipher an identifier selects.\<close>

definition cipher_of :: "oid \<Rightarrow> block_cipher option" where
  "cipher_of alg =
     (if alg = ID_AES_128_CBC then Some Aes128 else if alg = ID_AES_192_CBC then Some Aes192
      else if alg = ID_AES_256_CBC then Some Aes256 else if alg = ID_DES_EDE3_CBC then Some TdesEde3
      else if alg = ID_DES_CBC then Some Des else None)"

lemma content_key_len_cipher:
  "content_key_len alg = (case cipher_of alg of
     None \<Rightarrow> Inl (crypto (''unsupported content encryption algorithm '' @ alg))
   | Some c \<Rightarrow> Inr (key_size c))"
  by (simp add: content_key_len_def cipher_of_def)

lemma decrypt_symmetric_cipher:
  "decrypt_symmetric cl alg k iv ct = (case cipher_of alg of
     None \<Rightarrow> Inl (crypto (''unsupported content encryption algorithm '' @ alg))
   | Some c \<Rightarrow> decrypt_with cl c k iv ct)"
  by (simp add: decrypt_symmetric_def cipher_of_def)

lemma key_size_le: "key_size c \<le> 32"
  by (cases c) simp_all

lemma length_synthetic_cek:
  "hmac_documented dg \<Longrightarrow> n \<le> 32 \<Longrightarrow> length (synthetic_cek dg r k ek n) = n"
  by (simp add: synthetic_cek_def Let_def hmac_documented_def)

lemma length_unwrap_cek:
  "hmac_documented dg \<Longrightarrow> n \<le> 32 \<Longrightarrow> length (unwrap_cek dg r k ek n) = n"
  by (auto simp: unwrap_cek_def Let_def length_synthetic_cek split: sum.splits)

text \<open>The public checks of \<open>open\<close>, everything before the RSA step.\<close>

definition public_checks ::
  "der_lib \<Rightarrow> x509_lib \<Rightarrow> enveloped_data \<Rightarrow> certificate \<Rightarrow>
     (block_cipher \<times> bytes \<times> bytes \<times> key_trans_recipient_info) app_result" where
  "public_checks d x enveloped cert =
     (let eci = ed_encrypted_content enveloped; alg = alg_oid (eci_content_enc_alg eci) in
      try_then (ok_or (crypto (''unsupported content encryption algorithm '' @ alg)) (cipher_of alg)) (\<lambda>c.
      try_then (ok_or (crypto ''enveloped data has no encrypted content'') (eci_encrypted_content eci)) (\<lambda>ct.
      try_then (read_iv d (alg_parameters (eci_content_enc_alg eci))) (\<lambda>iv.
      try_then (select_recipient x enveloped cert) (\<lambda>ktri. Inr (c, ct, iv, ktri))))))"

lemma open_splits:
  "open_envelope d x dg r cl env cert key =
     try_then (public_checks d x env cert) (\<lambda>(c, ct, iv, ktri).
       decrypt_with cl c (unwrap_cek dg r key (ktri_enc_key ktri) (key_size c)) iv ct)"
proof (cases "cipher_of (alg_oid (eci_content_enc_alg (ed_encrypted_content env)))")
  case None
  then show ?thesis
    by (simp add: open_envelope_def public_checks_def Let_def content_key_len_cipher)
next
  case (Some c)
  then show ?thesis
    by (simp add: open_envelope_def public_checks_def Let_def content_key_len_cipher
        decrypt_symmetric_cipher try_then_assoc)
qed

lemma decrypt_with_error:
  "cipher_documented cl \<Longrightarrow> length k = key_size c \<Longrightarrow> decrypt_with cl c k iv ct = Inl e \<Longrightarrow>
     e = unpad_error \<or> length iv \<noteq> block_size c \<and> e = crypto ''invalid key/IV length for content cipher''"
  by (auto simp: decrypt_with_def cipher_documented_def split: if_splits)

lemma decrypt_with_bad_iv:
  "cipher_documented cl \<Longrightarrow> length iv \<noteq> block_size c \<Longrightarrow>
     decrypt_with cl c k iv ct = Inl (crypto ''invalid key/IV length for content cipher'')"
  by (simp add: decrypt_with_def cipher_documented_def)

lemma find_prefix: "list_all (\<lambda>z. \<not> P z) pre \<Longrightarrow> P y \<Longrightarrow> find P (pre @ y # post) = Some y"
  by (induction pre) simp_all

lemma find_obtains_split:
  "find P xs = Some y \<Longrightarrow> \<exists>pre post. xs = pre @ y # post \<and> P y \<and> list_all (\<lambda>z. \<not> P z) pre"
proof (induction xs)
  case (Cons z zs)
  show ?case
  proof (cases "P z")
    case True
    with Cons.prems have "z # zs = [] @ y # zs \<and> P y \<and> list_all (\<lambda>z. \<not> P z) []" by simp
    then show ?thesis by blast
  next
    case False
    with Cons obtain pre post where "zs = pre @ y # post" "P y" "list_all (\<lambda>z. \<not> P z) pre" by auto
    with False have "z # zs = (z # pre) @ y # post \<and> P y \<and> list_all (\<lambda>z. \<not> P z) (z # pre)" by simp
    then show ?thesis by blast
  qed
qed simp

lemma find_split:
  "find P xs = Some y \<longleftrightarrow> (\<exists>pre post. xs = pre @ y # post \<and> P y \<and> list_all (\<lambda>z. \<not> P z) pre)"
  by (rule iffI, erule find_obtains_split) (auto simp: find_prefix)

lemma select_recipient_cases:
  "select_recipient x env cert = Inr ktri \<longleftrightarrow>
     (let ks = List.map_filter ktri_of (ed_recip_infos env); m = find (\<lambda>k. ktri_matches x k cert) ks
      in m = Some ktri \<or> m = None \<and> ks = [ktri])"
  by (simp add: select_recipient_def Let_def split: option.splits list.splits)

lemma find_singleton: "find P [y] = None \<longleftrightarrow> \<not> P y"
  by simp

subsection \<open>Documented behaviour of the codecs\<close>

text \<open>The recipient the client reads back from an encoded one.\<close>

definition ktri_read :: "out_key_trans_recipient_info \<Rightarrow> key_trans_recipient_info" where
  "ktri_read k =
     \<lparr>ktri_rid = IssuerAndSerialNumber (ois_issuer (okt_rid k)) (ois_serial_number (okt_rid k)),
      ktri_key_enc_alg = okt_key_enc_alg k, ktri_enc_key = okt_enc_key k\<rparr>"

text \<open>
  DER codecs are inverse to each other; the strict decoder of \<open>EnvelopedData\<close> accepts serial
  numbers of at most 20 octets.
\<close>

definition cms_documented :: "der_lib \<Rightarrow> cms_lib \<Rightarrow> bool" where
  "cms_documented d cm \<longleftrightarrow>
     (\<forall>ci b. content_info_to_der cm ci = Inr b \<longrightarrow> content_info_from_der cm b = Inr ci) \<and>
     (\<forall>k a ec v. any_encode_ktri cm k = Inr a \<longrightarrow>
        any_encode_enveloped cm \<lparr>oed_version = 0, oed_recip_infos = [a], oed_encrypted_content = ec\<rparr> = Inr v \<longrightarrow>
        length (ois_serial_number (okt_rid k)) \<le> 20 \<longrightarrow>
        decode_enveloped cm v = Inr \<lparr>ed_recip_infos = [Ktri (ktri_read k)], ed_encrypted_content = ec\<rparr>) \<and>
     (\<forall>b v. any_new cm 4 b = Inr v \<longrightarrow> any_as_octets d v = Inr b)"

text \<open>RSA decryption undoes encryption under the same key pair.\<close>

definition rsa_documented :: "rsa_lib \<Rightarrow> bool" where
  "rsa_documented r \<longleftrightarrow>
     (\<forall>rng k m c. rsa_encrypt r rng (to_public_key k) m = Inr c \<longrightarrow> rsa_decrypt r k c = Inr m)"

lemma build_for_Inr:
  assumes "build_for d cm r cl cek_rng iv_rng wrap_rng pt rcp = Inr der"
    and d: "der_documented d"
  shows "\<exists>ek ka iv_any v. cbc_lengths_ok cl Aes256 (fill_bytes cek_rng 32) (fill_bytes iv_rng 16)
    \<and> rsa_encrypt r wrap_rng (rcp_public_key rcp) (fill_bytes cek_rng 32) = Inr ek
    \<and> any_encode_ktri cm \<lparr>okt_version = 0,
         okt_rid = \<lparr>ois_issuer = rcp_issuer rcp, ois_serial_number = rcp_serial rcp\<rparr>,
         okt_key_enc_alg = \<lparr>alg_oid = RSA_ENCRYPTION, alg_parameters = Some any_null\<rparr>,
         okt_enc_key = ek\<rparr> = Inr ka
    \<and> any_new cm 4 (fill_bytes iv_rng 16) = Inr iv_any
    \<and> any_encode_enveloped cm \<lparr>oed_version = 0, oed_recip_infos = [ka],
         oed_encrypted_content = \<lparr>eci_content_type = ID_DATA,
            eci_content_enc_alg = \<lparr>alg_oid = ID_AES_256_CBC, alg_parameters = Some iv_any\<rparr>,
            eci_encrypted_content =
              Some (cbc_encrypt cl Aes256 (fill_bytes cek_rng 32) (fill_bytes iv_rng 16) pt)\<rparr>\<rparr> = Inr v
    \<and> content_info_to_der cm \<lparr>ci_content_type = ID_ENVELOPED_DATA, ci_content = v\<rparr> = Inr der"
proof -
  have os: "octet_string_new d b = Inr c \<Longrightarrow> c = b" for b c
    using d by (simp add: der_documented_def)
  have si: "set_of_insert d [] a = Inr as \<Longrightarrow> as = [a]" for a as
    using d by (simp add: der_documented_def)
  show ?thesis
    using assms(1) unfolding build_for_def Let_def try_then_Inr_iff map_err_Inr_iff
    by (elim exE conjE) (auto dest!: os si split: if_splits)
qed

text \<open>The envelope a recipient of \<open>build_for\<close> reads.\<close>

definition built_envelope :: "certificate \<Rightarrow> bytes \<Rightarrow> any \<Rightarrow> bytes \<Rightarrow> enveloped_data" where
  "built_envelope cert ek iv_any ct =
     \<lparr>ed_recip_infos = [Ktri \<lparr>ktri_rid = IssuerAndSerialNumber (cert_issuer cert) (cert_serial_number cert),
        ktri_key_enc_alg = \<lparr>alg_oid = RSA_ENCRYPTION, alg_parameters = Some any_null\<rparr>, ktri_enc_key = ek\<rparr>],
      ed_encrypted_content = \<lparr>eci_content_type = ID_DATA,
        eci_content_enc_alg = \<lparr>alg_oid = ID_AES_256_CBC, alg_parameters = Some iv_any\<rparr>,
        eci_encrypted_content = Some ct\<rparr>\<rparr>"

lemma built_envelope_opens:
  assumes "cipher_documented cl" and "cbc_lengths_ok cl Aes256 cek iv" and "any_as_octets d iv_any = Inr iv"
    and "rsa_decrypt r key ek = Inr cek"
  shows "open_envelope d x dg r cl (built_envelope cert ek iv_any (cbc_encrypt cl Aes256 cek iv pt)) cert key = Inr pt"
proof -
  have len: "length cek = 32" "length iv = 16"
    using assms(1,2) by (simp_all add: cipher_documented_def)
  have "public_checks d x (built_envelope cert ek iv_any ct) cert = Inr (Aes256, ct, iv,
      \<lparr>ktri_rid = IssuerAndSerialNumber (cert_issuer cert) (cert_serial_number cert),
        ktri_key_enc_alg = \<lparr>alg_oid = RSA_ENCRYPTION, alg_parameters = Some any_null\<rparr>, ktri_enc_key = ek\<rparr>)" for ct
    using assms(3) by (simp add: public_checks_def Let_def cipher_of_def read_iv_def select_recipient_def
        ktri_matches_def map_filter_simps built_envelope_def)
  moreover have "unwrap_cek dg r key ek 32 = cek"
    using assms(4) len by (simp add: unwrap_cek_def Let_def)
  moreover have "cbc_decrypt cl Aes256 cek iv (cbc_encrypt cl Aes256 cek iv pt) = Some pt"
    using assms(1) len by (simp add: cipher_documented_def)
  ultimately show ?thesis
    by (simp add: open_splits decrypt_with_def assms(2))
qed

lemma built_envelope_parses:
  assumes "cms_documented d cm" and "length (cert_serial_number cert) \<le> 20"
    and "any_encode_ktri cm \<lparr>okt_version = 0,
         okt_rid = \<lparr>ois_issuer = cert_issuer cert, ois_serial_number = cert_serial_number cert\<rparr>,
         okt_key_enc_alg = \<lparr>alg_oid = RSA_ENCRYPTION, alg_parameters = Some any_null\<rparr>,
         okt_enc_key = ek\<rparr> = Inr ka"
    and "any_encode_enveloped cm \<lparr>oed_version = 0, oed_recip_infos = [ka],
         oed_encrypted_content = \<lparr>eci_content_type = ID_DATA,
            eci_content_enc_alg = \<lparr>alg_oid = ID_AES_256_CBC, alg_parameters = Some iv_any\<rparr>,
            eci_encrypted_content = Some ct\<rparr>\<rparr> = Inr v"
    and "content_info_to_der cm \<lparr>ci_content_type = ID_ENVELOPED_DATA, ci_content = v\<rparr> = Inr der"
  shows "parse_enveloped cm der = Inr (built_envelope cert ek iv_any ct)"
proof -
  have "content_info_from_der cm der = Inr \<lparr>ci_content_type = ID_ENVELOPED_DATA, ci_content = v\<rparr>"
    using assms(1,5) unfolding cms_documented_def by blast
  moreover have "decode_enveloped cm v = Inr (built_envelope cert ek iv_any ct)"
    using assms(1-4) unfolding cms_documented_def by (fastforce simp: ktri_read_def built_envelope_def)
  ultimately show ?thesis
    by (simp add: parse_enveloped_def Let_def)
qed

lemma open_built_envelope:
  assumes "der_documented d" and "cms_documented d cm" and "rsa_documented r" and "cipher_documented cl"
    and "rcp_public_key rcp = to_public_key key" and "rcp_issuer rcp = cert_issuer cert"
    and "rcp_serial rcp = cert_serial_number cert" and "length (cert_serial_number cert) \<le> 20"
    and "build_for d cm r cl cek_rng iv_rng wrap_rng pt rcp = Inr der"
  shows "\<exists>env. parse_enveloped cm der = Inr env \<and> open_envelope d x dg r cl env cert key = Inr pt"
proof -
  let ?cek = "fill_bytes cek_rng 32" and ?iv = "fill_bytes iv_rng 16"
  obtain ek ka iv_any v where ek: "rsa_encrypt r wrap_rng (to_public_key key) ?cek = Inr ek"
    and lens: "cbc_lengths_ok cl Aes256 ?cek ?iv"
    and ka: "any_encode_ktri cm \<lparr>okt_version = 0,
         okt_rid = \<lparr>ois_issuer = cert_issuer cert, ois_serial_number = cert_serial_number cert\<rparr>,
         okt_key_enc_alg = \<lparr>alg_oid = RSA_ENCRYPTION, alg_parameters = Some any_null\<rparr>,
         okt_enc_key = ek\<rparr> = Inr ka"
    and iv: "any_new cm 4 ?iv = Inr iv_any"
    and v: "any_encode_enveloped cm \<lparr>oed_version = 0, oed_recip_infos = [ka],
         oed_encrypted_content = \<lparr>eci_content_type = ID_DATA,
            eci_content_enc_alg = \<lparr>alg_oid = ID_AES_256_CBC, alg_parameters = Some iv_any\<rparr>,
            eci_encrypted_content = Some (cbc_encrypt cl Aes256 ?cek ?iv pt)\<rparr>\<rparr> = Inr v"
    and der: "content_info_to_der cm \<lparr>ci_content_type = ID_ENVELOPED_DATA, ci_content = v\<rparr> = Inr der"
    using build_for_Inr [OF assms(9,1)] assms(5-7) by auto
  have "any_as_octets d iv_any = Inr ?iv"
    using assms(2) iv unfolding cms_documented_def by blast
  moreover have "rsa_decrypt r key ek = Inr ?cek"
    using assms(3) ek unfolding rsa_documented_def by blast
  ultimately show ?thesis
    using built_envelope_parses [OF assms(2,8) ka v der] built_envelope_opens [OF assms(4) lens] by blast
qed

subsection \<open>A concrete CMS library\<close>

text \<open>Length-prefixed encodings of what the server writes, a toy cipher and a toy digest.\<close>

definition put :: "bytes \<Rightarrow> bytes" where
  "put b = word_of_nat (length b) # b"

fun get :: "bytes \<Rightarrow> bytes \<times> bytes" where
  "get [] = ([], [])"
| "get (n # b) = (take (unat n) b, drop (unat n) b)"

lemma get_put: "length b < 256 \<Longrightarrow> get (put b @ c) = (b, c)"
  by (simp add: put_def unat_of_nat)

definition demo_encode_ktri :: "out_key_trans_recipient_info \<Rightarrow> string + any" where
  "demo_encode_ktri k =
     (let i = ois_issuer (okt_rid k); s = ois_serial_number (okt_rid k) in
      if length i < 256 \<and> length s < 256
         \<and> okt_key_enc_alg k = \<lparr>alg_oid = RSA_ENCRYPTION, alg_parameters = Some any_null\<rparr>
      then Inr \<lparr>any_tag = 48, any_value = put i @ put s @ okt_enc_key k\<rparr> else Inl ''length'')"

definition demo_decode_ktri :: "bytes \<Rightarrow> key_trans_recipient_info" where
  "demo_decode_ktri b =
     (let (i, b) = get b; (s, b) = get b
      in \<lparr>ktri_rid = IssuerAndSerialNumber i s,
          ktri_key_enc_alg = \<lparr>alg_oid = RSA_ENCRYPTION, alg_parameters = Some any_null\<rparr>, ktri_enc_key = b\<rparr>)"

definition demo_content :: "bytes \<Rightarrow> bytes \<Rightarrow> encrypted_content_info" where
  "demo_content iv ct =
     \<lparr>eci_content_type = ID_DATA,
      eci_content_enc_alg = \<lparr>alg_oid = ID_AES_256_CBC, alg_parameters = Some \<lparr>any_tag = 4, any_value = iv\<rparr>\<rparr>,
      eci_encrypted_content = Some ct\<rparr>"

definition demo_encode_enveloped :: "out_enveloped_data \<Rightarrow> string + any" where
  "demo_encode_enveloped e =
     (case (oed_recip_infos e, alg_parameters (eci_content_enc_alg (oed_encrypted_content e)),
            eci_encrypted_content (oed_encrypted_content e)) of
        ([a], Some p, Some ct) \<Rightarrow>
          if length (any_value a) < 256 \<and> length (any_value p) < 256
             \<and> oed_encrypted_content e = demo_content (any_value p) ct
          then Inr \<lparr>any_tag = 48, any_value = put (any_value a) @ put (any_value p) @ ct\<rparr>
          else Inl ''length''
      | _ \<Rightarrow> Inl ''shape'')"

definition demo_decode_enveloped :: "bytes \<Rightarrow> string + enveloped_data" where
  "demo_decode_enveloped b =
     (let (k, b) = get b; (iv, ct) = get b
      in Inr \<lparr>ed_recip_infos = [Ktri (demo_decode_ktri k)], ed_encrypted_content = demo_content iv ct\<rparr>)"

definition demo_cms :: cms_lib where
  "demo_cms =
     \<lparr>content_info_from_der = (\<lambda>b. case b of [] \<Rightarrow> Inl ''empty''
        | t # c \<Rightarrow> Inr \<lparr>ci_content_type = (if t = 0 then ID_ENVELOPED_DATA else ID_SIGNED_DATA),
                        ci_content = \<lparr>any_tag = 48, any_value = c\<rparr>\<rparr>),
      content_info_to_der = (\<lambda>ci. if any_tag (ci_content ci) \<noteq> 48 then Inl ''tag''
        else if ci_content_type ci = ID_ENVELOPED_DATA then Inr (0 # any_value (ci_content ci))
        else if ci_content_type ci = ID_SIGNED_DATA then Inr (1 # any_value (ci_content ci))
        else Inl ''content type''),
      decode_signed_data = (\<lambda>v. Inl ''not modelled''),
      slice_reader = (\<lambda>b. Inr b),
      decode_signer_info = (\<lambda>b. Inl ''bad''),
      decode_relaxed_certificate = (\<lambda>b. Inr (demo_cert b)),
      attributes_to_der = (\<lambda>as. Inr (concat (map (\<lambda>a. concat (map any_value (attr_values a))) as))),
      decode_enveloped = (\<lambda>v. demo_decode_enveloped (any_value v)),
      enveloped_from_der = demo_decode_enveloped,
      any_new = (\<lambda>t b. Inr \<lparr>any_tag = t, any_value = b\<rparr>),
      any_encode_ktri = demo_encode_ktri,
      any_encode_enveloped = demo_encode_enveloped,
      signer_info_new = (\<lambda>k sid al e. Inr \<lparr>sib_signer = k, sib_sid = sid, sib_digest_alg = al, sib_encap = e,
        sib_signed_attrs = []\<rparr>),
      content_type_attribute = (\<lambda>t. Inr \<lparr>attr_oid = ''1.2.840.113549.1.9.3'', attr_values = [\<lparr>any_tag = 6, any_value = as_bytes t\<rparr>]\<rparr>),
      add_signed_attribute = (\<lambda>b a. Inr (b\<lparr>sib_signed_attrs := sib_signed_attrs b @ [a]\<rparr>)),
      signed_data_new = (\<lambda>e. \<lparr>sdb_encap = e, sdb_digest_algs = [], sdb_certificates = [], sdb_signer_infos = []\<rparr>),
      add_digest_algorithm = (\<lambda>b a. Inr (b\<lparr>sdb_digest_algs := sdb_digest_algs b @ [a]\<rparr>)),
      add_certificate = (\<lambda>b c. Inr (b\<lparr>sdb_certificates := sdb_certificates b @ [c]\<rparr>)),
      add_signer_info = (\<lambda>b si. Inr (b\<lparr>sdb_signer_infos := sdb_signer_infos b @ [si]\<rparr>)),
      signed_data_build = (\<lambda>b. Inr \<lparr>ci_content_type = ID_SIGNED_DATA, ci_content = \<lparr>any_tag = 48,
        any_value = concat (map cert_serial_number (sdb_certificates b))\<rparr>\<rparr>),
      content_info_of_cert = (\<lambda>c. Inr \<lparr>ci_content_type = ID_SIGNED_DATA, ci_content = \<lparr>any_tag = 48,
        any_value = cert_serial_number c\<rparr>\<rparr>),
      content_info_of_chain = (\<lambda>cs. Inr \<lparr>ci_content_type = ID_SIGNED_DATA, ci_content = \<lparr>any_tag = 48,
        any_value = concat (map cert_serial_number cs)\<rparr>\<rparr>)\<rparr>"

definition demo_cipher :: cipher_lib where
  "demo_cipher =
     \<lparr>cbc_lengths_ok = (\<lambda>c k iv. length k = key_size c \<and> length iv = block_size c),
      cbc_decrypt = (\<lambda>c k iv ct. if ct \<noteq> [] \<and> hd ct = hd k then Some (tl ct) else None),
      cbc_encrypt = (\<lambda>c k iv m. hd k # m)\<rparr>"

definition demo_digest :: digest_lib where
  "demo_digest = \<lparr>sha1 = (\<lambda>m. m), sha256 = (\<lambda>m. m), hmac_sha256 = (\<lambda>k m. replicate 32 0xAA)\<rparr>"

lemma demo_cipher_documented: "cipher_documented demo_cipher"
  by (simp add: cipher_documented_def demo_cipher_def)

lemma demo_hmac_documented: "hmac_documented demo_digest"
  by (simp add: hmac_documented_def demo_digest_def)

lemma demo_rsa_documented: "rsa_documented demo_rsa"
  by (simp add: rsa_documented_def demo_rsa_def)

lemma demo_ktri_round_trip:
  assumes "demo_encode_ktri k = Inr a"
  shows "demo_decode_ktri (any_value a) = ktri_read k"
  using assms
  by (auto simp: demo_encode_ktri_def demo_decode_ktri_def Let_def get_put ktri_read_def split: if_splits)

lemma demo_enveloped_round_trip:
  assumes "demo_encode_enveloped \<lparr>oed_version = 0, oed_recip_infos = [a], oed_encrypted_content = ec\<rparr> = Inr v"
  shows "demo_decode_enveloped (any_value v) =
    Inr \<lparr>ed_recip_infos = [Ktri (demo_decode_ktri (any_value a))], ed_encrypted_content = ec\<rparr>"
  using assms
  by (auto simp: demo_encode_enveloped_def demo_decode_enveloped_def Let_def get_put
      split: option.splits if_splits)

lemma demo_cms_documented: "cms_documented demo_der demo_cms"
proof -
  have ci: "content_info_to_der demo_cms ci = Inr b \<Longrightarrow> content_info_from_der demo_cms b = Inr ci" for ci b
    by (cases ci; cases "ci_content ci") (auto simp: demo_cms_def cms_oids split: if_splits)
  have env: "any_encode_ktri demo_cms k = Inr a \<Longrightarrow>
      any_encode_enveloped demo_cms \<lparr>oed_version = 0, oed_recip_infos = [a], oed_encrypted_content = ec\<rparr> = Inr v \<Longrightarrow>
      decode_enveloped demo_cms v = Inr \<lparr>ed_recip_infos = [Ktri (ktri_read k)], ed_encrypted_content = ec\<rparr>"
    for k a ec v
    by (simp add: demo_cms_def demo_enveloped_round_trip demo_ktri_round_trip)
  have iv: "any_new demo_cms 4 b = Inr v \<Longrightarrow> any_as_octets demo_der v = Inr b" for b v
    by (auto simp: demo_cms_def demo_der_def)
  show ?thesis
    unfolding cms_documented_def using ci env iv by blast
qed

text \<open>An envelope whose encrypted key is too long for the toy RSA: its padding is invalid.\<close>

definition demo_probe :: enveloped_data where
  "demo_probe =
     \<lparr>ed_recip_infos = [OtherRecipient [1], Ktri \<lparr>ktri_rid = IssuerAndSerialNumber [1] [7],
        ktri_key_enc_alg = \<lparr>alg_oid = RSA_ENCRYPTION, alg_parameters = Some any_null\<rparr>,
        ktri_enc_key = replicate 40 3\<rparr>],
      ed_encrypted_content = demo_content (replicate 3 0) [1, 2]\<rparr>"

definition demo_ktri :: key_trans_recipient_info where
  "demo_ktri = \<lparr>ktri_rid = IssuerAndSerialNumber [1] [7],
     ktri_key_enc_alg = \<lparr>alg_oid = RSA_ENCRYPTION, alg_parameters = Some any_null\<rparr>,
     ktri_enc_key = replicate 40 3\<rparr>"

lemma demo_probe_selects: "select_recipient demo_x509 demo_probe (demo_cert [7]) = Inr demo_ktri"
  by (simp add: select_recipient_def demo_probe_def map_filter_simps ktri_matches_def demo_cert_def demo_ktri_def)

lemma demo_probe_error:
  "open_envelope demo_der demo_x509 demo_digest demo_rsa demo_cipher demo_probe (demo_cert [7]) demo_key
     = Inl (crypto ''invalid key/IV length for content cipher'')"
proof -
  have "public_checks demo_der demo_x509 demo_probe (demo_cert [7]) = Inr (Aes256, [1, 2], replicate 3 0, demo_ktri)"
    using demo_probe_selects
    by (simp add: public_checks_def Let_def cipher_of_def read_iv_def demo_probe_def demo_content_def demo_der_def)
  then show ?thesis
    by (simp add: open_splits decrypt_with_bad_iv [OF demo_cipher_documented])
qed

subsection \<open>Properties\<close>



text \<open>
  C13: implicit rejection.  When the RSA padding is invalid, or the unwrapped key has the wrong
  length for the cipher, opening behaves exactly as if the padding had been valid and had carried
  the synthetic key derived from the CA's secret and the ciphertext; that key has the length the
  cipher needs, and the slice that produces it never leaves the MAC.
\<close>

theorem implicit_rejection:
  assumes "hmac_documented dg" and "select_recipient x env cert = Inr ktri"
    and "content_key_len (alg_oid (eci_content_enc_alg (ed_encrypted_content env))) = Inr n"
    and "\<not> (\<exists>cek. rsa_decrypt r key (ktri_enc_key ktri) = Inr cek \<and> length cek = n)"
  shows "open_envelope d x dg r cl env cert key =
      open_envelope d x dg (r\<lparr>rsa_decrypt := \<lambda>k c. Inr (synthetic_cek dg r k c n)\<rparr>) cl env cert key
    \<and> length (synthetic_cek dg r key (ktri_enc_key ktri) n) = n \<and> n \<le> 32"
proof -
  have n: "n \<le> 32"
    using assms(3) key_size_le by (auto simp: content_key_len_cipher split: option.splits)
  let ?r = "r\<lparr>rsa_decrypt := \<lambda>k c. Inr (synthetic_cek dg r k c n)\<rparr>"
  have same: "synthetic_cek dg ?r k c m = synthetic_cek dg r k c m" for k c m
    by (simp add: synthetic_cek_def)
  have "unwrap_cek dg r key (ktri_enc_key ktri) n = synthetic_cek dg r key (ktri_enc_key ktri) n"
    using assms(4) by (auto simp: unwrap_cek_def Let_def split: sum.splits)
  moreover have "unwrap_cek dg ?r key (ktri_enc_key ktri) n = synthetic_cek dg r key (ktri_enc_key ktri) n"
    by (simp add: unwrap_cek_def Let_def same)
  ultimately show ?thesis
    using n by (simp add: open_envelope_def Let_def assms(2,3) length_synthetic_cek [OF assms(1)])
qed

lemma implicit_rejection_witness:
  "length (synthetic_cek demo_digest demo_rsa demo_key (ktri_enc_key demo_ktri) 32) = 32"
proof -
  have "content_key_len (alg_oid (eci_content_enc_alg (ed_encrypted_content demo_probe))) = Inr 32"
    by (simp add: content_key_len_def demo_probe_def demo_content_def)
  moreover have "\<not> (\<exists>cek. rsa_decrypt demo_rsa demo_key (ktri_enc_key demo_ktri) = Inr cek \<and> length cek = 32)"
    by (simp add: demo_rsa_def demo_ktri_def)
  ultimately show ?thesis
    using implicit_rejection [OF demo_hmac_documented demo_probe_selects] by blast
qed

text \<open>
  The recipient is chosen by the public identifiers only: the first key-transport entry that
  names the CA certificate, or a lone key-transport entry that does not; any other envelope is
  refused.
\<close>

theorem recipient_selection:
  "select_recipient x env cert = Inr ktri \<longleftrightarrow>
     (\<exists>pre post. List.map_filter ktri_of (ed_recip_infos env) = pre @ ktri # post
        \<and> ktri_matches x ktri cert \<and> list_all (\<lambda>k. \<not> ktri_matches x k cert) pre)
     \<or> List.map_filter ktri_of (ed_recip_infos env) = [ktri] \<and> \<not> ktri_matches x ktri cert"
proof -
  let ?ks = "List.map_filter ktri_of (ed_recip_infos env)"
  have "find (\<lambda>k. ktri_matches x k cert) ?ks = None \<and> ?ks = [ktri] \<longleftrightarrow>
      ?ks = [ktri] \<and> \<not> ktri_matches x ktri cert"
    by auto
  then show ?thesis
    unfolding select_recipient_cases Let_def find_split by blast
qed

text \<open>
  C16: a reply can be read: the DER that \<open>build_for\<close> produces for a recipient parses as an
  enveloped message, and the recipient, with the private half of the key it was built for, opens
  it to exactly the plaintext.  The bound on the serial is the strict decoder's.
\<close>

theorem open_inverts_build:
  assumes "der_documented d" and "cms_documented d cm" and "rsa_documented r" and "cipher_documented cl"
    and "rcp_public_key rcp = to_public_key key" and "rcp_issuer rcp = cert_issuer cert"
    and "rcp_serial rcp = cert_serial_number cert" and "length (cert_serial_number cert) \<le> 20"
    and "build_for d cm r cl cek_rng iv_rng wrap_rng pt rcp = Inr der"
  shows "\<exists>env. parse_enveloped cm der = Inr env \<and> open_envelope d x dg r cl env cert key = Inr pt"
  using assms by (rule open_built_envelope)

lemma open_inverts_build_witness:
  "\<exists>der env. build_for demo_der demo_cms demo_rsa demo_cipher (\<lambda>i. 5) (\<lambda>i. 6) (\<lambda>i. 7) [1, 2, 3]
      \<lparr>rcp_public_key = to_public_key demo_key, rcp_issuer = [1], rcp_serial = [7]\<rparr> = Inr der
    \<and> parse_enveloped demo_cms der = Inr env
    \<and> open_envelope demo_der demo_x509 demo_digest demo_rsa demo_cipher env (demo_cert [7]) demo_key = Inr [1, 2, 3]"
proof -
  let ?rcp = "\<lparr>rcp_public_key = to_public_key demo_key, rcp_issuer = [1], rcp_serial = [7]\<rparr>"
  have "\<exists>der. build_for demo_der demo_cms demo_rsa demo_cipher (\<lambda>i. 5) (\<lambda>i. 6) (\<lambda>i. 7) [1, 2, 3] ?rcp = Inr der"
    by (simp add: build_for_def Let_def demo_cms_def demo_der_def demo_rsa_def demo_cipher_def
        demo_encode_ktri_def demo_encode_enveloped_def demo_content_def put_def)
  then obtain der where der:
    "build_for demo_der demo_cms demo_rsa demo_cipher (\<lambda>i. 5) (\<lambda>i. 6) (\<lambda>i. 7) [1, 2, 3] ?rcp = Inr der" ..
  have "rcp_public_key ?rcp = to_public_key demo_key" "rcp_issuer ?rcp = cert_issuer (demo_cert [7])"
    "rcp_serial ?rcp = cert_serial_number (demo_cert [7])" "length (cert_serial_number (demo_cert [7])) \<le> 20"
    by (simp_all add: demo_cert_def)
  from open_inverts_build [OF demo_der_documented demo_cms_documented demo_rsa_documented
      demo_cipher_documented this der, of demo_x509 demo_digest] der
  show ?thesis by blast
qed

end
