(* ===== verification/Sign.thy ===== *)
theory Sign
  imports Envelope
begin

text \<open>
  \<open>crypto/sign.rs\<close> and \<open>crypto/degenerate.rs\<close>: the signed \<open>CertRep\<close> and the
  certificates-only messages.  The builders of the \<open>cms\<close> crate are the parameter \<open>cm\<close>.
\<close>

definition builder_err :: "string \<Rightarrow> app_error" where
  "builder_err e = crypto (''CMS builder error: '' @ e)"

text \<open>\<open>for attr in signed_attrs { signer_info.add_signed_attribute(attr)? }\<close>\<close>

fun add_signed_attributes ::
  "cms_lib \<Rightarrow> attribute list \<Rightarrow> signer_info_builder \<Rightarrow> signer_info_builder app_result" where
  "add_signed_attributes cm [] si = Inr si"
| "add_signed_attributes cm (a # as) si =
     try_then (map_err builder_err (add_signed_attribute cm si a)) (add_signed_attributes cm as)"

definition build_cert_rep ::
  "der_lib \<Rightarrow> cms_lib \<Rightarrow> rsa_private_key \<Rightarrow> certificate \<Rightarrow> bytes option \<Rightarrow> attribute list \<Rightarrow> bytes app_result" where
  "build_cert_rep d cm signer signer_cert message_data signed_attrs =
     try_then (case message_data of
         Some data \<Rightarrow>
           try_then (map_err crypto_der_err (octet_string_new d data)) (\<lambda>os.
           map_ok Some (map_err crypto_der_err (any_from_octets d os)))
       | None \<Rightarrow> Inr None) (\<lambda>econtent.
     let encap = \<lparr>encap_content_type = ID_DATA, encap_content = econtent\<rparr>;
         sid = IssuerAndSerialNumber (cert_issuer signer_cert) (cert_serial_number signer_cert);
         digest = sha256_alg in
     try_then (map_err builder_err (signer_info_new cm signer sid digest encap)) (\<lambda>signer_info.
     try_then (if message_data = None
         then try_then (map_err builder_err (content_type_attribute cm ID_DATA)) (\<lambda>ct.
              map_err builder_err (add_signed_attribute cm signer_info ct))
         else Inr signer_info) (\<lambda>signer_info.
     try_then (add_signed_attributes cm signed_attrs signer_info) (\<lambda>signer_info.
     let builder = signed_data_new cm encap in
     try_then (map_err builder_err (add_digest_algorithm cm builder digest)) (\<lambda>builder.
     try_then (map_err builder_err (add_certificate cm builder signer_cert)) (\<lambda>builder.
     try_then (map_err builder_err (add_signer_info cm builder signer_info)) (\<lambda>builder.
     try_then (map_err builder_err (signed_data_build cm builder)) (\<lambda>content_info.
     map_err crypto_der_err (content_info_to_der cm content_info)))))))))"

definition certs_only :: "cms_lib \<Rightarrow> certificate \<Rightarrow> bytes app_result" where
  "certs_only cm cert =
     try_then (map_err crypto_der_err (content_info_of_cert cm cert)) (\<lambda>ci.
     map_err crypto_der_err (content_info_to_der cm ci))"

definition chain_only :: "cms_lib \<Rightarrow> certificate list \<Rightarrow> bytes app_result" where
  "chain_only cm chain =
     try_then (map_err crypto_der_err (content_info_of_chain cm chain)) (\<lambda>ci.
     map_err crypto_der_err (content_info_to_der cm ci))"

subsection \<open>Documented behaviour of the builders\<close>

definition signer_documented :: "cms_lib \<Rightarrow> bool" where
  "signer_documented cm \<longleftrightarrow>
     (\<forall>k sid al e b. signer_info_new cm k sid al e = Inr b \<longrightarrow>
        b = \<lparr>sib_signer = k, sib_sid = sid, sib_digest_alg = al, sib_encap = e, sib_signed_attrs = []\<rparr>) \<and>
     (\<forall>b a b'. add_signed_attribute cm b a = Inr b' \<longrightarrow>
        b' = b\<lparr>sib_signed_attrs := sib_signed_attrs b @ [a]\<rparr>) \<and>
     (\<forall>e. signed_data_new cm e =
        \<lparr>sdb_encap = e, sdb_digest_algs = [], sdb_certificates = [], sdb_signer_infos = []\<rparr>) \<and>
     (\<forall>b a b'. add_digest_algorithm cm b a = Inr b' \<longrightarrow>
        b' = b\<lparr>sdb_digest_algs := sdb_digest_algs b @ [a]\<rparr>) \<and>
     (\<forall>b c b'. add_certificate cm b c = Inr b' \<longrightarrow>
        b' = b\<lparr>sdb_certificates := sdb_certificates b @ [c]\<rparr>) \<and>
     (\<forall>b si b'. add_signer_info cm b si = Inr b' \<longrightarrow>
        b' = b\<lparr>sdb_signer_infos := sdb_signer_infos b @ [si]\<rparr>)"

lemma signer_builder:
  assumes "signer_documented cm"
  shows "signer_info_new cm k sid al e = Inr b \<Longrightarrow>
      b = \<lparr>sib_signer = k, sib_sid = sid, sib_digest_alg = al, sib_encap = e, sib_signed_attrs = []\<rparr>"
    and "add_signed_attribute cm b a = Inr b' \<Longrightarrow> b' = b\<lparr>sib_signed_attrs := sib_signed_attrs b @ [a]\<rparr>"
    and "signed_data_new cm e =
        \<lparr>sdb_encap = e, sdb_digest_algs = [], sdb_certificates = [], sdb_signer_infos = []\<rparr>"
    and "add_digest_algorithm cm sd al = Inr sd' \<Longrightarrow> sd' = sd\<lparr>sdb_digest_algs := sdb_digest_algs sd @ [al]\<rparr>"
    and "add_certificate cm sd c = Inr sd' \<Longrightarrow> sd' = sd\<lparr>sdb_certificates := sdb_certificates sd @ [c]\<rparr>"
    and "add_signer_info cm sd b = Inr sd' \<Longrightarrow> sd' = sd\<lparr>sdb_signer_infos := sdb_signer_infos sd @ [b]\<rparr>"
  using assms unfolding signer_documented_def by blast+

lemma add_signed_attributes_appends:
  assumes "signer_documented cm"
  shows "add_signed_attributes cm as si = Inr si' \<Longrightarrow>
    si' = si\<lparr>sib_signed_attrs := sib_signed_attrs si @ as\<rparr>"
proof (induction as arbitrary: si)
  case Nil
  then show ?case by simp
next
  case (Cons a as)
  then show ?case
    by (fastforce simp: try_then_Inr_iff dest!: signer_builder(2) [OF assms])
qed

text \<open>The message a reply should be, given to the builder in full.\<close>

definition cert_rep_spec ::
  "rsa_private_key \<Rightarrow> certificate \<Rightarrow> any option \<Rightarrow> attribute list \<Rightarrow> signed_data_builder" where
  "cert_rep_spec signer signer_cert econtent attrs =
     (let encap = \<lparr>encap_content_type = ID_DATA, encap_content = econtent\<rparr> in
      \<lparr>sdb_encap = encap, sdb_digest_algs = [sha256_alg], sdb_certificates = [signer_cert],
       sdb_signer_infos = [\<lparr>sib_signer = signer,
          sib_sid = IssuerAndSerialNumber (cert_issuer signer_cert) (cert_serial_number signer_cert),
          sib_digest_alg = sha256_alg, sib_encap = encap, sib_signed_attrs = attrs\<rparr>]\<rparr>)"

text \<open>The content and the signed attributes the builder is given.\<close>

definition encap_octets :: "der_lib \<Rightarrow> bytes option \<Rightarrow> any option app_result" where
  "encap_octets d message_data =
     (case message_data of
         Some data \<Rightarrow>
           try_then (map_err crypto_der_err (octet_string_new d data)) (\<lambda>os.
           map_ok Some (map_err crypto_der_err (any_from_octets d os)))
       | None \<Rightarrow> Inr None)"

lemma encap_octets_Inr:
  assumes "der_documented d" and "encap_octets d message_data = Inr ec"
  shows "case message_data of None \<Rightarrow> ec = None | Some data \<Rightarrow> (\<exists>v. ec = Some v \<and> any_from_octets d data = Inr v)"
proof -
  have "octet_string_new d b = Inr c \<Longrightarrow> c = b" for b c
    using assms(1) by (simp add: der_documented_def)
  with assms(2) show ?thesis
    by (cases message_data) (fastforce simp: encap_octets_def try_then_Inr_iff map_ok_Inr_iff)+
qed

lemma content_type_added:
  assumes "signer_documented cm"
    and "(if message_data = None
         then try_then (map_err builder_err (content_type_attribute cm ID_DATA)) (\<lambda>ct.
              map_err builder_err (add_signed_attribute cm si ct))
         else Inr si) = Inr si'"
    and "sib_signed_attrs si = []"
  shows "\<exists>first. si' = si\<lparr>sib_signed_attrs := first\<rparr>
    \<and> (case message_data of None \<Rightarrow> (\<exists>ct. content_type_attribute cm ID_DATA = Inr ct \<and> first = [ct])
        | Some data \<Rightarrow> first = [])"
  using assms(2,3) by (cases message_data; cases si)
    (auto simp: try_then_Inr_iff dest!: signer_builder(2) [OF assms(1)])

text \<open>What the builder has been given when it is asked to build.\<close>

lemma build_cert_rep_builds:
  assumes "signer_documented cm" and "der_documented d"
    and "build_cert_rep d cm signer signer_cert message_data signed_attrs = Inr der"
  shows "\<exists>ci econtent attrs.
    signed_data_build cm (cert_rep_spec signer signer_cert econtent attrs) = Inr ci
    \<and> content_info_to_der cm ci = Inr der
    \<and> (case message_data of
         Some data \<Rightarrow> attrs = signed_attrs \<and> (\<exists>v. econtent = Some v \<and> any_from_octets d data = Inr v)
       | None \<Rightarrow> econtent = None \<and> (\<exists>ct. content_type_attribute cm ID_DATA = Inr ct \<and> attrs = ct # signed_attrs))"
proof -
  note sb = signer_builder [OF assms(1)]
  let ?encap = "\<lambda>ec. \<lparr>encap_content_type = ID_DATA, encap_content = ec\<rparr>"
  let ?sid = "IssuerAndSerialNumber (cert_issuer signer_cert) (cert_serial_number signer_cert)"
  from assms(3) obtain ec si0 si1 si2 b1 b2 b3 ci
    where ec: "encap_octets d message_data = Inr ec"
      and si0: "signer_info_new cm signer ?sid sha256_alg (?encap ec) = Inr si0"
      and si1: "(if message_data = None
         then try_then (map_err builder_err (content_type_attribute cm ID_DATA)) (\<lambda>ct.
              map_err builder_err (add_signed_attribute cm si0 ct))
         else Inr si0) = Inr si1"
      and si2: "add_signed_attributes cm signed_attrs si1 = Inr si2"
      and b1: "add_digest_algorithm cm (signed_data_new cm (?encap ec)) sha256_alg = Inr b1"
      and b2: "add_certificate cm b1 signer_cert = Inr b2"
      and b3: "add_signer_info cm b2 si2 = Inr b3"
      and ci: "signed_data_build cm b3 = Inr ci" "content_info_to_der cm ci = Inr der"
    unfolding build_cert_rep_def Let_def try_then_Inr_iff map_err_Inr_iff encap_octets_def by blast
  have "sib_signed_attrs si0 = []" by (simp add: sb(1) [OF si0])
  from content_type_added [OF assms(1) si1 this] obtain first where first: "si1 = si0\<lparr>sib_signed_attrs := first\<rparr>"
    "case message_data of None \<Rightarrow> (\<exists>ct. content_type_attribute cm ID_DATA = Inr ct \<and> first = [ct])
        | Some data \<Rightarrow> first = []" by blast
  have "b3 = cert_rep_spec signer signer_cert ec (first @ signed_attrs)"
    using sb(4) [OF b1] sb(5) [OF b2] sb(6) [OF b3] add_signed_attributes_appends [OF assms(1) si2] first(1) sb(1) [OF si0]
    by (simp add: sb(3) cert_rep_spec_def Let_def)
  with ci have "signed_data_build cm (cert_rep_spec signer signer_cert ec (first @ signed_attrs)) = Inr ci
    \<and> content_info_to_der cm ci = Inr der" by simp
  then show ?thesis
    using first(2) encap_octets_Inr [OF assms(2) ec]
    by (intro exI [of _ ci] exI [of _ ec] exI [of _ "first @ signed_attrs"]) (cases message_data; auto)
qed

subsection \<open>Properties\<close>

text \<open>
  A reply is signed as a whole: it has one signer, the CA under its own certificate and
  SHA-256, over the message data (nothing for a failure) and over exactly the given SCEP
  attributes in order; a reply without content carries its content type as an extra signed
  attribute, as CMS requires.
\<close>

theorem cert_rep_contents:
  assumes "signer_documented cm" and "der_documented d"
    and "build_cert_rep d cm signer signer_cert message_data signed_attrs = Inr der"
  shows "\<exists>ci econtent attrs.
    signed_data_build cm (cert_rep_spec signer signer_cert econtent attrs) = Inr ci
    \<and> content_info_to_der cm ci = Inr der
    \<and> (case message_data of
         Some data \<Rightarrow> attrs = signed_attrs \<and> (\<exists>v. econtent = Some v \<and> any_as_octets d v = Inr data)
       | None \<Rightarrow> econtent = None \<and> (\<exists>ct. content_type_attribute cm ID_DATA = Inr ct \<and> attrs = ct # signed_attrs))"
proof -
  have "any_from_octets d b = Inr v \<Longrightarrow> any_as_octets d v = Inr b" for b v
    using assms(2) by (simp add: der_documented_def)
  with build_cert_rep_builds [OF assms] show ?thesis
    by (cases message_data) fastforce+
qed

lemma demo_signer_documented: "signer_documented demo_cms"
  by (simp add: signer_documented_def demo_cms_def)

lemma cert_rep_contents_witness:
  "\<exists>der ci econtent attrs.
     build_cert_rep demo_der demo_cms demo_key (demo_cert [7]) (Some [1, 2]) [] = Inr der
     \<and> signed_data_build demo_cms (cert_rep_spec demo_key (demo_cert [7]) econtent attrs) = Inr ci
     \<and> content_info_to_der demo_cms ci = Inr der"
proof -
  have "\<exists>der. build_cert_rep demo_der demo_cms demo_key (demo_cert [7]) (Some [1, 2]) [] = Inr der"
    by (simp add: build_cert_rep_def Let_def demo_der_def demo_cms_def ID_SIGNED_DATA_def ID_ENVELOPED_DATA_def)
  then obtain der where
    "build_cert_rep demo_der demo_cms demo_key (demo_cert [7]) (Some [1, 2]) [] = Inr der" ..
  with cert_rep_contents [OF demo_signer_documented demo_der_documented this] show ?thesis by blast
qed

end
