(* ===== verification/Verify.thy ===== *)
theory Verify
  imports Sign
begin

text \<open>
  \<open>crypto/verify.rs\<close>: decoding and verifying a SCEP \<open>pkiMessage\<close>.  The relaxed ASN.1
  records and their derived decoders are in \<open>Cms\<close>; a certificate of the relaxed profile is a
  \<open>certificate\<close> whose serial number is kept verbatim.
\<close>

record recipient_key =
  rk_public_key :: rsa_public_key
  rk_issuer :: dn
  rk_serial :: serial_number

record parsed_request =
  req_message_type :: message_type
  req_transaction_id :: string
  req_sender_nonce :: bytes
  req_recipient :: recipient_key
  req_enveloped :: "enveloped_data option"

definition decode_first ::
  "cms_lib \<Rightarrow> (bytes \<Rightarrow> string + 'a) \<Rightarrow> any \<Rightarrow> string \<Rightarrow> 'a app_result" where
  "decode_first cm decode container what =
     try_then (map_err (\<lambda>e. bad_request (''bad '' @ what @ '' container: '' @ e))
                (slice_reader cm (any_value container))) (\<lambda>reader.
     map_err (\<lambda>e. bad_request (''bad '' @ what @ '': '' @ e)) (decode reader))"

definition verify_rsa :: "rsa_lib \<Rightarrow> oid \<Rightarrow> rsa_public_key \<Rightarrow> bytes \<Rightarrow> bytes \<Rightarrow> unit app_result" where
  "verify_rsa r digest_oid pubkey msg sig =
     try_then (map_err (\<lambda>e. bad_request (''malformed signature: '' @ e)) (rsa_signature_parse r sig)) (\<lambda>signature.
     try_then (if digest_oid = ID_SHA256 then Inr (rsa_verify_sha256 r pubkey msg signature)
               else if digest_oid = ID_SHA1 then Inr (rsa_verify_sha1 r pubkey msg signature)
               else Inl (bad_request (''unsupported signature digest '' @ digest_oid))) (\<lambda>result.
     if result then Inr () else Inl (bad_request ''SCEP message signature is invalid'')))"

definition digest :: "digest_lib \<Rightarrow> oid \<Rightarrow> bytes \<Rightarrow> bytes app_result" where
  "digest dg oid data =
     (if oid = ID_SHA256 then Inr (sha256 dg data)
      else if oid = ID_SHA1 then Inr (sha1 dg data)
      else Inl (bad_request (''unsupported digest '' @ oid)))"

definition find_attr :: "attribute list \<Rightarrow> oid \<Rightarrow> attribute option" where
  "find_attr attrs oid = find (\<lambda>a. attr_oid a = oid) attrs"

text \<open>The block of \<open>parse_and_verify\<close> that binds the signed attributes to the content.\<close>

definition check_digest ::
  "der_lib \<Rightarrow> digest_lib \<Rightarrow> oid \<Rightarrow> attribute list \<Rightarrow> bytes \<Rightarrow> unit app_result" where
  "check_digest d dg digest_oid attrs content =
     try_then (ok_or (bad_request ''missing messageDigest attribute'') (find_attr attrs ID_MESSAGE_DIGEST)) (\<lambda>md_attr.
     try_then (ok_or (bad_request ''bad messageDigest attribute'')
         (case attr_values md_attr of [] \<Rightarrow> None | v # _ \<Rightarrow> to_option (any_as_octets d v))) (\<lambda>claimed.
     try_then (digest dg digest_oid content) (\<lambda>computed.
     if claimed \<noteq> computed then Inl (bad_request ''messageDigest does not match content'') else Inr ())))"

definition parse_and_verify ::
  "der_lib \<Rightarrow> cms_lib \<Rightarrow> digest_lib \<Rightarrow> rsa_lib \<Rightarrow> bytes \<Rightarrow> parsed_request app_result" where
  "parse_and_verify d cm dg r der =
     try_then (map_err (\<lambda>e. bad_request (''not a CMS ContentInfo: '' @ e)) (content_info_from_der cm der)) (\<lambda>ci.
     if ci_content_type ci \<noteq> ID_SIGNED_DATA then Inl (bad_request ''SCEP message is not signedData'') else
     try_then (map_err (\<lambda>e. bad_request (''bad SignedData: '' @ e)) (decode_signed_data cm (ci_content ci))) (\<lambda>sd.
     try_then (decode_first cm (decode_signer_info cm) (rsd_signer_infos sd) ''SignerInfo'') (\<lambda>signer.
     try_then (ok_or (bad_request ''SignedData carries no certificates'') (rsd_certificates sd)) (\<lambda>certs.
     try_then (decode_first cm (decode_relaxed_certificate cm) certs ''certificate'') (\<lambda>cert.
     try_then (ok_or (bad_request ''SignerInfo has no signed attributes'') (rsi_signed_attrs signer)) (\<lambda>attrs.
     try_then (rsa_public_key_from_spki r (cert_spki cert)) (\<lambda>public_key.
     try_then (map_err (\<lambda>e. crypto (''re-encode signed attrs: '' @ e)) (attributes_to_der cm attrs)) (\<lambda>signed_attrs_der.
     try_then (verify_rsa r (alg_oid (rsi_digest_alg signer)) public_key signed_attrs_der (rsi_signature signer)) (\<lambda>_.
     let econtent = map_option any_value (encap_content (rsd_encap_content_info sd)) in
     try_then (case econtent of None \<Rightarrow> Inr ()
               | Some content \<Rightarrow> check_digest d dg (alg_oid (rsi_digest_alg signer)) attrs content) (\<lambda>_.
     try_then (try_then (read_string d attrs ID_MESSAGE_TYPE) message_type_from_value) (\<lambda>message_type.
     try_then (read_string d attrs ID_TRANSACTION_ID) (\<lambda>transaction_id.
     try_then (read_octets d attrs ID_SENDER_NONCE) (\<lambda>sender_nonce.
     try_then (if message_type = PkcsReq \<or> message_type = RenewalReq \<or> message_type = CertRep
               then (case econtent of None \<Rightarrow> Inr None
                     | Some content \<Rightarrow> map_ok Some (parse_enveloped cm content))
               else Inr None) (\<lambda>enveloped.
     Inr \<lparr>req_message_type = message_type, req_transaction_id = transaction_id,
          req_sender_nonce = sender_nonce,
          req_recipient = \<lparr>rk_public_key = public_key, rk_issuer = cert_issuer cert,
                           rk_serial = cert_serial_number cert\<rparr>,
          req_enveloped = enveloped\<rparr>))))))))))))))"

subsection \<open>What an accepted message guarantees\<close>

text \<open>The hash function a digest identifier stands for, and the signature check under it.\<close>

definition hash_of :: "digest_lib \<Rightarrow> oid \<Rightarrow> (bytes \<Rightarrow> bytes) option" where
  "hash_of dg oid = (if oid = ID_SHA256 then Some (sha256 dg) else if oid = ID_SHA1 then Some (sha1 dg) else None)"

definition signature_valid :: "rsa_lib \<Rightarrow> oid \<Rightarrow> rsa_public_key \<Rightarrow> bytes \<Rightarrow> bytes \<Rightarrow> bool" where
  "signature_valid r oid k msg sig \<longleftrightarrow>
     (\<exists>s. rsa_signature_parse r sig = Inr s \<and>
        (oid = ID_SHA256 \<and> rsa_verify_sha256 r k msg s \<or> oid = ID_SHA1 \<and> rsa_verify_sha1 r k msg s))"

lemma verify_rsa_Inr: "verify_rsa r oid k msg sig = Inr () \<longleftrightarrow> signature_valid r oid k msg sig"
  by (auto simp: verify_rsa_def signature_valid_def try_then_Inr_iff)

text \<open>The digest a message claims for its content.\<close>

definition claimed_digest :: "der_lib \<Rightarrow> attribute list \<Rightarrow> bytes option" where
  "claimed_digest d attrs =
     (case find_attr attrs ID_MESSAGE_DIGEST of
        Some a \<Rightarrow> (case attr_values a of v # _ \<Rightarrow> to_option (any_as_octets d v) | [] \<Rightarrow> None)
      | None \<Rightarrow> None)"

lemma check_digest_Inr:
  "check_digest d dg oid attrs content = Inr () \<longleftrightarrow>
     (\<exists>h. hash_of dg oid = Some h \<and> claimed_digest d attrs = Some (h content))"
  by (auto simp: check_digest_def try_then_Inr_iff digest_def hash_of_def claimed_digest_def
      split: option.splits list.splits if_splits)

text \<open>A message is authentic when its parts decode and the embedded key signs them.\<close>

record signed_message =
  sm_signer :: relaxed_signer_info
  sm_cert :: certificate
  sm_attrs :: "attribute list"
  sm_key :: rsa_public_key
  sm_content :: "bytes option"

definition decodes_to :: "cms_lib \<Rightarrow> rsa_lib \<Rightarrow> bytes \<Rightarrow> signed_message \<Rightarrow> bool" where
  "decodes_to cm r der m \<longleftrightarrow>
     (\<exists>ci sd certs. content_info_from_der cm der = Inr ci \<and> ci_content_type ci = ID_SIGNED_DATA
        \<and> decode_signed_data cm (ci_content ci) = Inr sd
        \<and> decode_first cm (decode_signer_info cm) (rsd_signer_infos sd) ''SignerInfo'' = Inr (sm_signer m)
        \<and> rsd_certificates sd = Some certs
        \<and> decode_first cm (decode_relaxed_certificate cm) certs ''certificate'' = Inr (sm_cert m)
        \<and> rsi_signed_attrs (sm_signer m) = Some (sm_attrs m)
        \<and> rsa_public_key_from_spki r (cert_spki (sm_cert m)) = Inr (sm_key m)
        \<and> sm_content m = map_option any_value (encap_content (rsd_encap_content_info sd)))"

definition digest_oid :: "signed_message \<Rightarrow> oid" where
  "digest_oid m = alg_oid (rsi_digest_alg (sm_signer m))"

definition authentic :: "der_lib \<Rightarrow> cms_lib \<Rightarrow> digest_lib \<Rightarrow> rsa_lib \<Rightarrow> signed_message \<Rightarrow> bool" where
  "authentic d cm dg r m \<longleftrightarrow>
     (\<exists>signed. attributes_to_der cm (sm_attrs m) = Inr signed
        \<and> signature_valid r (digest_oid m) (sm_key m) signed (rsi_signature (sm_signer m)))
     \<and> (\<forall>content. sm_content m = Some content \<longrightarrow>
          (\<exists>h. hash_of dg (digest_oid m) = Some h \<and> claimed_digest d (sm_attrs m) = Some (h content)))"

definition carries_envelope :: "message_type \<Rightarrow> bool" where
  "carries_envelope t \<longleftrightarrow> t = PkcsReq \<or> t = RenewalReq \<or> t = CertRep"

definition request_of :: "der_lib \<Rightarrow> cms_lib \<Rightarrow> signed_message \<Rightarrow> parsed_request \<Rightarrow> bool" where
  "request_of d cm m req \<longleftrightarrow>
     try_then (read_string d (sm_attrs m) ID_MESSAGE_TYPE) message_type_from_value = Inr (req_message_type req)
     \<and> read_string d (sm_attrs m) ID_TRANSACTION_ID = Inr (req_transaction_id req)
     \<and> read_octets d (sm_attrs m) ID_SENDER_NONCE = Inr (req_sender_nonce req)
     \<and> req_recipient req = \<lparr>rk_public_key = sm_key m, rk_issuer = cert_issuer (sm_cert m),
                             rk_serial = cert_serial_number (sm_cert m)\<rparr>
     \<and> (case (carries_envelope (req_message_type req), sm_content m) of
          (True, Some c) \<Rightarrow> (\<exists>env. parse_enveloped cm c = Inr env \<and> req_enveloped req = Some env)
        | _ \<Rightarrow> req_enveloped req = None)"

lemma guard_Inr: "(if b then Inl e else r) = Inr y \<longleftrightarrow> \<not> b \<and> r = Inr y"
  by simp

lemma parse_and_verify_sound:
  assumes "parse_and_verify d cm dg r der = Inr req"
  shows "\<exists>m. decodes_to cm r der m \<and> authentic d cm dg r m \<and> request_of d cm m req"
proof -
  from assms obtain ci sd signer certs cert attrs key signed u v s mt txn nonce env
    where ci: "content_info_from_der cm der = Inr ci" "\<not> ci_content_type ci \<noteq> ID_SIGNED_DATA"
      and sd: "decode_signed_data cm (ci_content ci) = Inr sd"
      and signer: "decode_first cm (decode_signer_info cm) (rsd_signer_infos sd) ''SignerInfo'' = Inr signer"
      and certs: "rsd_certificates sd = Some certs"
      and cert: "decode_first cm (decode_relaxed_certificate cm) certs ''certificate'' = Inr cert"
      and attrs: "rsi_signed_attrs signer = Some attrs"
      and key: "rsa_public_key_from_spki r (cert_spki cert) = Inr key"
      and signed: "attributes_to_der cm attrs = Inr signed"
      and sig: "verify_rsa r (alg_oid (rsi_digest_alg signer)) key signed (rsi_signature signer) = Inr u"
      and dig: "(case map_option any_value (encap_content (rsd_encap_content_info sd)) of None \<Rightarrow> Inr ()
               | Some content \<Rightarrow> check_digest d dg (alg_oid (rsi_digest_alg signer)) attrs content) = Inr v"
      and mt: "read_string d attrs ID_MESSAGE_TYPE = Inr s" "message_type_from_value s = Inr mt"
      and txn: "read_string d attrs ID_TRANSACTION_ID = Inr txn"
      and nonce: "read_octets d attrs ID_SENDER_NONCE = Inr nonce"
      and env: "(if mt = PkcsReq \<or> mt = RenewalReq \<or> mt = CertRep
               then (case map_option any_value (encap_content (rsd_encap_content_info sd)) of None \<Rightarrow> Inr None
                     | Some content \<Rightarrow> map_ok Some (parse_enveloped cm content))
               else Inr None) = Inr env"
      and req: "\<lparr>req_message_type = mt, req_transaction_id = txn, req_sender_nonce = nonce,
          req_recipient = \<lparr>rk_public_key = key, rk_issuer = cert_issuer cert,
                           rk_serial = cert_serial_number cert\<rparr>, req_enveloped = env\<rparr> = req"
    unfolding parse_and_verify_def Let_def
      try_then_Inr_iff map_err_Inr_iff ok_or_Inr_iff guard_Inr sum.inject by blast
  let ?m = "\<lparr>sm_signer = signer, sm_cert = cert, sm_attrs = attrs, sm_key = key,
      sm_content = map_option any_value (encap_content (rsd_encap_content_info sd))\<rparr>"
  have "decodes_to cm r der ?m"
    using ci sd signer certs cert attrs key by (simp add: decodes_to_def)
  moreover have "authentic d cm dg r ?m"
    using signed sig dig by (auto simp: authentic_def digest_oid_def verify_rsa_Inr check_digest_Inr split: option.splits)
  moreover have "request_of d cm ?m req"
    using mt txn nonce env by (auto simp: request_of_def req [symmetric] carries_envelope_def map_ok_Inr_iff
        split: option.splits if_splits bool.splits)
  ultimately show ?thesis by blast
qed

lemma parse_and_verify_complete:
  assumes "decodes_to cm r der m" and "authentic d cm dg r m" and "request_of d cm m req"
  shows "parse_and_verify d cm dg r der = Inr req"
proof -
  from assms(1) obtain ci sd certs where dec: "content_info_from_der cm der = Inr ci"
    "ci_content_type ci = ID_SIGNED_DATA" "decode_signed_data cm (ci_content ci) = Inr sd"
    "decode_first cm (decode_signer_info cm) (rsd_signer_infos sd) ''SignerInfo'' = Inr (sm_signer m)"
    "rsd_certificates sd = Some certs"
    "decode_first cm (decode_relaxed_certificate cm) certs ''certificate'' = Inr (sm_cert m)"
    "rsi_signed_attrs (sm_signer m) = Some (sm_attrs m)"
    "rsa_public_key_from_spki r (cert_spki (sm_cert m)) = Inr (sm_key m)"
    and content: "map_option any_value (encap_content (rsd_encap_content_info sd)) = sm_content m"
    unfolding decodes_to_def by metis
  from assms(2) obtain signed where signed: "attributes_to_der cm (sm_attrs m) = Inr signed"
    and sig: "verify_rsa r (alg_oid (rsi_digest_alg (sm_signer m))) (sm_key m) signed (rsi_signature (sm_signer m)) = Inr ()"
    and dig: "(case sm_content m of None \<Rightarrow> Inr ()
       | Some c \<Rightarrow> check_digest d dg (alg_oid (rsi_digest_alg (sm_signer m))) (sm_attrs m) c) = Inr ()"
    unfolding authentic_def verify_rsa_Inr digest_oid_def by (auto simp: check_digest_Inr split: option.splits)
  have env: "(if req_message_type req = PkcsReq \<or> req_message_type req = RenewalReq \<or> req_message_type req = CertRep
       then (case sm_content m of None \<Rightarrow> Inr None | Some c \<Rightarrow> map_ok Some (parse_enveloped cm c))
       else Inr None) = Inr (req_enveloped req)"
    using assms(3) by (auto simp: request_of_def carries_envelope_def split: option.splits bool.splits)
  from assms(3) have req: "try_then (read_string d (sm_attrs m) ID_MESSAGE_TYPE) message_type_from_value
        = Inr (req_message_type req)"
    "read_string d (sm_attrs m) ID_TRANSACTION_ID = Inr (req_transaction_id req)"
    "read_octets d (sm_attrs m) ID_SENDER_NONCE = Inr (req_sender_nonce req)"
    "req_recipient req = \<lparr>rk_public_key = sm_key m, rk_issuer = cert_issuer (sm_cert m),
       rk_serial = cert_serial_number (sm_cert m)\<rparr>"
    by (simp_all only: request_of_def)
  show ?thesis
    unfolding parse_and_verify_def Let_def
    by (simp only: try_then.simps map_err.simps ok_or.simps simp_thms if_False dec content signed sig dig
        env req(1-3) req(4) [symmetric] unit_eq) simp
qed

subsection \<open>A concrete message\<close>

text \<open>
  A poll (\<open>GetCertInitial\<close>) whose digest attribute is the constant \<open>[1]\<close>, under a library that
  decodes any signed data to it and a digest with that constant value.
\<close>

definition demo_attrs :: "attribute list" where
  "demo_attrs =
     [\<lparr>attr_oid = ID_MESSAGE_TYPE, attr_values = [\<lparr>any_tag = 19, any_value = as_bytes ''20''\<rparr>]\<rparr>,
      \<lparr>attr_oid = ID_TRANSACTION_ID, attr_values = [\<lparr>any_tag = 19, any_value = as_bytes ''t1''\<rparr>]\<rparr>,
      \<lparr>attr_oid = ID_SENDER_NONCE, attr_values = [\<lparr>any_tag = 4, any_value = [9]\<rparr>]\<rparr>,
      \<lparr>attr_oid = ID_MESSAGE_DIGEST, attr_values = [\<lparr>any_tag = 4, any_value = [1]\<rparr>]\<rparr>]"

definition demo_signer_info :: "oid \<Rightarrow> relaxed_signer_info" where
  "demo_signer_info alg =
     \<lparr>rsi_version = any_null, rsi_sid = any_null, rsi_digest_alg = digest_alg alg,
      rsi_signed_attrs = Some demo_attrs, rsi_signature_algorithm = digest_alg RSA_ENCRYPTION,
      rsi_signature = [], rsi_unsigned_attrs = None\<rparr>"

definition demo_message_cms :: "oid \<Rightarrow> cms_lib" where
  "demo_message_cms alg = demo_cms\<lparr>
     decode_signed_data := \<lambda>v. Inr \<lparr>rsd_version = any_null, rsd_digest_algorithms = any_null,
       rsd_encap_content_info = \<lparr>encap_content_type = ID_DATA, encap_content = Some v\<rparr>,
       rsd_certificates = Some any_null, rsd_crls = None, rsd_signer_infos = any_null\<rparr>,
     decode_signer_info := \<lambda>b. Inr (demo_signer_info alg),
     attributes_to_der := \<lambda>as. Inr []\<rparr>"

definition constant_digest :: digest_lib where
  "constant_digest = demo_digest\<lparr>sha256 := \<lambda>m. [1]\<rparr>"

definition demo_message :: "oid \<Rightarrow> byte \<Rightarrow> signed_message" where
  "demo_message alg b =
     \<lparr>sm_signer = demo_signer_info alg, sm_cert = demo_cert [], sm_attrs = demo_attrs,
      sm_key = to_public_key demo_key, sm_content = Some [b]\<rparr>"

lemma demo_decodes: "decodes_to (demo_message_cms alg) demo_rsa [1, b] (demo_message alg b)"
  by (simp add: decodes_to_def demo_message_cms_def demo_cms_def demo_message_def decode_first_def
      demo_signer_info_def rsa_public_key_from_spki_def demo_cert_def demo_spki_def demo_rsa_def any_null_def)

lemma demo_oids_neq [simp]:
  "ID_MESSAGE_DIGEST \<noteq> ID_MESSAGE_TYPE" "ID_MESSAGE_TYPE \<noteq> ID_MESSAGE_DIGEST"
  "ID_TRANSACTION_ID \<noteq> ID_MESSAGE_DIGEST" "ID_SENDER_NONCE \<noteq> ID_MESSAGE_DIGEST"
  by (simp_all add: ID_MESSAGE_DIGEST_def scep_oids)

lemma demo_accepted:
  "parse_and_verify demo_der (demo_message_cms ID_SHA256) constant_digest demo_rsa [1, b] =
     Inr \<lparr>req_message_type = GetCertInitial, req_transaction_id = ''t1'', req_sender_nonce = [9],
          req_recipient = \<lparr>rk_public_key = to_public_key demo_key, rk_issuer = [1], rk_serial = []\<rparr>,
          req_enveloped = None\<rparr>"
proof (rule parse_and_verify_complete [OF demo_decodes])
  show "authentic demo_der (demo_message_cms ID_SHA256) constant_digest demo_rsa (demo_message ID_SHA256 b)"
    by (simp add: authentic_def demo_message_cms_def signature_valid_def digest_oid_def demo_message_def
        demo_signer_info_def digest_alg_def demo_rsa_def hash_of_def constant_digest_def claimed_digest_def
        find_attr_def demo_attrs_def demo_der_def)
  have "message_type_from_value ''20'' = Inr GetCertInitial"
    by (simp add: message_type_from_value_def Let_def trim_all_graphic graphic_def)
  then show "request_of demo_der (demo_message_cms ID_SHA256) (demo_message ID_SHA256 b)
     \<lparr>req_message_type = GetCertInitial, req_transaction_id = ''t1'', req_sender_nonce = [9],
          req_recipient = \<lparr>rk_public_key = to_public_key demo_key, rk_issuer = [1], rk_serial = []\<rparr>,
          req_enveloped = None\<rparr>"
    by (simp add: request_of_def demo_message_def demo_attrs_def read_string_Cons read_octets_Cons decode_text_def
        demo_der_def tagged_text_def demo_cert_def carries_envelope_def del: as_bytes_simps)
qed

subsection \<open>Properties\<close>

text \<open>
  C12: exactly the authentic messages are accepted: a request is returned if and only if the
  message decodes, the RSA key of its embedded certificate signs its attributes under SHA-256 or
  SHA-1, its message digest is the digest of its content whenever it has content, and every field
  of the request is read from those signed attributes, that certificate and that content.
\<close>

theorem accepts_exactly_authentic_messages:
  "parse_and_verify d cm dg r der = Inr req \<longleftrightarrow>
     (\<exists>m. decodes_to cm r der m \<and> authentic d cm dg r m \<and> request_of d cm m req)"
  by (blast intro: parse_and_verify_complete dest: parse_and_verify_sound)

text \<open>
  Content cannot be exchanged.  Two accepted messages that carry the same signed attributes
  and digest algorithm, and whose contents differ, exhibit a collision of SHA-256 or SHA-1.
\<close>

theorem exchanged_content_needs_collision:
  assumes "decodes_to cm r der m" and "parse_and_verify d cm dg r der = Inr req"
    and "decodes_to cm r der' m'" and "parse_and_verify d cm dg r der' = Inr req'"
    and "sm_attrs m = sm_attrs m'" and "digest_oid m = digest_oid m'"
    and "sm_content m = Some c" and "sm_content m' = Some c'" and "c \<noteq> c'"
  shows "sha256 dg c = sha256 dg c' \<or> sha1 dg c = sha1 dg c'"
proof -
  have unique: "n = n'" if "decodes_to cm r b n" "decodes_to cm r b n'" for b n n'
    using that by (auto simp: decodes_to_def intro: signed_message.equality)
  have auth: "authentic d cm dg r m" "authentic d cm dg r m'"
    using parse_and_verify_sound [OF assms(2)] parse_and_verify_sound [OF assms(4)] unique assms(1,3) by metis+
  then obtain h where "hash_of dg (digest_oid m) = Some h" "claimed_digest d (sm_attrs m) = Some (h c)"
    "claimed_digest d (sm_attrs m) = Some (h c')"
    using assms(5-8) unfolding authentic_def by (metis option.inject)
  then show ?thesis by (auto simp: hash_of_def split: if_splits)
qed

lemma exchanged_content_needs_collision_witness:
  "sha256 constant_digest [2] = sha256 constant_digest [3] \<or> sha1 constant_digest [2] = sha1 constant_digest [3]"
  by (rule exchanged_content_needs_collision
        [OF demo_decodes [of ID_SHA256 2] demo_accepted demo_decodes [of ID_SHA256 3] demo_accepted])
     (simp_all add: demo_message_def digest_oid_def)

text \<open>
  A message signed under any digest but SHA-256 and SHA-1 is never accepted, although
  \<open>GetCACaps\<close> advertises SHA-512 to every client.
\<close>

theorem sha512_advertised_but_refused:
  "''SHA-512'' \<in> set (lines CA_CAPS)
   \<and> (digest_oid m \<noteq> ID_SHA256 \<and> digest_oid m \<noteq> ID_SHA1 \<and> decodes_to cm r der m \<longrightarrow>
        \<not> is_ok (parse_and_verify d cm dg r der))"
proof
  define rest where "rest = ''SHA-256'' @ [CHR 0x0A] @ ''SHA-1'' @ [CHR 0x0A] @ ''DES3'' @ [CHR 0x0A]
     @ ''AES'' @ [CHR 0x0A] @ ''POSTPKIOperation'' @ [CHR 0x0A] @ ''SCEPStandard''"
  have caps: "CA_CAPS = ''Renewal'' @ CHR 0x0A # (''SHA-512'' @ CHR 0x0A # rest)"
    by (simp add: CA_CAPS_def rest_def)
  have no_lf: "CHR 0x0A \<notin> set ''Renewal''" "CHR 0x0A \<notin> set ''SHA-512''" by simp_all
  have "lines CA_CAPS = strip_cr ''Renewal'' # strip_cr ''SHA-512'' # lines rest"
    unfolding caps lines_line [OF no_lf(1)] lines_line [OF no_lf(2)] ..
  then show "''SHA-512'' \<in> set (lines CA_CAPS)" by (simp add: strip_cr_def)
  show "digest_oid m \<noteq> ID_SHA256 \<and> digest_oid m \<noteq> ID_SHA1 \<and> decodes_to cm r der m \<longrightarrow>
      \<not> is_ok (parse_and_verify d cm dg r der)"
  proof (intro impI notI)
    assume m: "digest_oid m \<noteq> ID_SHA256 \<and> digest_oid m \<noteq> ID_SHA1 \<and> decodes_to cm r der m"
      and "is_ok (parse_and_verify d cm dg r der)"
    then obtain req where "parse_and_verify d cm dg r der = Inr req" by (auto simp: is_ok_iff)
    then obtain n where n: "decodes_to cm r der n" "authentic d cm dg r n"
      by (blast dest: parse_and_verify_sound)
    have "n = m" using n(1) m by (auto simp: decodes_to_def intro: signed_message.equality)
    with n(2) m show False by (auto simp: authentic_def signature_valid_def)
  qed
qed

lemma sha512_advertised_but_refused_witness:
  "\<not> is_ok (parse_and_verify demo_der (demo_message_cms ''2.16.840.1.101.3.4.2.3'') constant_digest demo_rsa [1, 5])"
proof -
  have "digest_oid (demo_message ''2.16.840.1.101.3.4.2.3'' 5) \<noteq> ID_SHA256
      \<and> digest_oid (demo_message ''2.16.840.1.101.3.4.2.3'' 5) \<noteq> ID_SHA1"
    by (simp add: digest_oid_def demo_message_def demo_signer_info_def digest_alg_def ID_SHA256_def ID_SHA1_def)
  with demo_decodes show ?thesis
    using sha512_advertised_but_refused [of "demo_message ''2.16.840.1.101.3.4.2.3'' 5"
        "demo_message_cms ''2.16.840.1.101.3.4.2.3''" demo_rsa "[1, 5]" demo_der constant_digest]
    by blast
qed

definition request_error :: "app_error \<Rightarrow> bool" where
  "request_error e \<longleftrightarrow> (\<exists>m. e = BadRequest m) \<or> (\<exists>m. e = Crypto m)"

lemma request_error_simps [simp]:
  "request_error (bad_request m)" "request_error (crypto m)" "request_error (BadRequest m)" "request_error (Crypto m)"
  by (simp_all add: request_error_def bad_request_def crypto_def)

lemma request_errors:
  "map_err (\<lambda>e. bad_request (s @ e)) r1 = Inl e \<Longrightarrow> request_error e"
  "map_err (\<lambda>e. crypto (s @ e)) r1 = Inl e \<Longrightarrow> request_error e"
  "ok_or (bad_request s) m = Inl e \<Longrightarrow> request_error e"
  "Inl (bad_request s) = Inl e \<Longrightarrow> request_error e"
  "decode_first cm decode c what = Inl e \<Longrightarrow> request_error e"
  "rsa_public_key_from_spki r k = Inl e \<Longrightarrow> request_error e"
  "verify_rsa r oid pk msg sig = Inl e \<Longrightarrow> request_error e"
  "parse_enveloped cm b = Inl e \<Longrightarrow> request_error e"
  "read_string d as oid = Inl e \<Longrightarrow> request_error e"
  "read_octets d as oid = Inl e \<Longrightarrow> request_error e"
  "message_type_from_value s = Inl e \<Longrightarrow> request_error e"
  by (auto simp: map_err_Inl_iff decode_first_def try_then_Inl_iff rsa_public_key_from_spki_def verify_rsa_def
      parse_enveloped_def Let_def read_string_def read_octets_def attribute_value_def message_type_from_value_def
      split: if_splits sum.splits)

lemma check_digest_error: "check_digest d dg oid attrs c = Inl e \<Longrightarrow> request_error e"
  by (auto simp: check_digest_def try_then_Inl_iff digest_def split: if_splits)

lemma guard_error:
  assumes "(if b then Inl d else r) = Inl e" and "Inl d = Inl e \<Longrightarrow> P" and "r = Inl e \<Longrightarrow> P"
  shows P
  using assms by (auto split: if_splits)

lemma parse_and_verify_error:
  assumes "parse_and_verify d cm dg r der = Inl e"
  shows "request_error e"
proof -
  have content: "(case ec of None \<Rightarrow> Inr () | Some c \<Rightarrow> check_digest d dg oid attrs c) = Inl e \<Longrightarrow> request_error e"
    for ec oid attrs by (cases ec) (simp_all add: check_digest_error)
  have mt: "try_then (read_string d attrs oid) message_type_from_value = Inl e \<Longrightarrow> request_error e" for attrs oid
    by (auto simp: try_then_Inl_iff dest: request_errors)
  have env: "(if b then (case ec of None \<Rightarrow> Inr None | Some c \<Rightarrow> map_ok Some (parse_enveloped cm c)) else Inr None) = Inl e
      \<Longrightarrow> request_error e" for b ec
    by (auto split: if_splits option.splits dest: request_errors)
  show ?thesis
    using assms unfolding parse_and_verify_def Let_def
    by (elim step_error guard_error) (erule content mt env request_errors | simp)+
qed

text \<open>
  A message that is not accepted is refused with a bad request or, where a key or an
  attribute set cannot be processed, a crypto error; nothing else.
\<close>

theorem rejection_errors:
  assumes "parse_and_verify d cm dg r der = Inl e"
  shows "(\<exists>m. e = BadRequest m) \<or> (\<exists>m. e = Crypto m)"
  using parse_and_verify_error [OF assms] by (simp only: request_error_def)

lemma rejection_errors_witness:
  "\<exists>e. parse_and_verify demo_der demo_cms demo_digest demo_rsa [] = Inl e \<and> \<not> (\<exists>m. e = Database m)"
proof -
  have e: "parse_and_verify demo_der demo_cms demo_digest demo_rsa [] =
      Inl (bad_request (''not a CMS ContentInfo: '' @ ''empty''))"
    by (simp add: parse_and_verify_def demo_cms_def)
  from rejection_errors [OF this] e show ?thesis by fastforce
qed

end
