(* ===== verification/Config.thy ===== *)
theory Config
  imports Externals
begin

text \<open>
  \<open>config.rs\<close>: the configuration model and its validation.  The process environment is the
  parameter \<open>env_var\<close> (\<open>std::env::var(..).ok()\<close>); the parser of the TOML file and the
  \<open>BLAPKI_\<close> overrides (crate \<open>figment\<close>) is the parameter \<open>extract\<close> of \<open>load\<close>.  The
  serde defaults of absent fields are the \<open>default_*\<close> definitions; they act inside
  \<open>extract\<close>.
\<close>

datatype challenge_mode = Static | Intune | NoChallenge

text \<open>\<open>#[default] Static\<close>\<close>

definition default_challenge_mode :: challenge_mode where
  "default_challenge_mode = Static"

record server_config =
  listen :: string
  database_url :: string
  server_base_url :: string

record ca_config =
  ca_cfg_id :: string
  key_file :: "string option"
  cert_pem :: "string option"
  cert_pem_env :: "string option"
  key_pem :: "string option"
  key_pem_env :: "string option"
  key_password_env :: "string option"
  crl_lifetime_hours :: nat

record profile_config =
  profile_name :: string
  profile_ca :: string
  profile_challenge :: challenge_mode
  static_secret_env :: "string option"
  profile_validity_days :: "32 word"
  profile_key_usage :: "string list"
  profile_extended_key_usage :: "string list"

record intune_config =
  tenant_id :: string
  client_id :: string
  client_secret_env :: string
  login_host :: string
  intune_resource :: string

record settings =
  set_server :: server_config
  set_ca :: "ca_config list"
  set_profile :: "profile_config list"
  set_intune :: "intune_config option"

definition default_crl_lifetime :: nat where
  "default_crl_lifetime = 24"

definition default_validity_days :: "32 word" where
  "default_validity_days = 365"

definition default_key_usage :: "string list" where
  "default_key_usage = [''digitalSignature'', ''keyEncipherment'']"

definition default_eku :: "string list" where
  "default_eku = [''clientAuth'']"

definition default_login_host :: string where
  "default_login_host = ''https://login.microsoftonline.com''"

definition default_intune_resource :: string where
  "default_intune_resource = ''https://api.manage.microsoft.com/''"

subsection \<open>CA material declared in the configuration\<close>

definition has_source :: "ca_config \<Rightarrow> bool" where
  "has_source c =
     (let has_cert = cert_pem c \<noteq> None \<or> cert_pem_env c \<noteq> None;
          has_key = key_pem c \<noteq> None \<or> key_pem_env c \<noteq> None
      in (has_cert \<and> has_key) \<or> key_file c \<noteq> None)"

definition resolve_value ::
  "(string \<Rightarrow> string option) \<Rightarrow> string option \<Rightarrow> string option \<Rightarrow> string \<Rightarrow> string option app_result"
where
  "resolve_value env_var inline env_name field =
     (case inline of
        Some v \<Rightarrow> Inr (Some v)
      | None \<Rightarrow>
          (case env_name of
             Some env \<Rightarrow>
               (case env_var env of
                  Some v \<Rightarrow> Inr (Some v)
                | None \<Rightarrow> Inl (Config (field @ '' env var '' @ quoted env @ '' is not set'')))
           | None \<Rightarrow> Inr None))"

definition inline_material ::
  "(string \<Rightarrow> string option) \<Rightarrow> ca_config \<Rightarrow> (string \<times> string) option app_result"
where
  "inline_material env_var c =
     try_then (resolve_value env_var (cert_pem c) (cert_pem_env c) ''cert_pem'') (\<lambda>cert.
     try_then (resolve_value env_var (key_pem c) (key_pem_env c) ''key_pem'') (\<lambda>key.
       (case (cert, key) of
          (Some cert, Some key) \<Rightarrow> Inr (Some (cert, key))
        | (None, None) \<Rightarrow> Inr None
        | _ \<Rightarrow> Inl (Config (''ca '' @ quoted (ca_cfg_id c)
                 @ '': provide both cert and key inline, or neither'')))))"

subsection \<open>Validation\<close>

text \<open>The first loop of \<open>validate\<close>: every CA declares a source of key material.\<close>

fun validate_cas :: "ca_config list \<Rightarrow> unit app_result" where
  "validate_cas [] = Inr ()"
| "validate_cas (ca # cas) =
     (if \<not> has_source ca
      then Inl (Config (''ca '' @ quoted (ca_cfg_id ca) @
             '' has no key material: set key_file, or cert_pem(_env) + key_pem(_env)''))
      else validate_cas cas)"

text \<open>The second loop: every profile names a known CA and has what its challenge mode needs.\<close>

fun validate_profiles :: "settings \<Rightarrow> profile_config list \<Rightarrow> unit app_result" where
  "validate_profiles s [] = Inr ()"
| "validate_profiles s (p # ps) =
     (if \<not> list_ex (\<lambda>c. ca_cfg_id c = profile_ca p) (set_ca s)
      then Inl (Config (''profile '' @ quoted (profile_name p) @ '' references unknown ca ''
             @ quoted (profile_ca p)))
      else if profile_challenge p = Static \<and> static_secret_env p = None
      then Inl (Config (''profile '' @ quoted (profile_name p)
             @ '' uses static challenge but has no static_secret_env''))
      else if profile_challenge p = Intune \<and> set_intune s = None
      then Inl (Config (''profile '' @ quoted (profile_name p)
             @ '' uses intune challenge but [intune] is not configured''))
      else validate_profiles s ps)"

definition validate_settings :: "settings \<Rightarrow> unit app_result" where
  "validate_settings s =
     (if set_ca s = [] then Inl (Config ''no [[ca]] defined'')
      else try_then (validate_cas (set_ca s)) (\<lambda>_. validate_profiles s (set_profile s)))"

definition load_settings :: "(string \<Rightarrow> string + settings) \<Rightarrow> string \<Rightarrow> settings app_result" where
  "load_settings extract path =
     try_then (map_err Config (extract path)) (\<lambda>s.
     try_then (validate_settings s) (\<lambda>_. Inr s))"

definition find_ca :: "settings \<Rightarrow> string \<Rightarrow> ca_config option" where
  "find_ca s i = find (\<lambda>c. ca_cfg_id c = i) (set_ca s)"

definition find_profile :: "settings \<Rightarrow> string \<Rightarrow> profile_config option" where
  "find_profile s n = find (\<lambda>p. profile_name p = n) (set_profile s)"

subsection \<open>What a validated configuration guarantees\<close>

text \<open>
  The specification of \<open>validate\<close>, free of the order of its checks: some CA is declared,
  each CA has its key material, each profile is served by a declared CA and has what its
  challenge mode needs.
\<close>

definition ca_declared :: "settings \<Rightarrow> string \<Rightarrow> bool" where
  "ca_declared s i \<longleftrightarrow> i \<in> ca_cfg_id ` set (set_ca s)"

definition challenge_configured :: "settings \<Rightarrow> profile_config \<Rightarrow> bool" where
  "challenge_configured s p \<longleftrightarrow>
     (case profile_challenge p of
        Static \<Rightarrow> static_secret_env p \<noteq> None
      | Intune \<Rightarrow> set_intune s \<noteq> None
      | NoChallenge \<Rightarrow> True)"

definition profile_ok :: "settings \<Rightarrow> profile_config \<Rightarrow> bool" where
  "profile_ok s p \<longleftrightarrow> ca_declared s (profile_ca p) \<and> challenge_configured s p"

definition well_configured :: "settings \<Rightarrow> bool" where
  "well_configured s \<longleftrightarrow>
     set_ca s \<noteq> [] \<and> (\<forall>c\<in>set (set_ca s). has_source c) \<and> (\<forall>p\<in>set (set_profile s). profile_ok s p)"

lemma validate_cas_ok: "validate_cas cas = Inr () \<longleftrightarrow> (\<forall>c\<in>set cas. has_source c)"
  by (induction cas) auto

lemma ca_declared_list_ex: "list_ex (\<lambda>c. ca_cfg_id c = i) (set_ca s) \<longleftrightarrow> ca_declared s i"
  by (force simp: list_ex_iff ca_declared_def)

lemma profile_checks:
  "profile_ok s p \<longleftrightarrow>
     list_ex (\<lambda>c. ca_cfg_id c = profile_ca p) (set_ca s) \<and>
     \<not> (profile_challenge p = Static \<and> static_secret_env p = None) \<and>
     \<not> (profile_challenge p = Intune \<and> set_intune s = None)"
  by (auto simp: profile_ok_def ca_declared_list_ex challenge_configured_def
      split: challenge_mode.splits)

lemma validate_profiles_ok: "validate_profiles s ps = Inr () \<longleftrightarrow> (\<forall>p\<in>set ps. profile_ok s p)"
  by (induction ps) (auto simp: profile_checks)

lemma validate_profiles_error:
  "validate_profiles s ps = Inl e \<Longrightarrow> \<exists>m. e = Config m"
  by (induction ps) (auto split: if_splits)

lemma validate_cas_error: "validate_cas cas = Inl e \<Longrightarrow> \<exists>m. e = Config m"
  by (induction cas) (auto split: if_splits)

lemma validate_settings_ok: "validate_settings s = Inr () \<longleftrightarrow> well_configured s"
  by (auto simp: validate_settings_def well_configured_def try_then_Inr_iff validate_cas_ok
      validate_profiles_ok)

lemma validate_settings_error: "validate_settings s = Inl e \<Longrightarrow> \<exists>m. e = Config m"
  by (auto simp: validate_settings_def try_then_Inl_iff split: if_splits
      dest: validate_cas_error validate_profiles_error)

lemma ca_declared_find: "ca_declared s i \<longleftrightarrow> (\<exists>c. find_ca s i = Some c)"
proof -
  have "find_ca s i = None \<longleftrightarrow> \<not> ca_declared s i"
    by (auto simp: find_ca_def find_None_iff ca_declared_def)
  then show ?thesis by auto
qed

text \<open>
  C39: \<open>validate\<close> decides exactly the specification of a usable configuration, rejects
  everything else with a configuration error, and a loaded configuration always passed it.
\<close>

theorem validate_decides_well_configured:
  "(validate_settings s = Inr () \<longleftrightarrow> well_configured s)
   \<and> (validate_settings s = Inr () \<or> (\<exists>m. validate_settings s = Inl (Config m)))
   \<and> (load_settings (\<lambda>_. Inr s) path = Inr t \<longleftrightarrow> t = s \<and> well_configured s)"
proof -
  have "validate_settings s = Inr () \<or> (\<exists>m. validate_settings s = Inl (Config m))"
    by (cases "validate_settings s") (auto dest: validate_settings_error)
  then show ?thesis
    by (auto simp: validate_settings_ok load_settings_def try_then_Inr_iff)
qed

lemma inline_material_ok:
  "inline_material env_var c = Inr (Some (cert, key)) \<longleftrightarrow>
     resolve_value env_var (cert_pem c) (cert_pem_env c) ''cert_pem'' = Inr (Some cert) \<and>
     resolve_value env_var (key_pem c) (key_pem_env c) ''key_pem'' = Inr (Some key)"
  by (auto simp: inline_material_def try_then_Inr_iff split: option.splits)

lemma resolve_value_None:
  "resolve_value env_var v n f = Inr None \<longleftrightarrow> v = None \<and> n = None"
  by (auto simp: resolve_value_def split: option.splits)

lemma resolve_value_absent [simp]: "resolve_value env_var None None f = Inr None"
  by (simp add: resolve_value_def)

lemma inline_material_None:
  "inline_material env_var c = Inr None \<longleftrightarrow>
     cert_pem c = None \<and> cert_pem_env c = None \<and> key_pem c = None \<and> key_pem_env c = None"
proof
  assume "inline_material env_var c = Inr None"
  then show "cert_pem c = None \<and> cert_pem_env c = None \<and> key_pem c = None \<and> key_pem_env c = None"
    by (auto simp: inline_material_def try_then_Inr_iff resolve_value_None split: option.splits)
next
  assume "cert_pem c = None \<and> cert_pem_env c = None \<and> key_pem c = None \<and> key_pem_env c = None"
  then show "inline_material env_var c = Inr None"
    by (simp add: inline_material_def)
qed

text \<open>
  A CA that passed validation never reaches the \<open>no key material\<close> error at start-up:
  when its inline material resolves to nothing, it names a key file.  Half-configured inline
  material (a certificate without a key, or the reverse) is always an error, so the key file
  is never used silently instead.
\<close>

theorem validated_ca_has_material:
  "has_source c \<Longrightarrow>
     (inline_material env_var c = Inr None \<longrightarrow> key_file c \<noteq> None)
   \<and> (inline_material env_var c = Inr None \<longleftrightarrow>
        cert_pem c = None \<and> cert_pem_env c = None \<and> key_pem c = None \<and> key_pem_env c = None)"
  by (auto simp: inline_material_None has_source_def)

definition example_ca :: ca_config where
  "example_ca = \<lparr>ca_cfg_id = ''default'', key_file = Some ''ca.pem'', cert_pem = None,
     cert_pem_env = None, key_pem = None, key_pem_env = None, key_password_env = None,
     crl_lifetime_hours = default_crl_lifetime\<rparr>"

theorem validated_ca_has_material_witness:
  "has_source example_ca
   \<and> (inline_material (\<lambda>_. None) example_ca = Inr None \<longrightarrow> key_file example_ca \<noteq> None)"
proof -
  have src: "has_source example_ca"
    by (simp add: example_ca_def has_source_def)
  show ?thesis
    using src validated_ca_has_material [OF src, of "\<lambda>_. None"] by blast
qed

end
