(* ===== verification/Intune.thy ===== *)
theory Intune
  imports Config
begin

text \<open>
  \<open>intune/mod.rs\<close>: the client of the Microsoft Intune SCEP validation API.

  The immutable part of \<open>IntuneClient\<close> is the record \<open>intune_client\<close>; what sits behind
  its two locks (the token cache and the discovered endpoint) is \<open>intune_state\<close>, together
  with the log of the requests sent and the number of clock readings.  The network and the
  clock are the parameter \<open>env\<close>: the answer to the \<open>n\<close>-th request may be anything, and so
  may the \<open>n\<close>-th reading of \<open>Instant::now\<close>.  The JSON decoders (serde) and the status
  helpers of \<open>reqwest\<close> are the parameter \<open>lib\<close>.
\<close>

type_synonym instant = int  \<comment> \<open>nanoseconds\<close>

definition seconds :: "nat \<Rightarrow> int" where
  "seconds n = int n * 1000000000"

datatype json = JString string | JInt int | JObject "(string \<times> json) list"

datatype http_body = NoBody | FormBody "(string \<times> string) list" | JsonBody json

record http_request =
  rq_method :: string
  rq_url :: string
  rq_bearer :: "string option"
  rq_headers :: "(string \<times> string) list"
  rq_body :: http_body

record http_reply =
  rp_status :: nat
  rp_text :: "string + string"

record token_response =
  tr_access_token :: string
  tr_expires_in :: "int option"

record endpoint =
  ep_provider_name :: "string option"
  ep_uri :: "string option"

record validate_response =
  vr_code :: "string option"
  vr_error_description :: "string option"

record intune_lib =
  status_is_success :: "nat \<Rightarrow> bool"
  status_display :: "nat \<Rightarrow> string"
  token_json :: "http_reply \<Rightarrow> string + token_response"
  endpoints_json :: "http_reply \<Rightarrow> string + endpoint list"
  validate_json :: "http_reply \<Rightarrow> string + validate_response"
  value_json :: "http_reply \<Rightarrow> string + unit"

record net_env =
  send :: "nat \<Rightarrow> http_request \<Rightarrow> string + http_reply"
  instant_now :: "nat \<Rightarrow> instant"

record cached_token =
  ct_value :: string
  ct_expires_at :: instant

record issued_info =
  ii_thumbprint_sha1 :: string
  ii_serial_decimal :: string
  ii_not_after_utc :: string
  ii_issuer_cn :: string

record intune_client =
  icl_tenant_id :: string
  icl_client_id :: string
  icl_client_secret :: string
  icl_login_host :: string
  icl_resource :: string

record intune_state =
  is_tokens :: "string \<Rightarrow> cached_token option"
  is_validation_uri :: "string option"
  is_sent :: "http_request list"
  is_clock_reads :: nat

definition INTUNE_APP_ID :: string where
  "INTUNE_APP_ID = ''0000000a-0000-0000-c000-000000000000''"
definition GRAPH_RESOURCE :: string where
  "GRAPH_RESOURCE = ''https://graph.microsoft.com/''"
definition GRAPH_API_VERSION :: string where
  "GRAPH_API_VERSION = ''1.0''"
definition SCEP_SERVICE_VERSION :: string where
  "SCEP_SERVICE_VERSION = ''2018-02-20''"
definition VALIDATION_SERVICE_NAME :: string where
  "VALIDATION_SERVICE_NAME = ''ScepRequestValidationFEService''"
definition CALLER_INFO :: string where
  "CALLER_INFO = ''blapki''"
definition VALIDATE_PATH :: string where
  "VALIDATE_PATH = ''ScepActions/validateRequest''"
definition SUCCESS_PATH :: string where
  "SUCCESS_PATH = ''ScepActions/successNotification''"
definition FAILURE_PATH :: string where
  "FAILURE_PATH = ''ScepActions/failureNotification''"

definition new_client :: "intune_config \<Rightarrow> string \<Rightarrow> intune_client" where
  "new_client cfg client_secret =
     \<lparr>icl_tenant_id = tenant_id cfg, icl_client_id = client_id cfg,
      icl_client_secret = client_secret,
      icl_login_host = trim_end_matches (CHR ''/'') (login_host cfg),
      icl_resource = intune_resource cfg\<rparr>"

definition new_intune_state :: intune_state where
  "new_intune_state = \<lparr>is_tokens = Map.empty, is_validation_uri = None, is_sent = [], is_clock_reads = 0\<rparr>"

type_synonym 'a intune = "(intune_state, app_error, 'a) effect"

subsection \<open>Network and clock\<close>

definition send_request :: "net_env \<Rightarrow> http_request \<Rightarrow> intune_state \<Rightarrow> (string + http_reply) \<times> intune_state" where
  "send_request env rq st =
     (send env (length (is_sent st)) rq, st\<lparr>is_sent := is_sent st @ [rq]\<rparr>)"

definition read_instant :: "net_env \<Rightarrow> intune_state \<Rightarrow> instant \<times> intune_state" where
  "read_instant env st =
     (instant_now env (is_clock_reads st), st\<lparr>is_clock_reads := Suc (is_clock_reads st)\<rparr>)"

text \<open>\<open>.send().await.map_err(..)?\<close>, the status check and its error, and the decoding of the body.\<close>

definition request_json ::
  "intune_lib \<Rightarrow> net_env \<Rightarrow> http_request \<Rightarrow> (string \<Rightarrow> string) \<Rightarrow> (http_reply \<Rightarrow> string)
     \<Rightarrow> (http_reply \<Rightarrow> string + 'a) \<Rightarrow> (string \<Rightarrow> string) \<Rightarrow> 'a intune"
where
  "request_json lib env rq on_transport on_status decode on_decode st =
     (case send_request env rq st of
        (Inl e, st1) \<Rightarrow> (Inl (Upstream (on_transport e)), st1)
      | (Inr resp, st1) \<Rightarrow>
          if \<not> status_is_success lib (rp_status resp) then (Inl (Upstream (on_status resp)), st1)
          else (map_err (\<lambda>e. Upstream (on_decode e)) (decode resp), st1))"

subsection \<open>Tokens\<close>

definition token_url :: "intune_client \<Rightarrow> string" where
  "token_url cl = icl_login_host cl @ ''/'' @ icl_tenant_id cl @ ''/oauth2/v2.0/token''"

definition token_request :: "intune_client \<Rightarrow> string \<Rightarrow> http_request" where
  "token_request cl scope =
     \<lparr>rq_method = ''POST'', rq_url = token_url cl, rq_bearer = None, rq_headers = [],
      rq_body = FormBody [(''grant_type'', ''client_credentials''), (''client_id'', icl_client_id cl),
        (''client_secret'', icl_client_secret cl), (''scope'', scope)]\<rparr>"

text \<open>The lifetime given to the cache: \<open>expires_in.unwrap_or(3600).max(60)\<close>, less one minute.\<close>

definition token_ttl :: "token_response \<Rightarrow> nat" where
  "token_ttl tr = nat (max (case tr_expires_in tr of Some e \<Rightarrow> e | None \<Rightarrow> 3600) 60)"

definition store_token :: "net_env \<Rightarrow> string \<Rightarrow> token_response \<Rightarrow> string intune" where
  "store_token env scope tr st =
     (case read_instant env st of
        (now, st1) \<Rightarrow>
          (Inr (tr_access_token tr),
           st1\<lparr>is_tokens := (is_tokens st1)(scope \<mapsto>
                 \<lparr>ct_value = tr_access_token tr,
                  ct_expires_at = now + seconds (token_ttl tr - 60)\<rparr>)\<rparr>))"

definition fetch_token :: "intune_lib \<Rightarrow> net_env \<Rightarrow> intune_client \<Rightarrow> string \<Rightarrow> string intune" where
  "fetch_token lib env cl scope =
     and_then
       (request_json lib env (token_request cl scope)
          (\<lambda>e. ''token request failed: '' @ e)
          (\<lambda>resp. ''AAD token request returned HTTP '' @ status_display lib (rp_status resp) @ '': ''
             @ (case rp_text resp of Inr t \<Rightarrow> t | Inl e \<Rightarrow> ''''))
          (token_json lib)
          (\<lambda>e. ''bad token response: '' @ e))
       (store_token env scope)"

definition lookup_token :: "net_env \<Rightarrow> string \<Rightarrow> intune_state \<Rightarrow> string option \<times> intune_state" where
  "lookup_token env scope st =
     (case is_tokens st scope of
        None \<Rightarrow> (None, st)
      | Some t \<Rightarrow>
          (case read_instant env st of
             (now, st1) \<Rightarrow> (if ct_expires_at t > now then Some (ct_value t) else None, st1)))"

definition token :: "intune_lib \<Rightarrow> net_env \<Rightarrow> intune_client \<Rightarrow> string \<Rightarrow> string intune" where
  "token lib env cl scope st =
     (case lookup_token env scope st of
        (Some v, st1) \<Rightarrow> (Inr v, st1)
      | (None, st1) \<Rightarrow> fetch_token lib env cl scope st1)"

subsection \<open>Endpoint discovery\<close>

definition discovery_request :: "string \<Rightarrow> string \<Rightarrow> http_request" where
  "discovery_request bearer transaction_id =
     \<lparr>rq_method = ''GET'',
      rq_url = GRAPH_RESOURCE @ ''v'' @ GRAPH_API_VERSION @ ''/servicePrincipals/appId='' @ INTUNE_APP_ID
        @ ''/endpoints'',
      rq_bearer = Some bearer,
      rq_headers = [(''api-version'', GRAPH_API_VERSION), (''client-request-id'', transaction_id)],
      rq_body = NoBody\<rparr>"

definition pick_endpoint :: "endpoint list \<Rightarrow> string option" where
  "pick_endpoint es =
     (case find (\<lambda>e. ep_provider_name e = Some VALIDATION_SERVICE_NAME) es of
        None \<Rightarrow> None
      | Some e \<Rightarrow> ep_uri e)"

definition store_uri :: "string \<Rightarrow> string intune" where
  "store_uri uri st =
     (let uri = trim_end_matches (CHR ''/'') uri
      in (Inr uri, st\<lparr>is_validation_uri := Some uri\<rparr>))"

definition discover_endpoint ::
  "intune_lib \<Rightarrow> net_env \<Rightarrow> intune_client \<Rightarrow> string \<Rightarrow> string intune"
where
  "discover_endpoint lib env cl transaction_id =
     and_then (token lib env cl (GRAPH_RESOURCE @ ''.default'')) (\<lambda>tok.
     and_then
       (request_json lib env (discovery_request tok transaction_id)
          (\<lambda>e. ''Graph endpoint discovery failed: '' @ e)
          (\<lambda>resp. ''Graph endpoint discovery returned HTTP '' @ status_display lib (rp_status resp))
          (endpoints_json lib)
          (\<lambda>e. ''bad Graph endpoints response: '' @ e)) (\<lambda>es.
     and_then
       (pure (ok_or (Upstream (''Graph did not return a '' @ VALIDATION_SERVICE_NAME))
          (pick_endpoint es)))
       store_uri))"

definition validation_endpoint ::
  "intune_lib \<Rightarrow> net_env \<Rightarrow> intune_client \<Rightarrow> string \<Rightarrow> string intune"
where
  "validation_endpoint lib env cl transaction_id st =
     (case is_validation_uri st of
        Some uri \<Rightarrow> (Inr uri, st)
      | None \<Rightarrow> discover_endpoint lib env cl transaction_id st)"

subsection \<open>The three calls of the validation service\<close>

definition intune_request :: "string \<Rightarrow> string \<Rightarrow> string \<Rightarrow> json \<Rightarrow> http_request" where
  "intune_request bearer url transaction_id body =
     \<lparr>rq_method = ''POST'', rq_url = url, rq_bearer = Some bearer,
      rq_headers = [(''api-version'', SCEP_SERVICE_VERSION), (''client-request-id'', transaction_id),
        (''Accept'', ''application/json'')],
      rq_body = JsonBody body\<rparr>"

definition post_intune ::
  "intune_lib \<Rightarrow> net_env \<Rightarrow> intune_client \<Rightarrow> (http_reply \<Rightarrow> string + 'a)
     \<Rightarrow> string \<Rightarrow> string \<Rightarrow> json \<Rightarrow> 'a intune"
where
  "post_intune lib env cl decode url transaction_id body =
     and_then (token lib env cl (icl_resource cl @ ''.default'')) (\<lambda>tok.
       request_json lib env (intune_request tok url transaction_id body)
         (\<lambda>e. ''Intune request failed: '' @ e)
         (\<lambda>resp. ''Intune returned HTTP '' @ status_display lib (rp_status resp))
         decode
         (\<lambda>e. ''bad Intune response: '' @ e))"

definition validate_body :: "codec_lib \<Rightarrow> string \<Rightarrow> bytes \<Rightarrow> json" where
  "validate_body co transaction_id csr_der =
     JObject [(''request'', JObject
       [(''transactionId'', JString transaction_id),
        (''certificateRequest'', JString (base64_encode co csr_der)),
        (''callerInfo'', JString CALLER_INFO)])]"

definition judge_validation :: "validate_response \<Rightarrow> unit app_result" where
  "judge_validation resp =
     (case vr_code resp of
        Some code \<Rightarrow>
          if code = ''Success'' then Inr ()
          else Inl (Upstream (''Intune rejected the request: '' @ code @
                 (case vr_error_description resp of
                    Some d \<Rightarrow> '' ('' @ d @ '')'' | None \<Rightarrow> [])))
      | None \<Rightarrow> Inl (Upstream ''Intune returned no status code''))"

definition validate_request ::
  "intune_lib \<Rightarrow> net_env \<Rightarrow> codec_lib \<Rightarrow> intune_client \<Rightarrow> string \<Rightarrow> bytes \<Rightarrow> unit intune"
where
  "validate_request lib env co cl transaction_id csr_der =
     and_then (validation_endpoint lib env cl transaction_id) (\<lambda>uri.
     and_then (post_intune lib env cl (validate_json lib) (uri @ ''/'' @ VALIDATE_PATH)
                 transaction_id (validate_body co transaction_id csr_der)) (\<lambda>resp.
       pure (judge_validation resp)))"

definition success_body :: "codec_lib \<Rightarrow> string \<Rightarrow> bytes \<Rightarrow> issued_info \<Rightarrow> json" where
  "success_body co transaction_id csr_der info =
     JObject [(''notification'', JObject
       [(''transactionId'', JString transaction_id),
        (''certificateRequest'', JString (base64_encode co csr_der)),
        (''certificateThumbprint'', JString (ii_thumbprint_sha1 info)),
        (''certificateSerialNumber'', JString (ii_serial_decimal info)),
        (''certificateExpirationDateUtc'', JString (ii_not_after_utc info)),
        (''issuingCertificateAuthority'', JString (ii_issuer_cn info)),
        (''callerInfo'', JString CALLER_INFO)])]"

definition success_notification ::
  "intune_lib \<Rightarrow> net_env \<Rightarrow> codec_lib \<Rightarrow> intune_client \<Rightarrow> string \<Rightarrow> bytes \<Rightarrow> issued_info \<Rightarrow> unit intune"
where
  "success_notification lib env co cl transaction_id csr_der info =
     and_then (validation_endpoint lib env cl transaction_id) (\<lambda>uri.
       post_intune lib env cl (value_json lib) (uri @ ''/'' @ SUCCESS_PATH)
         transaction_id (success_body co transaction_id csr_der info))"

definition failure_body :: "codec_lib \<Rightarrow> string \<Rightarrow> bytes \<Rightarrow> int \<Rightarrow> string \<Rightarrow> json" where
  "failure_body co transaction_id csr_der hresult message =
     JObject [(''notification'', JObject
       [(''transactionId'', JString transaction_id),
        (''certificateRequest'', JString (base64_encode co csr_der)),
        (''hResult'', JInt hresult),
        (''errorDescription'', JString (take_chars 255 message)),
        (''callerInfo'', JString CALLER_INFO)])]"

definition failure_notification ::
  "intune_lib \<Rightarrow> net_env \<Rightarrow> codec_lib \<Rightarrow> intune_client \<Rightarrow> string \<Rightarrow> bytes \<Rightarrow> int \<Rightarrow> string \<Rightarrow> unit intune"
where
  "failure_notification lib env co cl transaction_id csr_der hresult message =
     and_then (validation_endpoint lib env cl transaction_id) (\<lambda>uri.
       post_intune lib env cl (value_json lib) (uri @ ''/'' @ FAILURE_PATH)
         transaction_id (failure_body co transaction_id csr_der hresult message))"

subsection \<open>What a client call does to its state\<close>

definition same_but_log :: "http_request \<Rightarrow> intune_state \<Rightarrow> intune_state \<Rightarrow> bool" where
  "same_but_log rq st st' \<longleftrightarrow> st' = st\<lparr>is_sent := is_sent st @ [rq]\<rparr>"

lemma request_json_state: "snd (request_json lib env rq a b d c st) = st\<lparr>is_sent := is_sent st @ [rq]\<rparr>"
  by (auto simp: request_json_def send_request_def split: sum.splits)

lemma request_json_ok:
  "request_json lib env rq a b d c st = (Inr x, st') \<Longrightarrow>
     (\<exists>resp. send env (length (is_sent st)) rq = Inr resp \<and> status_is_success lib (rp_status resp)
        \<and> d resp = Inr x) \<and> st' = st\<lparr>is_sent := is_sent st @ [rq]\<rparr>"
  by (auto simp: request_json_def send_request_def split: sum.splits if_splits)

text \<open>Every request the client sends is one of three shapes; only the first carries the secret.\<close>

definition request_ok :: "intune_client \<Rightarrow> http_request \<Rightarrow> bool" where
  "request_ok cl rq \<longleftrightarrow>
     (\<exists>scope. rq = token_request cl scope) \<or> (\<exists>b t. rq = discovery_request b t)
     \<or> (\<exists>b u t body. rq = intune_request b u t body)"

definition uri_ok :: "intune_state \<Rightarrow> bool" where
  "uri_ok st \<longleftrightarrow> (\<forall>u. is_validation_uri st = Some u \<longrightarrow> trim_end_matches (CHR ''/'') u = u)"

text \<open>
  The relation between the states before and after: the log grows by requests of the known
  shapes, a discovered endpoint is kept, and after that no discovery request is sent.
\<close>

definition grows :: "intune_client \<Rightarrow> intune_state \<Rightarrow> intune_state \<Rightarrow> bool" where
  "grows cl st st' \<longleftrightarrow>
     (\<exists>new. is_sent st' = is_sent st @ new \<and> list_all (request_ok cl) new
        \<and> (is_validation_uri st \<noteq> None \<longrightarrow> (\<forall>b t. discovery_request b t \<notin> set new)))
     \<and> (is_validation_uri st \<noteq> None \<longrightarrow> is_validation_uri st' = is_validation_uri st)
     \<and> (uri_ok st \<longrightarrow> uri_ok st')"

lemma grows_refl [intro, simp]: "grows cl st st"
  by (auto simp: grows_def)

lemma grows_trans:
  assumes "grows cl a b" "grows cl b c" shows "grows cl a c"
proof -
  from assms(1) obtain n1 where n1: "is_sent b = is_sent a @ n1" "list_all (request_ok cl) n1"
    "is_validation_uri a \<noteq> None \<longrightarrow> (\<forall>b t. discovery_request b t \<notin> set n1)"
    by (auto simp: grows_def)
  from assms(2) obtain n2 where n2: "is_sent c = is_sent b @ n2" "list_all (request_ok cl) n2"
    "is_validation_uri b \<noteq> None \<longrightarrow> (\<forall>b t. discovery_request b t \<notin> set n2)"
    by (auto simp: grows_def)
  have uri: "is_validation_uri a \<noteq> None \<longrightarrow> is_validation_uri b = is_validation_uri a"
    and uri': "is_validation_uri b \<noteq> None \<longrightarrow> is_validation_uri c = is_validation_uri b"
    and ok: "uri_ok a \<longrightarrow> uri_ok c"
    using assms by (auto simp: grows_def)
  have "\<exists>new. is_sent c = is_sent a @ new \<and> list_all (request_ok cl) new
        \<and> (is_validation_uri a \<noteq> None \<longrightarrow> (\<forall>b t. discovery_request b t \<notin> set new))"
    using n1 n2 uri by (intro exI [of _ "n1 @ n2"]) auto
  with uri uri' ok show ?thesis by (auto simp: grows_def)
qed

lemma grows_send:
  "request_ok cl rq \<Longrightarrow> is_validation_uri st \<noteq> None \<longrightarrow> (\<forall>b t. rq \<noteq> discovery_request b t) \<Longrightarrow>
     grows cl st (st\<lparr>is_sent := is_sent st @ [rq]\<rparr>)"
  by (auto simp: grows_def uri_ok_def)

lemma grows_quiet:
  "is_sent st' = is_sent st \<Longrightarrow> is_validation_uri st' = is_validation_uri st \<Longrightarrow> grows cl st st'"
  by (auto simp: grows_def uri_ok_def)

lemma grows_and_then:
  assumes "grows cl st (snd (m st))"
    and "\<And>x st1. m st = (Inr x, st1) \<Longrightarrow> grows cl st1 (snd (f x st1))"
  shows "grows cl st (snd (and_then m f st))"
proof (rule and_then_keeps [where P = "grows cl st"])
  show "grows cl st (snd (m st))" by (rule assms(1))
  show "grows cl st (snd (f x s1))" if "m st = (Inr x, s1)" "grows cl st s1" for x s1
    using grows_trans [OF that(2) assms(2) [OF that(1)]] .
qed

lemma not_discovery [simp]:
  "token_request cl scope \<noteq> discovery_request b t" "intune_request b' u t' body \<noteq> discovery_request b t"
  by (simp_all add: token_request_def discovery_request_def intune_request_def)

lemma request_ok_shapes [simp]:
  "request_ok cl (token_request cl scope)" "request_ok cl (discovery_request b t)"
  "request_ok cl (intune_request b u t body)"
  unfolding request_ok_def by blast+

lemma store_token_ok:
  "store_token env scope tr st = (r, st') \<Longrightarrow>
     r = Inr (tr_access_token tr) \<and> is_sent st' = is_sent st \<and> is_validation_uri st' = is_validation_uri st
     \<and> is_tokens st' scope = Some \<lparr>ct_value = tr_access_token tr,
          ct_expires_at = instant_now env (is_clock_reads st) + seconds (token_ttl tr - 60)\<rparr>"
  by (auto simp: store_token_def read_instant_def)

lemma fetch_token_grows: "grows cl st (snd (fetch_token lib env cl scope st))"
  unfolding fetch_token_def
proof (rule grows_and_then)
  fix x st1
  show "grows cl st1 (snd (store_token env scope x st1))"
    by (cases "store_token env scope x st1") (auto dest: store_token_ok intro: grows_quiet)
qed (simp add: request_json_state grows_send)

lemma lookup_token_state:
  "lookup_token env scope st = (r, st') \<Longrightarrow>
     is_sent st' = is_sent st \<and> is_validation_uri st' = is_validation_uri st \<and> is_tokens st' = is_tokens st"
  by (auto simp: lookup_token_def read_instant_def split: option.splits)

lemma token_grows: "grows cl st (snd (token lib env cl scope st))"
proof (cases "lookup_token env scope st")
  case (Pair r st1)
  then have "grows cl st st1"
    by (auto dest: lookup_token_state intro: grows_quiet)
  with Pair show ?thesis
    by (auto simp: token_def split: option.splits intro: grows_trans fetch_token_grows)
qed

lemma token_uri: "is_validation_uri (snd (token lib env cl scope st)) = is_validation_uri st"
proof (cases "lookup_token env scope st")
  case (Pair r st1)
  have "is_validation_uri (snd (fetch_token lib env cl scope st1)) = is_validation_uri st1"
    unfolding fetch_token_def
    by (rule and_then_keeps)
      (auto simp: request_json_state store_token_def read_instant_def)
  with Pair show ?thesis
    by (auto simp: token_def split: option.splits dest: lookup_token_state)
qed

lemma discover_grows:
  assumes none: "is_validation_uri st = None"
  shows "grows cl st (snd (discover_endpoint lib env cl tid st))"
  unfolding discover_endpoint_def
proof (intro grows_and_then token_grows)
  fix tok st1
  assume tok: "token lib env cl (GRAPH_RESOURCE @ ''.default'') st = (Inr tok, st1)"
  then have none1: "is_validation_uri st1 = None"
    using token_uri [of lib env cl "GRAPH_RESOURCE @ ''.default''" st] none by simp
  show "grows cl st1 (snd (request_json lib env (discovery_request tok tid) a b d c st1))" for a b d c
    using none1 by (simp add: request_json_state grows_send)
  show "grows cl st2 (snd (pure r st2))" for r st2 by simp
  fix es st2 uri st3
  assume "request_json lib env (discovery_request tok tid) (\<lambda>e. ''Graph endpoint discovery failed: '' @ e)
      (\<lambda>resp. ''Graph endpoint discovery returned HTTP '' @ status_display lib (rp_status resp))
      (endpoints_json lib) (\<lambda>e. ''bad Graph endpoints response: '' @ e) st1 = (Inr es, st2)"
    and "pure (ok_or (Upstream (''Graph did not return a '' @ VALIDATION_SERVICE_NAME)) (pick_endpoint es)) st2
      = (Inr uri, st3)"
  then have "is_validation_uri st3 = None"
    using none1 by (auto dest: request_json_ok)
  then show "grows cl st3 (snd (store_uri uri st3))"
    by (auto simp: store_uri_def grows_def uri_ok_def Let_def)
qed

lemma validation_endpoint_grows: "grows cl st (snd (validation_endpoint lib env cl tid st))"
  by (auto simp: validation_endpoint_def discover_grows split: option.splits)

lemma post_intune_grows: "grows cl st (snd (post_intune lib env cl decode url tid body st))"
  unfolding post_intune_def
  by (intro grows_and_then token_grows) (simp add: request_json_state grows_send)

lemma client_calls_grow:
  "grows cl st (snd (validate_request lib env co cl tid csr st))"
  "grows cl st (snd (success_notification lib env co cl tid csr info st))"
  "grows cl st (snd (failure_notification lib env co cl tid csr h msg st))"
  unfolding validate_request_def success_notification_def failure_notification_def
  by (intro grows_and_then validation_endpoint_grows post_intune_grows; simp)+

subsection \<open>Properties of the client\<close>

lemma post_intune_ok:
  assumes "post_intune lib env cl decode url tid body st = (Inr x, st')"
  shows "\<exists>pre tok resp. is_sent st' = pre @ [intune_request tok url tid body]
    \<and> prefix (is_sent st) pre
    \<and> send env (length pre) (intune_request tok url tid body) = Inr resp
    \<and> status_is_success lib (rp_status resp) \<and> decode resp = Inr x"
proof -
  from assms obtain tok st1 where tok: "token lib env cl (icl_resource cl @ ''.default'') st = (Inr tok, st1)"
    and req: "request_json lib env (intune_request tok url tid body) (\<lambda>e. ''Intune request failed: '' @ e)
         (\<lambda>resp. ''Intune returned HTTP '' @ status_display lib (rp_status resp)) decode
         (\<lambda>e. ''bad Intune response: '' @ e) st1 = (Inr x, st')"
    by (auto simp: post_intune_def and_then_Inr)
  have "prefix (is_sent st) (is_sent st1)"
    using token_grows [of cl st lib env "icl_resource cl @ ''.default''"] tok
    by (auto simp: grows_def)
  with request_json_ok [OF req] show ?thesis by auto
qed

text \<open>
  C35: an Intune approval is never invented.  When \<open>validate_request\<close> returns \<open>Ok\<close>, the last
  request the client sent is the POST of this transaction's identifier and CSR to the
  \<open>validateRequest\<close> action, and the service answered it with a success status and the code
  \<open>Success\<close>.
\<close>

theorem validate_request_needs_approval:
  assumes "validate_request lib env co cl tid csr_der st = (Inr (), st')"
  shows "\<exists>pre tok uri resp v.
     is_sent st' = pre @ [intune_request tok (uri @ ''/'' @ VALIDATE_PATH) tid (validate_body co tid csr_der)]
     \<and> prefix (is_sent st) pre
     \<and> send env (length pre)
          (intune_request tok (uri @ ''/'' @ VALIDATE_PATH) tid (validate_body co tid csr_der)) = Inr resp
     \<and> status_is_success lib (rp_status resp)
     \<and> validate_json lib resp = Inr v \<and> vr_code v = Some ''Success''"
proof -
  from assms obtain uri st1 v st2 where ep: "validation_endpoint lib env cl tid st = (Inr uri, st1)"
    and post: "post_intune lib env cl (validate_json lib) (uri @ ''/'' @ VALIDATE_PATH) tid
        (validate_body co tid csr_der) st1 = (Inr v, st2)"
    and judge: "judge_validation v = Inr ()" and st': "st' = st2"
    by (auto simp: validate_request_def and_then_Inr)
  from judge have code: "vr_code v = Some ''Success''"
    by (auto simp: judge_validation_def split: option.splits if_splits)
  have "prefix (is_sent st) (is_sent st1)"
    using validation_endpoint_grows [of cl st lib env tid] ep by (auto simp: grows_def)
  with post_intune_ok [OF post] code st' show ?thesis
    by (metis prefix_order.trans)
qed


lemma token_cached:
  assumes "token lib env cl scope st = (Inr v, st')" and "is_sent st' = is_sent st"
  shows "\<exists>t. is_tokens st scope = Some t \<and> v = ct_value t
    \<and> instant_now env (is_clock_reads st) < ct_expires_at t"
proof (cases "lookup_token env scope st")
  case (Pair r st1)
  have fetch: "is_sent st2 \<noteq> is_sent st1" if "fetch_token lib env cl scope st1 = (Inr x, st2)" for x st2
    using that by (auto simp: fetch_token_def and_then_Inr dest!: request_json_ok store_token_ok)
  show ?thesis
  proof (cases r)
    case None
    with Pair assms fetch show ?thesis
      by (auto simp: token_def dest: lookup_token_state)
  next
    case (Some u)
    with Pair assms(1) show ?thesis
      by (auto simp: token_def lookup_token_def read_instant_def split: option.splits if_splits)
  qed
qed

text \<open>
  C36: a cached token is only reused while it is good.  A token fetched at instant \<open>t0\<close> with
  a lifetime of \<open>n\<close> seconds and served from the cache at \<open>t1\<close> has more than a minute left:
  \<open>t1 + 60s < t0 + n\<close>; one with a lifetime of a minute or less is never served from the
  cache (on a monotonic clock).
\<close>

theorem cached_token_is_fresh:
  assumes fetch: "store_token env scope tr st0 = (Inr v, st1)"
    and kept: "is_tokens st2 scope = is_tokens st1 scope"
    and life: "tr_expires_in tr = Some n"
    and reuse: "token lib env cl scope st2 = (Inr v', st3)" "is_sent st3 = is_sent st2"
    and mono: "instant_now env (is_clock_reads st0) \<le> instant_now env (is_clock_reads st2)"
  shows "v' = tr_access_token tr \<and> 60 < n
    \<and> instant_now env (is_clock_reads st2) + seconds 60
        < instant_now env (is_clock_reads st0) + n * 1000000000"
proof -
  obtain t where t: "is_tokens st2 scope = Some t" "v' = ct_value t"
    "instant_now env (is_clock_reads st2) < ct_expires_at t"
    using token_cached [OF reuse] by blast
  have "t = \<lparr>ct_value = tr_access_token tr,
      ct_expires_at = instant_now env (is_clock_reads st0) + seconds (token_ttl tr - 60)\<rparr>"
    using store_token_ok [OF fetch] kept t(1) by simp
  with t(2,3) have v: "v' = tr_access_token tr"
    and lt: "instant_now env (is_clock_reads st2)
      < instant_now env (is_clock_reads st0) + seconds (token_ttl tr - 60)"
    by simp_all
  have ttl: "token_ttl tr = nat (max n 60)"
    using life by (simp add: token_ttl_def)
  have "60 < n"
  proof (rule ccontr)
    assume "\<not> 60 < n"
    then have "token_ttl tr - 60 = 0" by (simp add: ttl max_def)
    with lt mono show False by (simp add: seconds_def)
  qed
  moreover from this have "int (token_ttl tr - 60) = n - 60"
    by (simp add: ttl max_def of_nat_diff)
  ultimately show ?thesis
    using v lt by (simp add: seconds_def algebra_simps)
qed

subsection \<open>A concrete service\<close>

text \<open>A network that answers every request with 200 and the approval, and a ticking clock.\<close>

definition demo_intune_lib :: intune_lib where
  "demo_intune_lib =
     \<lparr>status_is_success = (\<lambda>s. 200 \<le> s \<and> s < 300), status_display = dec,
      token_json = (\<lambda>r. Inr \<lparr>tr_access_token = ''tok'', tr_expires_in = Some 3600\<rparr>),
      endpoints_json = (\<lambda>r. Inr [\<lparr>ep_provider_name = Some VALIDATION_SERVICE_NAME, ep_uri = Some ''https://v/''\<rparr>]),
      validate_json = (\<lambda>r. Inr \<lparr>vr_code = Some ''Success'', vr_error_description = None\<rparr>),
      value_json = (\<lambda>r. Inr ())\<rparr>"

definition demo_net :: net_env where
  "demo_net = \<lparr>send = (\<lambda>n rq. Inr \<lparr>rp_status = 200, rp_text = Inr []\<rparr>), instant_now = (\<lambda>n. int n)\<rparr>"

definition demo_client :: intune_client where
  "demo_client = \<lparr>icl_tenant_id = ''t'', icl_client_id = ''c'', icl_client_secret = ''s'',
     icl_login_host = ''https://login'', icl_resource = ''r/''\<rparr>"

definition demo_codec :: codec_lib where
  "demo_codec =
     \<lparr>base64_encode = text_of,
      base64_decode = (\<lambda>b. if b = [255] then Inl ''Invalid symbol'' else Inr b),
      hex_encode = text_of,
      hex_encode_upper = text_of,
      hex_decode = (\<lambda>s. if s = ''zz'' then Inl ''Invalid character'' else Inr (as_bytes s))\<rparr>"

lemmas demo_net_eval =
  demo_intune_lib_def demo_net_def validate_request_def validation_endpoint_def post_intune_def
  token_def lookup_token_def fetch_token_def request_json_def send_request_def store_token_def
  read_instant_def judge_validation_def and_then_def

definition discovered_state :: intune_state where
  "discovered_state = new_intune_state\<lparr>is_validation_uri := Some ''https://v''\<rparr>"

lemma demo_validation:
  "\<exists>st'. validate_request demo_intune_lib demo_net demo_codec demo_client ''txn'' [1] discovered_state = (Inr (), st')"
  by (simp add: demo_net_eval discovered_state_def new_intune_state_def)

theorem validate_request_needs_approval_witness:
  "\<exists>st' pre tok uri. validate_request demo_intune_lib demo_net demo_codec demo_client ''txn'' [1] discovered_state
       = (Inr (), st')
     \<and> is_sent st' = pre @ [intune_request tok (uri @ ''/'' @ VALIDATE_PATH) ''txn'' (validate_body demo_codec ''txn'' [1])]"
proof -
  obtain st' where run:
    "validate_request demo_intune_lib demo_net demo_codec demo_client ''txn'' [1] discovered_state = (Inr (), st')"
    using demo_validation by blast
  with validate_request_needs_approval [OF run] show ?thesis by blast
qed


text \<open>A token with a lifetime of an hour, fetched at instant 0 and served again at instant 1.\<close>

theorem cached_token_is_fresh_witness:
  "\<exists>st1 st3. store_token demo_net ''scope'' \<lparr>tr_access_token = ''tok'', tr_expires_in = Some 3600\<rparr>
       new_intune_state = (Inr ''tok'', st1)
     \<and> token demo_intune_lib demo_net demo_client ''scope'' st1 = (Inr ''tok'', st3)
     \<and> instant_now demo_net (is_clock_reads st1) + seconds 60
         < instant_now demo_net (is_clock_reads new_intune_state) + 3600 * 1000000000"
proof -
  let ?tr = "\<lparr>tr_access_token = ''tok'', tr_expires_in = Some 3600\<rparr>"
  obtain st1 where s1: "store_token demo_net ''scope'' ?tr new_intune_state = (Inr ''tok'', st1)"
    by (simp add: store_token_def read_instant_def)
  have st1: "is_tokens st1 ''scope'' = Some \<lparr>ct_value = ''tok'', ct_expires_at = seconds 3540\<rparr>"
    and reads: "is_clock_reads st1 = 1"
    using s1 by (auto simp: store_token_def read_instant_def demo_net_def new_intune_state_def token_ttl_def)
  obtain st3 where s3: "token demo_intune_lib demo_net demo_client ''scope'' st1 = (Inr ''tok'', st3)"
    and quiet: "is_sent st3 = is_sent st1"
    using st1 reads
    by (simp add: token_def lookup_token_def read_instant_def demo_net_def seconds_def)
  have "is_tokens st1 ''scope'' = is_tokens st1 ''scope''" by simp
  have mono: "instant_now demo_net (is_clock_reads new_intune_state) \<le> instant_now demo_net (is_clock_reads st1)"
    by (simp add: demo_net_def new_intune_state_def)
  from cached_token_is_fresh [OF s1 refl _ s3 quiet mono, of 3600] s1 s3 show ?thesis
    by auto
qed

end
