(* ===== verification/Challenge.thy ===== *)
theory Challenge
  imports Intune
begin

unbundle bit_operations_syntax

text \<open>
  \<open>challenge/mod.rs\<close>: the challenge validators.  The trait object of the source is the
  datatype \<open>validator\<close>, one constructor per implementation; its three methods dispatch on it.
\<close>

record validation_input =
  vi_transaction_id :: string
  vi_csr_der :: bytes
  vi_challenge_password :: "string option"

datatype validator =
    StaticSecretValidator string
  | NoneValidator
  | IntuneValidator intune_client

text \<open>\<open>constant_time_eq\<close>: the loop ORs the difference of each pair of bytes into \<open>diff\<close>.\<close>

fun diff_loop :: "byte \<Rightarrow> (byte \<times> byte) list \<Rightarrow> byte" where
  "diff_loop diff [] = diff"
| "diff_loop diff ((x, y) # ps) = diff_loop (diff OR (x XOR y)) ps"

definition constant_time_eq :: "bytes \<Rightarrow> bytes \<Rightarrow> bool" where
  "constant_time_eq a b =
     (if length a \<noteq> length b then False else diff_loop 0 (zip a b) = 0)"

definition static_validate :: "string \<Rightarrow> validation_input \<Rightarrow> unit app_result" where
  "static_validate secret input =
     (case vi_challenge_password input of
        Some pw \<Rightarrow>
          if constant_time_eq (as_bytes pw) (as_bytes secret) then Inr ()
          else Inl (bad_request ''incorrect challenge password'')
      | None \<Rightarrow> Inl (bad_request ''missing challenge password''))"

fun validate :: "intune_lib \<Rightarrow> net_env \<Rightarrow> codec_lib \<Rightarrow> validator \<Rightarrow> validation_input \<Rightarrow> unit intune" where
  "validate lib env co (StaticSecretValidator secret) input = pure (static_validate secret input)"
| "validate lib env co NoneValidator input = pure (Inr ())"
| "validate lib env co (IntuneValidator cl) input =
     validate_request lib env co cl (vi_transaction_id input) (vi_csr_der input)"

fun on_issued ::
  "intune_lib \<Rightarrow> net_env \<Rightarrow> codec_lib \<Rightarrow> validator \<Rightarrow> validation_input \<Rightarrow> issued_info \<Rightarrow> unit intune"
where
  "on_issued lib env co (IntuneValidator cl) input info =
     success_notification lib env co cl (vi_transaction_id input) (vi_csr_der input) info"
| "on_issued lib env co v input info = pure (Inr ())"

fun on_failure ::
  "intune_lib \<Rightarrow> net_env \<Rightarrow> codec_lib \<Rightarrow> validator \<Rightarrow> validation_input \<Rightarrow> string \<Rightarrow> unit intune"
where
  "on_failure lib env co (IntuneValidator cl) input message =
     failure_notification lib env co cl (vi_transaction_id input) (vi_csr_der input) 1234 message"
| "on_failure lib env co v input message = pure (Inr ())"

lemma xor_zero_iff: "(x :: byte) XOR y = 0 \<longleftrightarrow> x = y"
  by (auto simp: bit_eq_iff bit_xor_iff)

lemma or_zero_iff: "(x :: byte) OR y = 0 \<longleftrightarrow> x = 0 \<and> y = 0"
  by (auto simp: bit_eq_iff bit_or_iff)

lemma diff_loop_zero: "diff_loop d ps = 0 \<longleftrightarrow> d = 0 \<and> (\<forall>(x, y)\<in>set ps. x = y)"
proof (induction d ps rule: diff_loop.induct)
  case (2 diff x y ps)
  have "diff OR (x XOR y) = 0 \<longleftrightarrow> diff = 0 \<and> x = y"
    by (simp add: or_zero_iff xor_zero_iff)
  with 2 show ?case by auto
qed simp

lemma constant_time_eq_iff: "constant_time_eq a b \<longleftrightarrow> a = b"
  by (auto simp: constant_time_eq_def diff_loop_zero list_eq_iff_zip_eq)

subsection \<open>The contract of a validator\<close>

text \<open>
  What the SCEP handler needs from any validator: its three methods change nothing but the
  validator's own client state, along a relation \<open>rel\<close> that composes.  A validator without a
  back-end changes nothing, and its notifications always succeed.
\<close>

locale challenge_validator =
  fixes validate_op :: "validation_input \<Rightarrow> unit intune"
    and on_issued_op :: "validation_input \<Rightarrow> issued_info \<Rightarrow> unit intune"
    and on_failure_op :: "validation_input \<Rightarrow> string \<Rightarrow> unit intune"
    and rel :: "intune_state \<Rightarrow> intune_state \<Rightarrow> bool"
  assumes rel_refl: "rel st st"
    and rel_trans: "rel a b \<Longrightarrow> rel b c \<Longrightarrow> rel a c"
    and validate_rel: "rel st (snd (validate_op i st))"
    and on_issued_rel: "rel st (snd (on_issued_op i info st))"
    and on_failure_rel: "rel st (snd (on_failure_op i m st))"
begin

lemma rejected_rel: "validate_op i st = (Inl e, st1) \<Longrightarrow> rel st (snd (on_failure_op i m st1))"
  by (metis on_failure_rel rel_trans snd_conv validate_rel)

lemma accepted_rel: "validate_op i st = (Inr u, st1) \<Longrightarrow> rel st (snd (on_issued_op i info st1))"
  by (metis on_issued_rel rel_trans snd_conv validate_rel)

lemma issue_failed_rel: "validate_op i st = (Inr u, st1) \<Longrightarrow> rel st (snd (on_failure_op i m st1))"
  by (metis on_failure_rel rel_trans snd_conv validate_rel)

end

locale offline_validator =
  fixes validate_op :: "validation_input \<Rightarrow> unit intune"
    and on_issued_op :: "validation_input \<Rightarrow> issued_info \<Rightarrow> unit intune"
    and on_failure_op :: "validation_input \<Rightarrow> string \<Rightarrow> unit intune"
    and verdict :: "validation_input \<Rightarrow> unit app_result"
  assumes validate_pure: "validate_op i st = (verdict i, st)"
    and on_issued_pure: "on_issued_op i info st = (Inr (), st)"
    and on_failure_pure: "on_failure_op i m st = (Inr (), st)"

sublocale offline_validator \<subseteq> challenge_validator validate_op on_issued_op on_failure_op "(=)"
  by unfold_locales (simp_all add: validate_pure on_issued_pure on_failure_pure)

interpretation static_secret: offline_validator
  "validate lib env co (StaticSecretValidator secret)" "on_issued lib env co (StaticSecretValidator secret)"
  "on_failure lib env co (StaticSecretValidator secret)" "static_validate secret"
  for lib env co secret
  by unfold_locales simp_all

interpretation accept_all: offline_validator
  "validate lib env co NoneValidator" "on_issued lib env co NoneValidator"
  "on_failure lib env co NoneValidator" "\<lambda>_. Inr ()"
  for lib env co
  by unfold_locales simp_all

text \<open>The state relation of each validator.\<close>

definition validator_rel :: "validator \<Rightarrow> intune_state \<Rightarrow> intune_state \<Rightarrow> bool" where
  "validator_rel v st st' =
     (case v of IntuneValidator cl \<Rightarrow> grows cl st st' | _ \<Rightarrow> st' = st)"

interpretation validators: challenge_validator "validate lib env co v" "on_issued lib env co v"
  "on_failure lib env co v" "validator_rel v"
  for lib env co v
proof
  fix st a b c :: intune_state and i info m
  show "validator_rel v st st"
    by (simp add: validator_rel_def split: validator.split)
  show "validator_rel v a b \<Longrightarrow> validator_rel v b c \<Longrightarrow> validator_rel v a c"
    by (auto simp: validator_rel_def split: validator.splits intro: grows_trans)
  show "validator_rel v st (snd (validate lib env co v i st))"
    by (cases v) (simp_all add: validator_rel_def client_calls_grow)
  show "validator_rel v st (snd (on_issued lib env co v i info st))"
    by (cases v) (simp_all add: validator_rel_def client_calls_grow)
  show "validator_rel v st (snd (on_failure lib env co v i m st))"
    by (cases v) (simp_all add: validator_rel_def client_calls_grow)
qed

subsection \<open>Properties of the validators\<close>

text \<open>
  C17: the byte loop of \<open>constant_time_eq\<close> computes equality, on all inputs, whatever their
  lengths, so the static validator accepts exactly the configured secret, byte for byte,
  without any network access; a wrong and a missing password are both client errors.
\<close>

theorem static_secret_is_exact:
  "(constant_time_eq a b \<longleftrightarrow> a = b)
   \<and> validate lib env co (StaticSecretValidator secret) i st =
      ((if vi_challenge_password i = Some secret then Inr ()
        else if vi_challenge_password i = None then Inl (bad_request ''missing challenge password'')
        else Inl (bad_request ''incorrect challenge password'')), st)"
  by (auto simp: constant_time_eq_iff static_secret.validate_pure static_validate_def split: option.splits)

text \<open>
  Which validators can reject.  A profile with no challenge accepts every request and
  never calls out; the Intune validator accepts only what the service approved (the decision
  does not look at the challenge password at all); and whatever a validator does in a
  request, it stays inside its own client state.
\<close>

theorem validators_keep_to_their_client:
  "validate lib env co NoneValidator i st = (Inr (), st)
   \<and> (vi_transaction_id i = vi_transaction_id j \<and> vi_csr_der i = vi_csr_der j \<longrightarrow>
        validate lib env co (IntuneValidator cl) i st = validate lib env co (IntuneValidator cl) j st)
   \<and> validator_rel v st (snd (validate lib env co v i st))
   \<and> validator_rel v st (snd (on_failure lib env co v i m (snd (validate lib env co v i st))))
   \<and> validator_rel v st (snd (on_issued lib env co v i info (snd (validate lib env co v i st))))"
proof (intro conjI impI)
  show "validator_rel v st (snd (validate lib env co v i st))"
    by (rule validators.validate_rel)
  then show "validator_rel v st (snd (on_failure lib env co v i m (snd (validate lib env co v i st))))"
    and "validator_rel v st (snd (on_issued lib env co v i info (snd (validate lib env co v i st))))"
    by (blast intro: validators.rel_trans validators.on_failure_rel validators.on_issued_rel)+
qed simp_all

theorem validators_keep_to_their_client_witness:
  "validate demo_intune_lib demo_net demo_codec NoneValidator
     \<lparr>vi_transaction_id = ''t'', vi_csr_der = [], vi_challenge_password = None\<rparr> new_intune_state
     = (Inr (), new_intune_state)"
  using validators_keep_to_their_client [of demo_intune_lib demo_net demo_codec
      "\<lparr>vi_transaction_id = ''t'', vi_csr_der = [], vi_challenge_password = None\<rparr>" new_intune_state]
  by blast

end
