(* ===== verification/Repo.thy ===== *)
theory Repo
  imports Externals
begin

text \<open>
  \<open>db/mod.rs\<close> and \<open>db/repo.rs\<close>: the tables and the repository functions over them.

  A table is the list of its rows in insertion order; each SQL statement of the source is a
  function on the tables, with the constraint of its schema (a primary key).  Whether the
  engine carries a statement out is the parameter \<open>fault\<close>: the \<open>n\<close>-th statement sent to
  the pool fails with the given text when \<open>fault n\<close> is one (a lost connection, a limit of
  the backend), leaving the tables as they were.  \<open>db_calls\<close> counts the statements sent.
\<close>

record issued_certificate =
  ic_serial :: string
  ic_ca_id :: string
  ic_subject :: string
  ic_not_before :: string
  ic_not_after :: string
  ic_der_b64 :: string
  ic_thumbprint_sha1 :: string
  ic_transaction_id :: "string option"
  ic_profile :: "string option"
  ic_status :: string
  ic_created_at :: string
  ic_revoked_at :: "string option"
  ic_revocation_reason :: "int option"

record scep_transaction =
  tx_transaction_id :: string
  tx_profile :: string
  tx_status :: string
  tx_message_type :: string
  tx_created_at :: string

record database =
  tables :: "string list"
  issued :: "issued_certificate list"
  transactions :: "scep_transaction list"
  db_calls :: nat

definition STATUS_VALID :: string where
  "STATUS_VALID = ''valid''"

definition STATUS_REVOKED :: string where
  "STATUS_REVOKED = ''revoked''"

lemma status_neq [simp]: "STATUS_VALID \<noteq> STATUS_REVOKED" "STATUS_REVOKED \<noteq> STATUS_VALID"
  by (simp_all add: STATUS_VALID_def STATUS_REVOKED_def)

type_synonym db_fault = "nat \<Rightarrow> string option"

text \<open>Send one statement on table \<open>t\<close> to the pool.\<close>

definition run_statement ::
  "db_fault \<Rightarrow> string \<Rightarrow> (database \<Rightarrow> string + ('a \<times> database)) \<Rightarrow> database \<Rightarrow> 'a app_result \<times> database"
where
  "run_statement fault t stmt db =
     (let db1 = db\<lparr>db_calls := Suc (db_calls db)\<rparr> in
      case fault (db_calls db) of
        Some e \<Rightarrow> (Inl (Database e), db1)
      | None \<Rightarrow>
          if t \<notin> set (tables db) then (Inl (Database (''no such table: '' @ t)), db1)
          else (case stmt db1 of
                  Inl e \<Rightarrow> (Inl (Database e), db1)
                | Inr (x, db2) \<Rightarrow> (Inr x, db2)))"

subsection \<open>Schema\<close>

definition SCHEMA :: "string list" where
  "SCHEMA = [''issued_certificate'', ''scep_transaction'']"

text \<open>\<open>CREATE TABLE IF NOT EXISTS\<close>\<close>

definition create_table :: "db_fault \<Rightarrow> string \<Rightarrow> database \<Rightarrow> unit app_result \<times> database" where
  "create_table fault t db =
     (let db1 = db\<lparr>db_calls := Suc (db_calls db)\<rparr> in
      case fault (db_calls db) of
        Some e \<Rightarrow> (Inl (Database e), db1)
      | None \<Rightarrow> (Inr (), if t \<in> set (tables db) then db1 else db1\<lparr>tables := tables db @ [t]\<rparr>))"

fun migrate_from :: "db_fault \<Rightarrow> string list \<Rightarrow> database \<Rightarrow> unit app_result \<times> database" where
  "migrate_from fault [] db = (Inr (), db)"
| "migrate_from fault (t # ts) db =
     (case create_table fault t db of
        (Inl e, db1) \<Rightarrow> (Inl e, db1)
      | (Inr u, db1) \<Rightarrow> migrate_from fault ts db1)"

definition migrate :: "db_fault \<Rightarrow> database \<Rightarrow> unit app_result \<times> database" where
  "migrate fault db = migrate_from fault SCHEMA db"

text \<open>\<open>connect\<close>: the pool (parameter \<open>connect_pool\<close>) gives access to a database or fails.\<close>

definition connect ::
  "(string \<Rightarrow> string + database) \<Rightarrow> db_fault \<Rightarrow> string \<Rightarrow> database app_result"
where
  "connect connect_pool fault url =
     try_then (map_err Database (connect_pool url)) (\<lambda>pool.
       (case migrate fault pool of
          (Inl e, db) \<Rightarrow> Inl e
        | (Inr u, db) \<Rightarrow> Inr db))"

subsection \<open>Issued certificates\<close>

definition insert_issued ::
  "db_fault \<Rightarrow> issued_certificate \<Rightarrow> database \<Rightarrow> unit app_result \<times> database"
where
  "insert_issued fault cert =
     run_statement fault ''issued_certificate'' (\<lambda>db.
       if ic_serial cert \<in> ic_serial ` set (issued db)
       then Inl ''UNIQUE constraint failed: issued_certificate.serial''
       else Inr ((), db\<lparr>issued := issued db @ [cert]\<rparr>))"

datatype revocation_status = Good | Revoked "string option" "int option" | Unknown

definition row_matches :: "string \<Rightarrow> string \<Rightarrow> issued_certificate \<Rightarrow> bool" where
  "row_matches ca_id serial r \<longleftrightarrow> ic_ca_id r = ca_id \<and> ic_serial r = serial"

text \<open>The status the columns of a row stand for.\<close>

definition row_status :: "issued_certificate \<Rightarrow> revocation_status" where
  "row_status r =
     (if ic_status r = STATUS_REVOKED then Revoked (ic_revoked_at r) (ic_revocation_reason r) else Good)"

definition status_by_serial ::
  "db_fault \<Rightarrow> string \<Rightarrow> string \<Rightarrow> database \<Rightarrow> revocation_status app_result \<times> database"
where
  "status_by_serial fault ca_id serial db =
     (case run_statement fault ''issued_certificate''
             (\<lambda>db. Inr (find (row_matches ca_id serial) (issued db), db)) db of
        (Inl e, db1) \<Rightarrow> (Inl e, db1)
      | (Inr row, db1) \<Rightarrow>
          (Inr (case row of None \<Rightarrow> Unknown | Some r \<Rightarrow> row_status r), db1))"

record revoked_entry =
  re_serial :: string
  re_revoked_at :: "string option"
  re_reason :: "int option"

definition to_revoked_entry :: "issued_certificate \<Rightarrow> revoked_entry" where
  "to_revoked_entry r =
     \<lparr>re_serial = ic_serial r, re_revoked_at = ic_revoked_at r, re_reason = ic_revocation_reason r\<rparr>"

definition list_revoked ::
  "db_fault \<Rightarrow> string \<Rightarrow> database \<Rightarrow> revoked_entry list app_result \<times> database"
where
  "list_revoked fault ca_id =
     run_statement fault ''issued_certificate'' (\<lambda>db.
       Inr (map to_revoked_entry
              (filter (\<lambda>r. ic_ca_id r = ca_id \<and> ic_status r = STATUS_REVOKED) (issued db)), db))"

text \<open>The guard of the \<open>UPDATE\<close>, and the row it writes.\<close>

definition revocable :: "string \<Rightarrow> string \<Rightarrow> issued_certificate \<Rightarrow> bool" where
  "revocable ca_id serial r \<longleftrightarrow> row_matches ca_id serial r \<and> ic_status r = STATUS_VALID"

definition revoke_row :: "int \<Rightarrow> string \<Rightarrow> issued_certificate \<Rightarrow> issued_certificate" where
  "revoke_row reason revoked_at r =
     r\<lparr>ic_status := STATUS_REVOKED, ic_revoked_at := Some revoked_at, ic_revocation_reason := Some reason\<rparr>"

definition revoke ::
  "db_fault \<Rightarrow> string \<Rightarrow> string \<Rightarrow> int \<Rightarrow> string \<Rightarrow> database \<Rightarrow> bool app_result \<times> database"
where
  "revoke fault ca_id serial reason revoked_at =
     run_statement fault ''issued_certificate'' (\<lambda>db.
       let hit = revocable ca_id serial;
           affected = length (filter hit (issued db))
       in Inr (affected > 0,
            db\<lparr>issued := map (\<lambda>r. if hit r then revoke_row reason revoked_at r else r) (issued db)\<rparr>))"

subsection \<open>Transactions\<close>

text \<open>The three statements of \<open>record_transaction\<close>.\<close>

definition select_transaction ::
  "db_fault \<Rightarrow> string \<Rightarrow> database \<Rightarrow> string option app_result \<times> database"
where
  "select_transaction fault tid =
     run_statement fault ''scep_transaction'' (\<lambda>db.
       Inr (map_option tx_transaction_id (find (\<lambda>t. tx_transaction_id t = tid) (transactions db)), db))"

definition update_transaction ::
  "db_fault \<Rightarrow> string \<Rightarrow> string \<Rightarrow> string \<Rightarrow> database \<Rightarrow> unit app_result \<times> database"
where
  "update_transaction fault tid status message_type =
     run_statement fault ''scep_transaction'' (\<lambda>db.
       Inr ((), db\<lparr>transactions := map (\<lambda>t. if tx_transaction_id t = tid
                     then t\<lparr>tx_status := status, tx_message_type := message_type\<rparr> else t)
                   (transactions db)\<rparr>))"

definition insert_transaction ::
  "db_fault \<Rightarrow> scep_transaction \<Rightarrow> database \<Rightarrow> unit app_result \<times> database"
where
  "insert_transaction fault row =
     run_statement fault ''scep_transaction'' (\<lambda>db.
       if tx_transaction_id row \<in> tx_transaction_id ` set (transactions db)
       then Inl ''UNIQUE constraint failed: scep_transaction.transaction_id''
       else Inr ((), db\<lparr>transactions := transactions db @ [row]\<rparr>))"

definition record_transaction ::
  "db_fault \<Rightarrow> string \<Rightarrow> string \<Rightarrow> string \<Rightarrow> string \<Rightarrow> string \<Rightarrow> database \<Rightarrow> unit app_result \<times> database"
where
  "record_transaction fault tid profile status message_type created_at db =
     (case select_transaction fault tid db of
        (Inl e, db1) \<Rightarrow> (Inl e, db1)
      | (Inr (Some x), db1) \<Rightarrow> update_transaction fault tid status message_type db1
      | (Inr None, db1) \<Rightarrow>
          insert_transaction fault \<lparr>tx_transaction_id = tid, tx_profile = profile,
            tx_status = status, tx_message_type = message_type, tx_created_at = created_at\<rparr> db1)"

subsection \<open>Running statements\<close>

definition tick :: "database \<Rightarrow> database" where
  "tick db = db\<lparr>db_calls := Suc (db_calls db)\<rparr>"

lemma tick_simps [simp]:
  "issued (tick db) = issued db" "transactions (tick db) = transactions db"
  "tables (tick db) = tables db" "db_calls (tick db) = Suc (db_calls db)"
  by (simp_all add: tick_def)

lemma run_statement_ok:
  "run_statement fault t stmt db = (Inr x, db') \<Longrightarrow>
     fault (db_calls db) = None \<and> t \<in> set (tables db) \<and> stmt (tick db) = Inr (x, db')"
  by (auto simp: run_statement_def tick_def Let_def split: option.splits if_splits sum.splits)

lemma run_statement_err:
  "run_statement fault t stmt db = (Inl e, db') \<Longrightarrow> db' = tick db \<and> (\<exists>m. e = Database m)"
  by (auto simp: run_statement_def tick_def Let_def split: option.splits if_splits sum.splits)

lemma run_statement_healthy:
  "fault (db_calls db) = None \<Longrightarrow> t \<in> set (tables db) \<Longrightarrow>
     run_statement fault t stmt db =
       (case stmt (tick db) of Inl e \<Rightarrow> (Inl (Database e), tick db) | Inr (x, db2) \<Rightarrow> (Inr x, db2))"
  unfolding run_statement_def Let_def tick_def by simp

subsection \<open>The invariant of the tables\<close>

definition fresh_row :: "issued_certificate \<Rightarrow> bool" where
  "fresh_row r \<longleftrightarrow> ic_status r = STATUS_VALID \<and> ic_revoked_at r = None \<and> ic_revocation_reason r = None"

definition row_ok :: "issued_certificate \<Rightarrow> bool" where
  "row_ok r \<longleftrightarrow> fresh_row r \<or>
     (ic_status r = STATUS_REVOKED \<and> ic_revoked_at r \<noteq> None \<and> ic_revocation_reason r \<noteq> None)"

definition db_ok :: "database \<Rightarrow> bool" where
  "db_ok db \<longleftrightarrow>
     distinct (map ic_serial (issued db)) \<and> list_all row_ok (issued db) \<and>
     distinct (map tx_transaction_id (transactions db))"

text \<open>The abstract content of the certificate table: the status of each serial of each CA.\<close>

definition registry :: "database \<Rightarrow> string \<Rightarrow> string \<Rightarrow> revocation_status" where
  "registry db ca_id serial =
     (case find (row_matches ca_id serial) (issued db) of None \<Rightarrow> Unknown | Some r \<Rightarrow> row_status r)"

lemma registry_tick [simp]: "registry (tick db) = registry db"
  by (simp add: registry_def fun_eq_iff)

lemma db_ok_tick [simp]: "db_ok (tick db) = db_ok db"
  by (simp add: db_ok_def)

lemma find_map_key:
  assumes "\<And>x. P (f x) = P x"
  shows "find P (map f xs) = map_option f (find P xs)"
  using assms by (induction xs) auto

lemma find_SomeD: "find P xs = Some x \<Longrightarrow> P x \<and> x \<in> set xs"
  by (induction xs) (auto split: if_splits)

lemma row_matches_revoke [simp]: "row_matches ca s (revoke_row n t r) = row_matches ca s r"
  by (simp add: row_matches_def revoke_row_def)

lemma revoke_row_simps [simp]:
  "ic_serial (revoke_row n t r) = ic_serial r"
  "row_status (revoke_row n t r) = Revoked (Some t) (Some n)"
  "row_ok (revoke_row n t r)"
  by (simp_all add: revoke_row_def row_status_def row_ok_def)

lemma row_ok_status:
  "row_ok r \<Longrightarrow> row_status r = Good \<longleftrightarrow> ic_status r = STATUS_VALID"
  "fresh_row r \<Longrightarrow> row_status r = Good"
  by (auto simp: row_ok_def fresh_row_def row_status_def)

text \<open>With a unique serial, the row found is the only row that matches.\<close>

lemma find_unique:
  assumes "distinct (map ic_serial rows)" "r \<in> set rows" "row_matches ca s r"
  shows "find (row_matches ca s) rows = Some r"
  using assms by (induction rows) (auto simp: row_matches_def)

lemma revocable_iff_good:
  assumes ok: "db_ok db"
  shows "(\<exists>r\<in>set (issued db). revocable ca s r) \<longleftrightarrow> registry db ca s = Good"
proof
  assume "\<exists>r\<in>set (issued db). revocable ca s r"
  then obtain r where r: "r \<in> set (issued db)" "row_matches ca s r" "ic_status r = STATUS_VALID"
    by (auto simp: revocable_def)
  with ok have "find (row_matches ca s) (issued db) = Some r"
    by (auto simp: db_ok_def intro: find_unique)
  with r show "registry db ca s = Good" by (simp add: registry_def row_status_def)
next
  assume good: "registry db ca s = Good"
  then obtain r where r: "find (row_matches ca s) (issued db) = Some r"
    by (auto simp: registry_def split: option.splits)
  with good ok show "\<exists>r\<in>set (issued db). revocable ca s r"
    by (auto simp: registry_def db_ok_def list_all_iff revocable_def row_ok_status
        dest!: find_SomeD intro!: bexI [of _ r])
qed

subsection \<open>What each operation does to the registry\<close>

lemma status_by_serial_ok:
  "status_by_serial fault ca s db = (Inr st, db') \<Longrightarrow> st = registry db ca s \<and> db' = tick db"
  by (auto simp: status_by_serial_def registry_def split: prod.splits sum.splits
      dest!: run_statement_ok)

lemma status_by_serial_err:
  "status_by_serial fault ca s db = (Inl e, db') \<Longrightarrow> db' = tick db \<and> (\<exists>m. e = Database m)"
  by (auto simp: status_by_serial_def split: prod.splits sum.splits dest!: run_statement_err)

lemma status_by_serial_state [simp]: "snd (status_by_serial fault ca s db) = tick db"
  by (cases "status_by_serial fault ca s db"; cases "fst (status_by_serial fault ca s db)")
    (auto dest: status_by_serial_ok status_by_serial_err)

lemma list_revoked_ok:
  "list_revoked fault ca db = (Inr es, db') \<Longrightarrow>
     es = map to_revoked_entry
            (filter (\<lambda>r. ic_ca_id r = ca \<and> ic_status r = STATUS_REVOKED) (issued db))
     \<and> db' = tick db"
  by (auto simp: list_revoked_def dest!: run_statement_ok)

lemma list_revoked_state [simp]: "snd (list_revoked fault ca db) = tick db"
  by (auto simp: list_revoked_def run_statement_def tick_def Let_def split: option.splits)

lemma insert_issued_ok:
  "insert_issued fault c db = (Inr (), db') \<Longrightarrow>
     ic_serial c \<notin> ic_serial ` set (issued db) \<and> db' = (tick db)\<lparr>issued := issued db @ [c]\<rparr>"
  by (auto simp: insert_issued_def dest!: run_statement_ok split: if_splits)

lemma insert_issued_err:
  "insert_issued fault c db = (Inl e, db') \<Longrightarrow> db' = tick db \<and> (\<exists>m. e = Database m)"
  by (simp add: insert_issued_def run_statement_err)

lemma revoke_ok:
  "revoke fault ca s n t db = (Inr b, db') \<Longrightarrow>
     (b \<longleftrightarrow> (\<exists>r\<in>set (issued db). revocable ca s r)) \<and>
     db' = (tick db)\<lparr>issued := map (\<lambda>r. if revocable ca s r then revoke_row n t r else r) (issued db)\<rparr>"
  by (auto simp: revoke_def Let_def filter_empty_conv dest!: run_statement_ok)

lemma revoke_err:
  "revoke fault ca s n t db = (Inl e, db') \<Longrightarrow> db' = tick db \<and> (\<exists>m. e = Database m)"
  by (simp add: revoke_def run_statement_err)

lemma insert_issued_registry:
  assumes "insert_issued fault c db = (Inr (), db')" and fresh: "fresh_row c"
  shows "registry db (ic_ca_id c) (ic_serial c) = Unknown"
    and "registry db' ca s =
       (if ca = ic_ca_id c \<and> s = ic_serial c then Good else registry db ca s)"
proof -
  from assms(1) have new: "ic_serial c \<notin> ic_serial ` set (issued db)"
    and db': "db' = (tick db)\<lparr>issued := issued db @ [c]\<rparr>"
    by (auto dest!: insert_issued_ok)
  have "\<not> row_matches k (ic_serial c) r" if "r \<in> set (issued db)" for k r
    using new that by (metis image_eqI row_matches_def)
  then have none: "find (row_matches k (ic_serial c)) (issued db) = None" for k
    unfolding find_None_iff by blast
  then show "registry db (ic_ca_id c) (ic_serial c) = Unknown"
    by (simp add: registry_def)
  show "registry db' ca s =
       (if ca = ic_ca_id c \<and> s = ic_serial c then Good else registry db ca s)"
    using none fresh
    by (auto simp: registry_def db' find_append row_matches_def row_ok_status split: option.splits)
qed

lemma revoke_registry:
  assumes "revoke fault ca s n t db = (Inr b, db')" and ok: "db_ok db"
  shows "b \<longleftrightarrow> registry db ca s = Good"
    and "registry db' ca' s' =
       (if b \<and> ca' = ca \<and> s' = s then Revoked (Some t) (Some n) else registry db ca' s')"
proof -
  let ?f = "\<lambda>r. if revocable ca s r then revoke_row n t r else r"
  from assms(1) have b: "b \<longleftrightarrow> (\<exists>r\<in>set (issued db). revocable ca s r)"
    and db': "db' = (tick db)\<lparr>issued := map ?f (issued db)\<rparr>"
    by (auto dest!: revoke_ok)
  then show good: "b \<longleftrightarrow> registry db ca s = Good"
    by (simp add: revocable_iff_good [OF ok])
  have "find (row_matches ca' s') (map ?f (issued db)) = map_option ?f (find (row_matches ca' s') (issued db))"
    by (rule find_map_key) simp
  then have reg: "registry db' ca' s' =
      (case find (row_matches ca' s') (issued db) of None \<Rightarrow> Unknown | Some r \<Rightarrow> row_status (?f r))"
    by (simp add: registry_def db' option.case_eq_if option.map_sel)
  show "registry db' ca' s' =
       (if b \<and> ca' = ca \<and> s' = s then Revoked (Some t) (Some n) else registry db ca' s')"
  proof (cases "find (row_matches ca' s') (issued db)")
    case None
    with good show ?thesis unfolding reg by (auto simp: registry_def)
  next
    case (Some r)
    then have m: "row_matches ca' s' r" and "r \<in> set (issued db)" by (auto dest: find_SomeD)
    with ok have "row_ok r" by (auto simp: db_ok_def list_all_iff)
    with Some m good show ?thesis
      unfolding reg by (auto simp: registry_def revocable_def row_matches_def row_ok_status)
  qed
qed

lemma insert_issued_db_ok:
  assumes "db_ok db" "fresh_row c" shows "db_ok (snd (insert_issued fault c db))"
proof (cases "insert_issued fault c db")
  case (Pair r db')
  with assms show ?thesis
    by (cases r) (auto simp: db_ok_def row_ok_def dest!: insert_issued_ok insert_issued_err)
qed

lemma revoke_db_ok:
  assumes ok: "db_ok db" shows "db_ok (snd (revoke fault ca s n t db))"
proof (cases "revoke fault ca s n t db")
  case (Pair r db')
  have "(\<lambda>r. ic_serial (if revocable ca s r then revoke_row n t r else r)) = ic_serial"
    by auto
  with ok Pair show ?thesis
    by (cases r) (auto simp: db_ok_def list_all_iff comp_def dest!: revoke_ok revoke_err)
qed

lemma select_transaction_ok:
  "select_transaction fault tid db = (Inr r, db') \<Longrightarrow>
     db' = tick db \<and> (r = None \<longleftrightarrow> tid \<notin> tx_transaction_id ` set (transactions db))"
  by (auto simp: select_transaction_def find_None_iff dest!: run_statement_ok)

lemma select_transaction_err:
  "select_transaction fault tid db = (Inl e, db') \<Longrightarrow> db' = tick db \<and> (\<exists>m. e = Database m)"
  by (simp add: select_transaction_def run_statement_err)

lemma insert_transaction_ok:
  "insert_transaction fault row db = (Inr (), db') \<Longrightarrow>
     tx_transaction_id row \<notin> tx_transaction_id ` set (transactions db)
     \<and> db' = (tick db)\<lparr>transactions := transactions db @ [row]\<rparr>"
  by (auto simp: insert_transaction_def dest!: run_statement_ok split: if_splits)

lemma insert_transaction_err:
  "insert_transaction fault row db = (Inl e, db') \<Longrightarrow> db' = tick db \<and> (\<exists>m. e = Database m)"
  by (simp add: insert_transaction_def run_statement_err)

definition set_outcome :: "string \<Rightarrow> string \<Rightarrow> string \<Rightarrow> scep_transaction \<Rightarrow> scep_transaction" where
  "set_outcome tid status message_type t =
     (if tx_transaction_id t = tid then t\<lparr>tx_status := status, tx_message_type := message_type\<rparr> else t)"

lemma set_outcome_simps [simp]:
  "tx_transaction_id (set_outcome tid st mt t) = tx_transaction_id t"
  "tx_profile (set_outcome tid st mt t) = tx_profile t"
  "tx_created_at (set_outcome tid st mt t) = tx_created_at t"
  by (simp_all add: set_outcome_def)

lemma update_transaction_ok:
  "update_transaction fault tid st mt db = (Inr (), db') \<Longrightarrow>
     db' = (tick db)\<lparr>transactions := map (set_outcome tid st mt) (transactions db)\<rparr>"
  by (auto simp: update_transaction_def set_outcome_def [abs_def] dest!: run_statement_ok)

lemma update_transaction_err:
  "update_transaction fault tid st mt db = (Inl e, db') \<Longrightarrow> db' = tick db \<and> (\<exists>m. e = Database m)"
  by (simp add: update_transaction_def run_statement_err)

text \<open>
  Every statement on the transaction table keeps the certificate table and the keys of the
  rows there are; it may add one row with a new key.
\<close>

definition tx_extends :: "database \<Rightarrow> database \<Rightarrow> bool" where
  "tx_extends db db' \<longleftrightarrow>
     issued db' = issued db \<and> tables db' = tables db \<and>
     (db_ok db \<longrightarrow> db_ok db') \<and>
     (\<forall>t\<in>set (transactions db). \<exists>t'\<in>set (transactions db').
        tx_transaction_id t' = tx_transaction_id t \<and> tx_profile t' = tx_profile t
        \<and> tx_created_at t' = tx_created_at t)"

lemma tx_extends_refl [intro]: "tx_extends db db"
  by (auto simp: tx_extends_def)

lemma tx_extends_tick [intro]: "tx_extends db (tick db)"
  by (auto simp: tx_extends_def)

lemma tx_extends_trans [trans]: "tx_extends a b \<Longrightarrow> tx_extends b c \<Longrightarrow> tx_extends a c"
  unfolding tx_extends_def by (elim conjE, intro conjI) (simp_all, metis)

lemma tx_extends_append:
  "tx_transaction_id row \<notin> tx_transaction_id ` set (transactions db) \<Longrightarrow>
     tx_extends db ((tick db)\<lparr>transactions := transactions db @ [row]\<rparr>)"
  by (auto simp: tx_extends_def db_ok_def)

lemma tx_extends_map:
  "tx_extends db ((tick db)\<lparr>transactions := map (set_outcome tid st mt) (transactions db)\<rparr>)"
  by (auto simp: tx_extends_def db_ok_def comp_def)

lemma select_transaction_extends: "tx_extends db (snd (select_transaction fault tid db))"
  by (cases "select_transaction fault tid db"; cases "fst (select_transaction fault tid db)")
    (auto dest!: select_transaction_ok select_transaction_err)

lemma insert_transaction_extends: "tx_extends db (snd (insert_transaction fault row db))"
  by (cases "insert_transaction fault row db"; cases "fst (insert_transaction fault row db)")
    (auto dest!: insert_transaction_ok insert_transaction_err intro: tx_extends_append)

lemma update_transaction_extends: "tx_extends db (snd (update_transaction fault tid st mt db))"
  by (cases "update_transaction fault tid st mt db"; cases "fst (update_transaction fault tid st mt db)")
    (auto dest!: update_transaction_ok update_transaction_err intro: tx_extends_map)

lemma record_transaction_extends:
  "tx_extends db (snd (record_transaction fault tid p st mt c db))"
proof (cases "select_transaction fault tid db")
  case (Pair r db1)
  have first: "tx_extends db db1"
    using select_transaction_extends [of db fault tid] Pair by simp
  show ?thesis
  proof (cases r)
    case (Inl e)
    with Pair first show ?thesis by (simp add: record_transaction_def)
  next
    case (Inr x)
    with Pair show ?thesis
      by (cases x)
        (auto simp: record_transaction_def
          intro: tx_extends_trans [OF first] insert_transaction_extends update_transaction_extends)
  qed
qed

lemma registry_tx_extends: "tx_extends db db' \<Longrightarrow> registry db' = registry db"
  by (simp add: tx_extends_def registry_def fun_eq_iff)

end
