(* ===== verification/Registry.thy ===== *)
theory Registry
  imports Repo
begin

text \<open>
  The contract of the certificate table, and what it gives its clients (the SCEP handler
  that inserts, the OCSP responder and the CRL that read, the operator who revokes).

  \<open>certificate_registry\<close> is the interface of one call: what a lookup returns after an
  insert or a revocation.  \<open>status_machine\<close> is the interface of a history: whatever the
  steps are, they keep the invariant and never take a revocation back.  Both are
  interpreted on the repository functions of \<open>db/repo.rs\<close>, for every fault pattern of the
  database.
\<close>

locale certificate_registry =
  fixes inv :: "'db \<Rightarrow> bool"
    and status :: "'db \<Rightarrow> string \<Rightarrow> string \<Rightarrow> revocation_status"
    and insert_cert :: "issued_certificate \<Rightarrow> 'db \<Rightarrow> unit app_result \<times> 'db"
    and revoke_cert :: "string \<Rightarrow> string \<Rightarrow> int \<Rightarrow> string \<Rightarrow> 'db \<Rightarrow> bool app_result \<times> 'db"
    and lookup :: "string \<Rightarrow> string \<Rightarrow> 'db \<Rightarrow> revocation_status app_result \<times> 'db"
  assumes insert_inv: "inv db \<Longrightarrow> fresh_row c \<Longrightarrow> inv (snd (insert_cert c db))"
    and revoke_inv: "inv db \<Longrightarrow> inv (snd (revoke_cert ca s n t db))"
    and insert_status: "insert_cert c db = (Inr (), db') \<Longrightarrow> fresh_row c \<Longrightarrow>
      status db (ic_ca_id c) (ic_serial c) = Unknown \<and>
      status db' ca s = (if ca = ic_ca_id c \<and> s = ic_serial c then Good else status db ca s)"
    and insert_failed: "insert_cert c db = (Inl e, db') \<Longrightarrow> status db' = status db"
    and revoke_status: "inv db \<Longrightarrow> revoke_cert ca s n t db = (Inr b, db') \<Longrightarrow>
      (b \<longleftrightarrow> status db ca s = Good) \<and>
      status db' ca' s' = (if b \<and> ca' = ca \<and> s' = s then Revoked (Some t) (Some n) else status db ca' s')"
    and revoke_failed: "revoke_cert ca s n t db = (Inl e, db') \<Longrightarrow> status db' = status db"
    and lookup_status: "lookup ca s db = (Inr st, db') \<Longrightarrow> st = status db ca s \<and> status db' = status db"
begin

lemma revoke_then_lookup:
  assumes "inv db" "revoke_cert ca s n t db = (Inr True, db1)" "lookup ca s db1 = (Inr st, db2)"
  shows "st = Revoked (Some t) (Some n)"
  using lookup_status [OF assms(3)] revoke_status [OF assms(1,2), of ca s] by simp

lemma insert_then_lookup:
  assumes "insert_cert c db = (Inr (), db1)" "fresh_row c"
    and "lookup (ic_ca_id c) (ic_serial c) db1 = (Inr st, db2)"
  shows "st = Good"
  using assms insert_status [OF assms(1,2), of "ic_ca_id c" "ic_serial c"]
  by (auto dest: lookup_status)

lemma second_revoke_is_noop:
  assumes "inv db" "revoke_cert ca s n t db = (Inr b, db1)"
    and "revoke_cert ca s n' t' db1 = (Inr b', db2)"
  shows "\<not> b'" and "status db2 = status db1"
proof -
  have inv1: "inv db1" using revoke_inv [OF assms(1), of ca s n t] assms(2) by simp
  have "status db1 ca s \<noteq> Good"
    using revoke_status [OF assms(1,2), of ca s] by auto
  then show nb: "\<not> b'"
    using revoke_status [OF inv1 assms(3), of ca s] by simp
  show "status db2 = status db1"
    using revoke_status [OF inv1 assms(3)] nb by (simp add: fun_eq_iff)
qed

lemma insert_keeps:
  assumes "fresh_row c" "status db ca s \<noteq> Unknown"
  shows "status (snd (insert_cert c db)) ca s = status db ca s"
proof (cases "insert_cert c db")
  case (Pair r db')
  then show ?thesis
    using assms insert_status [of c db db' ca s] insert_failed [of c db _ db']
    by (cases r) auto
qed

lemma revoke_keeps:
  assumes "inv db" "status db ca s \<noteq> Good"
  shows "status (snd (revoke_cert ca' s' n t db)) ca s = status db ca s"
proof (cases "revoke_cert ca' s' n t db")
  case (Pair r db')
  then show ?thesis
    using assms revoke_status [OF assms(1), of ca' s' n t _ db' ca s]
      revoke_failed [of ca' s' n t db _ db'] revoke_status [OF assms(1), of ca' s' n t _ db' ca' s']
    by (cases r) auto
qed

lemma revoke_known:
  assumes "inv db" "status db ca s \<noteq> Unknown"
  shows "status (snd (revoke_cert ca' s' n t db)) ca s \<noteq> Unknown"
proof (cases "revoke_cert ca' s' n t db")
  case (Pair r db')
  then show ?thesis
    using assms revoke_status [OF assms(1), of ca' s' n t _ db' ca s]
      revoke_failed [of ca' s' n t db _ db']
    by (cases r) auto
qed

end

locale status_machine =
  fixes inv :: "'s \<Rightarrow> bool"
    and status :: "'s \<Rightarrow> string \<Rightarrow> string \<Rightarrow> revocation_status"
    and allowed :: "'e \<Rightarrow> bool"
    and step :: "'e \<Rightarrow> 's \<Rightarrow> 's"
  assumes step_inv: "inv s \<Longrightarrow> allowed e \<Longrightarrow> inv (step e s)"
    and step_revoked: "inv s \<Longrightarrow> allowed e \<Longrightarrow> status s ca n = Revoked t r \<Longrightarrow>
      status (step e s) ca n = Revoked t r"
    and step_known: "inv s \<Longrightarrow> allowed e \<Longrightarrow> status s ca n \<noteq> Unknown \<Longrightarrow>
      status (step e s) ca n \<noteq> Unknown"
begin

lemma run_inv: "inv s \<Longrightarrow> list_all allowed es \<Longrightarrow> inv (fold step es s)"
  by (induction es arbitrary: s) (auto intro: step_inv)

lemma run_revoked:
  "inv s \<Longrightarrow> list_all allowed es \<Longrightarrow> status s ca n = Revoked t r \<Longrightarrow>
     status (fold step es s) ca n = Revoked t r"
  by (induction es arbitrary: s) (auto intro: step_inv step_revoked)

lemma run_known:
  "inv s \<Longrightarrow> list_all allowed es \<Longrightarrow> status s ca n \<noteq> Unknown \<Longrightarrow>
     status (fold step es s) ca n \<noteq> Unknown"
proof (induction es arbitrary: s)
  case Nil
  then show ?case by simp
next
  case (Cons e es)
  then have "inv (step e s)" "status (step e s) ca n \<noteq> Unknown"
    by (simp_all add: step_inv step_known)
  with Cons show ?case by simp
qed

end

subsection \<open>The repository functions keep the contract\<close>

interpretation repo: certificate_registry db_ok registry "insert_issued fault" "revoke fault"
  "status_by_serial fault"
  for fault
proof
  fix db db' c ca s ca' s' n t e b st
  show "db_ok db \<Longrightarrow> fresh_row c \<Longrightarrow> db_ok (snd (insert_issued fault c db))"
    by (rule insert_issued_db_ok)
  show "db_ok db \<Longrightarrow> db_ok (snd (revoke fault ca s n t db))"
    by (rule revoke_db_ok)
  show "registry db (ic_ca_id c) (ic_serial c) = Unknown \<and>
      registry db' ca s = (if ca = ic_ca_id c \<and> s = ic_serial c then Good else registry db ca s)"
    if "insert_issued fault c db = (Inr (), db')" "fresh_row c"
    using insert_issued_registry [OF that] by simp
  show "insert_issued fault c db = (Inl e, db') \<Longrightarrow> registry db' = registry db"
    by (auto dest!: insert_issued_err)
  show "(b \<longleftrightarrow> registry db ca s = Good) \<and>
      registry db' ca' s' = (if b \<and> ca' = ca \<and> s' = s then Revoked (Some t) (Some n) else registry db ca' s')"
    if "db_ok db" "revoke fault ca s n t db = (Inr b, db')"
    using revoke_registry [OF that(2,1)] by simp
  show "revoke fault ca s n t db = (Inl e, db') \<Longrightarrow> registry db' = registry db"
    by (auto dest!: revoke_err)
  show "status_by_serial fault ca s db = (Inr st, db') \<Longrightarrow>
      st = registry db ca s \<and> registry db' = registry db"
    by (auto dest!: status_by_serial_ok)
qed

text \<open>The calls the program makes on the database, as events of a history.\<close>

datatype db_event =
    InsertIssued issued_certificate
  | RevokeSerial string string int string
  | StatusQuery string string
  | ListRevoked string
  | RecordTransaction string string string string string

fun db_step :: "db_fault \<Rightarrow> db_event \<Rightarrow> database \<Rightarrow> database" where
  "db_step fault (InsertIssued c) db = snd (insert_issued fault c db)"
| "db_step fault (RevokeSerial ca s n t) db = snd (revoke fault ca s n t db)"
| "db_step fault (StatusQuery ca s) db = snd (status_by_serial fault ca s db)"
| "db_step fault (ListRevoked ca) db = snd (list_revoked fault ca db)"
| "db_step fault (RecordTransaction tid p st mt c) db = snd (record_transaction fault tid p st mt c db)"

fun db_event_ok :: "db_event \<Rightarrow> bool" where
  "db_event_ok (InsertIssued c) = fresh_row c"
| "db_event_ok e = True"

lemma record_transaction_registry [simp]:
  "registry (snd (record_transaction fault tid p st mt c db)) = registry db"
  by (rule registry_tx_extends) (rule record_transaction_extends)

lemma record_transaction_db_ok:
  "db_ok db \<Longrightarrow> db_ok (snd (record_transaction fault tid p st mt c db))"
  using record_transaction_extends [of db fault tid p st mt c] by (simp add: tx_extends_def)

interpretation db_history: status_machine db_ok registry db_event_ok "db_step fault" for fault
proof
  fix db e ca n t r
  show "db_ok db \<Longrightarrow> db_event_ok e \<Longrightarrow> db_ok (db_step fault e db)"
    by (cases e) (auto intro: repo.insert_inv repo.revoke_inv record_transaction_db_ok)
  show "registry (db_step fault e db) ca n = Revoked t r"
    if "db_ok db" "db_event_ok e" "registry db ca n = Revoked t r"
    using that by (cases e) (auto simp: repo.insert_keeps repo.revoke_keeps)
  show "registry (db_step fault e db) ca n \<noteq> Unknown"
    if "db_ok db" "db_event_ok e" "registry db ca n \<noteq> Unknown"
    using that by (cases e) (auto simp: repo.insert_keeps dest: repo.revoke_known)
qed

text \<open>What one call can do to the status of a certificate, and to the rows of the table.\<close>

lemma db_step_change:
  assumes "db_ok db" and "db_event_ok e"
  shows "registry (db_step fault e db) ca s = registry db ca s
    \<or> registry db ca s = Unknown \<and> registry (db_step fault e db) ca s = Good
    \<or> registry db ca s = Good \<and> (\<exists>n t. e = RevokeSerial ca s n t \<and> registry (db_step fault e db) ca s = Revoked (Some t) (Some n))"
proof (cases e)
  case (InsertIssued c)
  obtain r db' where run: "insert_issued fault c db = (r, db')" by force
  show ?thesis
  proof (cases r)
    case (Inl err)
    with run InsertIssued repo.insert_failed show ?thesis by auto
  next
    case (Inr u)
    with run InsertIssued assms(2) repo.insert_status [of fault c db db' ca s] show ?thesis by auto
  qed
next
  case (RevokeSerial ca' s' n t)
  obtain r db' where run: "revoke fault ca' s' n t db = (r, db')" by force
  show ?thesis
  proof (cases r)
    case (Inl err)
    with run RevokeSerial repo.revoke_failed show ?thesis by auto
  next
    case (Inr b)
    with run RevokeSerial repo.revoke_status [OF assms(1), of fault ca' s' n t b db' ca s] show ?thesis by auto
  qed
qed simp_all

lemma db_step_rows:
  assumes "r \<in> set (issued (db_step fault e db))"
  shows "e = InsertIssued r \<or> (\<exists>r0\<in>set (issued db). ic_ca_id r = ic_ca_id r0 \<and> ic_serial r = ic_serial r0)"
proof (cases e)
  case (InsertIssued c)
  obtain x db' where run: "insert_issued fault c db = (x, db')" by force
  with assms InsertIssued show ?thesis
    by (cases x) (auto dest!: insert_issued_ok insert_issued_err)
next
  case (RevokeSerial ca s n t)
  obtain x db' where run: "revoke fault ca s n t db = (x, db')" by force
  show ?thesis
  proof (cases x)
    case (Inl err)
    with run assms RevokeSerial show ?thesis by (auto dest!: revoke_err)
  next
    case (Inr b)
    with run revoke_ok have "issued db' = map (\<lambda>r. if revocable ca s r then revoke_row n t r else r) (issued db)" by force
    with run assms RevokeSerial obtain r0 where "r0 \<in> set (issued db)"
      "r = (if revocable ca s r0 then revoke_row n t r0 else r0)" by auto
    then show ?thesis by (auto simp: revoke_row_def)
  qed
next
  case (RecordTransaction tid p st mt c)
  with assms record_transaction_extends [of db fault tid p st mt c] show ?thesis by (auto simp: tx_extends_def)
qed (use assms in auto)

subsection \<open>Properties of the repository\<close>

text \<open>The abstract revocation: a good certificate becomes revoked, anything else is left alone.\<close>

definition abs_revoke ::
  "string \<Rightarrow> string \<Rightarrow> int \<Rightarrow> string \<Rightarrow> (string \<Rightarrow> string \<Rightarrow> revocation_status)
     \<Rightarrow> bool \<times> (string \<Rightarrow> string \<Rightarrow> revocation_status)"
where
  "abs_revoke ca s n t st =
     (if st ca s = Good then (True, st(ca := (st ca)(s := Revoked (Some t) (Some n)))) else (False, st))"

definition abs_insert ::
  "string \<Rightarrow> string \<Rightarrow> (string \<Rightarrow> string \<Rightarrow> revocation_status)
     \<Rightarrow> (string \<Rightarrow> string \<Rightarrow> revocation_status)"
where
  "abs_insert ca s st = st(ca := (st ca)(s := Good))"

definition sample_row :: "string \<Rightarrow> issued_certificate" where
  "sample_row serial =
     \<lparr>ic_serial = serial, ic_ca_id = ''default'', ic_subject = ''CN=x'',
      ic_not_before = ''2026-01-01T00:00:00Z'', ic_not_after = ''2027-01-01T00:00:00Z'',
      ic_der_b64 = ''AAAA'', ic_thumbprint_sha1 = ''00'', ic_transaction_id = Some ''t1'',
      ic_profile = Some ''p'', ic_status = STATUS_VALID, ic_created_at = ''2026-01-01T00:00:00Z'',
      ic_revoked_at = None, ic_revocation_reason = None\<rparr>"

definition new_database :: database where
  "new_database = \<lparr>tables = SCHEMA, issued = [], transactions = [], db_calls = 0\<rparr>"

definition sample_db :: database where
  "sample_db = new_database\<lparr>issued := [sample_row ''aa11'']\<rparr>"

lemma sample_row_fresh [simp]: "fresh_row (sample_row s)"
  by (simp add: fresh_row_def sample_row_def)

lemma sample_row_keys [simp]:
  "ic_serial (sample_row s) = s" "ic_ca_id (sample_row s) = ''default''"
  "ic_status (sample_row s) = STATUS_VALID"
  by (simp_all add: sample_row_def)

lemma new_database_ok [simp]: "db_ok new_database"
  by (simp add: db_ok_def new_database_def)

lemma sample_db_ok [simp]: "db_ok sample_db"
  by (simp add: db_ok_def sample_db_def new_database_def row_ok_def)

lemma sample_db_status [simp]: "registry sample_db ''default'' ''aa11'' = Good"
  by (simp add: registry_def sample_db_def row_matches_def row_ok_status)

lemma tables_sample [simp]: "tables sample_db = SCHEMA" "tables new_database = SCHEMA"
  by (simp_all add: sample_db_def new_database_def)

lemma SCHEMA_members [simp]:
  "''issued_certificate'' \<in> set SCHEMA" "''scep_transaction'' \<in> set SCHEMA"
  by (simp_all add: SCHEMA_def)

lemma revoke_sample:
  "\<exists>db'. revoke (\<lambda>_. None) ''default'' ''aa11'' 1 ''2026-07-01T00:00:00Z'' sample_db = (Inr True, db')"
  by (simp add: revoke_def run_statement_healthy Let_def sample_db_def new_database_def
      revocable_def row_matches_def)

text \<open>
  C18: \<open>revoke\<close> implements the abstract revocation, whatever else the tables hold: it reports
  \<open>true\<close> exactly for a good certificate, which then is revoked with the given time and
  reason; a second call changes nothing and reports \<open>false\<close>; and \<open>status_by_serial\<close>
  afterwards returns what the abstract registry holds.
\<close>

theorem revoke_implements_spec:
  assumes "db_ok db" and "revoke fault ca s n t db = (Inr b, db1)"
  shows "(b, registry db1) = abs_revoke ca s n t (registry db)
    \<and> (\<forall>n' t' b' db2. revoke fault ca s n' t' db1 = (Inr b', db2) \<longrightarrow> \<not> b' \<and> registry db2 = registry db1)
    \<and> (\<forall>st db2. status_by_serial fault ca s db1 = (Inr st, db2) \<longrightarrow>
         st = snd (abs_revoke ca s n t (registry db)) ca s)"
proof -
  have reg: "(b, registry db1) = abs_revoke ca s n t (registry db)"
    using repo.revoke_status [OF assms] by (auto simp: abs_revoke_def fun_eq_iff)
  then have "registry db1 = snd (abs_revoke ca s n t (registry db))"
    by (metis snd_conv)
  then show ?thesis
    using reg repo.second_revoke_is_noop [OF assms] repo.lookup_status by metis
qed

theorem revoke_implements_spec_witness:
  "\<exists>db1. revoke (\<lambda>_. None) ''default'' ''aa11'' 1 ''2026-07-01T00:00:00Z'' sample_db = (Inr True, db1)
     \<and> registry db1 ''default'' ''aa11'' = Revoked (Some ''2026-07-01T00:00:00Z'') (Some 1)"
proof -
  obtain db1 where run:
    "revoke (\<lambda>_. None) ''default'' ''aa11'' 1 ''2026-07-01T00:00:00Z'' sample_db = (Inr True, db1)"
    using revoke_sample by blast
  have "(True, registry db1) = abs_revoke ''default'' ''aa11'' 1 ''2026-07-01T00:00:00Z'' (registry sample_db)"
    using revoke_implements_spec [OF sample_db_ok run] by (elim conjE)
  then have "registry db1 ''default'' ''aa11'' = Revoked (Some ''2026-07-01T00:00:00Z'') (Some 1)"
    by (simp add: abs_revoke_def)
  with run show ?thesis by blast
qed

text \<open>
  C19: \<open>insert_issued\<close> implements the abstract insertion: it succeeds only for a serial that no
  CA has in the table, the certificate is good afterwards and every other entry is as it was;
  a failed insertion leaves the registry alone.
\<close>

theorem insert_implements_spec:
  assumes "fresh_row c"
  shows "(\<forall>db1. insert_issued fault c db = (Inr (), db1) \<longrightarrow>
            registry db1 = abs_insert (ic_ca_id c) (ic_serial c) (registry db)
            \<and> (\<forall>ca. registry db ca (ic_serial c) = Unknown))
    \<and> (\<forall>e db1. insert_issued fault c db = (Inl e, db1) \<longrightarrow>
            registry db1 = registry db \<and> issued db1 = issued db \<and> (\<exists>m. e = Database m))"
proof (intro conjI allI impI)
  fix db1 ca
  assume run: "insert_issued fault c db = (Inr (), db1)"
  show "registry db1 = abs_insert (ic_ca_id c) (ic_serial c) (registry db)"
    using repo.insert_status [OF run assms] by (auto simp: abs_insert_def fun_eq_iff)
  from run have "ic_serial c \<notin> ic_serial ` set (issued db)"
    by (auto dest!: insert_issued_ok)
  then have "find (row_matches ca (ic_serial c)) (issued db) = None"
    by (metis find_None_iff image_eqI row_matches_def)
  then show "registry db ca (ic_serial c) = Unknown"
    by (simp add: registry_def)
qed (auto dest!: insert_issued_err)

theorem insert_implements_spec_witness:
  "\<exists>db1. insert_issued (\<lambda>_. None) (sample_row ''bb22'') sample_db = (Inr (), db1)
     \<and> registry db1 = abs_insert ''default'' ''bb22'' (registry sample_db)"
proof -
  obtain db1 where run: "insert_issued (\<lambda>_. None) (sample_row ''bb22'') sample_db = (Inr (), db1)"
    by (simp add: insert_issued_def run_statement_healthy sample_db_def new_database_def)
  show ?thesis
    using run insert_implements_spec [OF sample_row_fresh, of "\<lambda>_. None" "''bb22''" sample_db]
    by simp
qed

text \<open>
  A revocation is permanent.  Along any sequence of calls the program makes on the
  database, and whichever of them the engine fails, a certificate once revoked stays revoked
  with its first time and reason, a certificate once recorded is never unknown again, and the
  keys of both tables stay unique.
\<close>

theorem revocation_is_permanent:
  assumes "db_ok db" and "list_all db_event_ok es"
  shows "db_ok (fold (db_step fault) es db)
    \<and> (registry db ca s = Revoked t n \<longrightarrow> registry (fold (db_step fault) es db) ca s = Revoked t n)
    \<and> (registry db ca s \<noteq> Unknown \<longrightarrow> registry (fold (db_step fault) es db) ca s \<noteq> Unknown)"
  using db_history.run_inv [OF assms] db_history.run_revoked [OF assms] db_history.run_known [OF assms]
  by blast

theorem revocation_is_permanent_witness:
  "registry (fold (db_step (\<lambda>_. None))
     [RevokeSerial ''default'' ''aa11'' 1 ''now'', InsertIssued (sample_row ''aa11''),
      RevokeSerial ''default'' ''aa11'' 4 ''later''] sample_db) ''default'' ''aa11'' \<noteq> Unknown"
proof -
  have "list_all db_event_ok
     [RevokeSerial ''default'' ''aa11'' 1 ''now'', InsertIssued (sample_row ''aa11''),
      RevokeSerial ''default'' ''aa11'' 4 ''later'']"
    by simp
  from revocation_is_permanent [OF sample_db_ok this, of "\<lambda>_. None" "''default''" "''aa11''"]
  show ?thesis by simp
qed

lemma revoked_rows_status:
  assumes ok: "db_ok db" and list: "list_revoked fault ca db = (Inr es, db1)"
  shows "distinct (map re_serial es)
    \<and> (\<forall>s t n. \<lparr>re_serial = s, re_revoked_at = t, re_reason = n\<rparr> \<in> set es
                \<longleftrightarrow> registry db ca s = Revoked t n)"
proof (intro conjI allI)
  let ?P = "\<lambda>r. ic_ca_id r = ca \<and> ic_status r = STATUS_REVOKED"
  from list have es: "es = map to_revoked_entry (filter ?P (issued db))"
    by (auto dest!: list_revoked_ok)
  have "map re_serial es = map ic_serial (filter ?P (issued db))"
    by (simp add: es to_revoked_entry_def)
  with ok show "distinct (map re_serial es)"
    by (simp add: db_ok_def distinct_map_filter)
  fix s t n
  show "\<lparr>re_serial = s, re_revoked_at = t, re_reason = n\<rparr> \<in> set es \<longleftrightarrow> registry db ca s = Revoked t n"
  proof
    assume "\<lparr>re_serial = s, re_revoked_at = t, re_reason = n\<rparr> \<in> set es"
    then obtain r where r: "r \<in> set (issued db)" "?P r" "ic_serial r = s"
      "ic_revoked_at r = t" "ic_revocation_reason r = n"
      by (auto simp: es to_revoked_entry_def)
    with ok have "find (row_matches ca s) (issued db) = Some r"
      by (intro find_unique) (auto simp: db_ok_def row_matches_def)
    with r show "registry db ca s = Revoked t n"
      by (simp add: registry_def row_status_def)
  next
    assume "registry db ca s = Revoked t n"
    then obtain r where "find (row_matches ca s) (issued db) = Some r" "row_status r = Revoked t n"
      by (auto simp: registry_def split: option.splits)
    then show "\<lparr>re_serial = s, re_revoked_at = t, re_reason = n\<rparr> \<in> set es"
      by (auto simp: es to_revoked_entry_def row_status_def row_matches_def image_iff
          split: if_splits dest!: find_SomeD)
  qed
qed

text \<open>
  The CRL and OCSP read the same truth: \<open>list_revoked\<close> returns one entry for exactly the
  serials of the CA that \<open>status_by_serial\<close> reports revoked, with the same time and reason.
\<close>

theorem revoked_list_agrees_with_status:
  assumes ok: "db_ok db" and list: "list_revoked fault ca db = (Inr es, db1)"
  shows "distinct (map re_serial es)
    \<and> (\<forall>s t n. \<lparr>re_serial = s, re_revoked_at = t, re_reason = n\<rparr> \<in> set es
                \<longleftrightarrow> registry db ca s = Revoked t n)"
  using assms by (rule revoked_rows_status)

theorem revoked_list_agrees_with_status_witness:
  "\<exists>es db1. list_revoked (\<lambda>_. None) ''default'' sample_db = (Inr es, db1) \<and> distinct (map re_serial es)"
proof -
  obtain es db1 where "list_revoked (\<lambda>_. None) ''default'' sample_db = (Inr es, db1)"
    by (simp add: list_revoked_def run_statement_healthy)
  with revoked_list_agrees_with_status [OF sample_db_ok this] show ?thesis by blast
qed

end
