(* ===== verification/HttpState.thy ===== *)
theory HttpState
  imports Verify Challenge Registry
begin

text \<open>
  \<open>http/mod.rs\<close> and \<open>http/health.rs\<close>: the state the handlers share.  \<open>AppState\<close> is fixed
  after start-up; what handlers change is behind its database pool and its Intune client, and
  makes up the \<open>world\<close> here.  A \<open>HashMap\<close> is a map; the list of its keys that \<open>health\<close>
  reports, in the map's own order, is a parameter.

  \<open>platform\<close> groups the parameters for code outside the repository.
\<close>

record profile_runtime =
  rt_name :: string
  rt_ca_id :: string
  rt_validator :: validator
  rt_validity_days :: "32 word"
  rt_key_usage :: "string list"
  rt_extended_key_usage :: "string list"

record app_state =
  st_cas :: "string \<Rightarrow> certificate_authority option"
  st_profiles :: "string \<Rightarrow> profile_runtime option"
  st_base_url :: string

record world =
  w_db :: database
  w_intune :: intune_state

record platform =
  p_der :: der_lib
  p_cms :: cms_lib
  p_x509 :: x509_lib
  p_digest :: digest_lib
  p_rsa :: rsa_lib
  p_cipher :: cipher_lib
  p_codec :: codec_lib
  p_time :: time_lib
  p_intune :: intune_lib
  p_net :: net_env
  p_fault :: db_fault

definition ca_for_profile :: "app_state \<Rightarrow> string \<Rightarrow> certificate_authority option" where
  "ca_for_profile state profile =
     (case st_profiles state profile of None \<Rightarrow> None | Some rt \<Rightarrow> st_cas state (rt_ca_id rt))"

definition ocsp_url :: "app_state \<Rightarrow> string \<Rightarrow> string" where
  "ocsp_url state ca = trim_end_matches (CHR ''/'') (st_base_url state) @ ''/ocsp/'' @ ca"

definition crl_url :: "app_state \<Rightarrow> string \<Rightarrow> string" where
  "crl_url state ca = trim_end_matches (CHR ''/'') (st_base_url state) @ ''/crl/'' @ ca"

subsection \<open>Routes\<close>

text \<open>
  The routing table: which handler a path leads to, by its segments.  A parameter \<open>{x}\<close>
  matches one segment, and a literal segment wins over a parameter.
\<close>

datatype route =
    RHealth
  | RScep string
  | ROcspRoot string
  | ROcsp string string
  | RCrl string

fun router :: "string list \<Rightarrow> route option" where
  "router [a] = (if a = ''health'' then Some RHealth else None)"
| "router [a, b] =
     (if a = ''scep'' then Some (RScep b)
      else if a = ''ocsp'' then Some (ROcspRoot b)
      else if a = ''crl'' then Some (RCrl b)
      else None)"
| "router [a, b, c] =
     (if a = ''scep'' \<and> c = ''pkiclient.exe'' then Some (RScep b)
      else if a = ''ocsp'' then Some (ROcsp b c)
      else None)"
| "router segments = None"

record health_report =
  hr_status :: string
  hr_cas :: "string list"
  hr_profiles :: "string list"

definition health :: "string list \<Rightarrow> string list \<Rightarrow> health_report" where
  "health ca_keys profile_keys = \<lparr>hr_status = ''ok'', hr_cas = ca_keys, hr_profiles = profile_keys\<rparr>"

subsection \<open>Calls on the parts of the world\<close>

type_synonym 'a handler = "(world, app_error, 'a) effect"

definition on_db :: "(database \<Rightarrow> 'a app_result \<times> database) \<Rightarrow> 'a handler" where
  "on_db f w = (case f (w_db w) of (r, db) \<Rightarrow> (r, w\<lparr>w_db := db\<rparr>))"

definition on_intune :: "'a intune \<Rightarrow> 'a handler" where
  "on_intune f w = (case f (w_intune w) of (r, st) \<Rightarrow> (r, w\<lparr>w_intune := st\<rparr>))"

text \<open>\<open>let _ = f().await\<close>, and \<open>if let Err(e) = f().await { log }\<close>: the error is dropped.\<close>

definition ignore :: "'a handler \<Rightarrow> unit handler" where
  "ignore m w = (Inr (), snd (m w))"

lemma on_db_snd [simp]:
  "w_db (snd (on_db f w)) = snd (f (w_db w))" "w_intune (snd (on_db f w)) = w_intune w"
  "fst (on_db f w) = fst (f (w_db w))"
  by (simp_all add: on_db_def split: prod.split)

lemma on_intune_snd [simp]:
  "w_intune (snd (on_intune f w)) = snd (f (w_intune w))" "w_db (snd (on_intune f w)) = w_db w"
  "fst (on_intune f w) = fst (f (w_intune w))"
  by (simp_all add: on_intune_def split: prod.split)

lemma ignore_simps [simp]: "ignore m w = (Inr (), snd (m w))"
  by (simp add: ignore_def)

lemma trim_url_no_slash:
  "trim_end_matches (CHR ''/'') (s @ ''/'') = trim_end_matches (CHR ''/'') s"
  by (simp add: trim_end_matches_def)

text \<open>The route the certificates of a CA point at leads back to the same CA.\<close>

lemma url_routes:
  "router [''ocsp'', ca] = Some (ROcspRoot ca)" "router [''ocsp'', ca, b64] = Some (ROcsp ca b64)"
  "router [''crl'', ca] = Some (RCrl ca)"
  by simp_all

text \<open>A handler that only reads: nothing changes but the number of statements sent.\<close>

definition reads_only :: "world \<Rightarrow> world \<Rightarrow> bool" where
  "reads_only w w' \<longleftrightarrow> (\<exists>n. w' = w\<lparr>w_db := (w_db w)\<lparr>db_calls := n\<rparr>\<rparr>)"

lemma reads_only_refl [simp, intro]: "reads_only w w"
  unfolding reads_only_def by (rule exI [of _ "db_calls (w_db w)"]) simp

lemma reads_only_trans: "reads_only w w1 \<Longrightarrow> reads_only w1 w2 \<Longrightarrow> reads_only w w2"
  by (auto simp: reads_only_def)

lemma reads_only_and_then:
  assumes "reads_only w (snd (m w))" and "\<And>x w1. reads_only w1 (snd (f x w1))"
  shows "reads_only w (snd (and_then m f w))"
  by (rule and_then_keeps [where P = "reads_only w"]) (blast intro: assms reads_only_trans)+

lemma reads_only_statement:
  "snd (f (w_db w)) = tick (w_db w) \<Longrightarrow> reads_only w (snd (on_db f w))"
  by (cases "f (w_db w)") (auto simp: on_db_def reads_only_def tick_def)

lemma reads_only_db:
  assumes "reads_only w w'"
  shows "issued (w_db w') = issued (w_db w)" "transactions (w_db w') = transactions (w_db w)"
    "tables (w_db w') = tables (w_db w)" "registry (w_db w') = registry (w_db w)"
    "db_ok (w_db w') = db_ok (w_db w)" "w_intune w' = w_intune w"
proof -
  from assms obtain n where w': "w' = w\<lparr>w_db := (w_db w)\<lparr>db_calls := n\<rparr>\<rparr>" by (auto simp: reads_only_def)
  show "issued (w_db w') = issued (w_db w)" "transactions (w_db w') = transactions (w_db w)"
    "tables (w_db w') = tables (w_db w)" "w_intune w' = w_intune w" by (simp_all add: w')
  show "registry (w_db w') = registry (w_db w)" by (simp add: w' registry_def fun_eq_iff)
  show "db_ok (w_db w') = db_ok (w_db w)" by (simp add: w' db_ok_def)
qed

end
