(* ===== verification/App.thy ===== *)
theory App
  imports Keystore HttpState
begin

text \<open>
  \<open>app.rs\<close>: start-up, from the settings to the state the handlers share.  A CA comes from
  inline material, from its key file, or, when the key file does not exist, from a fresh
  self-signed certificate that is written there.

  The host is the parameter \<open>h\<close>: the environment, the reasons for which it refuses to read or
  write a path (a failed write may leave something behind), and the clock and the random bytes of
  each bootstrap.  Its state holds the files and the number of bootstraps so far.
  \<open>create_dir_all\<close>, whose result is dropped, only makes directories: whether the write that
  follows succeeds is \<open>h_write_fault\<close>.  Paths are their displayed text.
\<close>

record host =
  h_env :: "string \<Rightarrow> string option"
  h_read_fault :: "string \<Rightarrow> string option"
  h_write_fault :: "string \<Rightarrow> (string \<times> bytes option) option"  \<comment> \<open>reason, what is left in the file\<close>
  h_now :: "nat \<Rightarrow> system_time"
  h_key_rng :: "nat \<Rightarrow> nat \<Rightarrow> byte"
  h_serial_rng :: "nat \<Rightarrow> nat \<Rightarrow> byte"

record host_state =
  hs_files :: "string \<Rightarrow> bytes option"
  hs_boots :: nat

type_synonym 'a startup = "(host_state, app_error, 'a) effect"

definition read_file :: "host \<Rightarrow> host_state \<Rightarrow> string \<Rightarrow> string + bytes" where
  "read_file h st path =
     (case h_read_fault h path of
        Some e \<Rightarrow> Inl e
      | None \<Rightarrow> ok_or ''No such file or directory (os error 2)'' (hs_files st path))"

definition write_file :: "host \<Rightarrow> string \<Rightarrow> bytes \<Rightarrow> host_state \<Rightarrow> (string + unit) \<times> host_state" where
  "write_file h path contents st =
     (case h_write_fault h path of
        Some (e, None) \<Rightarrow> (Inl e, st)
      | Some (e, Some left) \<Rightarrow> (Inl e, st\<lparr>hs_files := (hs_files st)(path \<mapsto> left)\<rparr>)
      | None \<Rightarrow> (Inr (), st\<lparr>hs_files := (hs_files st)(path \<mapsto> contents)\<rparr>))"

text \<open>\<open>map_err\<close> on a call that changes the state.\<close>

definition with_err :: "('e \<Rightarrow> 'f) \<Rightarrow> ('s, 'e, 'a) effect \<Rightarrow> ('s, 'f, 'a) effect" where
  "with_err f m st = (map_err f (fst (m st)), snd (m st))"

lemma with_err_Inl: "with_err f m st = (Inl e, st') \<longleftrightarrow> (\<exists>e'. m st = (Inl e', st') \<and> e = f e')"
  by (cases "m st") (auto simp: with_err_def map_err_Inl_iff)

lemma with_err_Inr: "with_err f m st = (Inr a, st') \<longleftrightarrow> m st = (Inr a, st')"
  by (cases "m st") (auto simp: with_err_def map_err_Inr_iff)

subsection \<open>Certificate authorities\<close>

definition write_ca_pem :: "host \<Rightarrow> platform \<Rightarrow> certificate_authority \<Rightarrow> string \<Rightarrow> unit startup" where
  "write_ca_pem h p ca path =
     and_then (pure (map_err (\<lambda>e. crypto (''encode CA cert PEM: '' @ e)) (cert_to_pem (p_x509 p) (ca_cert ca)))) (\<lambda>cert_pem.
     and_then (pure (map_err (\<lambda>e. crypto (''encode CA key PEM: '' @ e))
       (rsa_private_to_pkcs8_pem (p_rsa p) (ca_private_key ca)))) (\<lambda>key_pem.
     let bundle = cert_pem @ key_pem in
     with_err (\<lambda>e. Config (''cannot write bootstrapped CA to '' @ path @ '': '' @ e))
       (write_file h path (as_bytes bundle))))"

definition bootstrap_ca :: "host \<Rightarrow> platform \<Rightarrow> string \<Rightarrow> certificate_authority startup" where
  "bootstrap_ca h p i st =
     (let n = hs_boots st in
      (generate_self_signed (p_rsa p) (p_x509 p) (p_time p) (h_now h n) (h_key_rng h n) (h_serial_rng h n)
         i (''blapki CA '' @ i) 3072, st\<lparr>hs_boots := Suc n\<rparr>))"

definition ca_of_pair :: "string \<Rightarrow> (certificate \<times> rsa_private_key) app_result \<Rightarrow> certificate_authority app_result" where
  "ca_of_pair i loaded = map_ok (\<lambda>(cert, key). ca_new i cert key) loaded"

definition load_or_bootstrap_ca :: "host \<Rightarrow> platform \<Rightarrow> ca_config \<Rightarrow> certificate_authority startup" where
  "load_or_bootstrap_ca h p cfg =
     (let password = Option.bind (key_password_env cfg) (h_env h) in
      and_then (pure (inline_material (h_env h) cfg)) (\<lambda>material.
      case material of
        Some (cert, key) \<Rightarrow>
          pure (ca_of_pair (ca_cfg_id cfg) (try_then (from_material (p_codec p) cert key password)
            (inline_load (p_codec p) (p_x509 p) (p_rsa p))))
      | None \<Rightarrow>
          (case key_file cfg of
             None \<Rightarrow> pure (Inl (Config (''ca '' @ quoted (ca_cfg_id cfg) @ '' has no key material configured'')))
           | Some path \<Rightarrow>
               (\<lambda>st. if hs_files st path \<noteq> None
                then (ca_of_pair (ca_cfg_id cfg) (file_load (read_file h st) (p_codec p) (p_x509 p) (p_rsa p)
                        \<lparr>fks_path = path, fks_password = password\<rparr>), st)
                else and_then (bootstrap_ca h p (ca_cfg_id cfg)) (\<lambda>ca.
                     and_then (write_ca_pem h p ca path) (\<lambda>_. pure (Inr ca))) st))))"

fun load_cas ::
  "host \<Rightarrow> platform \<Rightarrow> ca_config list \<Rightarrow> (string \<Rightarrow> certificate_authority option)
     \<Rightarrow> (string \<Rightarrow> certificate_authority option) startup" where
  "load_cas h p [] cas = pure (Inr cas)"
| "load_cas h p (cfg # cfgs) cas =
     and_then (load_or_bootstrap_ca h p cfg) (\<lambda>ca. load_cas h p cfgs (cas(ca_cfg_id cfg \<mapsto> ca)))"

subsection \<open>Validators and profiles\<close>

definition build_intune :: "host \<Rightarrow> intune_config option \<Rightarrow> intune_client option app_result" where
  "build_intune h intune =
     (case intune of
        Some cfg \<Rightarrow>
          try_then (ok_or (Config (''intune client secret env '' @ quoted (client_secret_env cfg) @ '' is not set''))
              (h_env h (client_secret_env cfg)))
            (\<lambda>secret. Inr (Some (new_client cfg secret)))
      | None \<Rightarrow> Inr None)"

definition build_validator :: "host \<Rightarrow> profile_config \<Rightarrow> intune_client option \<Rightarrow> validator app_result" where
  "build_validator h profile intune =
     (case profile_challenge profile of
        Static \<Rightarrow>
          try_then (ok_or (Config (''profile '' @ quoted (profile_name profile) @ '' missing static_secret_env''))
            (static_secret_env profile)) (\<lambda>env.
          try_then (ok_or (Config (''static challenge secret env '' @ quoted env @ '' is not set'')) (h_env h env)) (\<lambda>secret.
          Inr (StaticSecretValidator secret)))
      | Intune \<Rightarrow>
          try_then (ok_or (Config ''intune profile but [intune] not configured'') intune) (\<lambda>client.
          Inr (IntuneValidator client))
      | NoChallenge \<Rightarrow> Inr NoneValidator)"

definition runtime_of :: "profile_config \<Rightarrow> validator \<Rightarrow> profile_runtime" where
  "runtime_of p v =
     \<lparr>rt_name = profile_name p, rt_ca_id = profile_ca p, rt_validator = v,
      rt_validity_days = profile_validity_days p, rt_key_usage = profile_key_usage p,
      rt_extended_key_usage = profile_extended_key_usage p\<rparr>"

fun build_profiles ::
  "host \<Rightarrow> intune_client option \<Rightarrow> profile_config list \<Rightarrow> (string \<Rightarrow> profile_runtime option)
     \<Rightarrow> (string \<Rightarrow> profile_runtime option) app_result" where
  "build_profiles h intune [] profiles = Inr profiles"
| "build_profiles h intune (p # ps) profiles =
     try_then (build_validator h p intune) (\<lambda>validator.
     build_profiles h intune ps (profiles(profile_name p \<mapsto> runtime_of p validator)))"

definition build_state ::
  "host \<Rightarrow> platform \<Rightarrow> (string \<Rightarrow> string + database) \<Rightarrow> settings \<Rightarrow> (app_state \<times> database) startup" where
  "build_state h p connect_pool s =
     and_then (pure (connect connect_pool (p_fault p) (database_url (set_server s)))) (\<lambda>db.
     and_then (load_cas h p (set_ca s) Map.empty) (\<lambda>cas.
     and_then (pure (build_intune h (set_intune s))) (\<lambda>intune.
     and_then (pure (build_profiles h intune (set_profile s) Map.empty)) (\<lambda>profiles.
     pure (Inr (\<lparr>st_cas = cas, st_profiles = profiles, st_base_url = server_base_url (set_server s)\<rparr>, db))))))"

subsection \<open>What start-up builds\<close>

text \<open>The validator a profile gets, as a relation free of the order of the lookups.\<close>

definition validator_for :: "host \<Rightarrow> settings \<Rightarrow> profile_config \<Rightarrow> validator \<Rightarrow> bool" where
  "validator_for h s q v \<longleftrightarrow>
     (case profile_challenge q of
        Static \<Rightarrow> \<exists>env secret. static_secret_env q = Some env \<and> h_env h env = Some secret \<and> v = StaticSecretValidator secret
      | Intune \<Rightarrow> \<exists>cfg secret. set_intune s = Some cfg \<and> h_env h (client_secret_env cfg) = Some secret
          \<and> v = IntuneValidator (new_client cfg secret)
      | NoChallenge \<Rightarrow> v = NoneValidator)"

lemma load_or_bootstrap_id:
  "load_or_bootstrap_ca h p cfg st = (Inr ca, st') \<Longrightarrow> ca_id ca = ca_cfg_id cfg"
  unfolding load_or_bootstrap_ca_def Let_def
  by (auto simp: and_then_Inr ca_of_pair_def map_ok_Inr_iff ca_new_def bootstrap_ca_def Let_def
      generate_self_signed_def try_then_Inr_iff split: option.splits if_splits prod.splits)

lemma load_cas_ok:
  "load_cas h p cfgs cas st = (Inr cas', st') \<Longrightarrow>
     dom cas' = dom cas \<union> ca_cfg_id ` set cfgs
     \<and> (\<forall>i ca. cas' i = Some ca \<longrightarrow> cas i = Some ca \<or> ca_id ca = i)"
proof (induction cfgs arbitrary: cas st)
  case Nil
  then show ?case by simp
next
  case (Cons cfg cfgs)
  then obtain ca st1 where ca: "load_or_bootstrap_ca h p cfg st = (Inr ca, st1)"
    and rest: "load_cas h p cfgs (cas(ca_cfg_id cfg \<mapsto> ca)) st1 = (Inr cas', st')"
    by (auto simp: and_then_Inr)
  from Cons.IH [OF rest] load_or_bootstrap_id [OF ca] show ?case
    by (auto simp: fun_upd_apply split: if_splits)
qed

lemma build_intune_ok:
  "build_intune h i = Inr c \<longleftrightarrow>
     (case i of None \<Rightarrow> c = None
      | Some cfg \<Rightarrow> \<exists>secret. h_env h (client_secret_env cfg) = Some secret \<and> c = Some (new_client cfg secret))"
  by (auto simp: build_intune_def try_then_Inr_iff ok_or_Inr_iff split: option.splits)

lemma build_validator_ok:
  assumes "build_intune h (set_intune s) = Inr intune"
  shows "build_validator h q intune = Inr v \<longleftrightarrow> validator_for h s q v"
  using assms
  by (auto simp: build_validator_def validator_for_def build_intune_ok try_then_Inr_iff ok_or_Inr_iff
      split: challenge_mode.splits option.splits)

lemma build_profiles_ok:
  "build_profiles h intune ps m = Inr m' \<Longrightarrow>
     dom m' = dom m \<union> profile_name ` set ps
     \<and> (\<forall>name rt. m' name = Some rt \<longrightarrow> m name = Some rt
          \<or> (\<exists>q\<in>set ps. \<exists>v. profile_name q = name \<and> build_validator h q intune = Inr v \<and> rt = runtime_of q v))"
proof (induction ps arbitrary: m)
  case Nil
  then show ?case by simp
next
  case (Cons q ps)
  then obtain v where v: "build_validator h q intune = Inr v"
    and rest: "build_profiles h intune ps (m(profile_name q \<mapsto> runtime_of q v)) = Inr m'"
    by (auto simp: try_then_Inr_iff)
  note IH = Cons.IH [OF rest]
  have "dom m' = dom m \<union> profile_name ` set (q # ps)" using IH by auto
  moreover have "m name = Some rt \<or> (\<exists>q'\<in>set (q # ps). \<exists>v. profile_name q' = name
      \<and> build_validator h q' intune = Inr v \<and> rt = runtime_of q' v)" if "m' name = Some rt" for name rt
  proof (cases "(m(profile_name q \<mapsto> runtime_of q v)) name = Some rt")
    case True
    then show ?thesis using v by (cases "name = profile_name q") auto
  next
    case False
    with IH that show ?thesis by auto
  qed
  ultimately show ?case by blast
qed

lemma migrate_from_tables:
  "migrate_from fault ts db = (Inr u, db') \<Longrightarrow> set ts \<union> set (tables db) \<subseteq> set (tables db')"
proof (induction ts arbitrary: db)
  case Nil
  then show ?case by simp
next
  case (Cons t ts)
  then obtain db1 where step: "create_table fault t db = (Inr (), db1)"
    and rest: "migrate_from fault ts db1 = (Inr u, db')"
    by (auto split: prod.splits sum.splits)
  from step have "insert t (set (tables db)) \<subseteq> set (tables db1)"
    by (auto simp: create_table_def Let_def split: option.splits if_splits)
  with Cons.IH [OF rest] show ?case by auto
qed

lemma connect_schema:
  "connect connect_pool fault url = Inr db \<Longrightarrow> set SCHEMA \<subseteq> set (tables db)"
proof -
  assume "connect connect_pool fault url = Inr db"
  then obtain pool where "(case migrate fault pool of (Inl e, db) \<Rightarrow> Inl e | (Inr u, db) \<Rightarrow> Inr db) = Inr db"
    by (auto simp: connect_def try_then_Inr_iff)
  then obtain u where "migrate_from fault SCHEMA pool = (Inr u, db)"
    by (cases "migrate fault pool"; cases "fst (migrate fault pool)") (auto simp: migrate_def)
  then show ?thesis by (auto dest!: migrate_from_tables)
qed

lemma build_state_ok:
  "build_state h p connect_pool s st = (Inr (state, db), st') \<longleftrightarrow>
     (\<exists>cas intune profiles. connect connect_pool (p_fault p) (database_url (set_server s)) = Inr db
        \<and> load_cas h p (set_ca s) Map.empty st = (Inr cas, st')
        \<and> build_intune h (set_intune s) = Inr intune
        \<and> build_profiles h intune (set_profile s) Map.empty = Inr profiles
        \<and> state = \<lparr>st_cas = cas, st_profiles = profiles, st_base_url = server_base_url (set_server s)\<rparr>)"
  by (auto simp: build_state_def and_then_Inr)

subsection \<open>The files start-up writes\<close>

text \<open>A start-up step writes no file but the missing key files of the given CAs.\<close>

definition writes_only :: "ca_config set \<Rightarrow> host_state \<Rightarrow> host_state \<Rightarrow> bool" where
  "writes_only cfgs st st' \<longleftrightarrow>
     (\<forall>path. hs_files st' path \<noteq> hs_files st path \<longrightarrow>
        hs_files st path = None \<and> (\<exists>cfg\<in>cfgs. key_file cfg = Some path))"

lemma writes_only_refl [simp]: "writes_only cfgs st st"
  by (simp add: writes_only_def)

lemma writes_only_trans:
  "writes_only A st st1 \<Longrightarrow> writes_only B st1 st2 \<Longrightarrow> writes_only (A \<union> B) st st2"
  unfolding writes_only_def by (metis UnCI)

lemma write_ca_pem_files:
  "path' \<noteq> path \<Longrightarrow> hs_files (snd (write_ca_pem h p ca path st)) path' = hs_files st path'"
  by (simp add: write_ca_pem_def and_then_def write_file_def with_err_def Let_def split: sum.split option.split prod.split)

lemma bootstrap_files:
  assumes "path' \<noteq> path"
  shows "hs_files (snd (and_then (bootstrap_ca h p i) (\<lambda>ca.
     and_then (write_ca_pem h p ca path) (\<lambda>_. pure (Inr ca))) st)) path' = hs_files st path'"
proof (rule and_then_keeps [where P = "\<lambda>t. hs_files t path' = hs_files st path'"])
  show "hs_files (snd (bootstrap_ca h p i st)) path' = hs_files st path'"
    by (simp add: bootstrap_ca_def Let_def)
next
  fix ca and st1 :: host_state
  assume "hs_files st1 path' = hs_files st path'"
  then show "hs_files (snd (and_then (write_ca_pem h p ca path) (\<lambda>_. pure (Inr ca)) st1)) path' = hs_files st path'"
    by (intro and_then_keeps [where P = "\<lambda>t. hs_files t path' = hs_files st path'"])
       (simp_all add: write_ca_pem_files [OF assms])
qed

lemma load_or_bootstrap_files:
  "writes_only {cfg} st (snd (load_or_bootstrap_ca h p cfg st))"
proof (cases "inline_material (h_env h) cfg = Inr None \<and> key_file cfg \<noteq> None")
  case False
  then show ?thesis
    by (cases "inline_material (h_env h) cfg")
       (auto simp: load_or_bootstrap_ca_def Let_def split: option.splits)
next
  case True
  then obtain path where path: "key_file cfg = Some path" and m: "inline_material (h_env h) cfg = Inr None" by auto
  show ?thesis
  proof (cases "hs_files st path")
    case (Some b)
    with path m show ?thesis by (simp add: load_or_bootstrap_ca_def Let_def)
  next
    case None
    with path m have run: "load_or_bootstrap_ca h p cfg st = and_then (bootstrap_ca h p (ca_cfg_id cfg)) (\<lambda>ca.
        and_then (write_ca_pem h p ca path) (\<lambda>_. pure (Inr ca))) st"
      by (simp add: load_or_bootstrap_ca_def Let_def)
    show ?thesis
      unfolding writes_only_def
    proof (intro allI impI)
      fix path'
      assume "hs_files (snd (load_or_bootstrap_ca h p cfg st)) path' \<noteq> hs_files st path'"
      then have "path' = path"
        using bootstrap_files [of path' path h p "ca_cfg_id cfg" st] unfolding run by blast
      with None path show "hs_files st path' = None \<and> (\<exists>cfg\<in>{cfg}. key_file cfg = Some path')" by simp
    qed
  qed
qed

lemma writes_only_mono: "writes_only A st st' \<Longrightarrow> A \<subseteq> B \<Longrightarrow> writes_only B st st'"
  unfolding writes_only_def by blast

lemma load_cas_files: "writes_only (set cfgs) st (snd (load_cas h p cfgs cas st))"
proof (induction cfgs arbitrary: cas st)
  case Nil
  show ?case by simp
next
  case (Cons cfg cfgs)
  have "writes_only (set (cfg # cfgs)) st
      (snd (and_then (load_or_bootstrap_ca h p cfg) (\<lambda>ca. load_cas h p cfgs (cas(ca_cfg_id cfg \<mapsto> ca))) st))"
  proof (rule and_then_keeps)
    show "writes_only (set (cfg # cfgs)) st (snd (load_or_bootstrap_ca h p cfg st))"
      by (rule writes_only_mono [OF load_or_bootstrap_files]) simp
  next
    fix ca st1
    assume run: "load_or_bootstrap_ca h p cfg st = (Inr ca, st1)"
    from load_or_bootstrap_files [of cfg st h p] have "writes_only {cfg} st st1" by (simp add: run)
    from writes_only_trans [OF this Cons.IH]
    show "writes_only (set (cfg # cfgs)) st (snd (load_cas h p cfgs (cas(ca_cfg_id cfg \<mapsto> ca)) st1))"
      by simp
  qed
  then show ?case by simp
qed

lemma build_state_files: "writes_only (set (set_ca s)) st (snd (build_state h p connect_pool s st))"
  unfolding build_state_def
  by (rule and_then_keeps [where P = "writes_only (set (set_ca s)) st"], simp)
     (rule and_then_keeps [where P = "writes_only (set (set_ca s)) st"], simp_all add: load_cas_files and_then_def split: sum.splits)

subsection \<open>Start-up errors\<close>

lemma generate_self_signed_error:
  assumes "serial_new_documented x" and "generate_self_signed r x tm now krng srng i cn bits = Inl e"
  shows "\<exists>m. e = Config m \<or> e = Crypto m"
  using assms(2) unfolding generate_self_signed_def Let_def random_serial_value [OF assms(1)]
  by (auto simp: try_then_Inl_iff map_err_Inl_iff crypto_def der_err_def bld_err_def)

lemma material_error: "from_material co cert key pw = Inl e \<Longrightarrow> \<exists>m. e = Config m"
  by (auto simp: from_material_def material_to_bytes_def Let_def try_then_Inl_iff map_err_Inl_iff split: if_splits)

lemma inline_material_error: "inline_material env c = Inl e \<Longrightarrow> \<exists>m. e = Config m"
  by (auto simp: inline_material_def try_then_Inl_iff resolve_value_def split: option.splits)

lemma write_ca_pem_error: "write_ca_pem h p ca path st = (Inl e, st') \<Longrightarrow> \<exists>m. e = Config m \<or> e = Crypto m"
  by (auto simp: write_ca_pem_def and_then_Inl map_err_Inl_iff with_err_Inl crypto_def Let_def)

lemma load_or_bootstrap_error:
  assumes serial: "serial_new_documented (p_x509 p)" and err: "load_or_bootstrap_ca h p cfg st = (Inl e, st')"
  shows "\<exists>m. e = Config m \<or> e = Crypto m"
proof (cases "inline_material (h_env h) cfg")
  case (Inl e')
  with err inline_material_error [OF Inl] show ?thesis by (auto simp: load_or_bootstrap_ca_def Let_def)
next
  case (Inr material)
  show ?thesis
  proof (cases material)
    case (Some m)
    with Inr err show ?thesis
      by (cases m) (auto simp: load_or_bootstrap_ca_def Let_def ca_of_pair_def map_ok_Inl_iff try_then_Inl_iff
          dest: material_error inline_store.load_error)
  next
    case None
    show ?thesis
    proof (cases "key_file cfg")
      case k: None
      with Inr None err show ?thesis by (auto simp: load_or_bootstrap_ca_def Let_def)
    next
      case k: (Some path)
      show ?thesis
      proof (cases "hs_files st path")
        case f: None
        with Inr None k err have "and_then (bootstrap_ca h p (ca_cfg_id cfg)) (\<lambda>ca.
            and_then (write_ca_pem h p ca path) (\<lambda>_. pure (Inr ca))) st = (Inl e, st')"
          by (simp add: load_or_bootstrap_ca_def Let_def)
        then show ?thesis
          by (auto simp: and_then_Inl bootstrap_ca_def Let_def
              dest: generate_self_signed_error [OF serial] write_ca_pem_error)
      next
        case f: (Some b)
        with Inr None k err show ?thesis
          by (auto simp: load_or_bootstrap_ca_def Let_def ca_of_pair_def map_ok_Inl_iff
              dest: file_store.load_error)
      qed
    qed
  qed
qed

lemma load_cas_error:
  "load_cas h p cfgs cas st = (Inl e, st') \<Longrightarrow>
     \<exists>cfg\<in>set cfgs. \<exists>st1. load_or_bootstrap_ca h p cfg st1 = (Inl e, st')"
  by (induction cfgs arbitrary: cas st) (auto simp: and_then_Inl)

lemma build_profiles_error:
  "build_profiles h intune ps m = Inl e \<Longrightarrow> \<exists>q\<in>set ps. build_validator h q intune = Inl e"
  by (induction ps arbitrary: m) (auto simp: try_then_Inl_iff)

lemma connect_error: "connect connect_pool fault url = Inl e \<Longrightarrow> \<exists>m. e = Database m"
proof -
  have "migrate_from fault ts db = (Inl e, db') \<Longrightarrow> \<exists>m. e = Database m" for ts db db'
    by (induction ts arbitrary: db) (auto simp: create_table_def Let_def split: option.splits if_splits prod.splits sum.splits)
  moreover assume "connect connect_pool fault url = Inl e"
  ultimately show ?thesis
    by (cases "connect_pool url"; cases "migrate fault (projr (connect_pool url))";
        cases "fst (migrate fault (projr (connect_pool url)))")
       (auto simp: connect_def migrate_def)
qed

lemma build_state_error:
  "build_state h p connect_pool s st = (Inl e, st') \<Longrightarrow>
     connect connect_pool (p_fault p) (database_url (set_server s)) = Inl e
     \<or> load_cas h p (set_ca s) Map.empty st = (Inl e, st')
     \<or> build_intune h (set_intune s) = Inl e
     \<or> (\<exists>intune. build_intune h (set_intune s) = Inr intune
          \<and> build_profiles h intune (set_profile s) Map.empty = Inl e)"
  by (auto simp: build_state_def and_then_Inl)

subsection \<open>The bootstrapped file\<close>

text \<open>
  What the PEM writers promise: each writes one block under its label, and the contents of the
  block decode to what was written.
\<close>

definition pem_documented :: "codec_lib \<Rightarrow> x509_lib \<Rightarrow> rsa_lib \<Rightarrow> bool" where
  "pem_documented co x r \<longleftrightarrow>
     (\<forall>c t. cert_to_pem x c = Inr t \<longrightarrow> (\<exists>body der. pem_block_ok (''CERTIFICATE'', body)
        \<and> t = render_pem [CHR 0x0A] [(''CERTIFICATE'', body)]
        \<and> base64_decode co (as_bytes (concat body)) = Inr der \<and> cert_from_der x der = Inr c))
     \<and> (\<forall>k t. rsa_private_to_pkcs8_pem r k = Inr t \<longrightarrow> (\<exists>body der. pem_block_ok (''PRIVATE KEY'', body)
        \<and> t = render_pem [CHR 0x0A] [(''PRIVATE KEY'', body)]
        \<and> base64_decode co (as_bytes (concat body)) = Inr der \<and> rsa_private_from_pkcs8 r der = Inr k))"

lemma render_pem_append: "render_pem eol (a @ b) = render_pem eol a @ render_pem eol b"
  by (induction a) auto

lemma written_pem_loads:
  assumes doc: "pem_documented co x r"
    and cert: "cert_to_pem x c = Inr t" and key: "rsa_private_to_pkcs8_pem r k = Inr u"
    and reads: "read (fks_path s) = Inr (as_bytes (t @ u))"
  shows "file_load read co x r s = Inr (c, k)"
proof -
  from doc cert obtain body der where c: "pem_block_ok (''CERTIFICATE'', body)"
    "t = render_pem [CHR 0x0A] [(''CERTIFICATE'', body)]"
    "base64_decode co (as_bytes (concat body)) = Inr der" "cert_from_der x der = Inr c"
    unfolding pem_documented_def by blast
  from doc key obtain body' der' where k: "pem_block_ok (''PRIVATE KEY'', body')"
    "u = render_pem [CHR 0x0A] [(''PRIVATE KEY'', body')]"
    "base64_decode co (as_bytes (concat body')) = Inr der'" "rsa_private_from_pkcs8 r der' = Inr k"
    unfolding pem_documented_def by blast
  let ?blocks = "[(''CERTIFICATE'', body), (''PRIVATE KEY'', body')]"
  have joined: "t @ u = render_pem [CHR 0x0A] ?blocks"
    unfolding c(2) k(2) render_pem_append [symmetric] by (simp only: append.simps)
  have blocks: "decoded_blocks co ?blocks = [(''CERTIFICATE'', der), (''PRIVATE KEY'', der')]"
    by (simp add: decoded_blocks_def map_filter_simps c(3) k(3) del: list.inject char.inject)
  show ?thesis
  proof (rule bundle_loads)
    show "list_all pem_block_ok ?blocks" using c(1) k(1) by (simp only: list.pred_inject simp_thms)
    show "line_end [CHR 0x0A]" by (simp add: line_end_def)
    show "decoded_blocks co ?blocks = [] @ (''CERTIFICATE'', der) # [(''PRIVATE KEY'', der')]"
      by (simp only: blocks append.simps)
    show "decoded_blocks co ?blocks = [(''CERTIFICATE'', der)] @ (''PRIVATE KEY'', der') # []"
      by (simp only: blocks append.simps)
    show "list_all (\<lambda>(l, _). \<not> key_label l) [(''CERTIFICATE'', der)]" by (simp add: key_label_def)
    show "load_key_block r (fks_password s) ''PRIVATE KEY'' der' = Some (Inr k)"
      by (simp add: load_key_block_def k(4))
    show "read (fks_path s) = Inr (as_bytes (render_pem [CHR 0x0A] ?blocks))"
      by (simp only: reads joined)
  qed (simp_all add: c(4))
qed

lemma generated_ca_new:
  "generate_self_signed r x tm now krng srng i cn bits = Inr ca \<Longrightarrow> ca_new i (ca_cert ca) (ca_private_key ca) = ca"
  by (auto simp: generate_self_signed_def Let_def try_then_Inr_iff ca_new_def)

lemma write_file_ok: "write_file h path b st = (Inr u, st') \<Longrightarrow> st' = st\<lparr>hs_files := (hs_files st)(path \<mapsto> b)\<rparr>"
  by (cases "h_write_fault h path"; cases "snd (the (h_write_fault h path))")
     (auto simp: write_file_def split: prod.splits)

lemma write_ca_pem_ok:
  assumes "write_ca_pem h p ca path st = (Inr u, st')"
  shows "\<exists>c k. cert_to_pem (p_x509 p) (ca_cert ca) = Inr c \<and> rsa_private_to_pkcs8_pem (p_rsa p) (ca_private_key ca) = Inr k
    \<and> hs_files st' path = Some (as_bytes (c @ k)) \<and> hs_boots st' = hs_boots st"
  using assms
  by (auto simp: write_ca_pem_def and_then_Inr map_err_Inr_iff with_err_Inr Let_def dest!: write_file_ok)

subsection \<open>A concrete host\<close>

text \<open>
  The PEM writers write one certificate and one key, each as a block of one line; the key file of
  the one CA does not exist at first.
\<close>

definition boot_cert :: certificate where
  "boot_cert = demo_build \<lparr>bld_profile = ProfileRoot, bld_serial = serial_bytes (\<lambda>_. 4), bld_validity = demo_validity,
     bld_subject = as_bytes ''CN=blapki CA default'', bld_spki = demo_spki, bld_signer = demo_key, bld_extensions = []\<rparr>"

definition boot_x509 :: x509_lib where
  "boot_x509 = demo_x509
     \<lparr>cert_to_pem := (\<lambda>c. if c = boot_cert then Inr (render_pem [CHR 0x0A] [(''CERTIFICATE'', [''c''])]) else Inl ''no''),
      cert_from_der := (\<lambda>b. if b = as_bytes ''c'' then Inr boot_cert else Inl ''no'')\<rparr>"

definition boot_rsa :: rsa_lib where
  "boot_rsa = demo_rsa
     \<lparr>rsa_private_to_pkcs8_pem := (\<lambda>k. if k = demo_key then Inr (render_pem [CHR 0x0A] [(''PRIVATE KEY'', [''k''])]) else Inl ''no''),
      rsa_private_from_pkcs8 := (\<lambda>b. Inr demo_key)\<rparr>"

definition boot_platform :: platform where
  "boot_platform =
     \<lparr>p_der = demo_der, p_cms = demo_cms, p_x509 = boot_x509, p_digest = demo_digest, p_rsa = boot_rsa,
      p_cipher = demo_cipher, p_codec = demo_pem_codec, p_time = demo_time, p_intune = demo_intune_lib,
      p_net = demo_net, p_fault = (\<lambda>_. None)\<rparr>"

definition boot_host :: host where
  "boot_host =
     \<lparr>h_env = [''BLAPKI_SECRET'' \<mapsto> ''pw''], h_read_fault = (\<lambda>_. None), h_write_fault = (\<lambda>_. None),
      h_now = (\<lambda>_. 0), h_key_rng = (\<lambda>_ _. 3), h_serial_rng = (\<lambda>_ _. 4)\<rparr>"

definition boot_start :: host_state where
  "boot_start = \<lparr>hs_files = [''other.txt'' \<mapsto> [1]], hs_boots = 0\<rparr>"

definition boot_settings :: "string \<Rightarrow> settings" where
  "boot_settings env =
     \<lparr>set_server = \<lparr>listen = ''0.0.0.0:8080'', database_url = ''sqlite::memory:'', server_base_url = ''http://h''\<rparr>,
      set_ca = [example_ca],
      set_profile = [\<lparr>profile_name = ''p'', profile_ca = ''default'', profile_challenge = Static,
        static_secret_env = Some env, profile_validity_days = default_validity_days,
        profile_key_usage = default_key_usage, profile_extended_key_usage = default_eku\<rparr>],
      set_intune = None\<rparr>"

lemma boot_configured: "well_configured (boot_settings env)"
  by (simp add: well_configured_def boot_settings_def has_source_def example_ca_def profile_ok_def
      ca_declared_def challenge_configured_def)

lemma boot_pem: "pem_documented demo_pem_codec boot_x509 boot_rsa"
proof -
  have "pem_block_ok (''CERTIFICATE'', [''c''])" "pem_block_ok (''PRIVATE KEY'', [''k''])"
    by (simp_all add: pem_block_ok_def printable_def base64_line_def graphic_def)
  moreover have "base64_decode demo_pem_codec (as_bytes (concat [''c''])) = Inr (as_bytes ''c'')"
    "base64_decode demo_pem_codec (as_bytes (concat [''k''])) = Inr (as_bytes ''k'')"
    by (simp_all add: demo_pem_codec_def del: as_bytes_simps)
  moreover have "cert_from_der boot_x509 (as_bytes ''c'') = Inr boot_cert"
    "rsa_private_from_pkcs8 boot_rsa b = Inr demo_key" for b
    by (simp_all add: boot_x509_def boot_rsa_def)
  ultimately show ?thesis
    unfolding pem_documented_def by (auto simp: boot_x509_def boot_rsa_def simp del: render_pem.simps as_bytes_simps
        split: if_splits)
qed

definition booted_ca :: certificate_authority where
  "booted_ca = \<lparr>ca_id = ''default'', ca_cert = boot_cert, ca_signing_key = demo_key, ca_private_key = demo_key\<rparr>"

definition booted_state :: host_state where
  "booted_state = \<lparr>hs_files = (hs_files boot_start)(''ca.pem'' \<mapsto>
     as_bytes (render_pem [CHR 0x0A] [(''CERTIFICATE'', [''c''])] @ render_pem [CHR 0x0A] [(''PRIVATE KEY'', [''k''])])),
     hs_boots = 1\<rparr>"

lemma boot_platform_fields [simp]:
  "p_x509 boot_platform = boot_x509" "p_rsa boot_platform = boot_rsa" "p_time boot_platform = demo_time"
  "p_codec boot_platform = demo_pem_codec" "p_fault boot_platform = (\<lambda>_. None)"
  by (simp_all add: boot_platform_def)

lemma boot_serial: "serial_new_documented boot_x509"
  by (simp add: serial_new_documented_def boot_x509_def demo_x509_def)

lemma boot_generate:
  "bootstrap_ca boot_host boot_platform ''default'' boot_start = (Inr booted_ca, boot_start\<lparr>hs_boots := 1\<rparr>)"
  unfolding bootstrap_ca_def Let_def generate_self_signed_def boot_platform_fields random_serial_value [OF boot_serial]
  by (simp add: boot_start_def booted_ca_def boot_cert_def boot_host_def boot_x509_def boot_rsa_def demo_x509_def
      demo_rsa_def demo_time_def)

lemma boot_material: "inline_material env example_ca = Inr None" "key_file example_ca = Some ''ca.pem''"
  "ca_cfg_id example_ca = ''default''" "key_password_env example_ca = None"
  by (simp_all add: inline_material_None example_ca_def)

lemma boot_write:
  "write_ca_pem boot_host boot_platform booted_ca ''ca.pem'' (boot_start\<lparr>hs_boots := 1\<rparr>) = (Inr (), booted_state)"
proof -
  have "cert_to_pem boot_x509 (ca_cert booted_ca) = Inr (render_pem [CHR 0x0A] [(''CERTIFICATE'', [''c''])])"
    "rsa_private_to_pkcs8_pem boot_rsa (ca_private_key booted_ca) = Inr (render_pem [CHR 0x0A] [(''PRIVATE KEY'', [''k''])])"
    by (simp_all add: boot_x509_def boot_rsa_def booted_ca_def del: render_pem.simps)
  then show ?thesis
    by (simp add: write_ca_pem_def with_err_def write_file_def boot_host_def booted_state_def boot_start_def
        del: render_pem.simps as_bytes_simps)
qed

lemma boot_missing: "hs_files boot_start ''ca.pem'' = None"
  by (simp add: boot_start_def)

lemma boot_env [simp]: "h_env boot_host = [''BLAPKI_SECRET'' \<mapsto> ''pw'']"
  by (simp add: boot_host_def)

lemma boot_load: "load_or_bootstrap_ca boot_host boot_platform example_ca boot_start = (Inr booted_ca, booted_state)"
  unfolding load_or_bootstrap_ca_def Let_def boot_material
  by (simp add: boot_missing and_then_def boot_generate boot_write del: One_nat_def)

lemma boot_connect: "connect (\<lambda>_. Inr new_database) (\<lambda>_. None) url = Inr (new_database\<lparr>db_calls := 2\<rparr>)"
  by (simp add: connect_def migrate_def create_table_def Let_def new_database_def SCHEMA_def)

lemma boot_run:
  "\<exists>state. build_state boot_host boot_platform (\<lambda>_. Inr new_database) (boot_settings ''BLAPKI_SECRET'') boot_start
     = (Inr (state, new_database\<lparr>db_calls := 2\<rparr>), booted_state)"
proof -
  have "\<exists>cas. load_cas boot_host boot_platform [example_ca] Map.empty boot_start = (Inr cas, booted_state)"
    by (simp add: boot_load)
  then show ?thesis
    by (simp add: build_state_ok boot_settings_def build_intune_def build_validator_def boot_connect)
qed

subsection \<open>Properties\<close>

text \<open>
  C25: the running server is the one the settings describe.  When start-up from validated settings
  succeeds, a CA is served under exactly the declared identifiers, and under its own; there is a
  profile for exactly the declared names, each with the fields of a declaration of that name and
  the validator of its mode, holding the secret of its environment variable or the one Intune
  client; the CA of every profile exists; and the database has every table the statements use.
\<close>

theorem built_state_serves_settings:
  assumes "well_configured s" and "build_state h p connect_pool s st = (Inr (state, db), st')"
  shows "(\<forall>i. st_cas state i \<noteq> None \<longleftrightarrow> ca_declared s i)
    \<and> (\<forall>i ca. st_cas state i = Some ca \<longrightarrow> ca_id ca = i)
    \<and> (\<forall>name. st_profiles state name \<noteq> None \<longleftrightarrow> (\<exists>q\<in>set (set_profile s). profile_name q = name))
    \<and> (\<forall>name rt. st_profiles state name = Some rt \<longrightarrow> ca_for_profile state name \<noteq> None
         \<and> (\<exists>q\<in>set (set_profile s). \<exists>v. profile_name q = name \<and> validator_for h s q v \<and> rt = runtime_of q v))
    \<and> st_base_url state = server_base_url (set_server s) \<and> set SCHEMA \<subseteq> set (tables db)"
proof -
  from assms(2) obtain cas intune profiles where db: "connect connect_pool (p_fault p) (database_url (set_server s)) = Inr db"
    and cas: "load_cas h p (set_ca s) Map.empty st = (Inr cas, st')"
    and intune: "build_intune h (set_intune s) = Inr intune"
    and profiles: "build_profiles h intune (set_profile s) Map.empty = Inr profiles"
    and state: "state = \<lparr>st_cas = cas, st_profiles = profiles, st_base_url = server_base_url (set_server s)\<rparr>"
    by (auto simp: build_state_ok)
  note C = load_cas_ok [OF cas] and P = build_profiles_ok [OF profiles]
  have ids: "cas i \<noteq> None \<longleftrightarrow> ca_declared s i" for i
    using C unfolding ca_declared_def by (metis domIff dom_empty sup_bot_left)
  have names: "profiles name \<noteq> None \<longleftrightarrow> (\<exists>q\<in>set (set_profile s). profile_name q = name)" for name
  proof -
    from P have "dom profiles = profile_name ` set (set_profile s)" by simp
    then have "name \<in> dom profiles \<longleftrightarrow> name \<in> profile_name ` set (set_profile s)" by simp
    then show ?thesis by (auto simp: domIff)
  qed
  have entry: "(\<exists>q\<in>set (set_profile s). \<exists>v. profile_name q = name \<and> validator_for h s q v \<and> rt = runtime_of q v)
      \<and> cas (rt_ca_id rt) \<noteq> None" if rt: "profiles name = Some rt" for name rt
  proof -
    from P rt have "\<exists>q\<in>set (set_profile s). \<exists>v. profile_name q = name \<and> build_validator h q intune = Inr v
        \<and> rt = runtime_of q v" by simp
    then obtain q v where q: "q \<in> set (set_profile s)" "profile_name q = name"
      "build_validator h q intune = Inr v" "rt = runtime_of q v" by blast
    moreover from assms(1) q(1) have "ca_declared s (profile_ca q)"
      by (auto simp: well_configured_def profile_ok_def)
    ultimately show ?thesis using build_validator_ok [OF intune] ids by (auto simp: runtime_of_def)
  qed
  show ?thesis
    using ids names entry C connect_schema [OF db] by (auto simp: state ca_for_profile_def)
qed

lemma built_state_serves_settings_witness:
  "\<exists>state db rt. build_state boot_host boot_platform (\<lambda>_. Inr new_database) (boot_settings ''BLAPKI_SECRET'') boot_start
       = (Inr (state, db), booted_state)
     \<and> st_profiles state ''p'' = Some rt \<and> rt_validator rt = StaticSecretValidator ''pw''"
proof -
  obtain state db where run: "build_state boot_host boot_platform (\<lambda>_. Inr new_database)
      (boot_settings ''BLAPKI_SECRET'') boot_start = (Inr (state, db), booted_state)"
    using boot_run by blast
  note served = built_state_serves_settings [OF boot_configured run]
  have "\<exists>q\<in>set (set_profile (boot_settings ''BLAPKI_SECRET'')). profile_name q = ''p''"
    by (simp add: boot_settings_def)
  with served have "st_profiles state ''p'' \<noteq> None" by (elim conjE) blast
  then obtain rt where rt: "st_profiles state ''p'' = Some rt" by blast
  with served have "\<exists>q\<in>set (set_profile (boot_settings ''BLAPKI_SECRET'')). \<exists>v. profile_name q = ''p''
      \<and> validator_for boot_host (boot_settings ''BLAPKI_SECRET'') q v \<and> rt = runtime_of q v" by (elim conjE) blast
  then obtain q v where "q \<in> set (set_profile (boot_settings ''BLAPKI_SECRET''))"
    "validator_for boot_host (boot_settings ''BLAPKI_SECRET'') q v" "rt = runtime_of q v" by blast
  then have "rt_validator rt = StaticSecretValidator ''pw''"
    by (auto simp: boot_settings_def validator_for_def boot_host_def runtime_of_def)
  with run rt show ?thesis by blast
qed

text \<open>
  C27: what can stop start-up.  From validated settings it fails only because the database cannot
  be reached or set up, because a declared CA cannot be loaded or bootstrapped (a configuration or
  crypto error), or because the environment lacks a secret the settings name; the error then says
  which variable.  The checks that repeat the validation never fire.
\<close>

theorem startup_error_causes:
  assumes "well_configured s" and "serial_new_documented (p_x509 p)"
    and "build_state h p connect_pool s st = (Inl e, st')"
  shows "(\<exists>m. e = Database m)
    \<or> (\<exists>cfg\<in>set (set_ca s). \<exists>st1. load_or_bootstrap_ca h p cfg st1 = (Inl e, st')
         \<and> (inline_material (h_env h) cfg = Inr None \<longrightarrow> key_file cfg \<noteq> None) \<and> (\<exists>m. e = Config m \<or> e = Crypto m))
    \<or> (\<exists>cfg. set_intune s = Some cfg \<and> h_env h (client_secret_env cfg) = None
         \<and> e = Config (''intune client secret env '' @ quoted (client_secret_env cfg) @ '' is not set''))
    \<or> (\<exists>q\<in>set (set_profile s). \<exists>env. profile_challenge q = Static \<and> static_secret_env q = Some env
         \<and> h_env h env = None \<and> e = Config (''static challenge secret env '' @ quoted env @ '' is not set''))"
proof -
  from build_state_error [OF assms(3)] consider
      (db) "connect connect_pool (p_fault p) (database_url (set_server s)) = Inl e"
    | (cas) "load_cas h p (set_ca s) Map.empty st = (Inl e, st')"
    | (intune) "build_intune h (set_intune s) = Inl e"
    | (profiles) intune where "build_intune h (set_intune s) = Inr intune"
        "build_profiles h intune (set_profile s) Map.empty = Inl e"
    by blast
  then show ?thesis
  proof cases
    case db
    then show ?thesis using connect_error by blast
  next
    case cas
    from load_cas_error [OF this] obtain cfg st1 where cfg: "cfg \<in> set (set_ca s)"
      "load_or_bootstrap_ca h p cfg st1 = (Inl e, st')" by blast
    moreover from assms(1) cfg(1) have "has_source cfg" by (simp add: well_configured_def)
    ultimately show ?thesis
      using load_or_bootstrap_error [OF assms(2)] by (auto simp: inline_material_None has_source_def)
  next
    case intune
    then show ?thesis by (auto simp: build_intune_def try_then_Inl_iff ok_or_Inl_iff split: option.splits)
  next
    case profiles
    from build_profiles_error [OF profiles(2)] obtain q where q: "q \<in> set (set_profile s)"
      "build_validator h q intune = Inl e" by blast
    moreover from assms(1) q(1) have "challenge_configured s q" by (simp add: well_configured_def profile_ok_def)
    ultimately show ?thesis
      using profiles(1)
      by (auto simp: build_validator_def challenge_configured_def try_then_Inl_iff ok_or_Inl_iff build_intune_ok
          split: challenge_mode.splits option.splits)
  qed
qed

lemma startup_error_causes_witness:
  "\<exists>e st'. build_state boot_host boot_platform (\<lambda>_. Inr new_database) (boot_settings ''MISSING'') boot_start = (Inl e, st')
     \<and> e = Config (''static challenge secret env '' @ quoted ''MISSING'' @ '' is not set'')"
proof -
  let ?e = "Config (''static challenge secret env '' @ quoted ''MISSING'' @ '' is not set'')"
  have "build_state boot_host boot_platform (\<lambda>_. Inr new_database) (boot_settings ''MISSING'') boot_start
      = (Inl ?e, booted_state)"
    by (simp add: build_state_def boot_settings_def boot_connect boot_load build_intune_def build_validator_def and_then_def)
  moreover from startup_error_causes [OF boot_configured _ this] boot_serial have "\<exists>m. ?e = Config m" by blast
  ultimately show ?thesis by blast
qed



text \<open>
  C26: a bootstrapped CA survives a restart.  After a first start without a key file, the next
  start reads the file that was written, and serves the same certificate with the same key under
  the same identifier, whatever password is configured, without bootstrapping again.
\<close>

theorem bootstrapped_ca_loads_back:
  assumes "pem_documented (p_codec p) (p_x509 p) (p_rsa p)"
    and "inline_material (h_env h) cfg = Inr None" and "key_file cfg = Some path" and "hs_files st path = None"
    and "load_or_bootstrap_ca h p cfg st = (Inr ca, st')" and "h_read_fault h path = None"
  shows "load_or_bootstrap_ca h p cfg st' = (Inr ca, st') \<and> hs_boots st' = Suc (hs_boots st)"
proof -
  from assms(2-5) have "and_then (bootstrap_ca h p (ca_cfg_id cfg)) (\<lambda>ca.
      and_then (write_ca_pem h p ca path) (\<lambda>_. pure (Inr ca))) st = (Inr ca, st')"
    by (simp add: load_or_bootstrap_ca_def Let_def)
  then obtain st1 where boot: "bootstrap_ca h p (ca_cfg_id cfg) st = (Inr ca, st1)"
    and wrote: "write_ca_pem h p ca path st1 = (Inr (), st')"
    by (auto simp: and_then_Inr)
  from write_ca_pem_ok [OF wrote] obtain c k where pem: "cert_to_pem (p_x509 p) (ca_cert ca) = Inr c"
    "rsa_private_to_pkcs8_pem (p_rsa p) (ca_private_key ca) = Inr k"
    and saved: "hs_files st' path = Some (as_bytes (c @ k))" and boots: "hs_boots st' = hs_boots st1" by blast
  have "file_load (read_file h st') (p_codec p) (p_x509 p) (p_rsa p)
      \<lparr>fks_path = path, fks_password = Option.bind (key_password_env cfg) (h_env h)\<rparr> = Inr (ca_cert ca, ca_private_key ca)"
    by (rule written_pem_loads [OF assms(1) pem]) (simp add: read_file_def assms(6) saved)
  moreover have "ca_new (ca_cfg_id cfg) (ca_cert ca) (ca_private_key ca) = ca"
    using boot generated_ca_new by (auto simp: bootstrap_ca_def Let_def)
  ultimately have "load_or_bootstrap_ca h p cfg st' = (Inr ca, st')"
    using assms(2,3) saved by (simp add: load_or_bootstrap_ca_def Let_def ca_of_pair_def)
  with boot boots show ?thesis by (auto simp: bootstrap_ca_def Let_def)
qed

lemma bootstrapped_ca_loads_back_witness:
  "load_or_bootstrap_ca boot_host boot_platform example_ca booted_state = (Inr booted_ca, booted_state)"
proof -
  have "pem_documented (p_codec boot_platform) (p_x509 boot_platform) (p_rsa boot_platform)"
    by (simp add: boot_pem)
  moreover have "hs_files boot_start ''ca.pem'' = None" "h_read_fault boot_host ''ca.pem'' = None"
    by (simp_all add: boot_missing boot_host_def)
  ultimately show ?thesis
    using bootstrapped_ca_loads_back [OF _ boot_material(1,2) _ boot_load] by blast
qed

end
