(* ===== verification/ScepHandler.thy ===== *)
theory ScepHandler
  imports HttpState
begin

text \<open>
  \<open>http/scep.rs\<close>: the SCEP endpoint.  \<open>request_env\<close> holds what one request reads from the
  outside: the byte streams of its uses of the random generator and its clock readings.
\<close>

record request_env =
  rq_serial_rng :: "nat \<Rightarrow> byte"
  rq_cek_rng :: "nat \<Rightarrow> byte"
  rq_iv_rng :: "nat \<Rightarrow> byte"
  rq_wrap_rng :: "nat \<Rightarrow> byte"
  rq_nonce_rng :: "nat \<Rightarrow> byte"
  rq_issue_time :: system_time
  rq_persist_time :: system_time
  rq_record_time :: system_time

definition CT_CA_CERT :: string where
  "CT_CA_CERT = ''application/x-x509-ca-cert''"
definition CT_PKI_MESSAGE :: string where
  "CT_PKI_MESSAGE = ''application/x-pki-message''"

subsection \<open>Small helpers\<close>

definition text_response :: "string \<Rightarrow> http_response" where
  "text_response body = \<lparr>resp_status = 200, resp_content_type = Some ''text/plain'', resp_body = as_bytes body\<rparr>"

definition bytes_response :: "string \<Rightarrow> bytes \<Rightarrow> http_response" where
  "bytes_response content_type body =
     \<lparr>resp_status = 200, resp_content_type = Some content_type, resp_body = body\<rparr>"

definition thumbprint :: "platform \<Rightarrow> bytes \<Rightarrow> string" where
  "thumbprint p der = hex_encode_upper (p_codec p) (sha1 (p_digest p) der)"

text \<open>The format string \<open>{:04}-{:02}-{:02}T{:02}:{:02}:{:02}Z\<close>.\<close>

definition format_datetime :: "datetime \<Rightarrow> string" where
  "format_datetime dt =
     zero_pad 4 (dec (dt_year dt)) @ ''-'' @ zero_pad 2 (dec (dt_month dt)) @ ''-''
     @ zero_pad 2 (dec (dt_day dt)) @ ''T'' @ zero_pad 2 (dec (dt_hour dt)) @ '':''
     @ zero_pad 2 (dec (dt_minutes dt)) @ '':'' @ zero_pad 2 (dec (dt_seconds dt)) @ ''Z''"

fun to_date_time :: "asn1_time \<Rightarrow> datetime" where
  "to_date_time (UtcTime dt) = dt"
| "to_date_time (GeneralTime dt) = dt"

definition time_to_utc :: "asn1_time \<Rightarrow> string" where
  "time_to_utc t = format_datetime (to_date_time t)"

definition now_utc :: "platform \<Rightarrow> system_time \<Rightarrow> string" where
  "now_utc p now =
     (let dt = (case datetime_from_system_time (p_time p) now of Inr dt \<Rightarrow> dt | Inl _ \<Rightarrow> datetime_infinity)
      in format_datetime dt)"

fun common_name_of :: "string \<Rightarrow> string list \<Rightarrow> string" where
  "common_name_of dn [] = dn"
| "common_name_of dn (part # parts) =
     (case strip_prefix ''CN='' (trim part) of Some cn \<Rightarrow> cn | None \<Rightarrow> common_name_of dn parts)"

definition common_name :: "string \<Rightarrow> string" where
  "common_name dn = common_name_of dn (split_on (CHR '','') dn)"

definition issued_info :: "platform \<Rightarrow> certificate_authority \<Rightarrow> certificate \<Rightarrow> bytes \<Rightarrow> issued_info" where
  "issued_info p ca leaf issued_der =
     \<lparr>ii_thumbprint_sha1 = thumbprint p issued_der,
      ii_serial_decimal = serial_decimal (p_codec p) leaf,
      ii_not_after_utc = time_to_utc (not_after (cert_validity leaf)),
      ii_issuer_cn = common_name (name_display (p_x509 p) (cert_subject (ca_cert ca)))\<rparr>"

text \<open>The \<open>Debug\<close> text of a message type.\<close>

fun message_type_debug :: "message_type \<Rightarrow> string" where
  "message_type_debug CertRep = ''CertRep''"
| "message_type_debug PkcsReq = ''PkcsReq''"
| "message_type_debug RenewalReq = ''RenewalReq''"
| "message_type_debug GetCertInitial = ''GetCertInitial''"
| "message_type_debug GetCert = ''GetCert''"
| "message_type_debug GetCrl = ''GetCrl''"

subsection \<open>Recording\<close>

definition record_outcome ::
  "platform \<Rightarrow> request_env \<Rightarrow> profile_runtime \<Rightarrow> parsed_request \<Rightarrow> string \<Rightarrow> string \<Rightarrow> unit handler" where
  "record_outcome p env rt parsed status message_type =
     on_db (record_transaction (p_fault p) (req_transaction_id parsed) (rt_name rt) status message_type
       (now_utc p (rq_record_time env)))"

definition record_ok :: "platform \<Rightarrow> request_env \<Rightarrow> profile_runtime \<Rightarrow> parsed_request \<Rightarrow> unit handler" where
  "record_ok p env rt parsed = record_outcome p env rt parsed ''issued'' ''PKCSReq''"

definition issued_record ::
  "platform \<Rightarrow> request_env \<Rightarrow> profile_runtime \<Rightarrow> certificate_authority \<Rightarrow> parsed_request \<Rightarrow> certificate \<Rightarrow>
     bytes \<Rightarrow> issued_certificate" where
  "issued_record p env rt ca parsed leaf issued_der =
     \<lparr>ic_serial = serial_hex (p_codec p) leaf, ic_ca_id = ca_id ca,
      ic_subject = name_display (p_x509 p) (cert_subject leaf),
      ic_not_before = time_to_utc (not_before (cert_validity leaf)),
      ic_not_after = time_to_utc (not_after (cert_validity leaf)),
      ic_der_b64 = base64_encode (p_codec p) issued_der,
      ic_thumbprint_sha1 = thumbprint p issued_der,
      ic_transaction_id = Some (req_transaction_id parsed), ic_profile = Some (rt_name rt),
      ic_status = STATUS_VALID, ic_created_at = now_utc p (rq_persist_time env),
      ic_revoked_at = None, ic_revocation_reason = None\<rparr>"

definition persist ::
  "platform \<Rightarrow> request_env \<Rightarrow> profile_runtime \<Rightarrow> certificate_authority \<Rightarrow> parsed_request \<Rightarrow> certificate \<Rightarrow>
     bytes \<Rightarrow> unit handler" where
  "persist p env rt ca parsed leaf issued_der =
     and_then (on_db (insert_issued (p_fault p) (issued_record p env rt ca parsed leaf issued_der))) (\<lambda>_.
     and_then (ignore (record_ok p env rt parsed)) (\<lambda>_.
     pure (Inr ())))"

subsection \<open>\<open>PKIOperation\<close>\<close>

definition build_failure ::
  "platform \<Rightarrow> request_env \<Rightarrow> certificate_authority \<Rightarrow> parsed_request \<Rightarrow> fail_info \<Rightarrow> bytes app_result" where
  "build_failure p env ca parsed fail =
     try_then (failure_attrs (p_der p) (rq_nonce_rng env) (req_transaction_id parsed) (req_sender_nonce parsed) fail)
       (\<lambda>attrs. build_cert_rep (p_der p) (p_cms p) (ca_signing_key ca) (ca_cert ca) None attrs)"

text \<open>\<open>envelope::open(..).and_then(csr::parse)\<close>\<close>

definition open_request ::
  "platform \<Rightarrow> certificate_authority \<Rightarrow> enveloped_data \<Rightarrow> parsed_csr app_result" where
  "open_request p ca enveloped =
     try_then (open_envelope (p_der p) (p_x509 p) (p_digest p) (p_rsa p) (p_cipher p) enveloped (ca_cert ca)
                (ca_private_key ca)) (parse (p_der p) (p_x509 p))"

definition validation_input_of :: "parsed_request \<Rightarrow> parsed_csr \<Rightarrow> validation_input" where
  "validation_input_of parsed csr =
     \<lparr>vi_transaction_id = req_transaction_id parsed, vi_csr_der = pc_der csr,
      vi_challenge_password = pc_challenge_password csr\<rparr>"

definition issue_options_of :: "app_state \<Rightarrow> profile_runtime \<Rightarrow> issue_options" where
  "issue_options_of state rt =
     \<lparr>opt_validity_days = rt_validity_days rt, opt_key_usage = rt_key_usage rt,
      opt_extended_key_usage = rt_extended_key_usage rt,
      opt_ocsp_url = Some (ocsp_url state (rt_ca_id rt)), opt_crl_url = Some (crl_url state (rt_ca_id rt))\<rparr>"

text \<open>The last part of \<open>pki_operation\<close>: the signed and enveloped reply for the device.\<close>

definition build_success ::
  "platform \<Rightarrow> request_env \<Rightarrow> certificate_authority \<Rightarrow> parsed_request \<Rightarrow> certificate \<Rightarrow> bytes app_result" where
  "build_success p env ca parsed leaf =
     try_then (certs_only (p_cms p) leaf) (\<lambda>certs.
     let rcp = \<lparr>rcp_public_key = rk_public_key (req_recipient parsed),
                rcp_issuer = rk_issuer (req_recipient parsed), rcp_serial = rk_serial (req_recipient parsed)\<rparr> in
     try_then (build_for (p_der p) (p_cms p) (p_rsa p) (p_cipher p) (rq_cek_rng env) (rq_iv_rng env)
                (rq_wrap_rng env) certs rcp) (\<lambda>reply_env_der.
     try_then (success_attrs (p_der p) (rq_nonce_rng env) (req_transaction_id parsed) (req_sender_nonce parsed)) (\<lambda>attrs.
     build_cert_rep (p_der p) (p_cms p) (ca_signing_key ca) (ca_cert ca) (Some reply_env_der) attrs)))"

text \<open>From an accepted challenge to the reply.\<close>

definition issue_and_reply ::
  "platform \<Rightarrow> app_state \<Rightarrow> request_env \<Rightarrow> profile_runtime \<Rightarrow> certificate_authority \<Rightarrow> parsed_request \<Rightarrow>
     parsed_csr \<Rightarrow> bytes handler" where
  "issue_and_reply p state env rt ca parsed csr =
     (let input = validation_input_of parsed csr in
      case issue (p_der p) (p_x509 p) (p_time p) (rq_issue_time env) (rq_serial_rng env) ca (pc_req csr)
             (issue_options_of state rt) of
        Inl e \<Rightarrow>
          and_then (ignore (on_intune (on_failure (p_intune p) (p_net p) (p_codec p) (rt_validator rt) input
                      (app_error_display e)))) (\<lambda>_.
          pure (build_failure p env ca parsed FailBadRequest))
      | Inr leaf \<Rightarrow>
          and_then (pure (map_err (\<lambda>e. crypto (''encode issued cert: '' @ e)) (cert_to_der (p_x509 p) leaf))) (\<lambda>issued_der.
          and_then (ignore (persist p env rt ca parsed leaf issued_der)) (\<lambda>_.
          and_then (ignore (on_intune (on_issued (p_intune p) (p_net p) (p_codec p) (rt_validator rt) input
                      (issued_info p ca leaf issued_der)))) (\<lambda>_.
          pure (build_success p env ca parsed leaf)))))"

text \<open>From an opened request to the reply: the challenge, then issuance.\<close>

definition validate_and_issue ::
  "platform \<Rightarrow> app_state \<Rightarrow> request_env \<Rightarrow> profile_runtime \<Rightarrow> certificate_authority \<Rightarrow> parsed_request \<Rightarrow>
     parsed_csr \<Rightarrow> bytes handler" where
  "validate_and_issue p state env rt ca parsed csr w =
     (let input = validation_input_of parsed csr in
      case on_intune (validate (p_intune p) (p_net p) (p_codec p) (rt_validator rt) input) w of
        (Inl e, w1) \<Rightarrow>
          and_then (ignore (on_intune (on_failure (p_intune p) (p_net p) (p_codec p) (rt_validator rt) input
                      (app_error_display e)))) (\<lambda>_.
          and_then (ignore (record_outcome p env rt parsed ''failed'' ''PKCSReq'')) (\<lambda>_.
          pure (build_failure p env ca parsed FailBadRequest))) w1
      | (Inr u, w1) \<Rightarrow> issue_and_reply p state env rt ca parsed csr w1)"

definition pki_operation ::
  "platform \<Rightarrow> app_state \<Rightarrow> request_env \<Rightarrow> string \<Rightarrow> bytes \<Rightarrow> bytes handler" where
  "pki_operation p state env profile body =
     and_then (pure (ok_or (NotFound (''unknown SCEP profile '' @ quoted profile)) (st_profiles state profile))) (\<lambda>rt.
     and_then (pure (ok_or (Config (''profile '' @ quoted profile @ '' has no CA'')) (st_cas state (rt_ca_id rt)))) (\<lambda>ca.
     and_then (pure (parse_and_verify (p_der p) (p_cms p) (p_digest p) (p_rsa p) body)) (\<lambda>parsed.
     if req_message_type parsed \<noteq> PkcsReq \<and> req_message_type parsed \<noteq> RenewalReq
     then pure (Inl (bad_request (''unsupported SCEP messageType '' @ message_type_debug (req_message_type parsed)
                  @ '' in v1'')))
     else
     and_then (pure (ok_or (bad_request ''enrolment request carries no envelope'') (req_enveloped parsed))) (\<lambda>enveloped.
     case open_request p ca enveloped of
       Inl e \<Rightarrow> pure (build_failure p env ca parsed BadMessageCheck)
     | Inr csr \<Rightarrow> validate_and_issue p state env rt ca parsed csr))))"

subsection \<open>The HTTP handlers\<close>

definition get_ca_cert :: "platform \<Rightarrow> app_state \<Rightarrow> string \<Rightarrow> http_response app_result" where
  "get_ca_cert p state profile =
     try_then (ok_or (NotFound (''unknown SCEP profile '' @ quoted profile)) (ca_for_profile state profile)) (\<lambda>ca.
     try_then (map_err (\<lambda>e. crypto (''encode CA cert: '' @ e)) (cert_to_der (p_x509 p) (ca_cert ca))) (\<lambda>der.
     Inr (bytes_response CT_CA_CERT der)))"

definition scep_get ::
  "platform \<Rightarrow> app_state \<Rightarrow> request_env \<Rightarrow> string \<Rightarrow> (string \<Rightarrow> string option) \<Rightarrow> http_response handler" where
  "scep_get p state env profile params =
     (let operation = (case params ''operation'' of Some o1 \<Rightarrow> o1 | None \<Rightarrow> []) in
      if operation = ''GetCACaps'' then pure (Inr (text_response CA_CAPS))
      else if operation = ''GetCACert'' then pure (get_ca_cert p state profile)
      else if operation = ''PKIOperation'' then
        and_then (pure (ok_or (bad_request (''missing '' @ quoted ''message'' @ '' parameter'')) (params ''message''))) (\<lambda>message.
        and_then (pure (map_err (\<lambda>e. bad_request (''bad base64 message: '' @ e))
                    (base64_decode (p_codec p) (as_bytes message)))) (\<lambda>body.
        and_then (pki_operation p state env profile body) (\<lambda>der.
        pure (Inr (bytes_response CT_PKI_MESSAGE der)))))
      else pure (Inl (bad_request (''unsupported SCEP operation '' @ quoted operation))))"

definition scep_post ::
  "platform \<Rightarrow> app_state \<Rightarrow> request_env \<Rightarrow> string \<Rightarrow> (string \<Rightarrow> string option) \<Rightarrow> bytes \<Rightarrow> http_response handler" where
  "scep_post p state env profile params body =
     (let operation = (case params ''operation'' of Some o1 \<Rightarrow> o1 | None \<Rightarrow> ''PKIOperation'') in
      if operation \<noteq> ''PKIOperation''
      then pure (Inl (bad_request (''POST only supports PKIOperation, not '' @ quoted operation)))
      else and_then (pki_operation p state env profile body) (\<lambda>der.
           pure (Inr (bytes_response CT_PKI_MESSAGE der))))"

subsection \<open>The stages of an enrolment\<close>

text \<open>A request that gets as far as an envelope for a known profile, and one whose CSR opens.\<close>

definition enveloped_request ::
  "platform \<Rightarrow> app_state \<Rightarrow> string \<Rightarrow> bytes \<Rightarrow> profile_runtime \<Rightarrow> certificate_authority \<Rightarrow> parsed_request \<Rightarrow>
     enveloped_data \<Rightarrow> bool" where
  "enveloped_request p state profile body rt ca parsed enveloped \<longleftrightarrow>
     st_profiles state profile = Some rt \<and> st_cas state (rt_ca_id rt) = Some ca
     \<and> parse_and_verify (p_der p) (p_cms p) (p_digest p) (p_rsa p) body = Inr parsed
     \<and> (req_message_type parsed = PkcsReq \<or> req_message_type parsed = RenewalReq)
     \<and> req_enveloped parsed = Some enveloped"

definition opened_request ::
  "platform \<Rightarrow> app_state \<Rightarrow> string \<Rightarrow> bytes \<Rightarrow> profile_runtime \<Rightarrow> certificate_authority \<Rightarrow> parsed_request \<Rightarrow>
     parsed_csr \<Rightarrow> bool" where
  "opened_request p state profile body rt ca parsed csr \<longleftrightarrow>
     (\<exists>enveloped. enveloped_request p state profile body rt ca parsed enveloped
        \<and> open_request p ca enveloped = Inr csr)"

text \<open>The challenge of an opened request is accepted, from the world \<open>w\<close> on.\<close>

definition approved ::
  "platform \<Rightarrow> profile_runtime \<Rightarrow> parsed_request \<Rightarrow> parsed_csr \<Rightarrow> world \<Rightarrow> bool" where
  "approved p rt parsed csr w \<longleftrightarrow>
     fst (validate (p_intune p) (p_net p) (p_codec p) (rt_validator rt) (validation_input_of parsed csr) (w_intune w))
       = Inr ()"

definition issues :: "platform \<Rightarrow> app_state \<Rightarrow> request_env \<Rightarrow> profile_runtime \<Rightarrow> certificate_authority \<Rightarrow>
    parsed_csr \<Rightarrow> certificate \<Rightarrow> bytes \<Rightarrow> bool" where
  "issues p state env rt ca csr leaf leaf_der \<longleftrightarrow>
     issue (p_der p) (p_x509 p) (p_time p) (rq_issue_time env) (rq_serial_rng env) ca (pc_req csr)
       (issue_options_of state rt) = Inr leaf
     \<and> cert_to_der (p_x509 p) leaf = Inr leaf_der"

lemma pki_unopened:
  "enveloped_request p state profile body rt ca parsed enveloped \<Longrightarrow> open_request p ca enveloped = Inl e \<Longrightarrow>
     pki_operation p state env profile body w = (build_failure p env ca parsed BadMessageCheck, w)"
  by (auto simp: pki_operation_def enveloped_request_def)

lemma pki_opened:
  "opened_request p state profile body rt ca parsed csr \<Longrightarrow>
     pki_operation p state env profile body w = validate_and_issue p state env rt ca parsed csr w"
  by (auto simp: pki_operation_def enveloped_request_def opened_request_def)

lemma pki_refused:
  assumes "\<nexists>rt ca parsed enveloped. enveloped_request p state profile body rt ca parsed enveloped"
  shows "\<exists>e. pki_operation p state env profile body w = (Inl e, w)"
proof (cases "st_profiles state profile")
  case None
  then show ?thesis by (simp add: pki_operation_def)
next
  case (Some rt)
  note rt = this
  show ?thesis
  proof (cases "st_cas state (rt_ca_id rt)")
    case None
    with rt show ?thesis by (simp add: pki_operation_def)
  next
    case (Some ca)
    note ca = this
    show ?thesis
    proof (cases "parse_and_verify (p_der p) (p_cms p) (p_digest p) (p_rsa p) body")
      case (Inl e)
      with rt ca show ?thesis by (simp add: pki_operation_def)
    next
      case (Inr parsed)
      with rt ca assms show ?thesis
        by (cases "req_enveloped parsed") (auto simp: pki_operation_def enveloped_request_def)
    qed
  qed
qed

lemma pki_cases:
  obtains (refused) "\<And>env w. \<exists>e. pki_operation p state env profile body w = (Inl e, w)"
      "\<nexists>rt ca parsed enveloped. enveloped_request p state profile body rt ca parsed enveloped"
  | (unopened) rt ca parsed enveloped e where
      "enveloped_request p state profile body rt ca parsed enveloped" "open_request p ca enveloped = Inl e"
      "\<And>env w. pki_operation p state env profile body w = (build_failure p env ca parsed BadMessageCheck, w)"
  | (opened) rt ca parsed csr where "opened_request p state profile body rt ca parsed csr"
      "\<And>env w. pki_operation p state env profile body w = validate_and_issue p state env rt ca parsed csr w"
proof (cases "\<exists>rt ca parsed enveloped. enveloped_request p state profile body rt ca parsed enveloped")
  case True
  then obtain rt ca parsed enveloped where
    e: "enveloped_request p state profile body rt ca parsed enveloped" by blast
  show ?thesis
  proof (cases "open_request p ca enveloped")
    case (Inl err)
    show ?thesis by (rule unopened [OF e Inl pki_unopened [OF e Inl]])
  next
    case (Inr csr)
    with e have o: "opened_request p state profile body rt ca parsed csr"
      unfolding opened_request_def by blast
    show ?thesis by (rule opened [OF o pki_opened [OF o]])
  qed
next
  case False
  then show ?thesis using refused pki_refused by blast
qed


subsection \<open>Effects on the database\<close>

lemma persist_db:
  "w_db (snd (persist p env rt ca parsed leaf der w)) =
     (case insert_issued (p_fault p) (issued_record p env rt ca parsed leaf der) (w_db w) of
        (Inl e, db) \<Rightarrow> db
      | (Inr u, db) \<Rightarrow> snd (record_transaction (p_fault p) (req_transaction_id parsed) (rt_name rt) ''issued''
          ''PKCSReq'' (now_utc p (rq_record_time env)) db))"
  by (simp add: persist_def and_then_def on_db_def record_ok_def record_outcome_def split: prod.split sum.split)

lemma persist_intune [simp]: "w_intune (snd (persist p env rt ca parsed leaf der w)) = w_intune w"
  by (simp add: persist_def and_then_def on_db_def record_ok_def record_outcome_def split: prod.split sum.split)

lemma issue_and_reply_failed:
  assumes "\<nexists>leaf der. issues p state env rt ca csr leaf der"
  shows "w_db (snd (issue_and_reply p state env rt ca parsed csr w)) = w_db w"
  using assms
  by (cases "issue (p_der p) (p_x509 p) (p_time p) (rq_issue_time env) (rq_serial_rng env) ca (pc_req csr)
        (issue_options_of state rt)")
     (auto simp: issue_and_reply_def issues_def Let_def and_then_def split: prod.split sum.split)

lemma issue_and_reply_issued:
  assumes "issues p state env rt ca csr leaf der"
  shows "w_db (snd (issue_and_reply p state env rt ca parsed csr w)) =
      w_db (snd (persist p env rt ca parsed leaf der w))"
    and "fst (issue_and_reply p state env rt ca parsed csr w) = build_success p env ca parsed leaf"
  using assms
  by (auto simp: issue_and_reply_def issues_def Let_def and_then_def split: prod.split sum.split)

lemma validate_and_issue_rejected:
  assumes "\<not> approved p rt parsed csr w"
  shows "w_db (snd (validate_and_issue p state env rt ca parsed csr w)) =
      snd (record_transaction (p_fault p) (req_transaction_id parsed) (rt_name rt) ''failed'' ''PKCSReq''
             (now_utc p (rq_record_time env)) (w_db w))"
    and "fst (validate_and_issue p state env rt ca parsed csr w) = build_failure p env ca parsed FailBadRequest"
proof -
  obtain r st where run: "validate (p_intune p) (p_net p) (p_codec p) (rt_validator rt)
      (validation_input_of parsed csr) (w_intune w) = (r, st)" by force
  with assms have "r \<noteq> Inr ()" by (simp add: approved_def)
  then obtain e where "r = Inl e" by (cases r) auto
  with run have v: "on_intune (validate (p_intune p) (p_net p) (p_codec p) (rt_validator rt)
      (validation_input_of parsed csr)) w = (Inl e, w\<lparr>w_intune := st\<rparr>)"
    by (simp add: on_intune_def)
  with v show "w_db (snd (validate_and_issue p state env rt ca parsed csr w)) =
      snd (record_transaction (p_fault p) (req_transaction_id parsed) (rt_name rt) ''failed'' ''PKCSReq''
             (now_utc p (rq_record_time env)) (w_db w))"
    by (simp add: validate_and_issue_def Let_def and_then_def record_outcome_def)
  from v show "fst (validate_and_issue p state env rt ca parsed csr w) = build_failure p env ca parsed FailBadRequest"
    by (simp add: validate_and_issue_def Let_def and_then_def)
qed

lemma validate_and_issue_approved:
  assumes "approved p rt parsed csr w"
  shows "\<exists>st. validate_and_issue p state env rt ca parsed csr w =
     issue_and_reply p state env rt ca parsed csr (w\<lparr>w_intune := st\<rparr>)"
  using assms by (auto simp: approved_def validate_and_issue_def Let_def on_intune_def split: prod.splits)

end
