(* ===== verification/Example.thy ===== *)
theory Example
  imports ScepHandler
begin

text \<open>
  A concrete platform on which an enrolment runs from end to end.  It is used only to show that
  the hypotheses of the theorems about the server can hold: its codecs return one fixed message,
  its cryptography is a toy.
\<close>

definition ex_attrs :: "attribute list" where
  "ex_attrs =
     [\<lparr>attr_oid = ID_MESSAGE_TYPE, attr_values = [\<lparr>any_tag = 19, any_value = as_bytes ''19''\<rparr>]\<rparr>,
      \<lparr>attr_oid = ID_TRANSACTION_ID, attr_values = [\<lparr>any_tag = 19, any_value = as_bytes ''t1''\<rparr>]\<rparr>,
      \<lparr>attr_oid = ID_SENDER_NONCE, attr_values = [\<lparr>any_tag = 4, any_value = [9]\<rparr>]\<rparr>,
      \<lparr>attr_oid = ID_MESSAGE_DIGEST, attr_values = [\<lparr>any_tag = 4, any_value = [1]\<rparr>]\<rparr>]"

definition ex_signer_info :: relaxed_signer_info where
  "ex_signer_info =
     \<lparr>rsi_version = any_null, rsi_sid = any_null, rsi_digest_alg = sha256_alg,
      rsi_signed_attrs = Some ex_attrs, rsi_signature_algorithm = digest_alg RSA_ENCRYPTION,
      rsi_signature = [], rsi_unsigned_attrs = None\<rparr>"

definition ex_ktri :: key_trans_recipient_info where
  "ex_ktri = \<lparr>ktri_rid = IssuerAndSerialNumber [1] [7],
     ktri_key_enc_alg = \<lparr>alg_oid = RSA_ENCRYPTION, alg_parameters = Some any_null\<rparr>,
     ktri_enc_key = replicate 32 5\<rparr>"

definition ex_enveloped :: enveloped_data where
  "ex_enveloped = \<lparr>ed_recip_infos = [Ktri ex_ktri], ed_encrypted_content = demo_content (replicate 16 6) [5, 4]\<rparr>"

definition ex_cms :: cms_lib where
  "ex_cms = demo_cms\<lparr>
     decode_signed_data := \<lambda>v. Inr \<lparr>rsd_version = any_null, rsd_digest_algorithms = any_null,
       rsd_encap_content_info = \<lparr>encap_content_type = ID_DATA, encap_content = Some v\<rparr>,
       rsd_certificates = Some any_null, rsd_crls = None, rsd_signer_infos = any_null\<rparr>,
     decode_signer_info := \<lambda>b. Inr ex_signer_info,
     attributes_to_der := \<lambda>as. Inr [],
     content_info_from_der := \<lambda>b. if b = [1] then Inr \<lparr>ci_content_type = ID_SIGNED_DATA, ci_content = any_null\<rparr>
       else Inl ''not the message'',
     enveloped_from_der := \<lambda>b. Inr ex_enveloped\<rparr>"

definition ex_csr :: cert_req where
  "ex_csr = \<lparr>csr_subject = [5], csr_public_key = demo_spki,
     csr_attributes = [\<lparr>attr_oid = ID_CHALLENGE_PASSWORD, attr_values = [\<lparr>any_tag = 19, any_value = as_bytes ''pw''\<rparr>]\<rparr>]\<rparr>"

definition ex_x509 :: x509_lib where
  "ex_x509 = demo_x509\<lparr>csr_from_der := \<lambda>b. if b = [4] then Inr ex_csr else Inl ''not a CSR''\<rparr>"

lemma ex_x509_fields [simp]:
  "name_display ex_x509 n = text_of n"
  "cert_to_der ex_x509 c = Inr (cert_serial_number c)"
  "cert_get_ski ex_x509 c = Inr None"
  "csr_from_der ex_x509 b = (if b = [4] then Inr ex_csr else Inl ''not a CSR'')"
  "ski_from_spki ex_x509 k = Inr [1]"
  "aki_from_spki ex_x509 k = Inr [2]"
  "builder_new ex_x509 p s' v su k sg = Inr \<lparr>bld_profile = p, bld_serial = s', bld_validity = v,
     bld_subject = su, bld_spki = k, bld_signer = sg, bld_extensions = []\<rparr>"
  "builder_add ex_x509 bu e = Inr (bu\<lparr>bld_extensions := bld_extensions bu @ [e]\<rparr>)"
  "builder_build ex_x509 bu = Inr (demo_build bu)"
  by (simp_all add: ex_x509_def)

definition ex_platform :: platform where
  "ex_platform =
     \<lparr>p_der = demo_der, p_cms = ex_cms, p_x509 = ex_x509, p_digest = constant_digest, p_rsa = demo_rsa,
      p_cipher = demo_cipher, p_codec = demo_codec, p_time = demo_time, p_intune = demo_intune_lib,
      p_net = demo_net, p_fault = (\<lambda>_. None)\<rparr>"

lemma ex_platform_fields [simp]:
  "p_der ex_platform = demo_der" "p_cms ex_platform = ex_cms" "p_x509 ex_platform = ex_x509"
  "p_digest ex_platform = constant_digest" "p_rsa ex_platform = demo_rsa"
  "p_cipher ex_platform = demo_cipher" "p_codec ex_platform = demo_codec" "p_time ex_platform = demo_time"
  "p_intune ex_platform = demo_intune_lib" "p_net ex_platform = demo_net" "p_fault ex_platform = (\<lambda>_. None)"
  by (simp_all add: ex_platform_def)

definition ex_profile :: profile_runtime where
  "ex_profile =
     \<lparr>rt_name = ''p'', rt_ca_id = ''corp'', rt_validator = StaticSecretValidator ''pw'', rt_validity_days = 365,
      rt_key_usage = [''digitalSignature''], rt_extended_key_usage = []\<rparr>"

definition ex_state :: app_state where
  "ex_state =
     \<lparr>st_cas = [''corp'' \<mapsto> demo_ca], st_profiles = [''p'' \<mapsto> ex_profile], st_base_url = ''http://h''\<rparr>"

definition ex_env :: request_env where
  "ex_env =
     \<lparr>rq_serial_rng = (\<lambda>i. 3), rq_cek_rng = (\<lambda>i. 5), rq_iv_rng = (\<lambda>i. 6), rq_wrap_rng = (\<lambda>i. 7),
      rq_nonce_rng = (\<lambda>i. 8), rq_issue_time = 0, rq_persist_time = 0, rq_record_time = 0\<rparr>"

definition ex_world :: world where
  "ex_world = \<lparr>w_db = new_database, w_intune = new_intune_state\<rparr>"

lemma ex_world_fields [simp]: "w_db ex_world = new_database" "w_intune ex_world = new_intune_state"
  by (simp_all add: ex_world_def)

lemma new_database_fields [simp]: "issued new_database = []" "transactions new_database = []"
  by (simp_all add: new_database_def)

definition ex_request :: parsed_request where
  "ex_request =
     \<lparr>req_message_type = PkcsReq, req_transaction_id = ''t1'', req_sender_nonce = [9],
      req_recipient = \<lparr>rk_public_key = to_public_key demo_key, rk_issuer = [1], rk_serial = []\<rparr>,
      req_enveloped = Some ex_enveloped\<rparr>"

definition ex_parsed_csr :: parsed_csr where
  "ex_parsed_csr = \<lparr>pc_req = ex_csr, pc_der = [4], pc_challenge_password = Some ''pw''\<rparr>"

lemma ex_parsed: "parse_and_verify demo_der ex_cms constant_digest demo_rsa [1] = Inr ex_request"
proof (rule parse_and_verify_complete)
  let ?m = "\<lparr>sm_signer = ex_signer_info, sm_cert = demo_cert [], sm_attrs = ex_attrs,
      sm_key = to_public_key demo_key, sm_content = Some []\<rparr>"
  show "decodes_to ex_cms demo_rsa [1] ?m"
    by (simp add: decodes_to_def ex_cms_def demo_cms_def decode_first_def ex_signer_info_def
        rsa_public_key_from_spki_def demo_cert_def demo_spki_def demo_rsa_def any_null_def)
  show "authentic demo_der ex_cms constant_digest demo_rsa ?m"
    by (simp add: authentic_def ex_cms_def signature_valid_def digest_oid_def ex_signer_info_def sha256_alg_def
        demo_rsa_def hash_of_def constant_digest_def claimed_digest_def find_attr_def ex_attrs_def demo_der_def)
  have "message_type_from_value ''19'' = Inr PkcsReq"
    by (simp add: message_type_from_value_def Let_def trim_all_graphic graphic_def)
  then show "request_of demo_der ex_cms ?m ex_request"
    by (simp add: request_of_def ex_request_def ex_attrs_def read_string_Cons read_octets_Cons decode_text_def
        demo_der_def tagged_text_def demo_cert_def carries_envelope_def parse_enveloped_def Let_def ex_cms_def
        del: as_bytes_simps)
qed

lemma ex_enveloped_request:
  "enveloped_request ex_platform ex_state ''p'' [1] ex_profile demo_ca ex_request ex_enveloped"
  by (simp add: enveloped_request_def ex_parsed) (simp add: ex_state_def ex_profile_def ex_request_def)

lemma ex_open: "open_request ex_platform demo_ca ex_enveloped = Inr ex_parsed_csr"
proof -
  have "public_checks demo_der ex_x509 ex_enveloped (demo_cert [7]) = Inr (Aes256, [5, 4], replicate 16 6, ex_ktri)"
    by (simp add: public_checks_def Let_def cipher_of_def read_iv_def ex_enveloped_def demo_content_def
        select_recipient_def map_filter_simps ktri_matches_def ex_ktri_def demo_cert_def)
       (simp add: demo_der_def)
  moreover have "unwrap_cek constant_digest demo_rsa demo_key (replicate 32 5) 32 = replicate 32 5"
    by (simp add: unwrap_cek_def Let_def demo_rsa_def)
  ultimately have "open_envelope demo_der ex_x509 constant_digest demo_rsa demo_cipher ex_enveloped
      (demo_cert [7]) demo_key = Inr [4]"
    by (simp add: open_splits ex_ktri_def decrypt_with_def demo_cipher_def)
  moreover have "parse demo_der ex_x509 [4] = Inr ex_parsed_csr"
    by (simp add: parse_Inr ex_parsed_csr_def extract_challenge_password_def ex_csr_def del: as_bytes_simps)
       (simp add: demo_der_def tagged_text_def del: as_bytes_simps)
  ultimately show ?thesis
    by (simp add: open_request_def demo_ca_def ca_new_def)
qed

lemma ex_opened: "opened_request ex_platform ex_state ''p'' [1] ex_profile demo_ca ex_request ex_parsed_csr"
  unfolding opened_request_def using ex_enveloped_request ex_open by blast

lemma ex_approved: "approved ex_platform ex_profile ex_request ex_parsed_csr w"
  by (simp add: approved_def ex_profile_def static_secret.validate_pure static_validate_def constant_time_eq_iff
      validation_input_of_def ex_parsed_csr_def)

lemma ex_serial_documented: "serial_new_documented ex_x509"
  by (simp add: serial_new_documented_def ex_x509_def demo_x509_def)

definition ex_options :: issue_options where
  "ex_options = issue_options_of ex_state ex_profile"

text \<open>The demonstration CA issues for any request without extensions.\<close>

lemma demo_issues:
  assumes lib: "p_der p = demo_der" "p_time p = demo_time" "p_x509 p = demo_x509\<lparr>csr_from_der := f\<rparr>"
    and "\<forall>a\<in>set (csr_attributes (pc_req csr)). attr_oid a \<noteq> ID_EXTENSION_REQ"
  shows "\<exists>leaf. issues p ex_state env ex_profile demo_ca csr leaf (serial_bytes (rq_serial_rng env))
    \<and> cert_serial_number leaf = serial_bytes (rq_serial_rng env)"
proof -
  let ?x = "demo_x509\<lparr>csr_from_der := f\<rparr>"
  have x: "cert_to_der ?x c = Inr (cert_serial_number c)" "ski_from_spki ?x k = Inr [1]" "aki_from_spki ?x k = Inr [2]"
    "builder_new ?x pr s' v su k sg = Inr \<lparr>bld_profile = pr, bld_serial = s', bld_validity = v,
       bld_subject = su, bld_spki = k, bld_signer = sg, bld_extensions = []\<rparr>"
    "builder_add ?x bu e = Inr (bu\<lparr>bld_extensions := bld_extensions bu @ [e]\<rparr>)"
    "builder_build ?x bu = Inr (demo_build bu)" for c k pr s' v su sg bu e
    by simp_all
  have serial: "random_serial ?x rng = Inr (serial_bytes rng)" for rng
    by (rule random_serial_value) (simp add: serial_new_documented_def demo_x509_def)
  have ku: "key_usage [''digitalSignature''] = Inr {DigitalSignature}"
    by (simp add: key_usage_def usage_flag_def)
  have urls: "ascii (ocsp_url ex_state ''corp'')" "ascii (crl_url ex_state ''corp'')"
    by (simp_all add: ocsp_url_def crl_url_def ex_state_def trim_end_matches_def ascii_def)
  have ia5: "ascii u \<Longrightarrow> ia5_string_new demo_der u = Inr u" for u
    by (simp add: demo_der_def)
  have "san_of_attributes demo_der ?x as = Inr None" if "\<forall>a\<in>set as. attr_oid a \<noteq> ID_EXTENSION_REQ" for as
    using that by (induction as) simp_all
  with assms(4) have san: "requested_san demo_der ?x (pc_req csr) = Inr None"
    by (simp add: requested_san_def)
  have time: "validity_from demo_time a b = Inr demo_validity" for a b
    by (simp add: demo_time_def)
  show ?thesis
    by (simp add: lib issues_def issue_def issue_options_of_def ex_profile_def serial ku x
        extended_key_usage_def Let_def add_extension_def add_optional_def authority_info_access_def
        crl_distribution_points_def ia5 urls san time demo_build_def)
qed

lemma ex_issues: "\<exists>leaf. issues ex_platform ex_state env ex_profile demo_ca ex_parsed_csr leaf (serial_bytes (rq_serial_rng env))
    \<and> cert_serial_number leaf = serial_bytes (rq_serial_rng env)"
  by (rule demo_issues) (simp_all add: ex_x509_def ex_parsed_csr_def ex_csr_def ID_EXTENSION_REQ_def ID_CHALLENGE_PASSWORD_def)

end
