(* ===== verification/Enrolment.thy ===== *)
theory Enrolment
  imports Example
begin

text \<open>
  What an enrolment does as a whole: the properties of \<open>pki_operation\<close> of \<open>http/scep.rs\<close>
  over the certificate table, the challenge validators and the reply.
\<close>

lemma issued_record_fresh: "fresh_row (issued_record p env rt ca parsed leaf der)"
  by (simp add: fresh_row_def issued_record_def)

lemma record_transaction_issued [simp]:
  "issued (snd (record_transaction f tid pr st mt c db)) = issued db"
  using record_transaction_extends [of db f tid pr st mt c] by (simp add: tx_extends_def)

lemma persist_issued:
  "issued (w_db (snd (persist p env rt ca parsed leaf der w))) = issued (w_db w)
   \<or> issued (w_db (snd (persist p env rt ca parsed leaf der w)))
       = issued (w_db w) @ [issued_record p env rt ca parsed leaf der]"
proof (cases "insert_issued (p_fault p) (issued_record p env rt ca parsed leaf der) (w_db w)")
  case (Pair r db)
  then show ?thesis
    by (cases r) (auto simp: persist_db dest!: insert_issued_ok insert_issued_err)
qed

text \<open>The database after an operation: one of five outcomes.\<close>

lemma pki_db_outcomes:
  obtains (untouched) "w_db (snd (pki_operation p state env profile body w)) = w_db w"
  | (rejected) rt ca parsed csr where "opened_request p state profile body rt ca parsed csr"
      "\<not> approved p rt parsed csr w"
      "w_db (snd (pki_operation p state env profile body w)) =
         snd (record_transaction (p_fault p) (req_transaction_id parsed) (rt_name rt) ''failed'' ''PKCSReq''
                (now_utc p (rq_record_time env)) (w_db w))"
  | (issued) rt ca parsed csr leaf der where "opened_request p state profile body rt ca parsed csr"
      "approved p rt parsed csr w" "issues p state env rt ca csr leaf der"
      "w_db (snd (pki_operation p state env profile body w)) = w_db (snd (persist p env rt ca parsed leaf der w))"
proof (cases rule: pki_cases [of p state profile body])
  case refused
  then show ?thesis using untouched by (metis snd_conv)
next
  case (unopened rt ca parsed enveloped e)
  then show ?thesis using untouched by simp
next
  case (opened rt ca parsed csr)
  show ?thesis
  proof (cases "approved p rt parsed csr w")
    case False
    then show ?thesis
      using rejected [OF opened(1)] opened(2) validate_and_issue_rejected(1) by simp
  next
    case True
    then obtain st where st: "validate_and_issue p state env rt ca parsed csr w =
        issue_and_reply p state env rt ca parsed csr (w\<lparr>w_intune := st\<rparr>)"
      using validate_and_issue_approved by blast
    show ?thesis
    proof (cases "\<exists>leaf der. issues p state env rt ca csr leaf der")
      case False
      then show ?thesis
        using untouched opened(2) st by (simp add: issue_and_reply_failed)
    next
      case True
      then obtain leaf der where i: "issues p state env rt ca csr leaf der" by blast
      have "w_db (snd (pki_operation p state env profile body w)) =
          w_db (snd (persist p env rt ca parsed leaf der w))"
        by (simp add: opened(2) st issue_and_reply_issued(1) [OF i] persist_db)
      then show ?thesis
        using issued [OF opened(1) \<open>approved p rt parsed csr w\<close> i] by blast
    qed
  qed
qed

lemma issue_and_reply_error:
  assumes "\<nexists>leaf der. issues p state env rt ca csr leaf der"
    and "issue_and_reply p state env rt ca parsed csr w = (Inr der, w')"
  shows "build_failure p env ca parsed FailBadRequest = Inr der"
proof (cases "issue (p_der p) (p_x509 p) (p_time p) (rq_issue_time env) (rq_serial_rng env) ca (pc_req csr)
        (issue_options_of state rt)")
  case (Inl e)
  with assms(2) show ?thesis by (simp add: issue_and_reply_def Let_def and_then_def)
next
  case (Inr leaf)
  with assms obtain e where "cert_to_der (p_x509 p) leaf = Inl e"
    by (cases "cert_to_der (p_x509 p) leaf") (auto simp: issues_def)
  with Inr assms(2) show ?thesis by (simp add: issue_and_reply_def Let_def)
qed

text \<open>Where a reply comes from: a refusal of an enveloped request, or an issued certificate.\<close>

lemma pki_reply_outcomes:
  assumes "pki_operation p state env profile body w = (Inr der, w')"
  obtains (failure) rt ca parsed enveloped info where
      "enveloped_request p state profile body rt ca parsed enveloped" "build_failure p env ca parsed info = Inr der"
  | (success) rt ca parsed csr leaf leaf_der where "opened_request p state profile body rt ca parsed csr"
      "approved p rt parsed csr w" "issues p state env rt ca csr leaf leaf_der"
      "build_success p env ca parsed leaf = Inr der"
proof (cases rule: pki_cases [of p state profile body])
  case refused
  then show ?thesis using assms by (metis old.sum.distinct(2) prod.inject)
next
  case (unopened rt ca parsed enveloped e)
  show ?thesis
    by (rule failure [OF unopened(1), of BadMessageCheck]) (use assms unopened(3) [of env w] in simp)
next
  case (opened rt ca parsed csr)
  then obtain enveloped where env: "enveloped_request p state profile body rt ca parsed enveloped"
    by (auto simp: opened_request_def)
  show ?thesis
  proof (cases "approved p rt parsed csr w")
    case False
    show ?thesis
      by (rule failure [OF env, of FailBadRequest]) (use assms opened(2) validate_and_issue_rejected(2) [OF False] in \<open>metis fst_conv\<close>)
  next
    case True
    then obtain st where st: "pki_operation p state env profile body w =
        issue_and_reply p state env rt ca parsed csr (w\<lparr>w_intune := st\<rparr>)"
      using validate_and_issue_approved opened(2) by metis
    show ?thesis
    proof (cases "\<exists>leaf leaf_der. issues p state env rt ca csr leaf leaf_der")
      case False
      have "build_failure p env ca parsed FailBadRequest = Inr der"
        by (rule issue_and_reply_error [OF False]) (use assms st in simp)
      with env show ?thesis by (rule failure)
    next
      case True
      then obtain leaf leaf_der where i: "issues p state env rt ca csr leaf leaf_der" by blast
      show ?thesis
        by (rule success [OF opened(1) \<open>approved p rt parsed csr w\<close> i])
           (use assms st issue_and_reply_issued(2) [OF i] in \<open>metis fst_conv\<close>)
    qed
  qed
qed

lemma failure_answers:
  assumes "der_documented (p_der p)" and "build_failure p env ca parsed info = Inr der"
  shows "\<exists>attrs. build_cert_rep (p_der p) (p_cms p) (ca_signing_key ca) (ca_cert ca) None attrs = Inr der
    \<and> view_reply (p_der p) attrs = \<lparr>rv_message_type = Inr ''3'', rv_status = Inr ''2'',
       rv_fail_info = Some (fail_info_value info), rv_transaction = Inr (req_transaction_id parsed),
       rv_sender_nonce = Inr (generate_nonce (rq_nonce_rng env)), rv_recipient_nonce = Inr (req_sender_nonce parsed)\<rparr>"
  using assms view_failure [OF assms(1)] by (auto simp: build_failure_def try_then_Inr_iff)

lemma success_answers:
  assumes "der_documented (p_der p)" and "build_success p env ca parsed leaf = Inr der"
  shows "\<exists>reply attrs. build_cert_rep (p_der p) (p_cms p) (ca_signing_key ca) (ca_cert ca) (Some reply) attrs = Inr der
    \<and> view_reply (p_der p) attrs = \<lparr>rv_message_type = Inr ''3'', rv_status = Inr ''0'', rv_fail_info = None,
       rv_transaction = Inr (req_transaction_id parsed),
       rv_sender_nonce = Inr (generate_nonce (rq_nonce_rng env)), rv_recipient_nonce = Inr (req_sender_nonce parsed)\<rparr>"
proof -
  from assms(2) obtain reply attrs where
    "success_attrs (p_der p) (rq_nonce_rng env) (req_transaction_id parsed) (req_sender_nonce parsed) = Inr attrs"
    "build_cert_rep (p_der p) (p_cms p) (ca_signing_key ca) (ca_cert ca) (Some reply) attrs = Inr der"
    by (auto simp: build_success_def Let_def try_then_Inr_iff)
  with view_success [OF assms(1)] show ?thesis by blast
qed

text \<open>Verification does not use RSA decryption.\<close>

lemma verify_rsa_decrypt:
  "verify_rsa (r\<lparr>rsa_decrypt := f\<rparr>) = verify_rsa r"
  "rsa_public_key_from_spki (r\<lparr>rsa_decrypt := f\<rparr>) = rsa_public_key_from_spki r"
proof -
  show "verify_rsa (r\<lparr>rsa_decrypt := f\<rparr>) = verify_rsa r"
    by (intro ext) (simp add: verify_rsa_def cong: if_cong)
  show "rsa_public_key_from_spki (r\<lparr>rsa_decrypt := f\<rparr>) = rsa_public_key_from_spki r"
    by (intro ext) (simp add: rsa_public_key_from_spki_def)
qed

subsection \<open>A successful enrolment\<close>

lemma record_transaction_healthy:
  assumes "\<And>n. f n = None" and "''scep_transaction'' \<in> set (tables db)"
  shows "\<exists>db'. record_transaction f tid pr st mt c db = (Inr (), db')
    \<and> (\<exists>t\<in>set (transactions db'). tx_transaction_id t = tid \<and> tx_status t = st \<and> tx_message_type t = mt)"
proof (cases "find (\<lambda>t. tx_transaction_id t = tid) (transactions db)")
  case None
  then have "tid \<notin> tx_transaction_id ` set (transactions db)"
    by (auto simp: find_None_iff)
  with None assms show ?thesis
    by (simp add: record_transaction_def select_transaction_def insert_transaction_def run_statement_healthy)
next
  case (Some t)
  then have t: "t \<in> set (transactions db)" "tx_transaction_id t = tid"
    by (auto dest: find_SomeD)
  have rec: "record_transaction f tid pr st mt c db =
      (Inr (), (tick (tick db))\<lparr>transactions := map (set_outcome tid st mt) (transactions db)\<rparr>)" (is "_ = (_, ?db)")
    using Some assms
    by (simp add: record_transaction_def select_transaction_def update_transaction_def run_statement_healthy
        set_outcome_def [abs_def])
  have "set_outcome tid st mt t \<in> set (transactions ?db)" using t(1) by simp
  moreover have "tx_status (set_outcome tid st mt t) = st" "tx_message_type (set_outcome tid st mt t) = mt"
    using t(2) by (simp_all add: set_outcome_def)
  ultimately show ?thesis using rec t(2) by (metis set_outcome_simps(1))
qed

lemma persist_healthy:
  assumes "\<And>n. p_fault p n = None" and "set SCHEMA \<subseteq> set (tables (w_db w))"
    and "serial_hex (p_codec p) leaf \<notin> ic_serial ` set (issued (w_db w))"
  shows "registry (w_db (snd (persist p env rt ca parsed leaf der w))) (ca_id ca) (serial_hex (p_codec p) leaf) = Good
    \<and> (\<exists>t\<in>set (transactions (w_db (snd (persist p env rt ca parsed leaf der w)))).
         tx_transaction_id t = req_transaction_id parsed \<and> tx_status t = ''issued'')"
proof -
  let ?row = "issued_record p env rt ca parsed leaf der"
  have row: "ic_serial ?row = serial_hex (p_codec p) leaf" "ic_ca_id ?row = ca_id ca"
    by (simp_all add: issued_record_def)
  have tables: "''issued_certificate'' \<in> set (tables (w_db w))" "''scep_transaction'' \<in> set (tables (w_db w))"
    using assms(2) by (simp_all add: SCHEMA_def)
  have ins: "insert_issued (p_fault p) ?row (w_db w) =
      (Inr (), (tick (w_db w))\<lparr>issued := issued (w_db w) @ [?row]\<rparr>)" (is "_ = (_, ?db)")
    using assms tables row by (simp add: insert_issued_def run_statement_healthy)
  then have good: "registry ?db (ca_id ca) (serial_hex (p_codec p) leaf) = Good"
    using insert_issued_registry(2) [OF ins issued_record_fresh, of "ca_id ca" "serial_hex (p_codec p) leaf"] row by simp
  have "''scep_transaction'' \<in> set (tables ?db)" using tables by simp
  from record_transaction_healthy [of "p_fault p", OF assms(1) this] obtain db' where
    rec: "record_transaction (p_fault p) (req_transaction_id parsed) (rt_name rt) ''issued'' ''PKCSReq''
      (now_utc p (rq_record_time env)) ?db = (Inr (), db')"
    and t: "\<exists>t\<in>set (transactions db'). tx_transaction_id t = req_transaction_id parsed \<and> tx_status t = ''issued''"
    by blast
  have "registry db' = registry ?db"
    using record_transaction_registry [of "p_fault p" "req_transaction_id parsed" "rt_name rt" "''issued''"
        "''PKCSReq''" "now_utc p (rq_record_time env)" ?db] rec by simp
  moreover have "w_db (snd (persist p env rt ca parsed leaf der w)) = db'"
    by (simp add: persist_db ins rec)
  ultimately show ?thesis using good t by simp
qed

lemma approved_enrolment:
  assumes "opened_request p state profile body rt ca parsed csr" and "approved p rt parsed csr w"
    and "issues p state env rt ca csr leaf leaf_der"
    and "\<And>n. p_fault p n = None" and "set SCHEMA \<subseteq> set (tables (w_db w))"
    and "serial_hex (p_codec p) leaf \<notin> ic_serial ` set (issued (w_db w))"
  shows "registry (w_db (snd (pki_operation p state env profile body w))) (ca_id ca) (serial_hex (p_codec p) leaf) = Good
    \<and> (\<exists>t\<in>set (transactions (w_db (snd (pki_operation p state env profile body w)))).
         tx_transaction_id t = req_transaction_id parsed \<and> tx_status t = ''issued'')
    \<and> fst (pki_operation p state env profile body w) = build_success p env ca parsed leaf"
proof -
  obtain st where st: "pki_operation p state env profile body w =
      issue_and_reply p state env rt ca parsed csr (w\<lparr>w_intune := st\<rparr>)"
    using validate_and_issue_approved [OF assms(2)] pki_opened [OF assms(1)] by metis
  have "w_db (snd (pki_operation p state env profile body w)) = w_db (snd (persist p env rt ca parsed leaf leaf_der w))"
    by (simp add: st issue_and_reply_issued(1) [OF assms(3)] persist_db)
  then show ?thesis
    using persist_healthy [of p, OF assms(4-6)] issue_and_reply_issued(2) [OF assms(3)] st by simp
qed

subsection \<open>Properties\<close>


lemma ex_issued_changes:
  "issued (w_db (snd (pki_operation ex_platform ex_state ex_env ''p'' [1] ex_world))) \<noteq> issued (w_db ex_world)"
proof -
  obtain leaf where leaf: "issues ex_platform ex_state ex_env ex_profile demo_ca ex_parsed_csr leaf
      (serial_bytes (rq_serial_rng ex_env))"
    using ex_issues by blast
  obtain st where st: "pki_operation ex_platform ex_state ex_env ''p'' [1] ex_world =
      issue_and_reply ex_platform ex_state ex_env ex_profile demo_ca ex_request ex_parsed_csr (ex_world\<lparr>w_intune := st\<rparr>)"
    using validate_and_issue_approved [OF ex_approved] pki_opened [OF ex_opened] by metis
  have "issued (w_db (snd (pki_operation ex_platform ex_state ex_env ''p'' [1] ex_world))) \<noteq> []"
    by (simp add: st issue_and_reply_issued(1) [OF leaf] persist_db insert_issued_def run_statement_healthy)
  then show ?thesis by simp
qed




text \<open>
  C4: no decryption oracle.  Whenever the envelope of an authentic request does not open or does
  not hold a CSR, for whatever reason, the reply is the one badMessageCheck failure that depends
  only on the public fields of the message and on the reply's nonce, and nothing is recorded, no
  service is called, no state changes.  Two platforms that differ only in RSA decryption, so also
  two that find valid and invalid padding, then give identical replies.
\<close>

theorem unopenable_requests_uniform:
  assumes "enveloped_request p state profile body rt ca parsed enveloped"
    and "open_request p ca enveloped = Inl e"
    and "open_request (p\<lparr>p_rsa := (p_rsa p)\<lparr>rsa_decrypt := f\<rparr>\<rparr>) ca enveloped = Inl e'"
  shows "pki_operation p state env profile body w = (build_failure p env ca parsed BadMessageCheck, w)
    \<and> pki_operation (p\<lparr>p_rsa := (p_rsa p)\<lparr>rsa_decrypt := f\<rparr>\<rparr>) state env profile body w
      = pki_operation p state env profile body w"
proof -
  let ?p = "p\<lparr>p_rsa := (p_rsa p)\<lparr>rsa_decrypt := f\<rparr>\<rparr>"
  have same: "parse_and_verify (p_der p) (p_cms p) (p_digest p) (p_rsa ?p) body
      = parse_and_verify (p_der p) (p_cms p) (p_digest p) (p_rsa p) body"
    by (simp add: parse_and_verify_def verify_rsa_decrypt cong: if_cong)
  then have "enveloped_request ?p state profile body rt ca parsed enveloped"
    using assms(1) by (simp add: enveloped_request_def)
  from pki_unopened [OF this assms(3), of env w]
  have "pki_operation ?p state env profile body w = (build_failure p env ca parsed BadMessageCheck, w)"
    by (simp add: build_failure_def)
  with pki_unopened [OF assms(1,2), of env w] show ?thesis by simp
qed

definition broken_decrypt :: "rsa_private_key \<Rightarrow> bytes \<Rightarrow> string + bytes" where
  "broken_decrypt k c = Inl ''decryption error''"

definition ex_wrong :: "(rsa_private_key \<Rightarrow> bytes \<Rightarrow> string + bytes) \<Rightarrow> platform" where
  "ex_wrong f = ex_platform\<lparr>p_rsa := demo_rsa\<lparr>rsa_decrypt := f\<rparr>\<rparr>"

lemma ex_wrong_open:
  assumes "\<And>k c cek. f k c = Inr cek \<Longrightarrow> hd cek \<noteq> 5"
  shows "open_request (ex_wrong f) demo_ca ex_enveloped = Inl unpad_error"
proof -
  have "public_checks demo_der ex_x509 ex_enveloped (demo_cert [7]) = Inr (Aes256, [5, 4], replicate 16 6, ex_ktri)"
    by (simp add: public_checks_def Let_def cipher_of_def read_iv_def ex_enveloped_def demo_content_def
        select_recipient_def map_filter_simps ktri_matches_def ex_ktri_def demo_cert_def)
       (simp add: demo_der_def)
  moreover have "hd (unwrap_cek constant_digest (demo_rsa\<lparr>rsa_decrypt := f\<rparr>) demo_key ek 32) \<noteq> 5" for ek
    using assms by (auto simp: unwrap_cek_def synthetic_cek_def Let_def constant_digest_def demo_digest_def
        split: sum.splits)
  moreover have "length (unwrap_cek constant_digest (demo_rsa\<lparr>rsa_decrypt := f\<rparr>) demo_key ek 32) = 32" for ek
    by (rule length_unwrap_cek) (simp_all add: hmac_documented_def constant_digest_def demo_digest_def)
  ultimately have "open_envelope demo_der ex_x509 constant_digest (demo_rsa\<lparr>rsa_decrypt := f\<rparr>) demo_cipher
      ex_enveloped (demo_cert [7]) demo_key = Inl unpad_error"
    by (simp add: open_splits decrypt_with_def demo_cipher_def)
  then show ?thesis
    by (simp add: open_request_def ex_wrong_def demo_ca_def ca_new_def)
qed

lemma unopenable_requests_uniform_witness:
  "pki_operation (ex_wrong broken_decrypt) ex_state ex_env ''p'' [1] ex_world
     = pki_operation (ex_wrong (\<lambda>k c. Inr (replicate 32 6))) ex_state ex_env ''p'' [1] ex_world"
proof -
  let ?f = "\<lambda>k c. Inr (replicate 32 6)"
  have "enveloped_request (ex_wrong broken_decrypt) ex_state ''p'' [1] ex_profile demo_ca ex_request ex_enveloped"
    using ex_enveloped_request
    by (simp add: enveloped_request_def ex_wrong_def parse_and_verify_def verify_rsa_decrypt cong: if_cong)
  moreover have "open_request (ex_wrong broken_decrypt) demo_ca ex_enveloped = Inl unpad_error"
    by (rule ex_wrong_open) (simp add: broken_decrypt_def)
  moreover have eq: "(ex_wrong broken_decrypt)\<lparr>p_rsa := (p_rsa (ex_wrong broken_decrypt))\<lparr>rsa_decrypt := ?f\<rparr>\<rparr> = ex_wrong ?f"
    by (simp add: ex_wrong_def)
  moreover have "open_request (ex_wrong ?f) demo_ca ex_enveloped = Inl unpad_error"
    by (rule ex_wrong_open) auto
  ultimately have "pki_operation (ex_wrong ?f) ex_state ex_env ''p'' [1] ex_world =
      pki_operation (ex_wrong broken_decrypt) ex_state ex_env ''p'' [1] ex_world"
    using unopenable_requests_uniform [of "ex_wrong broken_decrypt" ex_state "''p''" "[1]" ex_profile demo_ca
        ex_request ex_enveloped unpad_error ?f unpad_error ex_env ex_world]
    by simp
  then show ?thesis by (rule sym)
qed


lemma ex_add_signed_attributes:
  "add_signed_attributes ex_cms as si = Inr (si\<lparr>sib_signed_attrs := sib_signed_attrs si @ as\<rparr>)"
  by (induction as arbitrary: si) (simp_all add: ex_cms_def demo_cms_def)

lemma ex_builder:
  "signer_info_new ex_cms k sid al e = Inr \<lparr>sib_signer = k, sib_sid = sid, sib_digest_alg = al, sib_encap = e,
     sib_signed_attrs = []\<rparr>"
  "add_digest_algorithm ex_cms sd al = Inr (sd\<lparr>sdb_digest_algs := sdb_digest_algs sd @ [al]\<rparr>)"
  "add_certificate ex_cms sd c = Inr (sd\<lparr>sdb_certificates := sdb_certificates sd @ [c]\<rparr>)"
  "add_signer_info ex_cms sd si = Inr (sd\<lparr>sdb_signer_infos := sdb_signer_infos sd @ [si]\<rparr>)"
  "signed_data_build ex_cms sd = Inr \<lparr>ci_content_type = ID_SIGNED_DATA, ci_content = \<lparr>any_tag = 48,
     any_value = concat (map cert_serial_number (sdb_certificates sd))\<rparr>\<rparr>"
  "content_info_to_der ex_cms \<lparr>ci_content_type = ID_SIGNED_DATA, ci_content = \<lparr>any_tag = 48, any_value = b\<rparr>\<rparr> = Inr (1 # b)"
  by (simp_all add: ex_cms_def demo_cms_def cms_oids)


text \<open>
  C3: a successful enrolment is on record: when the database carries its statements out and the
  fresh serial is not taken, an approved and issued request leaves its certificate good in the
  registry under the CA's id and its transaction recorded as issued.
\<close>

theorem successful_enrolment_recorded:
  assumes "opened_request p state profile body rt ca parsed csr" and "approved p rt parsed csr w"
    and "issues p state env rt ca csr leaf leaf_der"
    and "\<And>n. p_fault p n = None" and "set SCHEMA \<subseteq> set (tables (w_db w))"
    and "serial_hex (p_codec p) leaf \<notin> ic_serial ` set (issued (w_db w))"
  shows "registry (w_db (snd (pki_operation p state env profile body w))) (ca_id ca) (serial_hex (p_codec p) leaf) = Good
    \<and> (\<exists>t\<in>set (transactions (w_db (snd (pki_operation p state env profile body w)))).
         tx_transaction_id t = req_transaction_id parsed \<and> tx_status t = ''issued'')
    \<and> fst (pki_operation p state env profile body w) = build_success p env ca parsed leaf"
  using assms by (rule approved_enrolment)

lemma successful_enrolment_recorded_witness:
  "\<exists>serial. registry (w_db (snd (pki_operation ex_platform ex_state ex_env ''p'' [1] ex_world))) ''corp'' serial = Good"
proof -
  obtain leaf where leaf: "issues ex_platform ex_state ex_env ex_profile demo_ca ex_parsed_csr leaf
      (serial_bytes (rq_serial_rng ex_env))"
    using ex_issues by blast
  have "p_fault ex_platform n = None" for n by simp
  from successful_enrolment_recorded [OF ex_opened ex_approved leaf this, of ex_world]
  show ?thesis by (auto simp: demo_ca_def ca_new_def)
qed

end
