(* ===== verification/OcspHandler.thy ===== *)
theory OcspHandler
  imports HttpState
begin

text \<open>
  \<open>http/ocsp.rs\<close>: the OCSP responder.  The codec and builder of \<open>x509-ocsp\<close> are the
  parameter \<open>ol\<close>.  \<open>clock n\<close> is the \<open>n\<close>-th reading of the system clock in a request.
\<close>

record cert_id =
  cid_hash_algorithm :: algorithm_identifier
  cid_issuer_name_hash :: bytes
  cid_issuer_key_hash :: bytes
  cid_serial_number :: bytes

record ocsp_request =
  or_request_list :: "cert_id list"
  or_nonce :: "bytes option"

datatype cert_status = CertGood | CertUnknown | CertRevoked datetime

record single_response =
  sr_cert_id :: cert_id
  sr_status :: cert_status
  sr_this_update :: datetime
  sr_next_update :: "datetime option"

record ocsp_response_builder =
  orb_responder :: dn
  orb_responses :: "single_response list"
  orb_nonces :: "bytes list"

record ocsp_lib =
  ocsp_request_from_der :: "bytes \<Rightarrow> string + ocsp_request"
  ocsp_with_nonce :: "ocsp_response_builder \<Rightarrow> bytes \<Rightarrow> string + ocsp_response_builder"
  ocsp_sign :: "ocsp_response_builder \<Rightarrow> rsa_private_key \<Rightarrow> certificate list \<Rightarrow> datetime \<Rightarrow> string + bytes"
  ocsp_response_to_der :: "bytes \<Rightarrow> string + bytes"

definition CT_OCSP :: string where
  "CT_OCSP = ''application/ocsp-response''"
definition NEXT_UPDATE_SECS :: nat where
  "NEXT_UPDATE_SECS = 3600"

definition signer_for :: "certificate_authority \<Rightarrow> rsa_private_key" where
  "signer_for ca = ca_private_key ca"

definition ocsp_now :: "platform \<Rightarrow> system_time \<Rightarrow> datetime" where
  "ocsp_now p now =
     (case ocsp_time_from_system_time (p_time p) now of Some dt \<Rightarrow> dt | None \<Rightarrow> datetime_infinity)"

definition parse_rfc3339 :: "platform \<Rightarrow> string \<Rightarrow> system_time option" where
  "parse_rfc3339 p s = parse_rfc3339_lib (p_time p) s"

text \<open>\<open>revoked_at.as_deref().and_then(parse_rfc3339).and_then(|st| try_from(st).ok())\<close>\<close>

definition revocation_time :: "platform \<Rightarrow> string option \<Rightarrow> datetime option" where
  "revocation_time p revoked_at =
     Option.bind (Option.bind revoked_at (parse_rfc3339 p)) (ocsp_time_from_system_time (p_time p))"

fun to_cert_status :: "platform \<Rightarrow> system_time \<Rightarrow> revocation_status \<Rightarrow> cert_status" where
  "to_cert_status p now Good = CertGood"
| "to_cert_status p now Unknown = CertUnknown"
| "to_cert_status p now (Revoked revoked_at reason) =
     CertRevoked (case revocation_time p revoked_at of Some t \<Rightarrow> t | None \<Rightarrow> ocsp_now p now)"

text \<open>The loop over the requested certificates.\<close>

fun answer_entries ::
  "platform \<Rightarrow> (nat \<Rightarrow> system_time) \<Rightarrow> string \<Rightarrow> datetime \<Rightarrow> datetime \<Rightarrow> nat \<Rightarrow> cert_id list \<Rightarrow>
     ocsp_response_builder \<Rightarrow> ocsp_response_builder handler" where
  "answer_entries p clock caid this_update next_update n [] builder = pure (Inr builder)"
| "answer_entries p clock caid this_update next_update n (cid # cids) builder =
     (let serial_hex = hex_encode (p_codec p) (cid_serial_number cid) in
      and_then (on_db (status_by_serial (p_fault p) caid serial_hex)) (\<lambda>status.
      let cert_status = to_cert_status p (clock n) status;
          single = \<lparr>sr_cert_id = cid, sr_status = cert_status, sr_this_update = this_update,
                    sr_next_update = Some next_update\<rparr>
      in answer_entries p clock caid this_update next_update (Suc n) cids
           (builder\<lparr>orb_responses := orb_responses builder @ [single]\<rparr>)))"

definition build_response ::
  "platform \<Rightarrow> ocsp_lib \<Rightarrow> app_state \<Rightarrow> (nat \<Rightarrow> system_time) \<Rightarrow> string \<Rightarrow> bytes \<Rightarrow> bytes handler" where
  "build_response p ol state clock caid req_der =
     and_then (pure (ok_or (NotFound (''unknown CA '' @ quoted caid)) (st_cas state caid))) (\<lambda>ca.
     and_then (pure (map_err (\<lambda>e. bad_request (''invalid OCSP request: '' @ e)) (ocsp_request_from_der ol req_der))) (\<lambda>request.
     let this_update = ocsp_now p (clock 0);
         next_update = (case ocsp_time_from_system_time (p_time p)
              (clock 1 + int NEXT_UPDATE_SECS * 1000000000) of Some t \<Rightarrow> t | None \<Rightarrow> this_update);
         builder = \<lparr>orb_responder = cert_subject (ca_cert ca), orb_responses = [], orb_nonces = []\<rparr> in
     and_then (answer_entries p clock caid this_update next_update 2 (or_request_list request) builder) (\<lambda>builder.
     and_then (pure (case or_nonce request of
         None \<Rightarrow> Inr builder
       | Some nonce \<Rightarrow> map_err (\<lambda>e. crypto (''OCSP nonce: '' @ e)) (ocsp_with_nonce ol builder nonce))) (\<lambda>builder.
     and_then (pure (map_err (\<lambda>e. crypto (''signing OCSP response: '' @ e))
                (ocsp_sign ol builder (signer_for ca) [ca_cert ca] this_update))) (\<lambda>response.
     pure (map_err (\<lambda>e. crypto (''encode OCSP response: '' @ e)) (ocsp_response_to_der ol response)))))))"

definition respond ::
  "platform \<Rightarrow> ocsp_lib \<Rightarrow> (nat \<Rightarrow> string option) \<Rightarrow> app_state \<Rightarrow> (nat \<Rightarrow> system_time) \<Rightarrow> string \<Rightarrow> bytes \<Rightarrow>
     world \<Rightarrow> http_response \<times> world" where
  "respond p ol reason state clock caid req_der w =
     (case build_response p ol state clock caid req_der w of
        (Inr der, w1) \<Rightarrow> (\<lparr>resp_status = 200, resp_content_type = Some CT_OCSP, resp_body = der\<rparr>, w1)
      | (Inl e, w1) \<Rightarrow> (into_response reason e, w1))"

definition ocsp_post ::
  "platform \<Rightarrow> ocsp_lib \<Rightarrow> (nat \<Rightarrow> string option) \<Rightarrow> app_state \<Rightarrow> (nat \<Rightarrow> system_time) \<Rightarrow> string \<Rightarrow> bytes \<Rightarrow>
     world \<Rightarrow> http_response \<times> world" where
  "ocsp_post p ol reason state clock ca body = respond p ol reason state clock ca body"

text \<open>A \<open>(StatusCode, &str)\<close> response: the handler sets no content type itself.\<close>

definition bad_request_text :: "string \<Rightarrow> http_response" where
  "bad_request_text s =
     \<lparr>resp_status = 400, resp_content_type = None, resp_body = as_bytes s\<rparr>"

definition ocsp_get ::
  "platform \<Rightarrow> ocsp_lib \<Rightarrow> (nat \<Rightarrow> string option) \<Rightarrow> app_state \<Rightarrow> (nat \<Rightarrow> system_time) \<Rightarrow> string \<Rightarrow> string \<Rightarrow>
     world \<Rightarrow> http_response \<times> world" where
  "ocsp_get p ol reason state clock ca b64 w =
     (case base64_decode (p_codec p) (as_bytes b64) of
        Inr der \<Rightarrow> respond p ol reason state clock ca der w
      | Inl _ \<Rightarrow> (bad_request_text ''invalid base64 OCSP request'', w))"

definition ocsp_get_root :: http_response where
  "ocsp_get_root = bad_request_text ''OCSP: POST a request body or append the base64 request to the path''"

subsection \<open>What the responder answers\<close>

text \<open>
  The specification of the answers: each certificate's status in the registry, a revocation at its
  recorded time when that is one the response can carry, and at the time of answering otherwise.
\<close>

definition reported_status :: "platform \<Rightarrow> system_time \<Rightarrow> revocation_status \<Rightarrow> cert_status" where
  "reported_status p now st =
     (case st of
        Good \<Rightarrow> CertGood
      | Unknown \<Rightarrow> CertUnknown
      | Revoked t n \<Rightarrow>
          (case Option.bind (Option.bind t (parse_rfc3339_lib (p_time p))) (ocsp_time_from_system_time (p_time p)) of
             Some d \<Rightarrow> CertRevoked d
           | None \<Rightarrow> CertRevoked (case ocsp_time_from_system_time (p_time p) now of Some d \<Rightarrow> d | None \<Rightarrow> datetime_infinity)))"

lemma to_cert_status_reported: "to_cert_status p now st = reported_status p now st"
  by (cases st) (simp_all add: reported_status_def revocation_time_def parse_rfc3339_def [abs_def] ocsp_now_def split: option.split)

definition answers ::
  "platform \<Rightarrow> (nat \<Rightarrow> system_time) \<Rightarrow> (string \<Rightarrow> string \<Rightarrow> revocation_status) \<Rightarrow> string \<Rightarrow> datetime \<Rightarrow> datetime \<Rightarrow>
     nat \<Rightarrow> cert_id list \<Rightarrow> single_response list" where
  "answers p clock reg caid this_update next_update n cids =
     map (\<lambda>(i, cid). \<lparr>sr_cert_id = cid,
            sr_status = reported_status p (clock i) (reg caid (hex_encode (p_codec p) (cid_serial_number cid))),
            sr_this_update = this_update, sr_next_update = Some next_update\<rparr>)
       (zip [n..<n + length cids] cids)"

lemma answer_entries_ok:
  "answer_entries p clock caid tu nu n cids b w = (Inr b', w') \<Longrightarrow>
     b' = b\<lparr>orb_responses := orb_responses b @ answers p clock (registry (w_db w)) caid tu nu n cids\<rparr>
     \<and> registry (w_db w') = registry (w_db w) \<and> issued (w_db w') = issued (w_db w)
     \<and> w_intune w' = w_intune w"
proof (induction cids arbitrary: n b w)
  case Nil
  then show ?case by (simp add: answers_def)
next
  case (Cons cid cids)
  let ?hex = "hex_encode (p_codec p) (cid_serial_number cid)"
  from Cons.prems obtain st w1 where st: "on_db (status_by_serial (p_fault p) caid ?hex) w = (Inr st, w1)"
    and rest: "answer_entries p clock caid tu nu (Suc n) cids
      (b\<lparr>orb_responses := orb_responses b @ [\<lparr>sr_cert_id = cid, sr_status = to_cert_status p (clock n) st,
           sr_this_update = tu, sr_next_update = Some nu\<rparr>]\<rparr>) w1 = (Inr b', w')"
    by (auto simp: Let_def and_then_Inr)
  from st have "status_by_serial (p_fault p) caid ?hex (w_db w) = (Inr st, w_db w1)" "w_intune w1 = w_intune w"
    by (auto simp: on_db_def split: prod.splits)
  then have "st = registry (w_db w) caid ?hex" "w_db w1 = tick (w_db w)" "w_intune w1 = w_intune w"
    by (auto dest: status_by_serial_ok)
  moreover have "answers p clock (registry (w_db w)) caid tu nu n (cid # cids) =
      \<lparr>sr_cert_id = cid, sr_status = reported_status p (clock n) (registry (w_db w) caid ?hex),
       sr_this_update = tu, sr_next_update = Some nu\<rparr>
      # answers p clock (registry (w_db w)) caid tu nu (Suc n) cids"
    unfolding answers_def list.size add_Suc_right upt_conv_Cons [OF less_add_Suc1 [of n]] by simp
  ultimately show ?case
    using Cons.IH [OF rest] by (simp add: to_cert_status_reported)
qed

lemma answer_entries_reads_only: "reads_only w (snd (answer_entries p clock caid tu nu n cids b w))"
proof (induction cids arbitrary: n b w)
  case Nil
  show ?case by simp
next
  case (Cons cid cids)
  show ?case
    unfolding answer_entries.simps Let_def
    by (rule reads_only_and_then) (simp_all add: reads_only_statement status_by_serial_state Cons.IH)
qed

lemma build_response_reads_only: "reads_only w (snd (build_response p ol state clock caid req_der w))"
  unfolding build_response_def Let_def
  by (intro reads_only_and_then) (simp_all add: answer_entries_reads_only)

lemma respond_reads_only: "reads_only w (snd (respond p ol reason state clock caid req_der w))"
proof -
  obtain r w1 where run: "build_response p ol state clock caid req_der w = (r, w1)" by force
  with build_response_reads_only [of w p ol state clock caid req_der] have "reads_only w w1" by simp
  with run show ?thesis by (cases r) (simp_all add: respond_def)
qed

text \<open>The documented builder keeps its responses and adds the nonce.\<close>

definition ocsp_documented :: "ocsp_lib \<Rightarrow> bool" where
  "ocsp_documented ol \<longleftrightarrow>
     (\<forall>b n b'. ocsp_with_nonce ol b n = Inr b' \<longrightarrow> b' = b\<lparr>orb_nonces := orb_nonces b @ [n]\<rparr>)"

text \<open>The builder that is signed for a request, in full.\<close>

definition next_update_at :: "platform \<Rightarrow> (nat \<Rightarrow> system_time) \<Rightarrow> datetime" where
  "next_update_at p clock =
     (case ocsp_time_from_system_time (p_time p) (clock 1 + 3600000000000) of
        Some t \<Rightarrow> t | None \<Rightarrow> ocsp_now p (clock 0))"

definition response_for ::
  "platform \<Rightarrow> (nat \<Rightarrow> system_time) \<Rightarrow> (string \<Rightarrow> string \<Rightarrow> revocation_status) \<Rightarrow> string \<Rightarrow> certificate_authority \<Rightarrow>
     ocsp_request \<Rightarrow> ocsp_response_builder" where
  "response_for p clock reg caid ca request =
     \<lparr>orb_responder = cert_subject (ca_cert ca),
      orb_responses = answers p clock reg caid (ocsp_now p (clock 0)) (next_update_at p clock) 2
        (or_request_list request),
      orb_nonces = (case or_nonce request of None \<Rightarrow> [] | Some n \<Rightarrow> [n])\<rparr>"

lemma build_response_ok:
  assumes "ocsp_documented ol" and "build_response p ol state clock caid req_der w = (Inr der, w')"
  shows "\<exists>ca request response. st_cas state caid = Some ca \<and> ocsp_request_from_der ol req_der = Inr request
    \<and> ocsp_sign ol (response_for p clock (registry (w_db w)) caid ca request) (ca_private_key ca) [ca_cert ca]
        (ocsp_now p (clock 0)) = Inr response
    \<and> ocsp_response_to_der ol response = Inr der
    \<and> registry (w_db w') = registry (w_db w) \<and> issued (w_db w') = issued (w_db w)
    \<and> w_intune w' = w_intune w"
proof -
  let ?b0 = "\<lambda>ca. \<lparr>orb_responder = cert_subject (ca_cert ca), orb_responses = [], orb_nonces = []\<rparr>"
  from assms(2) obtain ca request b1 w1 b2 response where
    ca: "st_cas state caid = Some ca" and req: "ocsp_request_from_der ol req_der = Inr request"
    and b1: "answer_entries p clock caid (ocsp_now p (clock 0)) (next_update_at p clock) 2
      (or_request_list request) (?b0 ca) w = (Inr b1, w1)"
    and b2: "(case or_nonce request of None \<Rightarrow> Inr b1
       | Some nonce \<Rightarrow> map_err (\<lambda>e. crypto (''OCSP nonce: '' @ e)) (ocsp_with_nonce ol b1 nonce)) = Inr b2"
    and sign: "ocsp_sign ol b2 (ca_private_key ca) [ca_cert ca] (ocsp_now p (clock 0)) = Inr response"
    and der: "ocsp_response_to_der ol response = Inr der" and w': "w' = w1"
    by (auto simp: build_response_def Let_def and_then_Inr signer_for_def next_update_at_def NEXT_UPDATE_SECS_def)
  note res = answer_entries_ok [OF b1]
  have "b2 = response_for p clock (registry (w_db w)) caid ca request"
  proof (cases "or_nonce request")
    case None
    with b2 res show ?thesis by (simp add: response_for_def)
  next
    case (Some n)
    with b2 have "ocsp_with_nonce ol b1 n = Inr b2" by simp
    with assms(1) have "b2 = b1\<lparr>orb_nonces := orb_nonces b1 @ [n]\<rparr>"
      by (auto simp: ocsp_documented_def)
    with Some res show ?thesis by (simp add: response_for_def)
  qed
  then show ?thesis
    using ca req sign der res w' by auto
qed

lemma answer_entries_fault:
  assumes "i < length cids" and "p_fault p (db_calls (w_db w) + i) = Some m"
  shows "\<exists>e. fst (answer_entries p clock caid tu nu n cids b w) = Inl (Database e)"
  using assms
proof (induction cids arbitrary: i n b w)
  case Nil
  then show ?case by simp
next
  case (Cons cid cids)
  let ?hex = "hex_encode (p_codec p) (cid_serial_number cid)"
  obtain r db where run: "status_by_serial (p_fault p) caid ?hex (w_db w) = (r, db)" by force
  then have db: "db = tick (w_db w)" by (metis snd_conv status_by_serial_state)
  show ?case
  proof (cases r)
    case (Inl e)
    with run have "\<exists>m. e = Database m" by (auto dest: status_by_serial_err)
    with run Inl show ?thesis by (auto simp: Let_def and_then_def on_db_def)
  next
    case (Inr st)
    with run have ok: "p_fault p (db_calls (w_db w)) = None"
      by (auto simp: status_by_serial_def split: prod.splits sum.splits dest!: run_statement_ok)
    with Cons.prems(2) obtain j where j: "i = Suc j" by (cases i) auto
    let ?b = "b\<lparr>orb_responses := orb_responses b @ [\<lparr>sr_cert_id = cid,
        sr_status = to_cert_status p (clock n) st, sr_this_update = tu, sr_next_update = Some nu\<rparr>]\<rparr>"
    have "\<exists>e. fst (answer_entries p clock caid tu nu (Suc n) cids ?b (w\<lparr>w_db := db\<rparr>)) = Inl (Database e)"
      by (rule Cons.IH [of j]) (use Cons.prems j db in simp_all)
    with run Inr show ?thesis by (simp add: Let_def and_then_def on_db_def)
  qed
qed

subsection \<open>Properties\<close>

text \<open>
  C22: the OCSP responder reports the registry.  A successful response is signed by the CA's own
  key over one answer per requested certificate, in order, each with exactly the status the
  certificate table holds for that serial under that CA (good, revoked at its recorded time, or
  unknown), valid for one hour, together with the request's nonce; and answering changes neither
  the table nor any other state of the server.
\<close>

theorem ocsp_reports_registry:
  assumes "ocsp_documented ol" and "build_response p ol state clock caid req_der w = (Inr der, w')"
  shows "\<exists>ca request response. st_cas state caid = Some ca \<and> ocsp_request_from_der ol req_der = Inr request
    \<and> ocsp_sign ol (response_for p clock (registry (w_db w)) caid ca request) (ca_private_key ca) [ca_cert ca]
        (ocsp_now p (clock 0)) = Inr response
    \<and> ocsp_response_to_der ol response = Inr der
    \<and> registry (w_db w') = registry (w_db w) \<and> issued (w_db w') = issued (w_db w)
    \<and> w_intune w' = w_intune w"
  using assms by (rule build_response_ok)

definition demo_ocsp :: ocsp_lib where
  "demo_ocsp =
     \<lparr>ocsp_request_from_der = (\<lambda>b. Inr \<lparr>or_request_list = [\<lparr>cid_hash_algorithm = digest_alg ID_SHA1,
        cid_issuer_name_hash = [], cid_issuer_key_hash = [], cid_serial_number = b\<rparr>], or_nonce = Some [1]\<rparr>),
      ocsp_with_nonce = (\<lambda>b n. Inr (b\<lparr>orb_nonces := orb_nonces b @ [n]\<rparr>)),
      ocsp_sign = (\<lambda>b k cs t. Inr [word_of_nat (length (orb_responses b))]),
      ocsp_response_to_der = (\<lambda>b. Inr b)\<rparr>"

lemma demo_ocsp_documented: "ocsp_documented demo_ocsp"
  by (simp add: ocsp_documented_def demo_ocsp_def)

definition ocsp_platform :: "db_fault \<Rightarrow> platform" where
  "ocsp_platform fault =
     \<lparr>p_der = demo_der, p_cms = demo_cms, p_x509 = demo_x509, p_digest = demo_digest, p_rsa = demo_rsa,
      p_cipher = demo_cipher, p_codec = demo_codec, p_time = demo_time, p_intune = demo_intune_lib,
      p_net = demo_net, p_fault = fault\<rparr>"

definition default_ca :: certificate_authority where
  "default_ca = demo_ca\<lparr>ca_id := ''default''\<rparr>"

definition ocsp_state :: app_state where
  "ocsp_state = \<lparr>st_cas = [''default'' \<mapsto> default_ca], st_profiles = Map.empty, st_base_url = ''http://h''\<rparr>"

definition ocsp_world :: world where
  "ocsp_world = \<lparr>w_db = sample_db, w_intune = new_intune_state\<rparr>"

lemma ocsp_reports_registry_witness:
  "\<exists>der w' response. build_response (ocsp_platform (\<lambda>_. None)) demo_ocsp ocsp_state (\<lambda>_. 0) ''default'' [170, 17] ocsp_world
      = (Inr der, w') \<and> ocsp_response_to_der demo_ocsp response = Inr der"
proof -
  have "\<exists>der w'. build_response (ocsp_platform (\<lambda>_. None)) demo_ocsp ocsp_state (\<lambda>_. 0) ''default'' [170, 17] ocsp_world
      = (Inr der, w')"
    by (simp add: build_response_def Let_def and_then_def demo_ocsp_def ocsp_state_def on_db_def
        status_by_serial_def run_statement_healthy ocsp_platform_def ocsp_world_def)
  then obtain der w' where run: "build_response (ocsp_platform (\<lambda>_. None)) demo_ocsp ocsp_state (\<lambda>_. 0) ''default''
      [170, 17] ocsp_world = (Inr der, w')" by blast
  from ocsp_reports_registry [OF demo_ocsp_documented run] run show ?thesis by blast
qed

text \<open>
  C23: the OCSP responder fails closed.  If the database fails at any of the status lookups of a
  request, the client gets an error with status 500 and no OCSP response at all, in particular
  never a good or unknown status for the certificates that were not looked up.
\<close>

theorem ocsp_fails_closed:
  assumes "st_cas state caid = Some ca" and "ocsp_request_from_der ol req_der = Inr request"
    and "i < length (or_request_list request)" and "p_fault p (db_calls (w_db w) + i) = Some m"
  shows "resp_status (fst (respond p ol reason state clock caid req_der w)) = 500
    \<and> resp_content_type (fst (respond p ol reason state clock caid req_der w)) \<noteq> Some CT_OCSP"
proof -
  let ?b0 = "\<lparr>orb_responder = cert_subject (ca_cert ca), orb_responses = [], orb_nonces = []\<rparr>"
  obtain e w2 where "answer_entries p clock caid (ocsp_now p (clock 0)) (next_update_at p clock) 2
      (or_request_list request) ?b0 w = (Inl (Database e), w2)"
    using answer_entries_fault [OF assms(3,4), of clock caid "ocsp_now p (clock 0)" "next_update_at p clock" 2 ?b0]
    by (metis prod.collapse)
  then have "\<exists>e. fst (build_response p ol state clock caid req_der w) = Inl (Database e)"
    using assms(1,2) by (simp add: build_response_def Let_def next_update_at_def NEXT_UPDATE_SECS_def)
  then obtain e w1 where "build_response p ol state clock caid req_der w = (Inl (Database e), w1)"
    by (metis prod.collapse)
  then show ?thesis
    by (simp add: respond_def into_response_def CT_OCSP_def)
qed

lemma ocsp_fails_closed_witness:
  "resp_status (fst (respond (ocsp_platform (\<lambda>_. Some ''down'')) demo_ocsp (\<lambda>_. None) ocsp_state (\<lambda>_. 0) ''default''
     [170, 17] ocsp_world)) = 500"
proof -
  have "st_cas ocsp_state ''default'' = Some default_ca" by (simp add: ocsp_state_def)
  moreover obtain request where "ocsp_request_from_der demo_ocsp [170, 17] = Inr request"
    "0 < length (or_request_list request)" by (simp add: demo_ocsp_def)
  moreover have "p_fault (ocsp_platform (\<lambda>_. Some ''down'')) (db_calls (w_db ocsp_world) + 0) = Some ''down''"
    by (simp add: ocsp_platform_def)
  ultimately show ?thesis
    using ocsp_fails_closed by blast
qed

end
