(* ===== verification/CrlHandler.thy ===== *)
theory CrlHandler
  imports OcspHandler
begin

text \<open>
  \<open>http/crl.rs\<close>: the certificate revocation list.  The DER encoders of \<open>TbsCertList\<close> and
  \<open>CertificateList\<close> are the parameter \<open>cl\<close>; \<open>now\<close> is the clock reading of the request.
\<close>

text \<open>The \<open>x509-cert\<close> types of a list, and its version numbers.\<close>

datatype version = V1 | V2 | V3

record revoked_cert =
  rc_serial_number :: serial_number
  rc_revocation_date :: asn1_time
  rc_crl_entry_extensions :: "extension list option"

record tbs_cert_list =
  tcl_version :: version
  tcl_signature :: algorithm_identifier
  tcl_issuer :: dn
  tcl_this_update :: asn1_time
  tcl_next_update :: "asn1_time option"
  tcl_revoked_certificates :: "revoked_cert list option"
  tcl_crl_extensions :: "extension list option"

record certificate_list =
  crl_tbs :: tbs_cert_list
  crl_signature_algorithm :: algorithm_identifier
  crl_signature :: bytes

record crl_lib =
  tbs_to_der :: "tbs_cert_list \<Rightarrow> string + bytes"
  crl_to_der :: "certificate_list \<Rightarrow> string + bytes"

definition CT_CRL :: string where
  "CT_CRL = ''application/pkix-crl''"
definition CRL_LIFETIME_SECS :: nat where
  "CRL_LIFETIME_SECS = 24 * 3600"

definition to_time :: "platform \<Rightarrow> system_time \<Rightarrow> asn1_time app_result" where
  "to_time p st =
     try_then (map_err (\<lambda>e. crypto (''bad time: '' @ e)) (datetime_from_system_time (p_time p) st)) (\<lambda>dt.
     if dt_year dt < 2050
     then map_ok UtcTime (map_err (\<lambda>e. crypto (''utc time: '' @ e)) (utc_time_from_date_time (p_time p) dt))
     else Inr (GeneralTime dt))"

definition parse_rfc3339 :: "platform \<Rightarrow> string \<Rightarrow> system_time option" where
  "parse_rfc3339 p s = parse_rfc3339_lib (p_time p) s"

text \<open>
  \<open>.and_then(parse_rfc3339).map(to_time).transpose()?.unwrap_or(to_time(now)?)\<close>: the argument
  of \<open>unwrap_or\<close> is evaluated in any case.
\<close>

definition revocation_date :: "platform \<Rightarrow> system_time \<Rightarrow> string option \<Rightarrow> asn1_time app_result" where
  "revocation_date p now revoked_at =
     try_then (case Option.bind revoked_at (parse_rfc3339 p) of
         None \<Rightarrow> Inr None | Some st \<Rightarrow> map_ok Some (to_time p st)) (\<lambda>date.
     try_then (to_time p now) (\<lambda>default.
     Inr (case date of Some t \<Rightarrow> t | None \<Rightarrow> default)))"

text \<open>The loop over the revoked rows; a row whose key is not a serial number is skipped.\<close>

fun crl_entries :: "platform \<Rightarrow> system_time \<Rightarrow> revoked_entry list \<Rightarrow> revoked_cert list app_result" where
  "crl_entries p now [] = Inr []"
| "crl_entries p now (row # rows) =
     (case hex_decode (p_codec p) (re_serial row) of
        Inl _ \<Rightarrow> crl_entries p now rows
      | Inr bytes \<Rightarrow>
          (case serial_new (p_x509 p) bytes of
             Inl _ \<Rightarrow> crl_entries p now rows
           | Inr serial_number \<Rightarrow>
               try_then (revocation_date p now (re_revoked_at row)) (\<lambda>date.
               try_then (crl_entries p now rows) (\<lambda>rest.
               Inr (\<lparr>rc_serial_number = serial_number, rc_revocation_date = date,
                      rc_crl_entry_extensions = None\<rparr> # rest)))))"

definition sign_crl ::
  "platform \<Rightarrow> crl_lib \<Rightarrow> certificate_authority \<Rightarrow> system_time \<Rightarrow> revoked_cert list \<Rightarrow> bytes app_result" where
  "sign_crl p cl ca now revoked_certificates =
     (let signer = ca_private_key ca in
      try_then (map_err (\<lambda>e. crypto (''CRL signature alg: '' @ e)) (rsa_signature_algorithm (p_rsa p) signer)) (\<lambda>alg.
      try_then (to_time p now) (\<lambda>this_update.
      try_then (to_time p (now + int CRL_LIFETIME_SECS * 1000000000)) (\<lambda>next_update.
      let tbs = \<lparr>tcl_version = V2, tcl_signature = alg, tcl_issuer = cert_subject (ca_cert ca), tcl_this_update = this_update,
            tcl_next_update = Some next_update,
            tcl_revoked_certificates = (if revoked_certificates = [] then None else Some revoked_certificates),
            tcl_crl_extensions = None\<rparr> in
      try_then (map_err (\<lambda>e. crypto (''encode TBS CRL: '' @ e)) (tbs_to_der cl tbs)) (\<lambda>tbs_der.
      try_then (map_err (\<lambda>e. crypto (''sign CRL: '' @ e)) (rsa_try_sign (p_rsa p) signer tbs_der)) (\<lambda>sig.
      try_then (map_err (\<lambda>e. crypto (''encode CRL signature: '' @ e)) (rsa_signature_bitstring (p_rsa p) sig)) (\<lambda>signature.
      map_err (\<lambda>e. crypto (''encode CRL: '' @ e)) (crl_to_der cl
        \<lparr>crl_tbs = tbs, crl_signature_algorithm = alg, crl_signature = signature\<rparr>))))))))"

definition build_crl ::
  "platform \<Rightarrow> crl_lib \<Rightarrow> app_state \<Rightarrow> system_time \<Rightarrow> string \<Rightarrow> bytes handler" where
  "build_crl p cl state now caid =
     and_then (pure (ok_or (NotFound (''unknown CA '' @ quoted caid)) (st_cas state caid))) (\<lambda>ca.
     and_then (on_db (list_revoked (p_fault p) caid)) (\<lambda>revoked_rows.
     and_then (pure (crl_entries p now revoked_rows)) (\<lambda>revoked_certificates.
     pure (sign_crl p cl ca now revoked_certificates))))"

definition crl ::
  "platform \<Rightarrow> crl_lib \<Rightarrow> (nat \<Rightarrow> string option) \<Rightarrow> app_state \<Rightarrow> system_time \<Rightarrow> string \<Rightarrow> world \<Rightarrow>
     http_response \<times> world" where
  "crl p cl reason state now caid w =
     (case build_crl p cl state now caid w of
        (Inr der, w1) \<Rightarrow> (\<lparr>resp_status = 200, resp_content_type = Some CT_CRL, resp_body = der\<rparr>, w1)
      | (Inl e, w1) \<Rightarrow> (into_response reason e, w1))"

subsection \<open>The entries of a list\<close>

text \<open>The serial number a row's key stands for, if it is one.\<close>

definition row_serial :: "platform \<Rightarrow> string \<Rightarrow> serial_number option" where
  "row_serial p key = Option.bind (to_option (hex_decode (p_codec p) key)) (\<lambda>b. to_option (serial_new (p_x509 p) b))"

text \<open>
  The specification of the dates: UTCTime before 2050 and GeneralizedTime from then on, at the
  recorded time of the revocation when it is one, and at the current time otherwise.
\<close>

definition asn1_time_of :: "platform \<Rightarrow> system_time \<Rightarrow> asn1_time \<Rightarrow> bool" where
  "asn1_time_of p st t \<longleftrightarrow>
     (\<exists>dt. datetime_from_system_time (p_time p) st = Inr dt
        \<and> (dt_year dt < 2050 \<longrightarrow> (\<exists>u. utc_time_from_date_time (p_time p) dt = Inr u \<and> t = UtcTime u))
        \<and> (2050 \<le> dt_year dt \<longrightarrow> t = GeneralTime dt))"

definition listed_date :: "platform \<Rightarrow> system_time \<Rightarrow> string option \<Rightarrow> asn1_time \<Rightarrow> bool" where
  "listed_date p now revoked_at d \<longleftrightarrow>
     (case Option.bind revoked_at (parse_rfc3339_lib (p_time p)) of
        Some st \<Rightarrow> asn1_time_of p st d | None \<Rightarrow> asn1_time_of p now d)"

lemma to_time_iff: "to_time p st = Inr t \<longleftrightarrow> asn1_time_of p st t"
  by (auto simp: to_time_def asn1_time_of_def try_then_Inr_iff map_ok_Inr_iff not_less)

lemma revocation_date_listed: "revocation_date p now t = Inr d \<Longrightarrow> listed_date p now t d"
  by (auto simp: revocation_date_def listed_date_def try_then_Inr_iff map_ok_Inr_iff parse_rfc3339_def [abs_def]
      to_time_iff split: option.splits)

lemma revocation_date_iff:
  "to_time p now = Inr t0 \<Longrightarrow> revocation_date p now t = Inr d \<longleftrightarrow> listed_date p now t d"
  by (auto simp: revocation_date_def listed_date_def try_then_Inr_iff map_ok_Inr_iff parse_rfc3339_def [abs_def]
      to_time_iff split: option.splits)

lemma crl_entries_ok:
  "crl_entries p now rows = Inr es \<Longrightarrow>
     map rc_serial_number es = List.map_filter (\<lambda>r. row_serial p (re_serial r)) rows
     \<and> (\<forall>r\<in>set rows. \<forall>s. row_serial p (re_serial r) = Some s \<longrightarrow>
          (\<exists>d. revocation_date p now (re_revoked_at r) = Inr d
             \<and> \<lparr>rc_serial_number = s, rc_revocation_date = d, rc_crl_entry_extensions = None\<rparr> \<in> set es))
     \<and> (\<forall>e\<in>set es. \<exists>r\<in>set rows. row_serial p (re_serial r) = Some (rc_serial_number e)
          \<and> revocation_date p now (re_revoked_at r) = Inr (rc_revocation_date e))"
proof (induction rows arbitrary: es)
  case Nil
  then show ?case by (simp add: map_filter_simps)
next
  case (Cons r rows)
  show ?case
  proof (cases "row_serial p (re_serial r)")
    case None
    then have "crl_entries p now (r # rows) = crl_entries p now rows"
      by (auto simp: row_serial_def to_option_None_iff bind_eq_None_conv split: sum.splits)
    with Cons.prems have "crl_entries p now rows = Inr es" by simp
    from Cons.IH [OF this] None show ?thesis by (simp add: map_filter_simps)
  next
    case (Some s)
    then obtain b where "hex_decode (p_codec p) (re_serial r) = Inr b" "serial_new (p_x509 p) b = Inr s"
      by (auto simp: row_serial_def bind_eq_Some_conv)
    with Cons.prems obtain d rest where d: "revocation_date p now (re_revoked_at r) = Inr d"
      and rest: "crl_entries p now rows = Inr rest"
      and es: "es = \<lparr>rc_serial_number = s, rc_revocation_date = d, rc_crl_entry_extensions = None\<rparr> # rest"
      by (auto simp: try_then_Inr_iff)
    note IH = Cons.IH [OF rest]
    have "map rc_serial_number es = List.map_filter (\<lambda>r. row_serial p (re_serial r)) (r # rows)"
      using IH Some by (simp add: es map_filter_simps)
    moreover have "\<forall>q\<in>set (r # rows). \<forall>u. row_serial p (re_serial q) = Some u \<longrightarrow>
          (\<exists>d. revocation_date p now (re_revoked_at q) = Inr d
             \<and> \<lparr>rc_serial_number = u, rc_revocation_date = d, rc_crl_entry_extensions = None\<rparr> \<in> set es)"
      using IH Some d unfolding es by (metis list.set_intros(1,2) option.inject set_ConsD)
    moreover have "\<forall>e\<in>set es. \<exists>q\<in>set (r # rows). row_serial p (re_serial q) = Some (rc_serial_number e)
          \<and> revocation_date p now (re_revoked_at q) = Inr (rc_revocation_date e)"
      using IH Some d by (simp add: es)
    ultimately show ?thesis by blast
  qed
qed

lemma sign_crl_ok:
  assumes "sign_crl p cl ca now revoked = Inr der"
  shows "\<exists>alg tu nu tbs_der sig bits. to_time p now = Inr tu
    \<and> to_time p (now + 86400000000000) = Inr nu
    \<and> (let tbs = \<lparr>tcl_version = V2, tcl_signature = alg, tcl_issuer = cert_subject (ca_cert ca), tcl_this_update = tu,
            tcl_next_update = Some nu, tcl_revoked_certificates = (if revoked = [] then None else Some revoked),
            tcl_crl_extensions = None\<rparr>
       in tbs_to_der cl tbs = Inr tbs_der \<and> rsa_try_sign (p_rsa p) (ca_private_key ca) tbs_der = Inr sig
          \<and> rsa_signature_bitstring (p_rsa p) sig = Inr bits
          \<and> crl_to_der cl \<lparr>crl_tbs = tbs, crl_signature_algorithm = alg, crl_signature = bits\<rparr> = Inr der)"
  using assms unfolding sign_crl_def Let_def try_then_Inr_iff map_err_Inr_iff CRL_LIFETIME_SECS_def
  by (simp split del: if_split) blast

lemma crl_reads_only: "reads_only w (snd (crl p cl reason state now caid w))"
proof -
  have "reads_only w (snd (build_crl p cl state now caid w))"
    unfolding build_crl_def
    by (intro reads_only_and_then) (simp_all add: reads_only_statement list_revoked_state)
  moreover obtain r w1 where run: "build_crl p cl state now caid w = (r, w1)" by force
  ultimately have "reads_only w w1" by simp
  with run show ?thesis by (cases r) (simp_all add: crl_def)
qed

lemma revoked_rows_registry:
  assumes "db_ok db" and "list_revoked fault ca db = (Inr rows, db1)"
  shows "\<lparr>re_serial = key, re_revoked_at = t, re_reason = n\<rparr> \<in> set rows \<longleftrightarrow> registry db ca key = Revoked t n"
  using revoked_rows_status [OF assms] by blast

lemma build_crl_ok:
  assumes "build_crl p cl state now caid w = (Inr der, w')"
  shows "\<exists>ca rows db es. st_cas state caid = Some ca \<and> list_revoked (p_fault p) caid (w_db w) = (Inr rows, db)
    \<and> crl_entries p now rows = Inr es \<and> sign_crl p cl ca now es = Inr der"
  using assms by (auto simp: build_crl_def and_then_Inr on_db_def split: prod.splits)

lemma crl_entry_iff:
  assumes "crl_entries p now rows = Inr es"
  shows "\<lparr>rc_serial_number = s, rc_revocation_date = d, rc_crl_entry_extensions = None\<rparr> \<in> set es \<longleftrightarrow>
    (\<exists>key t n. \<lparr>re_serial = key, re_revoked_at = t, re_reason = n\<rparr> \<in> set rows \<and> row_serial p key = Some s
       \<and> revocation_date p now t = Inr d)" (is "?e \<in> _ \<longleftrightarrow> ?rhs")
proof
  assume "?e \<in> set es"
  from bspec [OF conjunct2 [OF conjunct2 [OF crl_entries_ok [OF assms]]] this]
  obtain r where r: "r \<in> set rows" "row_serial p (re_serial r) = Some s"
    "revocation_date p now (re_revoked_at r) = Inr d" by auto
  obtain key t n where "r = \<lparr>re_serial = key, re_revoked_at = t, re_reason = n\<rparr>" by (cases r)
  with r show ?rhs by auto
next
  assume ?rhs
  then obtain key t n where r: "\<lparr>re_serial = key, re_revoked_at = t, re_reason = n\<rparr> \<in> set rows"
    and s: "row_serial p key = Some s" and d: "revocation_date p now t = Inr d" by blast
  from bspec [OF conjunct1 [OF conjunct2 [OF crl_entries_ok [OF assms]]] r] have "\<forall>u. row_serial p key = Some u \<longrightarrow> (\<exists>d. revocation_date p now t = Inr d
      \<and> \<lparr>rc_serial_number = u, rc_revocation_date = d, rc_crl_entry_extensions = None\<rparr> \<in> set es)"
    by simp
  with s d show "?e \<in> set es" by auto
qed

lemma revoked_entries:
  assumes "db_ok db" and "list_revoked fault caid db = (Inr rows, db1)" and "crl_entries p now rows = Inr es"
  shows "s \<in> rc_serial_number ` set es \<longleftrightarrow>
    (\<exists>key t n. registry db caid key = Revoked t n \<and> row_serial p key = Some s)"
proof -
  from conjunct1 [OF crl_entries_ok [OF assms(3)]]
  have "rc_serial_number ` set es = set (List.map_filter (\<lambda>r. row_serial p (re_serial r)) rows)"
    by (metis list.set_map)
  then have "s \<in> rc_serial_number ` set es \<longleftrightarrow> (\<exists>r\<in>set rows. row_serial p (re_serial r) = Some s)"
    by (simp add: set_map_filter_iff)
  also have "\<dots> \<longleftrightarrow> (\<exists>key t n. \<lparr>re_serial = key, re_revoked_at = t, re_reason = n\<rparr> \<in> set rows \<and> row_serial p key = Some s)"
    (is "?l \<longleftrightarrow> ?r")
  proof
    assume ?l
    then obtain r where r: "r \<in> set rows" "row_serial p (re_serial r) = Some s" by blast
    obtain key t n where "r = \<lparr>re_serial = key, re_revoked_at = t, re_reason = n\<rparr>" by (cases r)
    with r show ?r by auto
  next
    assume ?r
    then show ?l by force
  qed
  finally show ?thesis using revoked_rows_registry [OF assms(1,2)] by simp
qed

text \<open>
  When every revoked row of a CA is kept under the hexadecimal form of a serial the server issues,
  such a serial is listed exactly when the registry holds it revoked.
\<close>

lemma crl_serials_revoked:
  assumes "db_ok db" and "list_revoked fault caid db = (Inr rows, db1)" and "crl_entries p now rows = Inr es"
    and "serial_new_documented (p_x509 p)"
    and "\<And>b. hex_decode (p_codec p) (hex_encode (p_codec p) b) = Inr b"
    and "\<And>key t n. registry db caid key = Revoked t n \<Longrightarrow> \<exists>b. serial_ok b \<and> key = hex_encode (p_codec p) b"
    and "serial_ok s"
  shows "s \<in> rc_serial_number ` set es \<longleftrightarrow> (\<exists>t n. registry db caid (hex_encode (p_codec p) s) = Revoked t n)"
proof -
  have "row_serial p (hex_encode (p_codec p) b) = Some b" if "serial_ok b" for b
    using assms(4,5) that by (simp add: row_serial_def serial_new_ok)
  with assms(6,7) have "(\<exists>key t n. registry db caid key = Revoked t n \<and> row_serial p key = Some s)
      \<longleftrightarrow> (\<exists>t n. registry db caid (hex_encode (p_codec p) s) = Revoked t n)"
    by (metis option.inject)
  with revoked_entries [OF assms(1-3)] show ?thesis by blast
qed

subsection \<open>A concrete list\<close>

text \<open>
  One certificate, with a serial of sixteen bytes, was revoked at the time \<open>t\<close>; the time
  library reads every date as the one second before 1970 when it is \<open>''1969''\<close>, and as the epoch
  otherwise.
\<close>

definition crl_row :: "string \<Rightarrow> issued_certificate" where
  "crl_row t = (sample_row (text_of (replicate 16 1)))\<lparr>ic_status := STATUS_REVOKED,
     ic_revoked_at := Some t, ic_revocation_reason := Some 1\<rparr>"

definition crl_world :: "string \<Rightarrow> world" where
  "crl_world t = \<lparr>w_db = new_database\<lparr>issued := [crl_row t]\<rparr>, w_intune = new_intune_state\<rparr>"

definition crl_platform :: platform where
  "crl_platform = (ocsp_platform (\<lambda>_. None))
     \<lparr>p_codec := demo_codec\<lparr>hex_decode := (\<lambda>s. Inr (as_bytes s))\<rparr>,
      p_time := demo_time\<lparr>parse_rfc3339_lib := (\<lambda>s. Some (if s = ''1969'' then - 1 else 0))\<rparr>\<rparr>"

definition demo_crl :: crl_lib where
  "demo_crl = \<lparr>tbs_to_der = (\<lambda>tbs. Inr [case tcl_revoked_certificates tbs of None \<Rightarrow> 0 | Some es \<Rightarrow> word_of_nat (length es)]),
     crl_to_der = (\<lambda>c. Inr (crl_signature c))\<rparr>"

lemma crl_platform_fields [simp]:
  "p_x509 crl_platform = demo_x509" "p_codec crl_platform = demo_codec\<lparr>hex_decode := (\<lambda>s. Inr (as_bytes s))\<rparr>"
  "p_rsa crl_platform = demo_rsa"
  "p_fault crl_platform = (\<lambda>_. None)"
  by (simp_all add: crl_platform_def ocsp_platform_def)

lemma crl_world_ok [simp]: "db_ok (w_db (crl_world t))"
  by (simp add: crl_world_def db_ok_def new_database_def row_ok_def crl_row_def)

lemma crl_world_registry:
  "registry (w_db (crl_world t)) ca key =
     (if ca = ''default'' \<and> key = text_of (replicate 16 1) then Revoked (Some t) (Some 1) else Unknown)"
  by (auto simp: registry_def crl_world_def row_matches_def crl_row_def row_status_def)

lemma crl_row_fields [simp]:
  "ic_serial (crl_row t) = text_of (replicate 16 1)" "ic_ca_id (crl_row t) = ''default''"
  "ic_status (crl_row t) = STATUS_REVOKED" "ic_revoked_at (crl_row t) = Some t"
  by (simp_all add: crl_row_def)

lemma crl_world_rows:
  "list_revoked (\<lambda>_. None) ''default'' (w_db (crl_world t)) =
     (Inr [to_revoked_entry (crl_row t)], tick (w_db (crl_world t)))"
  by (simp add: list_revoked_def run_statement_healthy crl_world_def SCHEMA_members)

lemma crl_to_time: "0 \<le> st \<Longrightarrow> \<exists>t. to_time crl_platform st = Inr t"
  by (simp add: to_time_def crl_platform_def demo_time_def)

lemma crl_row_serial: "row_serial crl_platform (text_of (replicate 16 1)) = Some (replicate 16 1)"
  by (simp add: row_serial_def demo_codec_def demo_x509_def)

lemma crl_world_run:
  "\<exists>der w'. build_crl crl_platform demo_crl ocsp_state 0 ''default'' (crl_world ''2026'') = (Inr der, w')"
proof -
  obtain t0 t1 where t: "to_time crl_platform 0 = Inr t0" "to_time crl_platform 86400000000000 = Inr t1"
    using crl_to_time [of 0] crl_to_time [of 86400000000000] by auto
  have "parse_rfc3339 crl_platform ''2026'' = Some 0"
    by (simp add: parse_rfc3339_def crl_platform_def)
  then have "revocation_date crl_platform 0 (Some ''2026'') = Inr t0" by (simp add: revocation_date_def t)
  then have "\<exists>es. crl_entries crl_platform 0 [to_revoked_entry (crl_row ''2026'')] = Inr es"
    by (simp add: to_revoked_entry_def demo_codec_def demo_x509_def)
  moreover have "\<exists>der. sign_crl crl_platform demo_crl default_ca 0 es = Inr der" for es
    by (simp add: sign_crl_def Let_def t CRL_LIFETIME_SECS_def demo_rsa_def demo_crl_def)
  ultimately show ?thesis
    by (auto simp: build_crl_def and_then_def on_db_def ocsp_state_def crl_world_rows)
qed

subsection \<open>Properties\<close>



text \<open>
  One unusable date blocks the whole list.  If any revoked certificate of the CA carries a
  revocation time that parses but is not representable (a time before 1970 is not), no CRL is
  returned at all: clients keep the last one until it expires, although the other entries and
  the other CAs are fine.
\<close>

theorem one_bad_date_blocks_crl:
  assumes "db_ok (w_db w)" and "registry (w_db w) caid key = Revoked (Some t) n"
    and "row_serial p key = Some s" and "parse_rfc3339 p t = Some st" and "to_time p st = Inl e"
  shows "\<not> is_ok (fst (build_crl p cl state now caid w))"
proof
  assume "is_ok (fst (build_crl p cl state now caid w))"
  then obtain der w' where "build_crl p cl state now caid w = (Inr der, w')"
    by (metis is_ok_iff prod.collapse)
  from build_crl_ok [OF this] obtain rows db es where rows: "list_revoked (p_fault p) caid (w_db w) = (Inr rows, db)"
    and es: "crl_entries p now rows = Inr es" by blast
  from revoked_rows_registry [OF assms(1) rows] assms(2)
  have "\<lparr>re_serial = key, re_revoked_at = Some t, re_reason = n\<rparr> \<in> set rows" by blast
  from bspec [OF conjunct1 [OF conjunct2 [OF crl_entries_ok [OF es]]] this] assms(3)
  obtain d where "revocation_date p now (Some t) = Inr d" by auto
  then show False using assms(4,5) by (simp add: revocation_date_def)
qed


lemma one_bad_date_blocks_crl_witness:
  "\<not> is_ok (fst (build_crl crl_platform demo_crl ocsp_state 0 ''default'' (crl_world ''1969'')))"
proof -
  have reg: "registry (w_db (crl_world ''1969'')) ''default'' (text_of (replicate 16 1)) = Revoked (Some ''1969'') (Some 1)"
    by (simp add: crl_world_registry)
  have "parse_rfc3339 crl_platform ''1969'' = Some (- 1)"
    by (simp add: parse_rfc3339_def crl_platform_def)
  moreover have "to_time crl_platform (- 1) = Inl (crypto (''bad time: '' @ ''before 1970''))"
    by (simp add: to_time_def crl_platform_def demo_time_def)
  ultimately show ?thesis by (rule one_bad_date_blocks_crl [OF crl_world_ok reg crl_row_serial])
qed

end
