(* ===== verification/System.thy ===== *)
theory System
  imports App Enrolment CrlHandler
begin

text \<open>
  The server as a whole: \<open>router\<close> of \<open>http/mod.rs\<close> leading each request to its handler, and
  the histories of a running server, in which requests and the revocations of an operator
  (\<open>repo::revoke\<close>, which no route reaches) follow one another in any order.  Requests are
  served one after the other; \<open>Recorders\<close> treats the one place where the statements of two
  requests can interfere.
\<close>

text \<open>
  axum answers HEAD like GET, without the body, so HEAD counts as GET here; \<open>OtherMethod\<close> is
  any method but these three.
\<close>

datatype http_method = GET | POST | OtherMethod

record http_call =
  hc_method :: http_method
  hc_path :: "string list"
  hc_query :: "string \<Rightarrow> string option"
  hc_body :: bytes

text \<open>
  What is fixed while the server runs: the shared state, the libraries, the status texts of
  \<open>StatusCode\<close>, the key order of the two maps and the JSON encoder.
\<close>

record server =
  sv_platform :: platform
  sv_ocsp :: ocsp_lib
  sv_crl :: crl_lib
  sv_state :: app_state
  sv_reason :: "nat \<Rightarrow> string option"
  sv_ca_keys :: "string list"
  sv_profile_keys :: "string list"
  sv_json :: "health_report \<Rightarrow> bytes"

text \<open>\<open>AppResult<Response>::into_response\<close>\<close>

definition reply_of :: "server \<Rightarrow> http_response handler \<Rightarrow> world \<Rightarrow> http_response \<times> world" where
  "reply_of sv m w =
     (case m w of (Inr resp, w1) \<Rightarrow> (resp, w1) | (Inl e, w1) \<Rightarrow> (into_response (sv_reason sv) e, w1))"

definition json_response :: "bytes \<Rightarrow> http_response" where
  "json_response body = \<lparr>resp_status = 200, resp_content_type = Some ''application/json'', resp_body = body\<rparr>"

text \<open>axum's answers when no route matches the path, and when the route has no such method.\<close>

definition no_route :: http_response where
  "no_route = \<lparr>resp_status = 404, resp_content_type = None, resp_body = []\<rparr>"

definition no_method :: http_response where
  "no_method = \<lparr>resp_status = 405, resp_content_type = None, resp_body = []\<rparr>"

definition serve :: "server \<Rightarrow> request_env \<Rightarrow> (nat \<Rightarrow> system_time) \<Rightarrow> http_call \<Rightarrow> world \<Rightarrow> http_response \<times> world" where
  "serve sv env clock call w =
     (case router (hc_path call) of
        None \<Rightarrow> (no_route, w)
      | Some RHealth \<Rightarrow>
          (case hc_method call of
             GET \<Rightarrow> (json_response (sv_json sv (health (sv_ca_keys sv) (sv_profile_keys sv))), w)
           | _ \<Rightarrow> (no_method, w))
      | Some (RScep profile) \<Rightarrow>
          (case hc_method call of
             GET \<Rightarrow> reply_of sv (scep_get (sv_platform sv) (sv_state sv) env profile (hc_query call)) w
           | POST \<Rightarrow> reply_of sv (scep_post (sv_platform sv) (sv_state sv) env profile (hc_query call) (hc_body call)) w
           | OtherMethod \<Rightarrow> (no_method, w))
      | Some (ROcspRoot ca) \<Rightarrow>
          (case hc_method call of
             GET \<Rightarrow> (ocsp_get_root, w)
           | POST \<Rightarrow> ocsp_post (sv_platform sv) (sv_ocsp sv) (sv_reason sv) (sv_state sv) clock ca (hc_body call) w
           | OtherMethod \<Rightarrow> (no_method, w))
      | Some (ROcsp ca b64) \<Rightarrow>
          (case hc_method call of
             GET \<Rightarrow> ocsp_get (sv_platform sv) (sv_ocsp sv) (sv_reason sv) (sv_state sv) clock ca b64 w
           | _ \<Rightarrow> (no_method, w))
      | Some (RCrl ca) \<Rightarrow>
          (case hc_method call of
             GET \<Rightarrow> crl (sv_platform sv) (sv_crl sv) (sv_reason sv) (sv_state sv) (clock 0) ca w
           | _ \<Rightarrow> (no_method, w)))"

text \<open>What happens to a running server: a request, or a revocation by an operator.\<close>

datatype event =
    Call request_env "nat \<Rightarrow> system_time" http_call
  | OperatorRevoke string string int string

fun server_step :: "server \<Rightarrow> event \<Rightarrow> world \<Rightarrow> world" where
  "server_step sv (Call env clock call) w = snd (serve sv env clock call w)"
| "server_step sv (OperatorRevoke ca serial reason t) w =
     snd (on_db (revoke (p_fault (sv_platform sv)) ca serial reason t) w)"

subsection \<open>Calls that only read\<close>

text \<open>The requests that can reach \<open>pki_operation\<close>.\<close>

definition enrols :: "http_call \<Rightarrow> bool" where
  "enrols call \<longleftrightarrow> (\<exists>profile. router (hc_path call) = Some (RScep profile))
     \<and> (hc_method call = GET \<and> hc_query call ''operation'' = Some ''PKIOperation''
        \<or> hc_method call = POST \<and> hc_query call ''operation'' \<in> {None, Some ''PKIOperation''})"

lemma reply_of_snd [simp]: "snd (reply_of sv m w) = snd (m w)"
  by (cases "m w"; cases "fst (m w)") (simp_all add: reply_of_def)

lemma scep_get_quiet:
  "params ''operation'' \<noteq> Some ''PKIOperation'' \<Longrightarrow> snd (scep_get p state env profile params w) = w"
  by (auto simp: scep_get_def Let_def split: option.splits)

lemma scep_post_quiet:
  "params ''operation'' \<notin> {None, Some ''PKIOperation''} \<Longrightarrow> snd (scep_post p state env profile params body w) = w"
  by (auto simp: scep_post_def Let_def split: option.splits)

lemma serve_reads_only: "\<not> enrols call \<Longrightarrow> reads_only w (snd (serve sv env clock call w))"
  by (cases "router (hc_path call)"; cases "the (router (hc_path call))"; cases "hc_method call")
     (auto simp: serve_def enrols_def scep_get_quiet scep_post_quiet respond_reads_only crl_reads_only
        ocsp_post_def ocsp_get_def split: sum.split)


subsection \<open>Steps as calls on the database\<close>

text \<open>The documentation of the libraries, and identifiers that agree with the keys of the map.\<close>

definition server_ok :: "server \<Rightarrow> bool" where
  "server_ok sv \<longleftrightarrow>
     serial_new_documented (p_x509 (sv_platform sv)) \<and> builder_documented (p_x509 (sv_platform sv))
     \<and> ia5_documented (p_der (sv_platform sv))
     \<and> (\<forall>i ca. st_cas (sv_state sv) i = Some ca \<longrightarrow> ca_id ca = i)"

text \<open>A row the server can answer for: its CA is served, its key a serial the server generates.\<close>

definition row_served :: "server \<Rightarrow> issued_certificate \<Rightarrow> bool" where
  "row_served sv r \<longleftrightarrow>
     st_cas (sv_state sv) (ic_ca_id r) \<noteq> None
     \<and> (\<exists>b. serial_ok b \<and> ic_serial r = hex_encode (p_codec (sv_platform sv)) b)"

text \<open>The database calls an event may make.\<close>

fun event_call :: "server \<Rightarrow> event \<Rightarrow> db_event \<Rightarrow> bool" where
  "event_call sv e (InsertIssued c) \<longleftrightarrow> fresh_row c \<and> row_served sv c"
| "event_call sv e (RevokeSerial ca s n t) \<longleftrightarrow> e = OperatorRevoke ca s n t"
| "event_call sv e call \<longleftrightarrow> True"

lemma event_call_ok: "event_call sv e c \<Longrightarrow> db_event_ok c"
  by (cases c) auto

lemma issued_record_served:
  assumes "server_ok sv" and "p = sv_platform sv" and "st_cas (sv_state sv) i = Some ca"
    and "issues p (sv_state sv) env rt ca csr leaf der"
  shows "row_served sv (issued_record p env rt ca parsed leaf der)"
proof -
  from assms(4) have leaf: "issue (p_der p) (p_x509 p) (p_time p) (rq_issue_time env) (rq_serial_rng env) ca (pc_req csr)
       (issue_options_of (sv_state sv) rt) = Inr leaf" by (simp add: issues_def)
  have "builder_documented (p_x509 p)" "ia5_documented (p_der p)" "serial_new_documented (p_x509 p)"
    using assms(1,2) by (simp_all add: server_ok_def)
  with issue_builds [OF this(1,2) leaf] have "cert_serial_number leaf = serial_bytes (rq_serial_rng env)"
    by (auto simp: random_serial_value)
  then show ?thesis
    using assms(1-3) serial_bytes_ok
    by (auto simp: row_served_def issued_record_def serial_hex_def server_ok_def)
qed

lemma pki_calls:
  assumes "server_ok sv"
  shows "\<exists>cs. list_all (event_call sv e) cs
    \<and> w_db (snd (pki_operation (sv_platform sv) (sv_state sv) env profile body w)) =
        fold (db_step (p_fault (sv_platform sv))) cs (w_db w)"
proof (cases rule: pki_db_outcomes [of "sv_platform sv" "sv_state sv" env profile body w])
  case untouched
  then show ?thesis by (intro exI [of _ "[]"]) simp
next
  case (rejected rt ca parsed csr)
  then show ?thesis
    by (intro exI [of _ "[RecordTransaction (req_transaction_id parsed) (rt_name rt) ''failed'' ''PKCSReq''
      (now_utc (sv_platform sv) (rq_record_time env))]"]) simp
next
  case (issued rt ca parsed csr leaf der)
  let ?p = "sv_platform sv"
  let ?rec = "issued_record ?p env rt ca parsed leaf der"
  from issued(1) have "st_cas (sv_state sv) (rt_ca_id rt) = Some ca"
    by (auto simp: opened_request_def enveloped_request_def)
  from issued_record_served [OF assms refl this issued(3)] have ok: "event_call sv e (InsertIssued ?rec)"
    by (simp add: issued_record_fresh)
  obtain r db where run: "insert_issued (p_fault ?p) ?rec (w_db w) = (r, db)" by force
  show ?thesis
  proof (cases r)
    case (Inl err)
    with ok run issued(4) show ?thesis
      by (intro exI [of _ "[InsertIssued ?rec]"]) (simp add: persist_db)
  next
    case (Inr u)
    with ok run issued(4) show ?thesis
      by (intro exI [of _ "[InsertIssued ?rec, RecordTransaction (req_transaction_id parsed) (rt_name rt) ''issued''
        ''PKCSReq'' (now_utc ?p (rq_record_time env))]"]) (simp add: persist_db)
  qed
qed

lemma scep_calls:
  "(snd (scep_get p state env profile params w) = w
      \<or> (\<exists>body. snd (scep_get p state env profile params w) = snd (pki_operation p state env profile body w)))
   \<and> (snd (scep_post p state env profile params body w) = w
      \<or> snd (scep_post p state env profile params body w) = snd (pki_operation p state env profile body w))"
proof
  show "snd (scep_get p state env profile params w) = w
      \<or> (\<exists>body. snd (scep_get p state env profile params w) = snd (pki_operation p state env profile body w))"
  proof (cases "params ''operation'' = Some ''PKIOperation''")
    case False
    then show ?thesis by (simp add: scep_get_quiet)
  next
    case True
    show ?thesis
    proof (cases "params ''message''")
      case None
      with True show ?thesis by (simp add: scep_get_def)
    next
      case (Some m)
      with True show ?thesis
        by (cases "base64_decode (p_codec p) (as_bytes m)")
           (auto simp: scep_get_def snd_and_then_pure simp del: as_bytes_simps)
    qed
  qed
  show "snd (scep_post p state env profile params body w) = w
      \<or> snd (scep_post p state env profile params body w) = snd (pki_operation p state env profile body w)"
    by (auto simp: scep_post_def Let_def snd_and_then_pure)
qed


lemma server_step_calls:
  assumes "server_ok sv"
  shows "reads_only w (server_step sv e w)
    \<or> (\<exists>cs. list_all (event_call sv e) cs
         \<and> w_db (server_step sv e w) = fold (db_step (p_fault (sv_platform sv))) cs (w_db w))"
proof (cases e)
  case (OperatorRevoke ca s n t)
  then show ?thesis
    by (intro disjI2 exI [of _ "[RevokeSerial ca s n t]"]) simp
next
  case (Call env clock call)
  let ?p = "sv_platform sv" and ?st = "sv_state sv"
  show ?thesis
  proof (cases "enrols call")
    case False
    with Call show ?thesis by (simp add: serve_reads_only)
  next
    case True
    then obtain profile where "router (hc_path call) = Some (RScep profile)"
      "hc_method call = GET \<or> hc_method call = POST" by (auto simp: enrols_def)
    then have "snd (serve sv env clock call w) = w
        \<or> (\<exists>body. snd (serve sv env clock call w) = snd (pki_operation ?p ?st env profile body w))"
      using scep_calls [of ?p ?st env profile "hc_query call" w "hc_body call"]
      by (auto simp: serve_def)
    with Call show ?thesis using pki_calls [OF assms] by auto
  qed
qed

subsection \<open>The invariant of a running server\<close>

definition server_inv :: "server \<Rightarrow> world \<Rightarrow> bool" where
  "server_inv sv w \<longleftrightarrow> server_ok sv \<and> db_ok (w_db w) \<and> (\<forall>r\<in>set (issued (w_db w)). row_served sv r)"

lemma calls_inv:
  assumes "db_ok db" and "\<forall>r\<in>set (issued db). row_served sv r" and "list_all (event_call sv e) cs"
  shows "db_ok (fold (db_step fault) cs db) \<and> (\<forall>r\<in>set (issued (fold (db_step fault) cs db)). row_served sv r)"
  using assms
proof (induction cs arbitrary: db)
  case Nil
  then show ?case by simp
next
  case (Cons c cs)
  then have ok: "db_event_ok c" "event_call sv e c" by (auto dest: event_call_ok)
  have "db_ok (db_step fault c db)" using Cons.prems(1) ok(1) by (rule db_history.step_inv)
  moreover have "row_served sv r" if "r \<in> set (issued (db_step fault c db))" for r
    using db_step_rows [OF that]
  proof
    assume "c = InsertIssued r"
    with ok(2) show ?thesis by simp
  next
    assume "\<exists>r0\<in>set (issued db). ic_ca_id r = ic_ca_id r0 \<and> ic_serial r = ic_serial r0"
    with Cons.prems(2) show ?thesis by (metis row_served_def)
  qed
  ultimately have "db_ok (fold (db_step fault) cs (db_step fault c db))
      \<and> (\<forall>r\<in>set (issued (fold (db_step fault) cs (db_step fault c db))). row_served sv r)"
    by (intro Cons.IH) (use Cons.prems(3) in auto)
  then show ?case by simp
qed

lemma calls_allowed: "list_all (event_call sv e) cs \<Longrightarrow> list_all db_event_ok cs"
  by (erule list.pred_mono_strong) (rule event_call_ok)

interpretation server: status_machine "server_inv sv" "\<lambda>w. registry (w_db w)" "\<lambda>_. True" "server_step sv" for sv
proof
  fix w e ca n t r
  assume "server_inv sv w"
  then have ok: "server_ok sv" "db_ok (w_db w)" "\<forall>r\<in>set (issued (w_db w)). row_served sv r"
    by (simp_all add: server_inv_def)
  from server_step_calls [OF ok(1)] consider
      (read) "reads_only w (server_step sv e w)"
    | (calls) cs where "list_all (event_call sv e) cs"
        "w_db (server_step sv e w) = fold (db_step (p_fault (sv_platform sv))) cs (w_db w)" by blast
  note step = this
  show "server_inv sv (server_step sv e w)"
    by (cases rule: step) (use ok in \<open>simp_all add: server_inv_def reads_only_db calls_inv\<close>)
  show "registry (w_db (server_step sv e w)) ca n = Revoked t r" if "registry (w_db w) ca n = Revoked t r"
    by (cases rule: step) (use ok(2) that in \<open>simp_all add: reads_only_db db_history.run_revoked calls_allowed\<close>)
  show "registry (w_db (server_step sv e w)) ca n \<noteq> Unknown" if "registry (w_db w) ca n \<noteq> Unknown"
    by (cases rule: step) (use ok(2) that in \<open>simp_all add: reads_only_db db_history.run_known calls_allowed\<close>)
qed

subsection \<open>The life of a certificate\<close>

text \<open>
  The states of a certificate under a CA, and the only steps between them: it is issued, and the
  operator may revoke it.  \<open>asked\<close> are the revocations that were asked for.
\<close>

inductive life_step :: "(int \<times> string) set \<Rightarrow> revocation_status \<Rightarrow> revocation_status \<Rightarrow> bool" for asked where
  life_issued: "life_step asked Unknown Good"
| life_revoked: "(n, t) \<in> asked \<Longrightarrow> life_step asked Good (Revoked (Some t) (Some n))"

inductive_cases life_stepE: "life_step asked st st'"
inductive_simps life_step_simps:
  "life_step asked Unknown st" "life_step asked Good st" "life_step asked (Revoked t n) st"

lemma life_step_mono: "life_step A st st' \<Longrightarrow> A \<subseteq> B \<Longrightarrow> life_step B st st'"
  by (elim life_stepE) (auto intro: life_step.intros)

abbreviation life_path :: "(int \<times> string) set \<Rightarrow> revocation_status \<Rightarrow> revocation_status \<Rightarrow> bool" where
  "life_path asked \<equiv> (life_step asked)\<^sup>*\<^sup>*"

lemma life_path_issued: "life_path asked Unknown Good"
  by (rule r_into_rtranclp) (rule life_issued)

lemma life_path_revoked: "(n, t) \<in> asked \<Longrightarrow> life_path asked Good (Revoked (Some t) (Some n))"
  by (rule r_into_rtranclp) (rule life_revoked)

lemma life_path_mono: "life_path A st st' \<Longrightarrow> A \<subseteq> B \<Longrightarrow> life_path B st st'"
  by (induction rule: rtranclp_induct) (auto intro: rtranclp.rtrancl_into_rtrancl life_step_mono)

lemma revoked_is_final: "life_path asked (Revoked t n) st \<Longrightarrow> st = Revoked t n"
  by (induction rule: rtranclp_induct) (auto simp: life_step_simps)

definition asked_by :: "event list \<Rightarrow> string \<Rightarrow> string \<Rightarrow> (int \<times> string) set" where
  "asked_by es ca s = {(n, t). OperatorRevoke ca s n t \<in> set es}"

lemma calls_life:
  assumes "db_ok db" and "list_all (event_call sv e) cs"
  shows "life_path (asked_by [e] ca s) (registry db ca s) (registry (fold (db_step fault) cs db) ca s)"
  using assms
proof (induction cs arbitrary: db)
  case Nil
  then show ?case by simp
next
  case (Cons c cs)
  then have ok: "db_event_ok c" "event_call sv e c" by (auto dest: event_call_ok)
  have "life_path (asked_by [e] ca s) (registry db ca s) (registry (db_step fault c db) ca s)"
    using db_step_change [OF Cons.prems(1) ok(1), of fault ca s] ok(2)
    by (auto simp: asked_by_def life_path_issued life_path_revoked)
  moreover have "db_ok (db_step fault c db)" using Cons.prems(1) ok(1) by (rule db_history.step_inv)
  ultimately show ?case using Cons by (auto intro: rtranclp_trans)
qed

lemma server_step_life:
  assumes "server_inv sv w"
  shows "life_path (asked_by [e] ca s) (registry (w_db w) ca s) (registry (w_db (server_step sv e w)) ca s)"
proof -
  have ok: "server_ok sv" "db_ok (w_db w)" using assms by (simp_all add: server_inv_def)
  from server_step_calls [OF ok(1)] show ?thesis
  proof
    assume "reads_only w (server_step sv e w)"
    then show ?thesis by (simp add: reads_only_db)
  next
    assume "\<exists>cs. list_all (event_call sv e) cs
         \<and> w_db (server_step sv e w) = fold (db_step (p_fault (sv_platform sv))) cs (w_db w)"
    then show ?thesis using calls_life [OF ok(2)] by auto
  qed
qed

lemma run_life:
  "server_inv sv w \<Longrightarrow>
     life_path (asked_by es ca s) (registry (w_db w) ca s) (registry (w_db (fold (server_step sv) es w)) ca s)"
proof (induction es arbitrary: w)
  case Nil
  then show ?case by simp
next
  case (Cons e es)
  have "asked_by [e] ca s \<subseteq> asked_by (e # es) ca s" "asked_by es ca s \<subseteq> asked_by (e # es) ca s"
    by (auto simp: asked_by_def)
  with Cons.IH [OF server.step_inv [OF Cons.prems, of e]] server_step_life [OF Cons.prems, of e ca s]
  show ?case by (auto intro: rtranclp_trans life_path_mono)
qed

subsection \<open>Facts the properties rest on\<close>

lemma registry_row: "registry db ca s \<noteq> Unknown \<Longrightarrow> \<exists>r\<in>set (issued db). ic_ca_id r = ca \<and> ic_serial r = s"
  by (auto simp: registry_def row_matches_def split: option.splits dest!: find_SomeD)

lemma error_status_bounds: "error_status e \<noteq> 200" "500 \<le> error_status e \<longleftrightarrow> is_server_error (error_status e)"
  by (cases e; simp add: is_server_error_def)+

lemma into_response_status [simp]: "resp_status (into_response reason e) = error_status e"
  by (simp add: into_response_def Let_def)

definition hides_detail :: "(nat \<Rightarrow> string option) \<Rightarrow> http_response \<Rightarrow> bool" where
  "hides_detail reason r \<longleftrightarrow> resp_status r < 500
     \<or> resp_body r = as_bytes (case reason (resp_status r) of Some t \<Rightarrow> t | None \<Rightarrow> ''error'')"

lemma into_response_hides: "hides_detail reason (into_response reason e)"
proof (cases "is_server_error (error_status e)")
  case True
  then show ?thesis by (simp add: hides_detail_def into_response_def Let_def split: option.split)
next
  case False
  with error_status_bounds(2) [of e] show ?thesis by (simp add: hides_detail_def)
qed

lemma hides_detail_small: "resp_status r < 500 \<Longrightarrow> hides_detail reason r"
  by (simp add: hides_detail_def)

lemma reply_of_hides:
  "(\<And>r. fst (m w) = Inr r \<Longrightarrow> resp_status r < 500) \<Longrightarrow> hides_detail (sv_reason sv) (fst (reply_of sv m w))"
  by (cases "m w"; cases "fst (m w)") (simp_all add: reply_of_def into_response_hides hides_detail_small)

lemma scep_get_status: "fst (scep_get p state env profile params w) = Inr r \<Longrightarrow> resp_status r = 200"
proof -
  assume "fst (scep_get p state env profile params w) = Inr r"
  then obtain w' where "scep_get p state env profile params w = (Inr r, w')" by (metis prod.collapse)
  then show ?thesis
    by (auto simp: scep_get_def Let_def and_then_Inr get_ca_cert_def try_then_Inr_iff text_response_def
        bytes_response_def split: if_splits)
qed

lemma scep_post_status: "fst (scep_post p state env profile params body w) = Inr r \<Longrightarrow> resp_status r = 200"
proof -
  assume "fst (scep_post p state env profile params body w) = Inr r"
  then obtain w' where "scep_post p state env profile params body w = (Inr r, w')" by (metis prod.collapse)
  then show ?thesis by (auto simp: scep_post_def Let_def and_then_Inr bytes_response_def split: if_splits)
qed

lemma respond_hides: "hides_detail reason (fst (respond p ol reason state clock ca req w))"
  by (cases "build_response p ol state clock ca req w"; cases "fst (build_response p ol state clock ca req w)")
     (simp_all add: respond_def into_response_hides hides_detail_small)

lemma crl_hides: "hides_detail reason (fst (crl p cl reason state now ca w))"
  by (cases "build_crl p cl state now ca w"; cases "fst (build_crl p cl state now ca w)")
     (simp_all add: crl_def into_response_hides hides_detail_small)

lemma crl_success:
  "crl p cl reason state now ca w = (r, w') \<Longrightarrow> resp_status r = 200 \<Longrightarrow>
     build_crl p cl state now ca w = (Inr (resp_body r), w')"
  by (cases "build_crl p cl state now ca w"; cases "fst (build_crl p cl state now ca w)")
     (auto simp: crl_def error_status_bounds)

lemma respond_success:
  "respond p ol reason state clock ca req w = (r, w') \<Longrightarrow> resp_status r = 200 \<Longrightarrow>
     build_response p ol state clock ca req w = (Inr (resp_body r), w')"
  by (cases "build_response p ol state clock ca req w"; cases "fst (build_response p ol state clock ca req w)")
     (auto simp: respond_def error_status_bounds)

lemma answers_status:
  "single \<in> set (answers p clock reg ca tu nu n cids) \<Longrightarrow>
     (\<exists>d. sr_status single = CertRevoked d)
     \<longleftrightarrow> (\<exists>t k. reg ca (hex_encode (p_codec p) (cid_serial_number (sr_cert_id single))) = Revoked t k)"
proof -
  assume "single \<in> set (answers p clock reg ca tu nu n cids)"
  then obtain i cid where "sr_cert_id single = cid"
    "sr_status single = reported_status p (clock i) (reg ca (hex_encode (p_codec p) (cid_serial_number cid)))"
    by (auto simp: answers_def)
  then show ?thesis
    by (cases "reg ca (hex_encode (p_codec p) (cid_serial_number cid))")
       (auto simp: reported_status_def split: option.split)
qed

lemma url_path:
  assumes "CHR ''/'' \<notin> set a" and "CHR ''/'' \<notin> set b"
  shows "split_on (CHR ''/'') (CHR ''/'' # a @ CHR ''/'' # b) = [[], a, b]"
  by (simp add: split_on_sep [OF assms(1)] split_on_no_sep [OF assms(2)])

lemma revoked_key_served:
  assumes "server_inv sv w" and "registry (w_db w) ca key = Revoked t n"
  shows "\<exists>b. serial_ok b \<and> key = hex_encode (p_codec (sv_platform sv)) b"
proof -
  have "registry (w_db w) ca key \<noteq> Unknown" using assms(2) by simp
  from registry_row [OF this] assms(1) show ?thesis by (auto simp: server_inv_def row_served_def)
qed

subsection \<open>A concrete server\<close>

definition sys_server :: server where
  "sys_server =
     \<lparr>sv_platform = crl_platform, sv_ocsp = demo_ocsp, sv_crl = demo_crl, sv_state = ocsp_state, sv_reason = (\<lambda>_. None),
      sv_ca_keys = [''default''], sv_profile_keys = [], sv_json = (\<lambda>_. [])\<rparr>"

lemma sys_server_fields [simp]:
  "sv_platform sys_server = crl_platform" "sv_ocsp sys_server = demo_ocsp" "sv_crl sys_server = demo_crl"
  "sv_state sys_server = ocsp_state"
  by (simp_all add: sys_server_def)

definition get_call :: "string list \<Rightarrow> http_call" where
  "get_call path = \<lparr>hc_method = GET, hc_path = path, hc_query = Map.empty, hc_body = []\<rparr>"

definition post_call :: "string list \<Rightarrow> bytes \<Rightarrow> http_call" where
  "post_call path body = \<lparr>hc_method = POST, hc_path = path, hc_query = Map.empty, hc_body = body\<rparr>"

lemma call_fields [simp]:
  "hc_method (get_call path) = GET" "hc_path (get_call path) = path"
  "hc_method (post_call path b) = POST" "hc_path (post_call path b) = path" "hc_body (post_call path b) = b"
  by (simp_all add: get_call_def post_call_def)

lemma sys_world_inv: "server_inv sys_server (crl_world t)"
proof -
  have "p_der crl_platform = demo_der" by (simp add: crl_platform_def ocsp_platform_def)
  then have "server_ok sys_server"
    by (simp add: server_ok_def demo_serial_documented demo_builder_documented demo_ia5_documented ocsp_state_def default_ca_def)
  moreover have "serial_ok (replicate 16 1)" by (simp add: serial_ok_def bit_1_iff)
  then have "row_served sys_server (crl_row t)"
    by (auto simp: row_served_def ocsp_state_def demo_codec_def)
  ultimately show ?thesis by (simp add: server_inv_def) (simp add: crl_world_def)
qed

lemma sys_hex: "hex_decode (p_codec (sv_platform sys_server)) (hex_encode (p_codec (sv_platform sys_server)) b) = Inr b"
  by (simp add: demo_codec_def)

lemma boot_server_ok: "serial_new_documented (p_x509 boot_platform)" "builder_documented (p_x509 boot_platform)"
  "ia5_documented (p_der boot_platform)"
proof -
  show "builder_documented (p_x509 boot_platform)"
    using demo_builder_documented by (simp add: builder_documented_def boot_x509_def)
qed (simp_all add: boot_serial boot_platform_def demo_ia5_documented)

subsection \<open>Properties\<close>

text \<open>
  C8: the server keeps its invariant from the first request on.  After start-up, on a
  database whose rows are the server's own, and after any sequence of requests and revocations,
  whatever the database and the network do: the keys of the tables are unique, every row has the status and dates of a valid or of a revoked certificate, its CA is one the server
  serves, and its key is the hexadecimal form of a positive sixteen-byte serial.
\<close>

theorem server_keeps_its_invariant:
  assumes "build_state h p connect_pool s st = (Inr (state, db), st')"
    and "sv_platform sv = p" and "sv_state sv = state"
    and "serial_new_documented (p_x509 p)" and "builder_documented (p_x509 p)" and "ia5_documented (p_der p)"
    and "db_ok db" and "\<forall>r\<in>set (issued db). row_served sv r"
  shows "server_inv sv (fold (server_step sv) es \<lparr>w_db = db, w_intune = new_intune_state\<rparr>)"
proof -
  from assms(1,3) obtain st1 where cas: "load_cas h p (set_ca s) Map.empty st = (Inr (st_cas (sv_state sv)), st1)"
    by (auto simp: build_state_ok)
  have "server_ok sv"
    using assms(2-6) load_cas_ok [OF cas] by (simp add: server_ok_def)
  with assms(7,8) have "server_inv sv \<lparr>w_db = db, w_intune = new_intune_state\<rparr>"
    by (simp add: server_inv_def)
  then show ?thesis by (rule server.run_inv) (simp add: list.pred_True)
qed

lemma server_keeps_its_invariant_witness:
  "\<exists>sv. sv_platform sv = boot_platform \<and> st_cas (sv_state sv) ''default'' \<noteq> None
     \<and> server_inv sv (fold (server_step sv) [OperatorRevoke ''default'' ''aa'' 1 ''2026'']
          \<lparr>w_db = new_database\<lparr>db_calls := 2\<rparr>, w_intune = new_intune_state\<rparr>)"
proof -
  obtain state where run: "build_state boot_host boot_platform (\<lambda>_. Inr new_database)
      (boot_settings ''BLAPKI_SECRET'') boot_start = (Inr (state, new_database\<lparr>db_calls := 2\<rparr>), booted_state)"
    using boot_run by blast
  then obtain cas st1 where cas: "load_cas boot_host boot_platform [example_ca] Map.empty boot_start = (Inr cas, st1)"
    "st_cas state = cas" by (auto simp: build_state_ok boot_settings_def)
  from load_cas_ok [OF cas(1)] have known: "st_cas state ''default'' \<noteq> None" by (auto simp: cas(2) boot_material(3))
  let ?sv = "sys_server\<lparr>sv_platform := boot_platform, sv_state := state\<rparr>"
  have "db_ok (new_database\<lparr>db_calls := 2\<rparr>)" by (simp add: db_ok_def)
  then have "server_inv ?sv (fold (server_step ?sv) [OperatorRevoke ''default'' ''aa'' 1 ''2026'']
      \<lparr>w_db = new_database\<lparr>db_calls := 2\<rparr>, w_intune = new_intune_state\<rparr>)"
    by (intro server_keeps_its_invariant [OF run]) (simp_all only: boot_server_ok, simp_all)
  with known show ?thesis by (intro exI [of _ ?sv]) simp
qed

text \<open>
  C9: the life of a certificate.  Over any sequence of requests and revocations the status of a
  certificate moves only from unknown to good, by being issued, and from good to revoked, by a
  revocation an operator asked for, with exactly its time and reason; a revoked certificate stays
  as it is, and a good one stays good as long as nobody asks for its revocation.
\<close>

theorem certificate_life_cycle:
  assumes "server_inv sv w" and "w' = fold (server_step sv) es w"
  shows "life_path (asked_by es ca s) (registry (w_db w) ca s) (registry (w_db w') ca s)
    \<and> (registry (w_db w) ca s = Revoked t n \<longrightarrow> registry (w_db w') ca s = Revoked t n)
    \<and> (registry (w_db w') ca s = Revoked t n \<and> registry (w_db w) ca s \<noteq> Revoked t n \<longrightarrow>
         (\<exists>t' n'. t = Some t' \<and> n = Some n' \<and> OperatorRevoke ca s n' t' \<in> set es))
    \<and> (registry (w_db w) ca s = Good \<and> (\<forall>n t. OperatorRevoke ca s n t \<notin> set es) \<longrightarrow> registry (w_db w') ca s = Good)"
proof -
  note path = run_life [OF assms(1), of es ca s, folded assms(2)]
  have good: "life_path A Good st \<Longrightarrow> st = Good \<or> (\<exists>k u. (k, u) \<in> A \<and> st = Revoked (Some u) (Some k))" for A st
    by (induction rule: rtranclp_induct) (auto elim: life_stepE)
  have any: "life_path A st st' \<Longrightarrow> st' = st \<or> st' = Good \<or> (\<exists>k u. (k, u) \<in> A \<and> st' = Revoked (Some u) (Some k))" for A st st'
    by (induction rule: rtranclp_induct) (auto elim: life_stepE)
  have "registry (w_db w') ca s = Revoked t n" if "registry (w_db w) ca s = Revoked t n"
    using path that revoked_is_final by metis
  moreover have "\<exists>t' n'. t = Some t' \<and> n = Some n' \<and> OperatorRevoke ca s n' t' \<in> set es"
    if "registry (w_db w') ca s = Revoked t n" "registry (w_db w) ca s \<noteq> Revoked t n"
    using any [OF path] that by (auto simp: asked_by_def)
  moreover have "registry (w_db w') ca s = Good"
    if "registry (w_db w) ca s = Good" "\<forall>n t. OperatorRevoke ca s n t \<notin> set es"
    using good [OF path [unfolded that(1)]] that(2) by (auto simp: asked_by_def)
  ultimately show ?thesis using path by blast
qed

lemma certificate_life_cycle_witness:
  "registry (w_db (fold (server_step sys_server) [OperatorRevoke ''default'' (text_of (replicate 16 1)) 4 ''2027'']
     (crl_world ''2026''))) ''default'' (text_of (replicate 16 1)) = Revoked (Some ''2026'') (Some 1)"
  using certificate_life_cycle [where w = "crl_world ''2026''"
      and es = "[OperatorRevoke ''default'' (text_of (replicate 16 1)) 4 ''2027'']" and ca = "''default''"
      and s = "text_of (replicate 16 1)" and t = "Some ''2026''" and n = "Some 1", OF sys_world_inv refl]
    crl_world_registry [of "''2026''" "''default''" "text_of (replicate 16 1)"]
  by (elim conjE) simp



text \<open>
  C29: only an enrolment writes.  Whatever else a client asks for, capabilities, the CA
  certificate, OCSP, the CRL, health, an unknown path, method or operation, and whether the answer
  is a success or an error, no table and no Intune state of the server changes.
\<close>

theorem other_requests_change_nothing:
  assumes "\<not> enrols call"
  shows "issued (w_db (snd (serve sv env clock call w))) = issued (w_db w)
    \<and> transactions (w_db (snd (serve sv env clock call w))) = transactions (w_db w)
    \<and> tables (w_db (snd (serve sv env clock call w))) = tables (w_db w)
    \<and> w_intune (snd (serve sv env clock call w)) = w_intune w"
  by (simp add: reads_only_db [OF serve_reads_only [OF assms]])

lemma other_requests_change_nothing_witness:
  "issued (w_db (snd (serve sys_server ex_env (\<lambda>_. 0) (get_call [''scep'', ''p'']) (crl_world ''2026''))))
     = issued (w_db (crl_world ''2026''))"
proof -
  have "\<not> enrols (get_call [''scep'', ''p''])" by (simp add: enrols_def get_call_def)
  from other_requests_change_nothing [OF this] show ?thesis by blast
qed

text \<open>
  C30: no response of the server reveals an internal error.  Whatever the request, every response
  with a status of 500 or more carries only the standard reason of its status, so that clients
  cannot tell one crypto, database or upstream failure from another by its text.
\<close>

theorem server_errors_hide_detail:
  "resp_status (fst (serve sv env clock call w)) < 500
   \<or> resp_body (fst (serve sv env clock call w))
       = as_bytes (case sv_reason sv (resp_status (fst (serve sv env clock call w))) of Some t \<Rightarrow> t | None \<Rightarrow> ''error'')"
proof -
  have scep: "hides_detail (sv_reason sv) (fst (reply_of sv (scep_get p st env profile params) w))"
    "hides_detail (sv_reason sv) (fst (reply_of sv (scep_post p st env profile params body) w))" for p st profile params body
    by (rule reply_of_hides; drule scep_get_status scep_post_status; simp)+
  have plain: "hides_detail r no_route" "hides_detail r no_method" "hides_detail r (json_response b)"
    "hides_detail r ocsp_get_root" "hides_detail r (bad_request_text t)" for r b t
    by (simp_all add: hides_detail_def no_route_def no_method_def json_response_def ocsp_get_root_def bad_request_text_def)
  have "hides_detail (sv_reason sv) (fst (serve sv env clock call w))"
    by (cases "router (hc_path call)"; cases "the (router (hc_path call))"; cases "hc_method call")
       (simp_all add: serve_def scep plain respond_hides crl_hides ocsp_post_def ocsp_get_def split: sum.split)
  then show ?thesis by (simp add: hides_detail_def)
qed

lemma server_errors_hide_detail_witness:
  "resp_status (fst (serve (sys_server\<lparr>sv_crl := demo_crl\<lparr>tbs_to_der := (\<lambda>_. Inl ''out of memory at 0x7f'')\<rparr>\<rparr>) ex_env (\<lambda>_. 0)
       (get_call [''crl'', ''default'']) (crl_world ''1969''))) < 500
   \<or> resp_body (fst (serve (sys_server\<lparr>sv_crl := demo_crl\<lparr>tbs_to_der := (\<lambda>_. Inl ''out of memory at 0x7f'')\<rparr>\<rparr>) ex_env (\<lambda>_. 0)
       (get_call [''crl'', ''default'']) (crl_world ''1969''))) = as_bytes ''error''"
  using server_errors_hide_detail [of "sys_server\<lparr>sv_crl := demo_crl\<lparr>tbs_to_der := (\<lambda>_. Inl ''out of memory at 0x7f'')\<rparr>\<rparr>"
      ex_env "\<lambda>_. 0" "get_call [''crl'', ''default'']" "crl_world ''1969''"]
  by (simp add: sys_server_def del: as_bytes_simps)


definition ex_server :: server where
  "ex_server = sys_server\<lparr>sv_platform := ex_platform, sv_state := ex_state\<rparr>"


end
