(* ===== verification/Histories.thy ===== *)
theory Histories
  imports System "HOL-Library.Sublist"
begin

text \<open>
  Histories of a running server: the status of one certificate, read after every event.
\<close>

fun status_trace :: "server \<Rightarrow> event list \<Rightarrow> world \<Rightarrow> string \<Rightarrow> string \<Rightarrow> revocation_status list" where
  "status_trace sv [] w ca s = [registry (w_db w) ca s]"
| "status_trace sv (e # es) w ca s = registry (w_db w) ca s # status_trace sv es (server_step sv e w) ca s"

lemma status_trace_Cons:
  "status_trace sv es w ca s = registry (w_db w) ca s # tl (status_trace sv es w ca s)"
  by (cases es) simp_all

text \<open>The statuses a certificate can still have, from the present one on.\<close>

fun remaining_life :: "revocation_status \<Rightarrow> string option \<Rightarrow> int option \<Rightarrow> revocation_status list" where
  "remaining_life Unknown t n = [Unknown, Good, Revoked t n]"
| "remaining_life Good t n = [Good, Revoked t n]"
| "remaining_life (Revoked t' n') t n = [Revoked t' n']"

lemma life_path_revoked_only:
  "life_path asked Good st \<Longrightarrow> st \<noteq> Good \<Longrightarrow> \<exists>t n. st = Revoked t n"
  by (induction rule: rtranclp_induct) (auto elim: life_stepE)

lemma remaining_life_step:
  assumes "life_path asked st st'" and "st' \<noteq> st" and "subseq trace (remaining_life st' t n)"
  shows "\<exists>t n. subseq (st # trace) (remaining_life st t n)"
proof (cases st)
  case Unknown
  with assms(2,3) show ?thesis
    by (cases st') (auto intro: exI [of _ t] exI [of _ n])
next
  case Good
  with assms obtain t' n' where "st' = Revoked t' n'" using life_path_revoked_only by blast
  with assms(3) Good show ?thesis by (intro exI [of _ t'] exI [of _ n']) simp
next
  case (Revoked t' n')
  with assms(1,2) show ?thesis using revoked_is_final by blast
qed

lemma trace_remaining:
  assumes "server_inv sv w"
  shows "\<exists>t n. subseq (remdups_adj (status_trace sv es w ca s)) (remaining_life (registry (w_db w) ca s) t n)"
  using assms
proof (induction es arbitrary: w)
  case Nil
  then show ?case by (cases "registry (w_db w) ca s") (auto simp: subseq_singleton_left)
next
  case (Cons e es)
  let ?st = "registry (w_db w) ca s" and ?w' = "server_step sv e w"
  let ?st' = "registry (w_db ?w') ca s" and ?rest = "status_trace sv es ?w' ca s"
  from Cons.IH [OF server.step_inv [OF Cons.prems, of e]] obtain t n where
    IH: "subseq (remdups_adj ?rest) (remaining_life ?st' t n)" by auto
  have step: "remdups_adj (?st # ?rest) = (if ?st' = ?st then remdups_adj ?rest else ?st # remdups_adj ?rest)"
    by (subst (1 2 3) status_trace_Cons) simp
  show ?case
  proof (cases "?st' = ?st")
    case True
    with IH step show ?thesis by auto
  next
    case False
    with remaining_life_step [OF server_step_life [OF Cons.prems, of e ca s] False IH] step show ?thesis by simp
  qed
qed

subsection \<open>Properties\<close>

text \<open>
  C11: revocation terminates.  The steps a certificate's status can take form a terminating relation,
  and along any sequence of requests and revocations, however long, the status read after each
  event changes at most twice: without its repetitions it is a part of unknown, good, revoked,
  with one time and reason for good.
\<close>

theorem status_changes_at_most_twice:
  assumes "server_inv sv w"
  shows "wfp (life_step asked)\<inverse>\<inverse>
    \<and> (\<exists>t n. subseq (remdups_adj (status_trace sv es w ca s)) [Unknown, Good, Revoked t n])
    \<and> length (status_trace sv es w ca s) = Suc (length es)"
proof (intro conjI)
  let ?rank = "\<lambda>st. case st of Unknown \<Rightarrow> 2 | Good \<Rightarrow> 1 | Revoked t n \<Rightarrow> (0 :: nat)"
  show "wfp (life_step asked)\<inverse>\<inverse>"
    by (rule wfp_if_convertible_to_nat [of _ ?rank]) (auto elim: life_stepE)
  from trace_remaining [OF assms, of es ca s] obtain t n where
    "subseq (remdups_adj (status_trace sv es w ca s)) (remaining_life (registry (w_db w) ca s) t n)" by blast
  moreover have "\<exists>t' n'. subseq (remaining_life st t n) [Unknown, Good, Revoked t' n']" for st
    by (cases st) auto
  ultimately show "\<exists>t n. subseq (remdups_adj (status_trace sv es w ca s)) [Unknown, Good, Revoked t n]"
    using subseq_order.order_trans by blast
  show "length (status_trace sv es w ca s) = Suc (length es)"
    by (induction es arbitrary: w) simp_all
qed

lemma status_changes_at_most_twice_witness:
  "length (remdups_adj (status_trace sys_server
     (replicate 5 (OperatorRevoke ''default'' (text_of (replicate 16 1)) 4 ''2027''))
     (crl_world ''2026'') ''default'' (text_of (replicate 16 1)))) \<le> 3"
proof -
  from status_changes_at_most_twice [OF sys_world_inv, of _ "replicate 5 (OperatorRevoke ''default'' (text_of (replicate 16 1)) 4 ''2027'')"
      "''2026''" "''default''" "text_of (replicate 16 1)"]
  obtain t n where "subseq (remdups_adj (status_trace sys_server
     (replicate 5 (OperatorRevoke ''default'' (text_of (replicate 16 1)) 4 ''2027''))
     (crl_world ''2026'') ''default'' (text_of (replicate 16 1)))) [Unknown, Good, Revoked t n]" by blast
  from list_emb_length [OF this] show ?thesis by simp
qed

end
