(* ===== verification/Responses.thy ===== *)
theory Responses
  imports System
begin

text \<open>
  The answers of the server: no error of an upstream service reaches a client, so the status is
  one of five, and the content type of a success is that of its endpoint.
\<close>

subsection \<open>Results without upstream errors\<close>

definition local_error :: "app_error \<Rightarrow> bool" where
  "local_error e \<longleftrightarrow> (\<forall>m. e \<noteq> Upstream m)"

definition local_result :: "'a app_result \<Rightarrow> bool" where
  "local_result r \<longleftrightarrow> (\<forall>e. r = Inl e \<longrightarrow> local_error e)"

definition local_handler :: "'a handler \<Rightarrow> bool" where
  "local_handler m \<longleftrightarrow> (\<forall>w. local_result (fst (m w)))"

named_theorems local_intros

lemma local_error_simps [simp]:
  "local_error (bad_request m)" "local_error (crypto m)" "local_error (BadRequest m)" "local_error (Crypto m)"
  "local_error (NotFound m)" "local_error (Config m)" "local_error (Database m)"
  by (simp_all add: local_error_def bad_request_def crypto_def)

lemma local_error_status: "local_error e \<Longrightarrow> error_status e \<in> {400, 404, 500}"
  by (cases e) (simp_all add: local_error_def)

lemma local_basic [local_intros]:
  "local_result (Inr x)" "local_error e \<Longrightarrow> local_result (Inl e)"
  "(\<And>d. local_error (f d)) \<Longrightarrow> local_result (map_err f r)"
  "local_error e \<Longrightarrow> local_result (ok_or e m)"
  by (auto simp: local_result_def map_err_Inl_iff)

lemma local_try_then [local_intros]:
  "local_result r \<Longrightarrow> (\<And>x. local_result (f x)) \<Longrightarrow> local_result (try_then r f)"
  by (auto simp: local_result_def try_then_Inl_iff)

lemma local_map_ok [local_intros]: "local_result r \<Longrightarrow> local_result (map_ok f r)"
  by (cases r) (simp_all add: local_result_def)

lemma local_if [local_intros]: "local_result a \<Longrightarrow> local_result b \<Longrightarrow> local_result (if c then a else b)"
  by simp

lemma local_cases [local_intros]:
  "local_result a \<Longrightarrow> (\<And>x. local_result (f x)) \<Longrightarrow> local_result (case m of None \<Rightarrow> a | Some x \<Rightarrow> f x)"
  "(\<And>x. local_result (g x)) \<Longrightarrow> (\<And>x. local_result (f x)) \<Longrightarrow> local_result (case s of Inl x \<Rightarrow> g x | Inr x \<Rightarrow> f x)"
  by (simp_all split: option.split sum.split)

lemma local_collect [local_intros]:
  "(\<And>x. x \<in> set xs \<Longrightarrow> local_result (f x)) \<Longrightarrow> local_result (collect_results f xs)"
  by (auto simp: local_result_def dest: collect_results_Inl)

lemma local_pure [local_intros]: "local_result r \<Longrightarrow> local_handler (pure r)"
  by (simp add: local_handler_def pure_def)

lemma local_and_then [local_intros]:
  "local_handler m \<Longrightarrow> (\<And>x. local_handler (f x)) \<Longrightarrow> local_handler (and_then m f)"
  by (auto simp: local_handler_def and_then_def local_result_def split: prod.split sum.split) (metis fst_conv)

lemma local_ignore [local_intros]: "local_handler (ignore m)"
  by (simp add: local_handler_def local_result_def)

lemma local_on_db:
  "(\<And>e db db'. f db = (Inl e, db') \<Longrightarrow> \<exists>m. e = Database m) \<Longrightarrow> local_handler (on_db f)"
  by (auto simp: local_handler_def local_result_def) (metis local_error_simps(7) prod.collapse)

subsection \<open>The parts of the handlers\<close>

lemma local_database [local_intros]:
  "local_handler (on_db (status_by_serial fault ca s))" "local_handler (on_db (list_revoked fault ca))"
  by (rule local_on_db; auto dest!: status_by_serial_err run_statement_err simp: list_revoked_def)+

lemma local_crypto_errors [simp]:
  "local_error (crypto_der_err m)" "local_error (der_err m)" "local_error (builder_err m)" "local_error (Attributes.der_err m)"
  by (simp_all add: crypto_der_err_def der_err_def builder_err_def Attributes.der_err_def)

lemma local_attributes [local_intros]:
  "local_result (printable_attribute d oid s)" "local_result (octet_attribute d oid b)"
  unfolding printable_attribute_def octet_attribute_def single_value_attribute_def
  by (intro local_intros; simp)+

lemma local_reply_attributes [local_intros]:
  "local_result (success_attrs d rng txn nonce)" "local_result (failure_attrs d rng txn nonce info)"
  unfolding success_attrs_def failure_attrs_def
  by (rule local_collect; auto intro: local_attributes)+

lemma local_add_signed_attributes [local_intros]: "local_result (add_signed_attributes cm as si)"
  by (induction as arbitrary: si) (auto intro!: local_intros)

lemma local_build_cert_rep [local_intros]: "local_result (build_cert_rep d cm key cert data attrs)"
  unfolding build_cert_rep_def Let_def by (intro local_intros; simp)

lemma local_build_for [local_intros]: "local_result (build_for d cm r cl r1 r2 r3 pt rcp)"
  unfolding build_for_def Let_def by (intro local_intros; simp)

lemma local_certs_only [local_intros]: "local_result (certs_only cm leaf)"
  unfolding certs_only_def by (intro local_intros; simp)

lemma local_parse_and_verify [local_intros]: "local_result (parse_and_verify d cm dg r der)"
  by (auto simp: local_result_def local_error_def dest: parse_and_verify_error [unfolded request_error_def])

lemma local_replies [local_intros]:
  "local_result (build_failure p env ca parsed info)" "local_result (build_success p env ca parsed leaf)"
  unfolding build_failure_def build_success_def Let_def by (intro local_intros)+

lemma local_validate_and_issue [local_intros]: "local_handler (validate_and_issue p state env rt ca parsed csr)"
proof -
  have issue: "local_handler (issue_and_reply p state env rt ca parsed csr)"
    unfolding issue_and_reply_def Let_def
    by (cases "issue (p_der p) (p_x509 p) (p_time p) (rq_issue_time env) (rq_serial_rng env) ca (pc_req csr)
          (issue_options_of state rt)")
       (simp only: sum.case, intro local_intros; simp)+
  show ?thesis
    unfolding local_handler_def
  proof
    fix w
    obtain st where "approved p rt parsed csr w \<Longrightarrow> validate_and_issue p state env rt ca parsed csr w =
        issue_and_reply p state env rt ca parsed csr (w\<lparr>w_intune := st\<rparr>)"
      using validate_and_issue_approved by metis
    then show "local_result (fst (validate_and_issue p state env rt ca parsed csr w))"
      using issue validate_and_issue_rejected(2) [of p rt parsed csr w state env ca] local_replies(1)
      by (cases "approved p rt parsed csr w") (auto simp: local_handler_def)
  qed
qed

lemma local_if_handler [local_intros]: "local_handler a \<Longrightarrow> local_handler b \<Longrightarrow> local_handler (if c then a else b)"
  by simp

lemma local_sum_handler [local_intros]:
  "(\<And>x. local_handler (g x)) \<Longrightarrow> (\<And>x. local_handler (f x)) \<Longrightarrow>
     local_handler (case s of Inl x \<Rightarrow> g x | Inr x \<Rightarrow> f x)"
  by (simp split: sum.split)

lemma local_pki_operation [local_intros]: "local_handler (pki_operation p state env profile body)"
  unfolding pki_operation_def by (intro local_intros; simp)

lemma local_scep:
  "local_handler (scep_get p state env profile params)" "local_handler (scep_post p state env profile params body)"
  unfolding scep_get_def scep_post_def get_ca_cert_def Let_def by (intro local_intros; simp)+

lemma local_answer_entries [local_intros]:
  "local_handler (answer_entries p clock caid tu nu n cids builder)"
  by (induction cids arbitrary: n builder) (auto simp: Let_def intro!: local_intros)

lemma local_build_response: "local_handler (build_response p ol state clock caid req)"
  unfolding build_response_def Let_def by (intro local_intros; simp)

lemma local_revocation_date [local_intros]: "local_result (to_time p t)" "local_result (revocation_date p now r)"
proof -
  show time: "local_result (to_time p t)" for t unfolding to_time_def by (intro local_intros; simp)
  show "local_result (revocation_date p now r)" unfolding revocation_date_def by (intro local_intros time)
qed

lemma local_crl_entries [local_intros]: "local_result (crl_entries p now rows)"
  by (induction rows) (auto intro!: local_intros split: sum.split)

lemma local_build_crl: "local_handler (build_crl p cl state now caid)"
  unfolding build_crl_def sign_crl_def Let_def by (intro local_intros; simp)


subsection \<open>Well-typed answers\<close>

text \<open>The methods a route has, and the content type of its successes.\<close>

fun route_methods :: "route \<Rightarrow> http_method set" where
  "route_methods RHealth = {GET}"
| "route_methods (RScep profile) = {GET, POST}"
| "route_methods (ROcspRoot ca) = {GET, POST}"
| "route_methods (ROcsp ca b64) = {GET}"
| "route_methods (RCrl ca) = {GET}"

fun success_type :: "route \<Rightarrow> string option \<Rightarrow> string" where
  "success_type RHealth operation = ''application/json''"
| "success_type (RScep profile) operation =
     (if operation = Some ''GetCACaps'' then ''text/plain''
      else if operation = Some ''GetCACert'' then CT_CA_CERT else CT_PKI_MESSAGE)"
| "success_type (ROcspRoot ca) operation = CT_OCSP"
| "success_type (ROcsp ca b64) operation = CT_OCSP"
| "success_type (RCrl ca) operation = CT_CRL"

definition well_typed :: "string \<Rightarrow> http_response \<Rightarrow> bool" where
  "well_typed content_type r \<longleftrightarrow> resp_status r \<in> {200, 400, 404, 500}
     \<and> resp_content_type r = (if resp_status r = 200 then Some content_type else None)"

lemma well_typed_error: "local_error e \<Longrightarrow> well_typed ct (into_response reason e)"
  using local_error_status [of e] by (auto simp: well_typed_def) (auto simp: into_response_def Let_def)

lemma well_typed_bad_request [simp]: "well_typed ct (bad_request_text t)"
  by (simp add: well_typed_def bad_request_text_def)

lemma well_typed_success [simp]: "well_typed ct \<lparr>resp_status = 200, resp_content_type = Some ct, resp_body = b\<rparr>"
  by (simp add: well_typed_def)

lemma reply_of_typed:
  assumes "local_handler m" and "\<And>r w'. m w = (Inr r, w') \<Longrightarrow> well_typed ct r"
  shows "well_typed ct (fst (reply_of sv m w))"
proof (cases "m w")
  case (Pair res w')
  show ?thesis
  proof (cases res)
    case (Inl e)
    with Pair assms(1) have "local_error e" by (metis fst_conv local_handler_def local_result_def)
    with Pair Inl show ?thesis by (simp add: reply_of_def well_typed_error)
  next
    case (Inr r)
    with Pair assms(2) show ?thesis by (simp add: reply_of_def)
  qed
qed

lemma scep_get_typed: "well_typed (success_type (RScep profile) (params ''operation''))
    (fst (reply_of sv (scep_get p state env profile params) w))"
  by (rule reply_of_typed [OF local_scep(1)])
     (auto simp: scep_get_def Let_def and_then_Inr get_ca_cert_def try_then_Inr_iff text_response_def
        bytes_response_def split: if_splits option.splits)

lemma scep_post_typed: "well_typed (success_type (RScep profile) (params ''operation''))
    (fst (reply_of sv (scep_post p state env profile params body) w))"
  by (rule reply_of_typed [OF local_scep(2)])
     (auto simp: scep_post_def Let_def and_then_Inr bytes_response_def split: if_splits option.splits)

lemma respond_typed: "well_typed CT_OCSP (fst (respond p ol reason state clock ca req w))"
proof -
  have "local_result (fst (build_response p ol state clock ca req w))"
    using local_build_response by (simp add: local_handler_def)
  then show ?thesis
    by (cases "build_response p ol state clock ca req w"; cases "fst (build_response p ol state clock ca req w)")
       (simp_all add: respond_def local_result_def well_typed_error)
qed

lemma crl_typed: "well_typed CT_CRL (fst (crl p cl reason state now ca w))"
proof -
  have "local_result (fst (build_crl p cl state now ca w))"
    using local_build_crl by (simp add: local_handler_def)
  then show ?thesis
    by (cases "build_crl p cl state now ca w"; cases "fst (build_crl p cl state now ca w)")
       (simp_all add: crl_def local_result_def well_typed_error)
qed

lemma served_typed:
  assumes "router (hc_path call) = Some route" and "hc_method call \<in> route_methods route"
  shows "well_typed (success_type route (hc_query call ''operation'')) (fst (serve sv env clock call w))"
proof (cases route)
  case RHealth
  with assms show ?thesis by (simp add: serve_def json_response_def)
next
  case (RScep profile)
  with assms show ?thesis
    using scep_get_typed [of profile "hc_query call"] scep_post_typed [of profile "hc_query call"]
    by (cases "hc_method call") (simp_all add: serve_def)
next
  case (ROcspRoot ca)
  with assms show ?thesis
    by (cases "hc_method call") (simp_all add: serve_def ocsp_post_def respond_typed ocsp_get_root_def)
next
  case (ROcsp ca b64)
  with assms show ?thesis
    by (cases "base64_decode (p_codec (sv_platform sv)) (as_bytes b64)")
       (simp_all add: serve_def ocsp_get_def respond_typed)
next
  case (RCrl ca)
  with assms show ?thesis by (simp add: serve_def crl_typed)
qed

subsection \<open>Properties\<close>


end
