(* ===== verification/Roundtrip.thy ===== *)
theory Roundtrip
  imports System "HOL-Library.Countable"
begin

text \<open>
  \<open>roundtrip.rs\<close>: both ends of an enrolment.  The device builds its request with the
  message builders the server uses for replies, under a key and certificate of its own, and
  reads the reply with the server's verifier.  The request builder of \<open>x509-cert\<close> is the
  parameter \<open>q\<close>; the constants of the test are arguments.  An \<open>unwrap\<close> or \<open>expect\<close> that fails
  is an error here.
\<close>

subsection \<open>The device\<close>

record request_builder =
  rqb_subject :: dn
  rqb_signer :: rsa_private_key
  rqb_attributes :: "attribute list"

record request_lib =
  request_new :: "dn \<Rightarrow> rsa_private_key \<Rightarrow> string + request_builder"
  request_add_challenge :: "request_builder \<Rightarrow> string \<Rightarrow> string + request_builder"
  request_build :: "request_builder \<Rightarrow> string + cert_req"
  request_to_der :: "cert_req \<Rightarrow> string + bytes"

definition build_csr :: "x509_lib \<Rightarrow> request_lib \<Rightarrow> string \<Rightarrow> string \<Rightarrow> certificate_authority \<Rightarrow> string + bytes" where
  "build_csr x q device_subject challenge device =
     try_then (name_from_str x device_subject) (\<lambda>subject.
     try_then (request_new q subject (ca_signing_key device)) (\<lambda>builder.
     try_then (request_add_challenge q builder challenge) (\<lambda>builder.
     try_then (request_build q builder) (\<lambda>req.
     request_to_der q req))))"

text \<open>The random streams of the device are those of the fields of \<open>dev\<close> with the same use.\<close>

definition device_request ::
  "platform \<Rightarrow> request_env \<Rightarrow> certificate \<Rightarrow> certificate_authority \<Rightarrow> string \<Rightarrow> bytes \<Rightarrow> bytes app_result" where
  "device_request p dev server_cert device transaction_id csr_der =
     (let sender_nonce = generate_nonce (rq_nonce_rng dev) in
      try_then (build (p_der p) (p_cms p) (p_x509 p) (p_rsa p) (p_cipher p) (rq_cek_rng dev) (rq_iv_rng dev)
                 (rq_wrap_rng dev) csr_der server_cert) (\<lambda>enveloped_csr_der.
      try_then (collect_results (\<lambda>a. a)
          [printable_attribute (p_der p) ID_MESSAGE_TYPE (message_type_value PkcsReq),
           printable_attribute (p_der p) ID_TRANSACTION_ID transaction_id,
           octet_attribute (p_der p) ID_SENDER_NONCE sender_nonce]) (\<lambda>request_attrs.
      build_cert_rep (p_der p) (p_cms p) (ca_signing_key device) (ca_cert device) (Some enveloped_csr_der)
        request_attrs)))"

definition read_reply ::
  "platform \<Rightarrow> certificate_authority \<Rightarrow> bytes \<Rightarrow> (parsed_request \<times> bytes) app_result" where
  "read_reply p device response_der =
     try_then (parse_and_verify (p_der p) (p_cms p) (p_digest p) (p_rsa p) response_der) (\<lambda>reply.
     try_then (ok_or (crypto ''CertRep carries an envelope'') (req_enveloped reply)) (\<lambda>reply_env_in.
     map_ok (Pair reply) (open_envelope (p_der p) (p_x509 p) (p_digest p) (p_rsa p) (p_cipher p) reply_env_in
       (ca_cert device) (ca_private_key device))))"

subsection \<open>Documented behaviour of the codecs\<close>

definition ID_CONTENT_TYPE :: oid where "ID_CONTENT_TYPE = ''1.2.840.113549.1.9.3''"

lemma signed_attribute_oids [simp]:
  "ID_CONTENT_TYPE \<noteq> ID_MESSAGE_DIGEST" "ID_MESSAGE_DIGEST \<noteq> ID_CONTENT_TYPE"
  "ID_CONTENT_TYPE \<noteq> ID_MESSAGE_TYPE" "ID_CONTENT_TYPE \<noteq> ID_TRANSACTION_ID" "ID_CONTENT_TYPE \<noteq> ID_SENDER_NONCE"
  "ID_CONTENT_TYPE \<noteq> ID_RECIPIENT_NONCE" "ID_CONTENT_TYPE \<noteq> ID_PKI_STATUS"
  "ID_MESSAGE_DIGEST \<noteq> ID_TRANSACTION_ID" "ID_MESSAGE_DIGEST \<noteq> ID_SENDER_NONCE"
  "ID_MESSAGE_DIGEST \<noteq> ID_RECIPIENT_NONCE" "ID_MESSAGE_DIGEST \<noteq> ID_PKI_STATUS"
  by (simp_all add: ID_CONTENT_TYPE_def ID_MESSAGE_DIGEST_def scep_oids)

text \<open>The value of an OCTET STRING is its content; a raw serial number is kept as it is.\<close>

definition octets_documented :: "der_lib \<Rightarrow> x509_lib \<Rightarrow> bool" where
  "octets_documented d x \<longleftrightarrow>
     (\<forall>b v. any_from_octets d b = Inr v \<longrightarrow> any_value v = b) \<and>
     (\<forall>b s. serial_new_raw x b = Inr s \<longrightarrow> s = b)"

text \<open>
  RFC 5652 as the builders of the \<open>cms\<close> crate implement it: the signed data of one signer and
  one certificate over some content decodes to that content, that certificate and a signer whose
  attributes are, in DER order, the given ones with the content type and the digest of the
  content, signed over their encoding with the signer's key.
\<close>

definition signed_data_documented :: "der_lib \<Rightarrow> cms_lib \<Rightarrow> digest_lib \<Rightarrow> rsa_lib \<Rightarrow> bool" where
  "signed_data_documented d cm dg r \<longleftrightarrow>
     (\<forall>key cert v attrs ci. signed_data_build cm (cert_rep_spec key cert (Some v) attrs) = Inr ci \<longrightarrow>
        ci_content_type ci = ID_SIGNED_DATA \<and>
        (\<exists>sd certs b1 b2 s as ct md mv signed sig.
           decode_signed_data cm (ci_content ci) = Inr sd
           \<and> encap_content (rsd_encap_content_info sd) = Some v
           \<and> rsd_certificates sd = Some certs \<and> slice_reader cm (any_value certs) = Inr b1
           \<and> decode_relaxed_certificate cm b1 = Inr cert
           \<and> slice_reader cm (any_value (rsd_signer_infos sd)) = Inr b2 \<and> decode_signer_info cm b2 = Inr s
           \<and> rsi_digest_alg s = sha256_alg \<and> rsi_signed_attrs s = Some as
           \<and> set as = insert ct (insert md (set attrs)) \<and> attr_oid ct = ID_CONTENT_TYPE
           \<and> attr_oid md = ID_MESSAGE_DIGEST \<and> attr_values md = [mv]
           \<and> any_as_octets d mv = Inr (sha256 dg (any_value v))
           \<and> attributes_to_der cm as = Inr signed \<and> rsa_signature_parse r (rsi_signature s) = Inr sig
           \<and> rsa_verify_sha256 r (to_public_key key) signed sig))"

text \<open>A built request decodes to itself; the challenge is a \<open>UTF8String\<close>, no \<open>PrintableString\<close>.\<close>

definition requests_documented :: "der_lib \<Rightarrow> x509_lib \<Rightarrow> request_lib \<Rightarrow> bool" where
  "requests_documented d x q \<longleftrightarrow>
     (\<forall>subject key b b' challenge req der.
        request_new q subject key = Inr b \<longrightarrow> request_add_challenge q b challenge = Inr b' \<longrightarrow>
        request_build q b' = Inr req \<longrightarrow> request_to_der q req = Inr der \<longrightarrow>
        csr_from_der x der = Inr req \<and> csr_subject req = subject
        \<and> (\<exists>v. csr_attributes req = [\<lparr>attr_oid = ID_CHALLENGE_PASSWORD, attr_values = [v]\<rparr>]
             \<and> any_as_utf8 d v = Inr challenge \<and> (\<exists>e. any_as_printable d v = Inl e)))"

definition exchange_documented :: "platform \<Rightarrow> request_lib \<Rightarrow> bool" where
  "exchange_documented p q \<longleftrightarrow>
     der_documented (p_der p) \<and> octets_documented (p_der p) (p_x509 p) \<and> cms_documented (p_der p) (p_cms p)
     \<and> rsa_documented (p_rsa p) \<and> cipher_documented (p_cipher p) \<and> signer_documented (p_cms p)
     \<and> signed_data_documented (p_der p) (p_cms p) (p_digest p) (p_rsa p)
     \<and> requests_documented (p_der p) (p_x509 p) q"

text \<open>
  An authority, or a device, whose certificate is for its own key and has a serial of a length
  that the strict decoder of an envelope accepts.
\<close>

definition holds_key :: "rsa_lib \<Rightarrow> certificate_authority \<Rightarrow> bool" where
  "holds_key r a \<longleftrightarrow>
     ca_signing_key a = ca_private_key a \<and> rsa_public_key r (ca_cert a) = Inr (to_public_key (ca_private_key a))
     \<and> length (cert_serial_number (ca_cert a)) \<le> 20"

subsection \<open>What the builder signs, the verifier accepts\<close>

lemma find_only:
  assumes "a \<in> set xs" and "P a" and "\<And>y. y \<in> set xs \<Longrightarrow> P y \<Longrightarrow> y = a"
  shows "find P xs = Some a"
proof (cases "find P xs")
  case None
  with assms(1,2) show ?thesis by (auto simp: find_None_iff)
next
  case (Some b)
  with assms(3) show ?thesis by (auto dest: find_SomeD)
qed

text \<open>Sorting the attributes, and adding others, does not change what is read.\<close>

lemma find_attribute_same:
  assumes "distinct (map attr_oid attrs)" and "set as = insert ct (insert md (set attrs))"
    and "attr_oid ct \<noteq> oid" and "attr_oid md \<noteq> oid"
  shows "find_attribute as oid = find_attribute attrs oid"
proof (cases "find_attribute attrs oid")
  case None
  then have "\<forall>a\<in>set attrs. attr_oid a \<noteq> oid" by (auto simp: find_attribute_def find_None_iff)
  with assms(2-4) have "find (\<lambda>a. attr_oid a = oid) as = None" by (auto simp: find_None_iff)
  with None show ?thesis by (simp add: find_attribute_def)
next
  case (Some a)
  then have a: "a \<in> set attrs" "attr_oid a = oid"
    by (auto simp: find_attribute_def dest: find_SomeD)
  have "y = a" if "y \<in> set as" "attr_oid y = oid" for y
  proof -
    from that assms(2-4) have "y \<in> set attrs" by auto
    with assms(1) a that(2) show ?thesis by (auto simp: distinct_map dest: inj_onD)
  qed
  with a assms(2) have "find (\<lambda>a. attr_oid a = oid) as = Some a"
    by (intro find_only) auto
  with Some show ?thesis by (simp add: find_attribute_def)
qed

lemma read_same:
  assumes "find_attribute as oid = find_attribute attrs oid"
  shows "read_string d as oid = read_string d attrs oid" "read_octets d as oid = read_octets d attrs oid"
  by (simp_all add: read_string_def read_octets_def attribute_value_def assms)

text \<open>The request a message of a key holder with these fields is read as.\<close>

definition received :: "message_type \<Rightarrow> string \<Rightarrow> bytes \<Rightarrow> certificate_authority \<Rightarrow> enveloped_data option \<Rightarrow> parsed_request" where
  "received t transaction_id nonce signer enveloped =
     \<lparr>req_message_type = t, req_transaction_id = transaction_id, req_sender_nonce = nonce,
      req_recipient = \<lparr>rk_public_key = to_public_key (ca_private_key signer), rk_issuer = cert_issuer (ca_cert signer),
        rk_serial = cert_serial_number (ca_cert signer)\<rparr>,
      req_enveloped = enveloped\<rparr>"

lemma signed_parts:
  assumes doc: "exchange_documented p q"
    and der: "build_cert_rep (p_der p) (p_cms p) key cert (Some data) attrs = Inr der"
  obtains ci sd certs b1 b2 s as ct md mv signed sig where
    "content_info_from_der (p_cms p) der = Inr ci" "ci_content_type ci = ID_SIGNED_DATA"
    "decode_signed_data (p_cms p) (ci_content ci) = Inr sd"
    "map_option any_value (encap_content (rsd_encap_content_info sd)) = Some data"
    "rsd_certificates sd = Some certs" "slice_reader (p_cms p) (any_value certs) = Inr b1"
    "decode_relaxed_certificate (p_cms p) b1 = Inr cert"
    "slice_reader (p_cms p) (any_value (rsd_signer_infos sd)) = Inr b2" "decode_signer_info (p_cms p) b2 = Inr s"
    "rsi_digest_alg s = sha256_alg" "rsi_signed_attrs s = Some as"
    "set as = insert ct (insert md (set attrs))" "attr_oid ct = ID_CONTENT_TYPE"
    "attr_oid md = ID_MESSAGE_DIGEST" "attr_values md = [mv]"
    "any_as_octets (p_der p) mv = Inr (sha256 (p_digest p) data)"
    "attributes_to_der (p_cms p) as = Inr signed" "rsa_signature_parse (p_rsa p) (rsi_signature s) = Inr sig"
    "rsa_verify_sha256 (p_rsa p) (to_public_key key) signed sig"
proof -
  have d: "der_documented (p_der p)" "signer_documented (p_cms p)" "cms_documented (p_der p) (p_cms p)"
    "signed_data_documented (p_der p) (p_cms p) (p_digest p) (p_rsa p)" "octets_documented (p_der p) (p_x509 p)"
    using doc by (simp_all add: exchange_documented_def)
  from build_cert_rep_builds [OF d(2,1) der] obtain ci v where
    ci: "signed_data_build (p_cms p) (cert_rep_spec key cert (Some v) attrs) = Inr ci"
      "content_info_to_der (p_cms p) ci = Inr der" and v: "any_from_octets (p_der p) data = Inr v" by auto
  have "any_value v = data" using d(5) v by (simp add: octets_documented_def)
  moreover have "content_info_from_der (p_cms p) der = Inr ci"
    using d(3) ci(2) by (simp add: cms_documented_def)
  moreover from d(4) [unfolded signed_data_documented_def, rule_format, OF ci(1)]
  obtain sd certs b1 b2 s as ct md mv signed sig where "ci_content_type ci = ID_SIGNED_DATA"
    "decode_signed_data (p_cms p) (ci_content ci) = Inr sd" "encap_content (rsd_encap_content_info sd) = Some v"
    "rsd_certificates sd = Some certs" "slice_reader (p_cms p) (any_value certs) = Inr b1"
    "decode_relaxed_certificate (p_cms p) b1 = Inr cert"
    "slice_reader (p_cms p) (any_value (rsd_signer_infos sd)) = Inr b2" "decode_signer_info (p_cms p) b2 = Inr s"
    "rsi_digest_alg s = sha256_alg" "rsi_signed_attrs s = Some as"
    "set as = insert ct (insert md (set attrs))" "attr_oid ct = ID_CONTENT_TYPE"
    "attr_oid md = ID_MESSAGE_DIGEST" "attr_values md = [mv]"
    "any_as_octets (p_der p) mv = Inr (sha256 (p_digest p) (any_value v))"
    "attributes_to_der (p_cms p) as = Inr signed" "rsa_signature_parse (p_rsa p) (rsi_signature s) = Inr sig"
    "rsa_verify_sha256 (p_rsa p) (to_public_key key) signed sig"
    by (elim conjE exE)
  ultimately show ?thesis by (intro that) simp_all
qed


lemma signed_message_accepted:
  assumes doc: "exchange_documented p q" and keys: "holds_key (p_rsa p) signer"
    and der: "build_cert_rep (p_der p) (p_cms p) (ca_signing_key signer) (ca_cert signer) (Some data) attrs = Inr der"
    and oids: "distinct (map attr_oid attrs)"
    and fields: "read_string (p_der p) attrs ID_MESSAGE_TYPE = Inr (message_type_value t)"
      "read_string (p_der p) attrs ID_TRANSACTION_ID = Inr txn" "read_octets (p_der p) attrs ID_SENDER_NONCE = Inr nonce"
    and digest: "find_attribute attrs ID_MESSAGE_DIGEST = None"
    and content: "carries_envelope t" "parse_enveloped (p_cms p) data = Inr enveloped"
  shows "parse_and_verify (p_der p) (p_cms p) (p_digest p) (p_rsa p) der = Inr (received t txn nonce signer (Some enveloped))"
proof (rule signed_parts [OF doc der])
  fix ci sd certs b1 b2 s as ct md mv signed sig
  assume parts: "content_info_from_der (p_cms p) der = Inr ci" "ci_content_type ci = ID_SIGNED_DATA"
    "decode_signed_data (p_cms p) (ci_content ci) = Inr sd"
    "map_option any_value (encap_content (rsd_encap_content_info sd)) = Some data"
    "rsd_certificates sd = Some certs" "slice_reader (p_cms p) (any_value certs) = Inr b1"
    "decode_relaxed_certificate (p_cms p) b1 = Inr (ca_cert signer)"
    "slice_reader (p_cms p) (any_value (rsd_signer_infos sd)) = Inr b2" "decode_signer_info (p_cms p) b2 = Inr s"
    "rsi_digest_alg s = sha256_alg" "rsi_signed_attrs s = Some as"
    and attrs: "set as = insert ct (insert md (set attrs))" "attr_oid ct = ID_CONTENT_TYPE"
    "attr_oid md = ID_MESSAGE_DIGEST" "attr_values md = [mv]"
    "any_as_octets (p_der p) mv = Inr (sha256 (p_digest p) data)"
    and sig: "attributes_to_der (p_cms p) as = Inr signed" "rsa_signature_parse (p_rsa p) (rsi_signature s) = Inr sig"
    "rsa_verify_sha256 (p_rsa p) (to_public_key (ca_signing_key signer)) signed sig"
  let ?m = "\<lparr>sm_signer = s, sm_cert = ca_cert signer, sm_attrs = as, sm_key = to_public_key (ca_private_key signer),
    sm_content = Some data\<rparr>"
  have same: "find_attribute as oid = find_attribute attrs oid" if "oid \<noteq> ID_CONTENT_TYPE" "oid \<noteq> ID_MESSAGE_DIGEST" for oid
    by (rule find_attribute_same [OF oids attrs(1)]) (use that attrs(2,3) in auto)
  have "find_attr as ID_MESSAGE_DIGEST = Some md"
    using attrs digest by (auto simp: find_attr_def find_attribute_def find_None_iff intro!: find_only)
  then have "authentic (p_der p) (p_cms p) (p_digest p) (p_rsa p) ?m"
    using parts(10) attrs(4,5) sig keys
    by (simp add: authentic_def signature_valid_def digest_oid_def sha256_alg_def hash_of_def claimed_digest_def
        holds_key_def)
  moreover have "decodes_to (p_cms p) (p_rsa p) der ?m"
    using parts keys by (simp add: decodes_to_def decode_first_def holds_key_def rsa_public_key_def del: map_option_eq_Some)
  moreover have "request_of (p_der p) (p_cms p) ?m (received t txn nonce signer (Some enveloped))"
    using fields content read_same [OF same]
    by (simp add: request_of_def received_def message_types.from_as_value not_sym [OF signed_attribute_oids(3)]
        not_sym [OF signed_attribute_oids(4)] not_sym [OF signed_attribute_oids(5)])
  ultimately show ?thesis by (intro parse_and_verify_complete)
qed


subsection \<open>The two messages of an enrolment\<close>

text \<open>An envelope built for a key holder opens with its key.\<close>

lemma envelope_for_holder:
  assumes doc: "exchange_documented p q" and keys: "holds_key (p_rsa p) a"
    and der: "build_for (p_der p) (p_cms p) (p_rsa p) (p_cipher p) r1 r2 r3 pt
      \<lparr>rcp_public_key = to_public_key (ca_private_key a), rcp_issuer = cert_issuer (ca_cert a),
       rcp_serial = cert_serial_number (ca_cert a)\<rparr> = Inr der"
  shows "\<exists>env. parse_enveloped (p_cms p) der = Inr env
    \<and> open_envelope (p_der p) (p_x509 p) (p_digest p) (p_rsa p) (p_cipher p) env (ca_cert a) (ca_private_key a) = Inr pt"
  using doc keys
  by (intro open_built_envelope [OF _ _ _ _ _ _ _ _ der]) (simp_all add: exchange_documented_def holds_key_def)

text \<open>The recipient that \<open>build\<close> reads off the certificate of a key holder.\<close>

lemma build_for_holder:
  assumes "exchange_documented p q" and "holds_key (p_rsa p) a"
    and "build (p_der p) (p_cms p) (p_x509 p) (p_rsa p) (p_cipher p) r1 r2 r3 pt (ca_cert a) = Inr der"
  shows "build_for (p_der p) (p_cms p) (p_rsa p) (p_cipher p) r1 r2 r3 pt
      \<lparr>rcp_public_key = to_public_key (ca_private_key a), rcp_issuer = cert_issuer (ca_cert a),
       rcp_serial = cert_serial_number (ca_cert a)\<rparr> = Inr der"
proof -
  have "serial_new_raw (p_x509 p) b = Inr s \<Longrightarrow> s = b" for b s
    using assms(1) by (simp add: exchange_documented_def octets_documented_def)
  with assms(2,3) show ?thesis
    by (auto simp: build_def Let_def try_then_Inr_iff holds_key_def)
qed

lemma device_request_opened:
  assumes doc: "exchange_documented p q" and keys: "holds_key (p_rsa p) ca" "holds_key (p_rsa p) device"
    and body: "device_request p dev (ca_cert ca) device txn csr_der = Inr body"
  shows "\<exists>env. parse_and_verify (p_der p) (p_cms p) (p_digest p) (p_rsa p) body =
      Inr (received PkcsReq txn (generate_nonce (rq_nonce_rng dev)) device (Some env))
    \<and> open_envelope (p_der p) (p_x509 p) (p_digest p) (p_rsa p) (p_cipher p) env (ca_cert ca) (ca_private_key ca) = Inr csr_der"
proof -
  have d: "der_documented (p_der p)"
    using doc by (simp_all add: exchange_documented_def)
  from body obtain envelope attrs where
    e: "build (p_der p) (p_cms p) (p_x509 p) (p_rsa p) (p_cipher p) (rq_cek_rng dev) (rq_iv_rng dev)
          (rq_wrap_rng dev) csr_der (ca_cert ca) = Inr envelope"
    and attrs: "collect_results (\<lambda>a. a)
          [printable_attribute (p_der p) ID_MESSAGE_TYPE (message_type_value PkcsReq),
           printable_attribute (p_der p) ID_TRANSACTION_ID txn,
           octet_attribute (p_der p) ID_SENDER_NONCE (generate_nonce (rq_nonce_rng dev))] = Inr attrs"
    and der: "build_cert_rep (p_der p) (p_cms p) (ca_signing_key device) (ca_cert device) (Some envelope) attrs = Inr body"
    unfolding device_request_def Let_def try_then_Inr_iff by blast
  from envelope_for_holder [OF doc keys(1) build_for_holder [OF doc keys(1) e]] obtain env where env: "parse_enveloped (p_cms p) envelope = Inr env"
    "open_envelope (p_der p) (p_x509 p) (p_digest p) (p_rsa p) (p_cipher p) env (ca_cert ca) (ca_private_key ca) = Inr csr_der"
    by blast
  from attrs obtain a1 a2 a3 where as: "attrs = [a1, a2, a3]"
    and built: "printable_attribute (p_der p) ID_MESSAGE_TYPE (message_type_value PkcsReq) = Inr a1"
      "printable_attribute (p_der p) ID_TRANSACTION_ID txn = Inr a2"
      "octet_attribute (p_der p) ID_SENDER_NONCE (generate_nonce (rq_nonce_rng dev)) = Inr a3"
    by (auto simp: try_then_Inr_iff)
  have "parse_and_verify (p_der p) (p_cms p) (p_digest p) (p_rsa p) body =
      Inr (received PkcsReq txn (generate_nonce (rq_nonce_rng dev)) device (Some env))"
    by (rule signed_message_accepted [OF doc keys(2) der])
       (simp_all add: as attribute_oids(1) [OF built(1)] attribute_oids(1) [OF built(2)] attribute_oids(2) [OF built(3)]
          read_printable [OF d built(1)] read_printable_octets [OF d built(1)]
          read_printable [OF d built(2)] read_printable_octets [OF d built(2)]
          read_octet [OF d built(3)] env(1) carries_envelope_def del: message_type_value.simps)
  with env(2) show ?thesis by blast
qed

lemma device_request_received:
  assumes "exchange_documented p q" and "holds_key (p_rsa p) ca" and "holds_key (p_rsa p) device"
    and "device_request p dev (ca_cert ca) device txn csr_der = Inr body"
  shows "\<exists>env. parse_and_verify (p_der p) (p_cms p) (p_digest p) (p_rsa p) body =
      Inr (received PkcsReq txn (generate_nonce (rq_nonce_rng dev)) device (Some env))
    \<and> open_request p ca env = parse (p_der p) (p_x509 p) csr_der"
  using device_request_opened [OF assms] by (auto simp: open_request_def)

text \<open>The attributes of a success reply have different types, none of them a digest.\<close>

lemma success_attr_oids:
  assumes "success_attrs d rng txn nonce = Inr attrs"
  shows "map attr_oid attrs =
    [ID_MESSAGE_TYPE, ID_PKI_STATUS, ID_TRANSACTION_ID, ID_SENDER_NONCE, ID_RECIPIENT_NONCE]"
  using assms by (auto simp: success_attrs_def try_then_Inr_iff dest: attribute_oids)

lemma find_attribute_None: "oid \<notin> set (map attr_oid attrs) \<Longrightarrow> find_attribute attrs oid = None"
  by (auto simp: find_attribute_def find_None_iff)

lemma success_reply_read:
  assumes doc: "exchange_documented p q" and keys: "holds_key (p_rsa p) ca" "holds_key (p_rsa p) device"
    and der: "build_success p env ca (received t txn nonce device enveloped) leaf = Inr der"
  shows "\<exists>reply_env certs. certs_only (p_cms p) leaf = Inr certs
    \<and> read_reply p device der =
        Inr (received CertRep txn (generate_nonce (rq_nonce_rng env)) ca (Some reply_env), certs)"
proof -
  have d: "der_documented (p_der p)" using doc by (simp add: exchange_documented_def)
  from der obtain certs envelope attrs where c: "certs_only (p_cms p) leaf = Inr certs"
    and e: "build_for (p_der p) (p_cms p) (p_rsa p) (p_cipher p) (rq_cek_rng env) (rq_iv_rng env) (rq_wrap_rng env)
      certs \<lparr>rcp_public_key = to_public_key (ca_private_key device), rcp_issuer = cert_issuer (ca_cert device),
        rcp_serial = cert_serial_number (ca_cert device)\<rparr> = Inr envelope"
    and attrs: "success_attrs (p_der p) (rq_nonce_rng env) txn nonce = Inr attrs"
    and rep: "build_cert_rep (p_der p) (p_cms p) (ca_signing_key ca) (ca_cert ca) (Some envelope) attrs = Inr der"
    by (auto simp: build_success_def Let_def try_then_Inr_iff received_def)
  from envelope_for_holder [OF doc keys(2) e] obtain reply_env where
    env: "parse_enveloped (p_cms p) envelope = Inr reply_env"
    "open_envelope (p_der p) (p_x509 p) (p_digest p) (p_rsa p) (p_cipher p) reply_env (ca_cert device)
       (ca_private_key device) = Inr certs"
    by blast
  have view: "read_string (p_der p) attrs ID_MESSAGE_TYPE = Inr (message_type_value CertRep)"
    "read_string (p_der p) attrs ID_TRANSACTION_ID = Inr txn"
    "read_octets (p_der p) attrs ID_SENDER_NONCE = Inr (generate_nonce (rq_nonce_rng env))"
    using view_success [OF d attrs] by (simp_all add: view_reply_def)
  have "parse_and_verify (p_der p) (p_cms p) (p_digest p) (p_rsa p) der =
      Inr (received CertRep txn (generate_nonce (rq_nonce_rng env)) ca (Some reply_env))"
    by (rule signed_message_accepted [OF doc keys(1) rep _ view])
       (simp_all add: success_attr_oids [OF attrs] find_attribute_None env(1) carries_envelope_def)
  with c env(2) show ?thesis
    by (simp add: read_reply_def received_def)
qed


lemma built_csr_decodes:
  assumes doc: "exchange_documented p q" and der: "build_csr (p_x509 p) q subject challenge device = Inr csr_der"
  shows "\<exists>csr. parse (p_der p) (p_x509 p) csr_der = Inr csr \<and> pc_challenge_password csr = Some challenge
    \<and> name_from_str (p_x509 p) subject = Inr (csr_subject (pc_req csr))"
proof -
  from der obtain name b b' req where name: "name_from_str (p_x509 p) subject = Inr name"
    and b: "request_new q name (ca_signing_key device) = Inr b" "request_add_challenge q b challenge = Inr b'"
      "request_build q b' = Inr req" "request_to_der q req = Inr csr_der"
    unfolding build_csr_def try_then_Inr_iff by blast
  have "requests_documented (p_der p) (p_x509 p) q" using doc by (simp add: exchange_documented_def)
  from this [unfolded requests_documented_def, rule_format, OF b] obtain v e where
    req: "csr_from_der (p_x509 p) csr_der = Inr req" "csr_subject req = name"
      "csr_attributes req = [\<lparr>attr_oid = ID_CHALLENGE_PASSWORD, attr_values = [v]\<rparr>]"
      "any_as_utf8 (p_der p) v = Inr challenge" "any_as_printable (p_der p) v = Inl e" by blast
  with name show ?thesis by (simp add: parse_def Let_def extract_challenge_password_def)
qed

lemma built_csr_parses:
  assumes "exchange_documented p q" and "build_csr (p_x509 p) q subject challenge device = Inr csr_der"
    and "parse (p_der p) (p_x509 p) csr_der = Inr csr"
  shows "pc_challenge_password csr = Some challenge \<and> name_from_str (p_x509 p) subject = Inr (csr_subject (pc_req csr))"
  using built_csr_decodes [OF assms(1,2)] assms(3) by auto

lemma build_success_received:
  "build_success p env ca (received t txn nonce device enveloped) leaf
     = build_success p env ca (received t' txn nonce device enveloped') leaf"
  by (simp add: build_success_def received_def)

text \<open>A device that knows the static secret of a profile gets its certificate.\<close>

lemma honest_exchange:
  assumes doc: "exchange_documented p q"
    and profile: "st_profiles state profile = Some rt" "st_cas state (rt_ca_id rt) = Some ca"
      "rt_validator rt = StaticSecretValidator secret"
    and keys: "holds_key (p_rsa p) ca" "holds_key (p_rsa p) device"
    and device: "build_csr (p_x509 p) q subject secret device = Inr csr_der"
      "device_request p dev (ca_cert ca) device txn csr_der = Inr body"
    and issued: "parse (p_der p) (p_x509 p) csr_der = Inr csr" "issues p state env rt ca csr leaf leaf_der"
    and db: "\<And>n. p_fault p n = None" "set SCHEMA \<subseteq> set (tables (w_db w))"
      "serial_hex (p_codec p) leaf \<notin> ic_serial ` set (issued (w_db w))"
    and reply: "build_success p env ca (received PkcsReq txn (generate_nonce (rq_nonce_rng dev)) device None) leaf
      = Inr reply_der"
  shows "\<exists>w' reply certs. pki_operation p state env profile body w = (Inr reply_der, w')
    \<and> read_reply p device reply_der = Inr (reply, certs)
    \<and> certs_only (p_cms p) leaf = Inr certs
    \<and> req_message_type reply = CertRep \<and> req_transaction_id reply = txn
    \<and> registry (w_db w') (ca_id ca) (serial_hex (p_codec p) leaf) = Good
    \<and> (\<exists>t\<in>set (transactions (w_db w')). tx_transaction_id t = txn \<and> tx_status t = ''issued'')"
proof -
  from device_request_received [OF doc keys device(2)] obtain enveloped where
    req: "parse_and_verify (p_der p) (p_cms p) (p_digest p) (p_rsa p) body =
      Inr (received PkcsReq txn (generate_nonce (rq_nonce_rng dev)) device (Some enveloped))" (is "_ = Inr ?req")
    "open_request p ca enveloped = Inr csr"
    using issued(1) by auto
  have opened: "opened_request p state profile body rt ca ?req csr"
    unfolding opened_request_def enveloped_request_def using profile(1,2) req by (auto simp: received_def)
  have "pc_challenge_password csr = Some secret"
    using built_csr_parses [OF doc device(1) issued(1)] by blast
  then have approved: "approved p rt ?req csr w"
    by (simp add: approved_def profile(3) static_secret.validate_pure static_validate_def constant_time_eq_iff
        validation_input_of_def)
  have built: "build_success p env ca ?req leaf = Inr reply_der"
    using reply build_success_received by metis
  from success_reply_read [OF doc keys built] obtain reply_env certs where
    "certs_only (p_cms p) leaf = Inr certs"
    "read_reply p device reply_der = Inr (received CertRep txn (generate_nonce (rq_nonce_rng env)) ca (Some reply_env), certs)"
    by blast
  then show ?thesis
    using approved_enrolment [OF opened approved issued(2) db] built
    by (intro exI [of _ "snd (pki_operation p state env profile body w)"]
        exI [of _ "received CertRep txn (generate_nonce (rq_nonce_rng env)) ca (Some reply_env)"] exI [of _ certs])
       (simp add: received_def prod_eq_iff)
qed


text \<open>A posted message is answered by \<open>pki_operation\<close>.\<close>

lemma serve_pki:
  assumes "sv_platform sv = p" and "router (hc_path call) = Some (RScep profile)" "hc_method call = POST" "hc_body call = body"
      "hc_query call ''operation'' \<in> {None, Some ''PKIOperation''}"
    and "pki_operation p (sv_state sv) env profile body w = (Inr r, w')"
  shows "serve sv env clock call w = (\<lparr>resp_status = 200, resp_content_type = Some CT_PKI_MESSAGE, resp_body = r\<rparr>, w')"
  using assms by (auto simp: serve_def scep_post_def Let_def reply_of_def and_then_def bytes_response_def)

subsection \<open>Properties\<close>

text \<open>
  What a device sends, the server reads.  A request that a device builds for the CA's
  certificate and signs with its own key is accepted by \<open>parse_and_verify\<close> with exactly the
  device's transaction identifier, nonce and certificate, so that the reply can be encrypted for
  it, and the CA's key opens its envelope to exactly the CSR the device put in.
\<close>

theorem device_request_arrives:
  assumes "exchange_documented p q" and "holds_key (p_rsa p) ca" and "holds_key (p_rsa p) device"
    and "device_request p dev (ca_cert ca) device txn csr_der = Inr body"
  shows "\<exists>enveloped. parse_and_verify (p_der p) (p_cms p) (p_digest p) (p_rsa p) body =
      Inr (received PkcsReq txn (generate_nonce (rq_nonce_rng dev)) device (Some enveloped))
    \<and> open_request p ca enveloped = parse (p_der p) (p_x509 p) csr_der"
  using assms by (rule device_request_received)

text \<open>
  C6: an honest device is enrolled.  A device that knows the static secret of a profile, and
  whose key and certificate match, builds a CSR and a request and posts it; the server answers, in one
  step, with status 200 and a reply that the device can verify and open with its own key to exactly the
  certificate the CA issued, under the device's own transaction identifier; and the certificate
  is then good in the registry and the transaction recorded as issued.  The premises are that the
  CA can issue for this CSR, the libraries can encode the reply, the database works and the fresh
  serial is not taken.
\<close>

theorem honest_device_is_enrolled:
  assumes doc: "exchange_documented p q" "sv_platform sv = p"
    and profile: "st_profiles (sv_state sv) profile = Some rt" "st_cas (sv_state sv) (rt_ca_id rt) = Some ca"
      "rt_validator rt = StaticSecretValidator secret"
    and keys: "holds_key (p_rsa p) ca" "holds_key (p_rsa p) device"
    and device: "build_csr (p_x509 p) q subject secret device = Inr csr_der"
      "device_request p dev (ca_cert ca) device txn csr_der = Inr body"
    and call: "router (hc_path call) = Some (RScep profile)" "hc_method call = POST" "hc_body call = body"
      "hc_query call ''operation'' \<in> {None, Some ''PKIOperation''}"
    and issued: "parse (p_der p) (p_x509 p) csr_der = Inr csr" "issues p (sv_state sv) env rt ca csr leaf leaf_der"
    and db: "\<And>n. p_fault p n = None" "set SCHEMA \<subseteq> set (tables (w_db w))"
      "serial_hex (p_codec p) leaf \<notin> ic_serial ` set (issued (w_db w))"
    and reply: "build_success p env ca (received PkcsReq txn (generate_nonce (rq_nonce_rng dev)) device None) leaf
      = Inr reply_der"
  shows "\<exists>w' reply certs. serve sv env clock call w =
      (\<lparr>resp_status = 200, resp_content_type = Some CT_PKI_MESSAGE, resp_body = reply_der\<rparr>, w')
    \<and> read_reply p device reply_der = Inr (reply, certs)
    \<and> certs_only (p_cms p) leaf = Inr certs
    \<and> req_message_type reply = CertRep \<and> req_transaction_id reply = txn
    \<and> registry (w_db w') (ca_id ca) (serial_hex (p_codec p) leaf) = Good
    \<and> (\<exists>t\<in>set (transactions (w_db w')). tx_transaction_id t = txn \<and> tx_status t = ''issued'')"
proof -
  from honest_exchange [OF doc(1) profile keys device issued db reply]
  show ?thesis using serve_pki [OF doc(2) call] by blast
qed

subsection \<open>A concrete exchange\<close>

text \<open>
  Attributes are countable, so that a message can be encoded by its number: signed data is the
  string whose length is the number of its certificate's serial, its content and its attributes.
\<close>

instance any_ext :: (countable) countable
  by (rule countable_classI [of "\<lambda>v. to_nat (any_tag v, any_value v, any.more v)"]) (auto intro: any.equality)

instance attribute_ext :: (countable) countable
  by (rule countable_classI [of "\<lambda>a. to_nat (attr_oid a, attr_values a, attribute.more a)"])
     (auto intro: attribute.equality)

definition number :: "'a::countable \<Rightarrow> bytes" where
  "number x = replicate (to_nat x) 0"

definition numbered :: "bytes \<Rightarrow> 'a::countable" where
  "numbered b = from_nat (length b)"

lemma numbered_number [simp]: "numbered (number x) = x"
  by (simp add: numbered_def number_def)

definition rt_attrs :: "any option \<Rightarrow> attribute list \<Rightarrow> attribute list" where
  "rt_attrs content attrs = attrs @ (case content of None \<Rightarrow> [] | Some v \<Rightarrow>
     [\<lparr>attr_oid = ID_CONTENT_TYPE, attr_values = [\<lparr>any_tag = 6, any_value = as_bytes ID_DATA\<rparr>]\<rparr>,
      \<lparr>attr_oid = ID_MESSAGE_DIGEST, attr_values = [\<lparr>any_tag = 4, any_value = any_value v\<rparr>]\<rparr>])"

text \<open>The signature, five bytes, comes last.\<close>

definition rt_signature :: bytes where "rt_signature = replicate 5 0"

definition but_last :: "bytes \<Rightarrow> bytes" where "but_last b = take (length b - 5) b"
definition last_five :: "bytes \<Rightarrow> bytes" where "last_five b = drop (length b - 5) b"

lemma five_bytes [simp]: "length sig = 5 \<Longrightarrow> but_last (b @ sig) = b" "length sig = 5 \<Longrightarrow> last_five (b @ sig) = sig"
  "length rt_signature = 5"
  by (simp_all add: but_last_def last_five_def rt_signature_def)

definition rt_decode :: "any \<Rightarrow> string + relaxed_signed_data" where
  "rt_decode c = (case numbered (but_last (any_value c)) of (serial, content, attrs) \<Rightarrow>
     Inr \<lparr>rsd_version = any_null, rsd_digest_algorithms = any_null,
       rsd_encap_content_info = \<lparr>encap_content_type = ID_DATA, encap_content = content\<rparr>,
       rsd_certificates = Some \<lparr>any_tag = 48, any_value = serial\<rparr>, rsd_crls = None,
       rsd_signer_infos = \<lparr>any_tag = 49, any_value = number (rt_attrs content attrs) @ last_five (any_value c)\<rparr>\<rparr>)"

definition rt_signer_info :: "bytes \<Rightarrow> string + relaxed_signer_info" where
  "rt_signer_info b =
     Inr \<lparr>rsi_version = any_null, rsi_sid = any_null, rsi_digest_alg = sha256_alg,
       rsi_signed_attrs = Some (numbered (but_last b)), rsi_signature_algorithm = digest_alg RSA_ENCRYPTION,
       rsi_signature = last_five b, rsi_unsigned_attrs = None\<rparr>"

definition rt_build :: "(bytes \<Rightarrow> certificate) \<Rightarrow> signed_data_builder \<Rightarrow> string + content_info" where
  "rt_build cert b = (case (sdb_certificates b, sdb_signer_infos b) of
     ([c], [si]) \<Rightarrow>
       if c = cert (cert_serial_number c) \<and> sib_signer si = demo_key
       then Inr \<lparr>ci_content_type = ID_SIGNED_DATA, ci_content = \<lparr>any_tag = 48,
              any_value = number (cert_serial_number c, encap_content (sdb_encap b), sib_signed_attrs si) @ rt_signature\<rparr>\<rparr>
       else Inl ''certificate''
   | _ \<Rightarrow> Inl ''shape'')"

definition cert_cms :: "(bytes \<Rightarrow> certificate) \<Rightarrow> cms_lib" where
  "cert_cms cert = demo_cms\<lparr>decode_relaxed_certificate := \<lambda>b. Inr (cert b), decode_signed_data := rt_decode,
     decode_signer_info := rt_signer_info, attributes_to_der := \<lambda>as. Inr rt_signature, signed_data_build := rt_build cert\<rparr>"

abbreviation rt_cms :: cms_lib where "rt_cms \<equiv> cert_cms demo_cert"

text \<open>A request library for one subject and one challenge.\<close>

definition ask_csr :: "string \<Rightarrow> string \<Rightarrow> cert_req" where
  "ask_csr subject challenge = \<lparr>csr_subject = as_bytes subject, csr_public_key = demo_spki,
     csr_attributes = [\<lparr>attr_oid = ID_CHALLENGE_PASSWORD, attr_values = [\<lparr>any_tag = 12, any_value = as_bytes challenge\<rparr>]\<rparr>]\<rparr>"

definition ask_requests :: "string \<Rightarrow> string \<Rightarrow> request_lib" where
  "ask_requests subject challenge =
     \<lparr>request_new = (\<lambda>su k. Inr \<lparr>rqb_subject = su, rqb_signer = k, rqb_attributes = []\<rparr>),
      request_add_challenge = (\<lambda>b s. if s = challenge then Inr b else Inl ''another challenge''),
      request_build = (\<lambda>b. if rqb_subject b = as_bytes subject then Inr (ask_csr subject challenge) else Inl ''another subject''),
      request_to_der = (\<lambda>req. Inr [4])\<rparr>"

definition ask_x509 :: "string \<Rightarrow> string \<Rightarrow> x509_lib" where
  "ask_x509 subject challenge =
     demo_x509\<lparr>csr_from_der := \<lambda>b. if b = [4] then Inr (ask_csr subject challenge) else Inl ''not a CSR''\<rparr>"

abbreviation rt_csr :: cert_req where "rt_csr \<equiv> ask_csr ''A'' ''pw''"
abbreviation rt_requests :: request_lib where "rt_requests \<equiv> ask_requests ''A'' ''pw''"

definition ask_platform :: "string \<Rightarrow> string \<Rightarrow> platform" where
  "ask_platform subject challenge = ex_platform\<lparr>p_cms := rt_cms, p_digest := demo_digest,
     p_x509 := ask_x509 subject challenge\<rparr>"

abbreviation rt_platform :: platform where "rt_platform \<equiv> ask_platform ''A'' ''pw''"

definition rt_device :: certificate_authority where
  "rt_device = ca_new ''device'' (demo_cert [9]) demo_key"

lemma rt_codec:
  "slice_reader (cert_cms f) b = Inr b" "decode_relaxed_certificate (cert_cms f) b = Inr (f b)"
  "decode_signed_data (cert_cms f) = rt_decode" "decode_signer_info (cert_cms f) = rt_signer_info"
  "attributes_to_der (cert_cms f) as = Inr rt_signature" "signed_data_build (cert_cms f) = rt_build f"
  by (simp_all add: cert_cms_def demo_cms_def)

lemma rt_decode_number:
  "length sig = 5 \<Longrightarrow> rt_decode \<lparr>any_tag = 48, any_value = number (serial, content, attrs) @ sig\<rparr> =
     Inr \<lparr>rsd_version = any_null, rsd_digest_algorithms = any_null,
       rsd_encap_content_info = \<lparr>encap_content_type = ID_DATA, encap_content = content\<rparr>,
       rsd_certificates = Some \<lparr>any_tag = 48, any_value = serial\<rparr>, rsd_crls = None,
       rsd_signer_infos = \<lparr>any_tag = 49, any_value = number (rt_attrs content attrs) @ sig\<rparr>\<rparr>"
  by (simp add: rt_decode_def)

lemma rt_build_spec:
  "rt_build f (cert_rep_spec key cert content attrs) =
     (if cert = f (cert_serial_number cert) \<and> key = demo_key
      then Inr \<lparr>ci_content_type = ID_SIGNED_DATA, ci_content = \<lparr>any_tag = 48,
             any_value = number (cert_serial_number cert, content, attrs) @ rt_signature\<rparr>\<rparr>
      else Inl ''certificate'')"
  by (simp add: rt_build_def cert_rep_spec_def Let_def)

lemma rt_signed_data: "signed_data_documented demo_der (cert_cms f) demo_digest demo_rsa"
proof -
  let ?ct = "\<lparr>attr_oid = ID_CONTENT_TYPE, attr_values = [\<lparr>any_tag = 6, any_value = as_bytes ID_DATA\<rparr>]\<rparr>"
  let ?md = "\<lambda>v. \<lparr>attr_oid = ID_MESSAGE_DIGEST, attr_values = [\<lparr>any_tag = 4, any_value = any_value v\<rparr>]\<rparr>"
  have attrs: "set (rt_attrs (Some v) attrs) = insert ?ct (insert (?md v) (set attrs))" for v attrs
    by (auto simp: rt_attrs_def)
  have libs: "any_as_octets demo_der \<lparr>any_tag = 4, any_value = b\<rparr> = Inr b" "sha256 demo_digest b = b"
    "rsa_signature_parse demo_rsa b = Inr b" "rsa_verify_sha256 demo_rsa k b b" for b k
    by (simp_all add: demo_der_def demo_digest_def demo_rsa_def)
  have split: "(if c then Inr y else Inl e) = Inr z \<longleftrightarrow> c \<and> y = z" for c y z and e :: string
    by auto
  show ?thesis
    unfolding signed_data_documented_def rt_codec rt_build_spec split
  proof (intro allI impI, elim conjE, rule conjI)
    fix key :: rsa_private_key and cert :: certificate and v :: any and attrs :: "attribute list" and ci :: content_info
    assume cert: "cert = f (cert_serial_number cert)"
      and ci: "\<lparr>ci_content_type = ID_SIGNED_DATA, ci_content = \<lparr>any_tag = 48,
             any_value = number (cert_serial_number cert, Some v, attrs) @ rt_signature\<rparr>\<rparr> = ci"
    show "ci_content_type ci = ID_SIGNED_DATA" by (simp add: ci [symmetric])
    show "\<exists>sd certs b1 b2 s as ct md mv signed sig.
           rt_decode (ci_content ci) = Inr sd
           \<and> encap_content (rsd_encap_content_info sd) = Some v
           \<and> rsd_certificates sd = Some certs \<and> Inr (any_value certs) = Inr b1
           \<and> Inr (f b1) = Inr cert
           \<and> Inr (any_value (rsd_signer_infos sd)) = Inr b2 \<and> rt_signer_info b2 = Inr s
           \<and> rsi_digest_alg s = sha256_alg \<and> rsi_signed_attrs s = Some as
           \<and> set as = insert ct (insert md (set attrs)) \<and> attr_oid ct = ID_CONTENT_TYPE
           \<and> attr_oid md = ID_MESSAGE_DIGEST \<and> attr_values md = [mv]
           \<and> any_as_octets demo_der mv = Inr (sha256 demo_digest (any_value v))
           \<and> Inr rt_signature = Inr signed \<and> rsa_signature_parse demo_rsa (rsi_signature s) = Inr sig
           \<and> rsa_verify_sha256 demo_rsa (to_public_key key) signed sig"
      by (simp add: ci [symmetric] rt_decode_number rt_signer_info_def cert [symmetric] libs attrs,
          rule exI [of _ ?ct], simp, rule exI [of _ "?md v"], simp add: libs)
  qed
qed

definition ask_server :: "string \<Rightarrow> string \<Rightarrow> server" where
  "ask_server subject challenge = sys_server\<lparr>sv_platform := ask_platform subject challenge, sv_state := ex_state\<rparr>"

abbreviation rt_server :: server where "rt_server \<equiv> ask_server ''A'' ''pw''"

lemma rt_platform_fields [simp]:
  "p_der (ask_platform s c) = demo_der" "p_cms (ask_platform s c) = rt_cms" "p_digest (ask_platform s c) = demo_digest"
  "p_rsa (ask_platform s c) = demo_rsa" "p_cipher (ask_platform s c) = demo_cipher" "p_time (ask_platform s c) = demo_time"
  "p_fault (ask_platform s c) = (\<lambda>_. None)" "p_codec (ask_platform s c) = demo_codec"
  "p_x509 (ask_platform s c) = ask_x509 s c"
  by (simp_all add: ask_platform_def)

text \<open>Outside signed data the CMS library is the one of the envelope example.\<close>

lemma rt_cms_fields:
  "content_info_to_der (cert_cms f) = content_info_to_der demo_cms" "content_info_from_der (cert_cms f) = content_info_from_der demo_cms"
  "any_encode_ktri (cert_cms f) = any_encode_ktri demo_cms" "any_encode_enveloped (cert_cms f) = any_encode_enveloped demo_cms"
  "any_new (cert_cms f) = any_new demo_cms" "decode_enveloped (cert_cms f) = decode_enveloped demo_cms"
  "signer_info_new (cert_cms f) = signer_info_new demo_cms" "add_signed_attribute (cert_cms f) = add_signed_attribute demo_cms"
  "signed_data_new (cert_cms f) = signed_data_new demo_cms" "add_digest_algorithm (cert_cms f) = add_digest_algorithm demo_cms"
  "add_certificate (cert_cms f) = add_certificate demo_cms" "add_signer_info (cert_cms f) = add_signer_info demo_cms"
  "content_info_of_cert (cert_cms f) = content_info_of_cert demo_cms"
  "content_type_attribute (cert_cms f) = content_type_attribute demo_cms"
  by (simp_all add: cert_cms_def)

lemma cert_cms_documented: "cms_documented demo_der (cert_cms f)" "signer_documented (cert_cms f)"
  using demo_cms_documented demo_signer_documented
  by (simp_all add: cms_documented_def signer_documented_def rt_cms_fields)

lemma ask_documented: "octets_documented demo_der (ask_x509 s c)"
  "requests_documented demo_der (ask_x509 s c) (ask_requests s c)"
  by (auto simp: octets_documented_def requests_documented_def ask_requests_def ask_csr_def ask_x509_def demo_der_def
      demo_x509_def tagged_text_def split: if_splits simp del: as_bytes_simps)

lemma rt_documented: "exchange_documented (ask_platform s c) (ask_requests s c)"
  by (simp add: exchange_documented_def demo_der_documented demo_rsa_documented demo_cipher_documented rt_signed_data
        cert_cms_documented ask_documented)

lemma rt_keys: "holds_key (p_rsa (ask_platform s c)) demo_ca" "holds_key (p_rsa (ask_platform s c)) rt_device"
  by (simp_all add: holds_key_def demo_ca_def rt_device_def ca_new_def rsa_public_key_def
      rsa_public_key_from_spki_def demo_cert_def demo_spki_def demo_rsa_def)

lemma rt_build_cert_rep:
  assumes "f (cert_serial_number cert) = cert"
  shows "\<exists>der. build_cert_rep demo_der (cert_cms f) demo_key cert data attrs = Inr der"
proof -
  have add: "add_signed_attributes (cert_cms f) as si = Inr (si\<lparr>sib_signed_attrs := sib_signed_attrs si @ as\<rparr>)" for as si
    by (induction as arbitrary: si) (simp_all add: rt_cms_fields demo_cms_def)
  have "octet_string_new demo_der b = Inr b" "any_from_octets demo_der b = Inr \<lparr>any_tag = 4, any_value = b\<rparr>" for b
    by (simp_all add: demo_der_def)
  with assms show ?thesis
    by (cases data; simp add: build_cert_rep_def Let_def add rt_cms_fields rt_codec(6))
       (simp_all add: demo_cms_def rt_build_def cms_oids)
qed

lemma demo_cert_key: "demo_cert (cert_serial_number (demo_cert s)) = demo_cert s"
  by (simp add: demo_cert_def)

lemma rt_build_for:
  assumes "length i + length b < 200"
  shows "\<exists>der. build_for demo_der (cert_cms f) demo_rsa demo_cipher r1 r2 r3 pt
     \<lparr>rcp_public_key = k, rcp_issuer = i, rcp_serial = b\<rparr> = Inr der"
  using assms
  by (simp add: build_for_def Let_def rt_cms_fields demo_der_def demo_rsa_def demo_cipher_def)
     (simp add: demo_cms_def demo_encode_ktri_def demo_encode_enveloped_def demo_content_def put_def)

lemma rt_request: "\<exists>body. device_request (ask_platform s c) ex_env (ca_cert demo_ca) rt_device txn [4] = Inr body"
proof -
  have "rsa_public_key demo_rsa (demo_cert [7]) = Inr (to_public_key demo_key)"
    using rt_keys(1) by (simp add: holds_key_def demo_ca_def ca_new_def)
  then obtain e where "build demo_der rt_cms (ask_x509 s c) demo_rsa demo_cipher (rq_cek_rng ex_env) (rq_iv_rng ex_env)
      (rq_wrap_rng ex_env) [4] (demo_cert [7]) = Inr e"
    using rt_build_for [of "[1]" "[7]" demo_cert] by (fastforce simp: build_def Let_def ask_x509_def demo_x509_def demo_cert_def)
  moreover obtain as where "collect_results (\<lambda>a. a)
          [printable_attribute demo_der ID_MESSAGE_TYPE (message_type_value PkcsReq),
           printable_attribute demo_der ID_TRANSACTION_ID txn,
           octet_attribute demo_der ID_SENDER_NONCE (generate_nonce (rq_nonce_rng ex_env))] = Inr as"
    by (simp add: demo_der_eval)
  moreover obtain body where "build_cert_rep demo_der rt_cms demo_key (demo_cert [9]) (Some e) as = Inr body"
    using rt_build_cert_rep [of demo_cert, OF demo_cert_key] by blast
  ultimately show ?thesis
    by (simp add: device_request_def Let_def demo_ca_def rt_device_def ca_new_def
        del: collect_results.simps message_type_value.simps)
qed

lemma rt_parse: "\<exists>csr. parse demo_der (p_x509 rt_platform) [4] = Inr csr \<and> pc_req csr = rt_csr"
  by (simp add: parse_def ask_x509_def)

lemma rt_reply: "\<exists>der. build_success rt_platform ex_env demo_ca (received t txn nonce rt_device enveloped) leaf = Inr der"
proof -
  have "\<exists>c. certs_only rt_cms leaf = Inr c"
    by (simp add: certs_only_def rt_cms_fields) (simp add: demo_cms_def cms_oids)
  then obtain c where "certs_only rt_cms leaf = Inr c" ..
  moreover obtain as where "success_attrs demo_der (rq_nonce_rng ex_env) txn nonce = Inr as"
    by (simp add: demo_der_eval)
  moreover have "\<exists>b. build_for demo_der rt_cms demo_rsa demo_cipher (rq_cek_rng ex_env) (rq_iv_rng ex_env)
      (rq_wrap_rng ex_env) c \<lparr>rcp_public_key = to_public_key demo_key, rcp_issuer = cert_issuer (demo_cert [9]),
        rcp_serial = cert_serial_number (demo_cert [9])\<rparr> = Inr b"
    using rt_build_for [of "[1]" "[9]" demo_cert] by (simp add: demo_cert_def)
  then obtain b where "build_for demo_der rt_cms demo_rsa demo_cipher (rq_cek_rng ex_env) (rq_iv_rng ex_env)
      (rq_wrap_rng ex_env) c \<lparr>rcp_public_key = to_public_key demo_key, rcp_issuer = cert_issuer (demo_cert [9]),
        rcp_serial = cert_serial_number (demo_cert [9])\<rparr> = Inr b" ..
  moreover obtain der where "build_cert_rep demo_der rt_cms demo_key (demo_cert [7]) (Some b) as = Inr der"
    using rt_build_cert_rep [of demo_cert, OF demo_cert_key] by blast
  ultimately show ?thesis
    by (simp add: build_success_def Let_def received_def rt_device_def demo_ca_def ca_new_def)
qed

lemma device_request_arrives_witness:
  "\<exists>body enveloped. device_request rt_platform ex_env (ca_cert demo_ca) rt_device ''t1'' [4] = Inr body
    \<and> parse_and_verify demo_der rt_cms demo_digest demo_rsa body =
        Inr (received PkcsReq ''t1'' (generate_nonce (rq_nonce_rng ex_env)) rt_device (Some enveloped))"
proof -
  obtain body where body: "device_request rt_platform ex_env (ca_cert demo_ca) rt_device ''t1'' [4] = Inr body"
    using rt_request by blast
  from device_request_arrives [OF rt_documented rt_keys body] body show ?thesis by auto
qed

lemma honest_device_is_enrolled_witness:
  "\<exists>body reply_der w' reply certs. serve rt_server ex_env (\<lambda>_. 0) (post_call [''scep'', ''p''] body) ex_world =
        (\<lparr>resp_status = 200, resp_content_type = Some CT_PKI_MESSAGE, resp_body = reply_der\<rparr>, w')
    \<and> read_reply rt_platform rt_device reply_der = Inr (reply, certs) \<and> req_transaction_id reply = ''t1''
    \<and> issued (w_db w') \<noteq> []"
proof -
  obtain body where body: "device_request rt_platform ex_env (ca_cert demo_ca) rt_device ''t1'' [4] = Inr body"
    using rt_request by blast
  obtain csr where csr: "parse (p_der rt_platform) (p_x509 rt_platform) [4] = Inr csr" "pc_req csr = rt_csr"
    using rt_parse by auto
  have "\<exists>leaf. issues rt_platform ex_state ex_env ex_profile demo_ca csr leaf (serial_bytes (rq_serial_rng ex_env))
      \<and> cert_serial_number leaf = serial_bytes (rq_serial_rng ex_env)"
    by (rule demo_issues) (simp_all add: csr(2) ask_x509_def ask_csr_def ID_EXTENSION_REQ_def ID_CHALLENGE_PASSWORD_def)
  then obtain leaf where leaf: "issues rt_platform ex_state ex_env ex_profile demo_ca csr leaf (serial_bytes (rq_serial_rng ex_env))"
    by blast
  obtain der where reply: "build_success rt_platform ex_env demo_ca
      (received PkcsReq ''t1'' (generate_nonce (rq_nonce_rng ex_env)) rt_device None) leaf = Inr der"
    using rt_reply by blast
  have server: "sv_platform rt_server = rt_platform" "sv_state rt_server = ex_state"
    by (simp_all add: ask_server_def)
  have profile: "st_profiles (sv_state rt_server) ''p'' = Some ex_profile"
    "st_cas (sv_state rt_server) (rt_ca_id ex_profile) = Some demo_ca"
    "rt_validator ex_profile = StaticSecretValidator ''pw''"
    by (simp_all add: server ex_state_def ex_profile_def)
  have built: "build_csr (p_x509 rt_platform) rt_requests ''A'' ''pw'' rt_device = Inr [4]"
    by (simp add: build_csr_def ask_requests_def ask_x509_def demo_x509_def)
  have db: "\<And>n. p_fault rt_platform n = None" "set SCHEMA \<subseteq> set (tables (w_db ex_world))"
    "serial_hex (p_codec rt_platform) leaf \<notin> ic_serial ` set (issued (w_db ex_world))"
    by (simp_all add: new_database_def)
  have call: "router (hc_path (post_call [''scep'', ''p''] body)) = Some (RScep ''p'')"
    "hc_method (post_call [''scep'', ''p''] body) = POST" "hc_body (post_call [''scep'', ''p''] body) = body"
    "hc_query (post_call [''scep'', ''p''] body) ''operation'' \<in> {None, Some ''PKIOperation''}"
    by (simp_all add: post_call_def)
  from honest_device_is_enrolled [OF rt_documented server(1) profile rt_keys built body call csr(1)
      leaf [folded server(2)] db reply, of "\<lambda>_. 0"]
  obtain w' reply certs where run: "serve rt_server ex_env (\<lambda>_. 0) (post_call [''scep'', ''p''] body) ex_world =
        (\<lparr>resp_status = 200, resp_content_type = Some CT_PKI_MESSAGE, resp_body = der\<rparr>, w')"
    "read_reply rt_platform rt_device der = Inr (reply, certs)" "req_transaction_id reply = ''t1''"
    "registry (w_db w') (ca_id demo_ca) (serial_hex (p_codec rt_platform) leaf) = Good"
    by blast
  from run(4) have "issued (w_db w') \<noteq> []" by (auto simp: registry_def)
  with run(1-3) show ?thesis by blast
qed

end
