(* ===== verification/Exchange.thy ===== *)
theory Exchange
  imports Roundtrip
begin

text \<open>
  The enrolment test of \<open>roundtrip.rs\<close>, line by line: a fresh CA, a device with a self-signed
  certificate, its request, what the server does with it without HTTP or database, and the reading of
  the reply.  A test ends well, or panics: at an \<open>unwrap\<close> of some step or at an assertion.  The
  random bytes and clock readings are those of \<open>t\<close>, one field for each use.
\<close>

datatype test_step =
    MakeCa | MakeDevice | MakeCsr | MakeRequest | VerifyRequest | OpenRequest | ParseRequest
  | IssueCertificate | MakeReply | VerifyReply | OpenReply

datatype panic = Unwrapped test_step | Assertion string

record test_env =
  te_ca_key_rng :: "nat \<Rightarrow> byte"
  te_ca_serial_rng :: "nat \<Rightarrow> byte"
  te_ca_now :: system_time
  te_device_key_rng :: "nat \<Rightarrow> byte"
  te_device_serial_rng :: "nat \<Rightarrow> byte"
  te_device_now :: system_time
  te_device :: request_env
  te_server :: request_env

definition unwrap :: "test_step \<Rightarrow> 'e + 'a \<Rightarrow> panic + 'a" where
  "unwrap s r = map_err (\<lambda>_. Unwrapped s) r"

definition assert_that :: "string \<Rightarrow> bool \<Rightarrow> panic + unit" where
  "assert_that what c = (if c then Inr () else Inl (Assertion what))"

definition CHALLENGE :: string where "CHALLENGE = ''s3cr3t-challenge''"
definition DEVICE_SUBJECT :: string where "DEVICE_SUBJECT = ''CN=intune-device-01''"
definition TRANSACTION_ID :: string where "TRANSACTION_ID = ''transaction-abc-123''"

definition test_options :: issue_options where
  "test_options =
     \<lparr>opt_validity_days = 365, opt_key_usage = [''digitalSignature'', ''keyEncipherment''],
      opt_extended_key_usage = [''clientAuth''], opt_ocsp_url = Some ''http://pki.example.com/ocsp'',
      opt_crl_url = Some ''http://pki.example.com/crl''\<rparr>"

text \<open>The reply of the test names the device's own certificate; \<open>pki_operation\<close> names what it verified.\<close>

definition test_reply ::
  "platform \<Rightarrow> request_env \<Rightarrow> certificate_authority \<Rightarrow> certificate \<Rightarrow> parsed_request \<Rightarrow> certificate \<Rightarrow>
     (bytes \<times> bytes) app_result" where
  "test_reply p env ca device_cert parsed leaf =
     try_then (certs_only (p_cms p) leaf) (\<lambda>certs.
     try_then (build (p_der p) (p_cms p) (p_x509 p) (p_rsa p) (p_cipher p) (rq_cek_rng env) (rq_iv_rng env)
                 (rq_wrap_rng env) certs device_cert) (\<lambda>reply_env_der.
     try_then (collect_results (\<lambda>a. a)
         [printable_attribute (p_der p) ID_MESSAGE_TYPE (message_type_value CertRep),
          printable_attribute (p_der p) ID_PKI_STATUS (pki_status_value Success),
          printable_attribute (p_der p) ID_TRANSACTION_ID (req_transaction_id parsed),
          octet_attribute (p_der p) ID_SENDER_NONCE (generate_nonce (rq_nonce_rng env)),
          octet_attribute (p_der p) ID_RECIPIENT_NONCE (req_sender_nonce parsed)]) (\<lambda>reply_attrs.
     map_ok (Pair certs) (build_cert_rep (p_der p) (p_cms p) (ca_signing_key ca) (ca_cert ca) (Some reply_env_der)
       reply_attrs))))"

definition test_ca :: "platform \<Rightarrow> test_env \<Rightarrow> certificate_authority app_result" where
  "test_ca p t = generate_self_signed (p_rsa p) (p_x509 p) (p_time p) (te_ca_now t) (te_ca_key_rng t)
     (te_ca_serial_rng t) ''test-ca'' ''blapki Test CA'' 2048"

definition test_device :: "platform \<Rightarrow> test_env \<Rightarrow> certificate_authority app_result" where
  "test_device p t = generate_self_signed (p_rsa p) (p_x509 p) (p_time p) (te_device_now t) (te_device_key_rng t)
     (te_device_serial_rng t) ''device'' ''device-tmp'' 2048"

definition scep_enrolment_roundtrip :: "platform \<Rightarrow> request_lib \<Rightarrow> test_env \<Rightarrow> panic + unit" where
  "scep_enrolment_roundtrip p q t =
     try_then (unwrap MakeCa (test_ca p t)) (\<lambda>ca.
     try_then (unwrap MakeDevice (test_device p t)) (\<lambda>device.
     try_then (unwrap MakeCsr (build_csr (p_x509 p) q DEVICE_SUBJECT CHALLENGE device)) (\<lambda>csr_der.
     let sender_nonce = generate_nonce (rq_nonce_rng (te_device t)) in
     try_then (unwrap MakeRequest (device_request p (te_device t) (ca_cert ca) device TRANSACTION_ID csr_der)) (\<lambda>request_der.
     try_then (unwrap VerifyRequest (parse_and_verify (p_der p) (p_cms p) (p_digest p) (p_rsa p) request_der)) (\<lambda>parsed.
     try_then (assert_that ''parsed.message_type'' (req_message_type parsed = PkcsReq)) (\<lambda>_.
     try_then (assert_that ''parsed.transaction_id'' (req_transaction_id parsed = TRANSACTION_ID)) (\<lambda>_.
     try_then (assert_that ''parsed.sender_nonce'' (req_sender_nonce parsed = sender_nonce)) (\<lambda>_.
     try_then (ok_or (Assertion ''PKCSReq carries an envelope'') (req_enveloped parsed)) (\<lambda>enveloped_in.
     try_then (unwrap OpenRequest (open_envelope (p_der p) (p_x509 p) (p_digest p) (p_rsa p) (p_cipher p) enveloped_in
       (ca_cert ca) (ca_private_key ca))) (\<lambda>recovered_csr.
     try_then (assert_that ''decrypted CSR must match the original'' (recovered_csr = csr_der)) (\<lambda>_.
     try_then (unwrap ParseRequest (parse (p_der p) (p_x509 p) recovered_csr)) (\<lambda>parsed_csr.
     try_then (assert_that ''parsed_csr.challenge_password'' (pc_challenge_password parsed_csr = Some CHALLENGE)) (\<lambda>_.
     try_then (assert_that ''parsed_csr.subject'' (parsed_subject (p_x509 p) parsed_csr = DEVICE_SUBJECT)) (\<lambda>_.
     try_then (unwrap IssueCertificate (issue (p_der p) (p_x509 p) (p_time p) (rq_issue_time (te_server t))
       (rq_serial_rng (te_server t)) ca (pc_req parsed_csr) test_options)) (\<lambda>leaf.
     try_then (assert_that ''issued subject'' (name_display (p_x509 p) (cert_subject leaf) = DEVICE_SUBJECT)) (\<lambda>_.
     try_then (assert_that ''issued cert must be issued by the CA''
       (name_display (p_x509 p) (cert_issuer leaf) = name_display (p_x509 p) (ca_subject ca))) (\<lambda>_.
     try_then (unwrap MakeReply (test_reply p (te_server t) ca (ca_cert device) parsed leaf)) (\<lambda>(certs, response_der).
     try_then (unwrap VerifyReply (parse_and_verify (p_der p) (p_cms p) (p_digest p) (p_rsa p) response_der)) (\<lambda>reply.
     try_then (assert_that ''reply.message_type'' (req_message_type reply = CertRep)) (\<lambda>_.
     try_then (assert_that ''reply.transaction_id'' (req_transaction_id reply = TRANSACTION_ID)) (\<lambda>_.
     try_then (assert_that ''reply.sender_nonce.len()'' (length (req_sender_nonce reply) = NONCE_LEN)) (\<lambda>_.
     try_then (ok_or (Assertion ''CertRep carries an envelope'') (req_enveloped reply)) (\<lambda>reply_env_in.
     try_then (unwrap OpenReply (open_envelope (p_der p) (p_x509 p) (p_digest p) (p_rsa p) (p_cipher p) reply_env_in
       (ca_cert device) (ca_private_key device))) (\<lambda>recovered_certs.
     assert_that ''device must recover exactly the certs-only reply'' (recovered_certs = certs)))))))))))))))))))))))))"

subsection \<open>Its course\<close>

text \<open>A course is sound when the test ends well or stops where a library refused to build something.\<close>

definition building :: "test_step set" where
  "building = {MakeCa, MakeDevice, MakeCsr, MakeRequest, IssueCertificate, MakeReply}"

definition course_sound :: "panic + unit \<Rightarrow> bool" where
  "course_sound r \<longleftrightarrow> r = Inr () \<or> (\<exists>s\<in>building. r = Inl (Unwrapped s))"

lemma sound_if_built: "s \<in> building \<Longrightarrow> (\<And>v. r = Inr v \<Longrightarrow> course_sound (f v)) \<Longrightarrow> course_sound (try_then (unwrap s r) f)"
  by (cases r) (auto simp: course_sound_def unwrap_def)

lemma building_steps:
  "MakeCa \<in> building" "MakeDevice \<in> building" "MakeCsr \<in> building" "MakeRequest \<in> building"
  "IssueCertificate \<in> building" "MakeReply \<in> building"
  by (simp_all add: building_def)

lemmas sound_built = building_steps [THEN sound_if_built]

lemma sound_read: "r = Inr v \<Longrightarrow> course_sound (f v) \<Longrightarrow> course_sound (try_then (unwrap s r) f)"
  by (simp add: unwrap_def)

lemma sound_expect: "v = Some a \<Longrightarrow> course_sound (f a) \<Longrightarrow> course_sound (try_then (ok_or e v) f)"
  by simp

lemma sound_assert: "c \<Longrightarrow> course_sound (f ()) \<Longrightarrow> course_sound (try_then (assert_that w c) f)"
  "c \<Longrightarrow> course_sound (assert_that w c)"
  by (simp_all add: assert_that_def course_sound_def)

text \<open>
  The key of a certificate is read back from the encoding it was built with, and the name of the
  test is its own RFC 4514 text.
\<close>

definition names_and_keys_documented :: "rsa_lib \<Rightarrow> x509_lib \<Rightarrow> bool" where
  "names_and_keys_documented r x \<longleftrightarrow>
     (\<forall>rng bits k s. rsa_generate r rng bits = Inr k \<longrightarrow> rsa_spki_from_key r (to_public_key k) = Inr s \<longrightarrow>
        rsa_public_from_pkcs1 r (spki_public_key s) = Inr (to_public_key k))
     \<and> (\<forall>n. name_from_str x DEVICE_SUBJECT = Inr n \<longrightarrow> name_display x n = DEVICE_SUBJECT)"

lemma generated_holds_key:
  assumes "builder_documented x" and "serial_new_documented x" and "names_and_keys_documented r x"
    and "generate_self_signed r x tm now key_rng serial_rng i cn bits = Inr ca"
  shows "holds_key r ca"
  using generated_ca_is_consistent [OF assms(1,2,4)] assms(3) serial_bytes_ok [of serial_rng]
  by (auto simp: holds_key_def names_and_keys_documented_def rsa_public_key_def rsa_public_key_from_spki_def serial_ok_def)


lemma test_reply_builds:
  assumes doc: "exchange_documented p q" and keys: "holds_key (p_rsa p) device"
    and run: "test_reply p env ca (ca_cert device) (received t txn nonce device e) leaf = Inr (certs, der)"
  shows "certs_only (p_cms p) leaf = Inr certs \<and> build_success p env ca (received t txn nonce device e) leaf = Inr der"
proof -
  from run obtain envelope attrs where c: "certs_only (p_cms p) leaf = Inr certs"
    and b: "build (p_der p) (p_cms p) (p_x509 p) (p_rsa p) (p_cipher p) (rq_cek_rng env) (rq_iv_rng env)
                 (rq_wrap_rng env) certs (ca_cert device) = Inr envelope"
    and as: "success_attrs (p_der p) (rq_nonce_rng env) txn nonce = Inr attrs"
    and rep: "build_cert_rep (p_der p) (p_cms p) (ca_signing_key ca) (ca_cert ca) (Some envelope) attrs = Inr der"
    unfolding test_reply_def try_then_Inr_iff map_ok_Inr_iff success_attrs_def by (auto simp: received_def)
  then show ?thesis
    using build_for_holder [OF doc keys b] by (simp add: build_success_def received_def Let_def)
qed


text \<open>The two halves: what reaches the server, and what reaches the device.\<close>

lemma request_half:
  assumes doc: "exchange_documented p q" "names_and_keys_documented (p_rsa p) (p_x509 p)"
    and keys: "holds_key (p_rsa p) ca" "holds_key (p_rsa p) device"
    and csr: "build_csr (p_x509 p) q DEVICE_SUBJECT CHALLENGE device = Inr csr_der"
    and body: "device_request p dev (ca_cert ca) device txn csr_der = Inr body"
  obtains env csr where
    "parse_and_verify (p_der p) (p_cms p) (p_digest p) (p_rsa p) body =
       Inr (received PkcsReq txn (generate_nonce (rq_nonce_rng dev)) device (Some env))"
    "open_envelope (p_der p) (p_x509 p) (p_digest p) (p_rsa p) (p_cipher p) env (ca_cert ca) (ca_private_key ca) = Inr csr_der"
    "parse (p_der p) (p_x509 p) csr_der = Inr csr" "pc_challenge_password csr = Some CHALLENGE"
    "name_display (p_x509 p) (csr_subject (pc_req csr)) = DEVICE_SUBJECT"
proof -
  obtain csr where "parse (p_der p) (p_x509 p) csr_der = Inr csr" "pc_challenge_password csr = Some CHALLENGE"
    "name_from_str (p_x509 p) DEVICE_SUBJECT = Inr (csr_subject (pc_req csr))"
    using built_csr_decodes [OF doc(1) csr] by blast
  moreover from this(3) doc(2) have "name_display (p_x509 p) (csr_subject (pc_req csr)) = DEVICE_SUBJECT"
    by (simp add: names_and_keys_documented_def)
  ultimately show ?thesis
    using device_request_opened [OF doc(1) keys body] that by blast
qed

lemma reply_half:
  assumes doc: "exchange_documented p q" and keys: "holds_key (p_rsa p) ca" "holds_key (p_rsa p) device"
    and run: "test_reply p env ca (ca_cert device) (received t txn nonce device e) leaf = Inr (certs, der)"
  obtains reply_env where
    "parse_and_verify (p_der p) (p_cms p) (p_digest p) (p_rsa p) der =
       Inr (received CertRep txn (generate_nonce (rq_nonce_rng env)) ca (Some reply_env))"
    "open_envelope (p_der p) (p_x509 p) (p_digest p) (p_rsa p) (p_cipher p) reply_env (ca_cert device)
       (ca_private_key device) = Inr certs"
proof -
  from test_reply_builds [OF doc keys(2) run] have c: "certs_only (p_cms p) leaf = Inr certs"
    and b: "build_success p env ca (received t txn nonce device e) leaf = Inr der" by blast+
  from success_reply_read [OF doc keys b] c obtain reply_env where
    "read_reply p device der = Inr (received CertRep txn (generate_nonce (rq_nonce_rng env)) ca (Some reply_env), certs)"
    by auto
  then show ?thesis
    by (intro that [of reply_env]) (auto simp: read_reply_def try_then_Inr_iff map_ok_Inr_iff received_def)
qed

lemma received_fields [simp]:
  "req_message_type (received t txn nonce a e) = t" "req_transaction_id (received t txn nonce a e) = txn"
  "req_sender_nonce (received t txn nonce a e) = nonce" "req_enveloped (received t txn nonce a e) = e"
  by (simp_all add: received_def)

lemma enrolment_course:
  assumes doc: "exchange_documented p q" and x: "builder_documented (p_x509 p)" "serial_new_documented (p_x509 p)"
    and ia5: "ia5_documented (p_der p)" and nk: "names_and_keys_documented (p_rsa p) (p_x509 p)"
  shows "course_sound (scep_enrolment_roundtrip p q t)"
  unfolding scep_enrolment_roundtrip_def Let_def
  apply (rule sound_built)+
  subgoal premises prems for ca device csr_der request_der
  proof -
    have keys: "holds_key (p_rsa p) ca" "holds_key (p_rsa p) device"
      using generated_holds_key [OF x nk] prems(1,2) unfolding test_ca_def test_device_def by blast+
    obtain env csr where req:
      "parse_and_verify (p_der p) (p_cms p) (p_digest p) (p_rsa p) request_der =
         Inr (received PkcsReq TRANSACTION_ID (generate_nonce (rq_nonce_rng (te_device t))) device (Some env))"
      "open_envelope (p_der p) (p_x509 p) (p_digest p) (p_rsa p) (p_cipher p) env (ca_cert ca) (ca_private_key ca) = Inr csr_der"
      "parse (p_der p) (p_x509 p) csr_der = Inr csr" "pc_challenge_password csr = Some CHALLENGE"
      "name_display (p_x509 p) (csr_subject (pc_req csr)) = DEVICE_SUBJECT"
      by (rule request_half [OF doc nk keys prems(3,4)])
    show ?thesis
      apply (rule sound_read [OF req(1)])
      apply (simp only: received_fields)
      apply ((rule sound_assert, rule refl)+)
      apply (rule sound_expect [OF refl])
      apply (rule sound_read [OF req(2)])
      apply (rule sound_assert [OF refl])
      apply (rule sound_read [OF req(3)])
      apply (rule sound_assert [OF req(4)])
      apply (rule sound_assert, simp add: parsed_subject_def req(5))
      apply (rule sound_built)
      subgoal premises issued for leaf
      proof -
        from issue_builds [OF x(1) ia5 issued]
        have leaf: "cert_issuer leaf = ca_subject ca" "cert_subject leaf = csr_subject (pc_req csr)" by blast+
        show ?thesis
          apply (rule sound_assert, simp only: leaf req(5))
          apply (rule sound_assert, simp only: leaf)
          apply (rule sound_built)
          subgoal premises reply for made
          proof -
            obtain certs response_der where made: "made = (certs, response_der)" by force
            obtain reply_env where rep:
              "parse_and_verify (p_der p) (p_cms p) (p_digest p) (p_rsa p) response_der =
                 Inr (received CertRep TRANSACTION_ID (generate_nonce (rq_nonce_rng (te_server t))) ca (Some reply_env))"
              "open_envelope (p_der p) (p_x509 p) (p_digest p) (p_rsa p) (p_cipher p) reply_env (ca_cert device)
                 (ca_private_key device) = Inr certs"
              by (rule reply_half [OF doc keys reply [unfolded made]])
            show ?thesis
              unfolding made prod.case
              apply (rule sound_read [OF rep(1)], simp only: received_fields)
              apply (rule sound_assert, rule refl)+
              apply (rule sound_assert, simp add: generate_nonce_def)
              apply (rule sound_expect [OF refl])
              apply (rule sound_read [OF rep(2)])
              apply (rule sound_assert(2) [OF refl])
              done
          qed
          done
      qed
      done
  qed
  done


subsection \<open>A concrete course\<close>

text \<open>Where every library can build what it is asked to, the test stops nowhere.\<close>

definition unstopped :: "panic + unit \<Rightarrow> bool" where
  "unstopped r \<longleftrightarrow> (\<forall>s\<in>building. r \<noteq> Inl (Unwrapped s))"

lemma unstopped_built: "\<exists>v. r = Inr v \<Longrightarrow> (\<And>v. r = Inr v \<Longrightarrow> unstopped (f v)) \<Longrightarrow> unstopped (try_then (unwrap s r) f)"
  by (auto simp: unwrap_def)

lemma unstopped_read: "s \<notin> building \<Longrightarrow> (\<And>v. r = Inr v \<Longrightarrow> unstopped (f v)) \<Longrightarrow> unstopped (try_then (unwrap s r) f)"
  by (cases r) (auto simp: unwrap_def unstopped_def)

lemma unstopped_assert: "(\<And>u. unstopped (f u)) \<Longrightarrow> unstopped (try_then (assert_that w c) f)" "unstopped (assert_that w c)"
  by (simp_all add: unstopped_def assert_that_def)

lemma unstopped_expect: "(\<And>a. unstopped (f a)) \<Longrightarrow> unstopped (try_then (ok_or (Assertion w) v) f)"
  by (cases v) (simp_all add: unstopped_def)

lemma unstopped_pair: "(\<And>a b. unstopped (f a b)) \<Longrightarrow> unstopped (case v of (a, b) \<Rightarrow> f a b)"
  by (cases v) simp

lemma reading_steps:
  "VerifyRequest \<notin> building" "OpenRequest \<notin> building" "ParseRequest \<notin> building" "VerifyReply \<notin> building"
  "OpenReply \<notin> building"
  by (simp_all add: building_def)

lemmas unstopped_reads = reading_steps [THEN unstopped_read]

lemma course_unstopped:
  assumes "test_ca p t = Inr ca" and "test_device p t = Inr device"
    and "build_csr (p_x509 p) q DEVICE_SUBJECT CHALLENGE device = Inr csr_der"
    and "\<exists>body. device_request p (te_device t) (ca_cert ca) device TRANSACTION_ID csr_der = Inr body"
    and "\<And>der csr. parse (p_der p) (p_x509 p) der = Inr csr \<Longrightarrow> \<exists>leaf. issue (p_der p) (p_x509 p) (p_time p)
       (rq_issue_time (te_server t)) (rq_serial_rng (te_server t)) ca (pc_req csr) test_options = Inr leaf"
    and "\<And>parsed leaf. \<exists>made. test_reply p (te_server t) ca (ca_cert device) parsed leaf = Inr made"
  shows "unstopped (scep_enrolment_roundtrip p q t)"
  unfolding scep_enrolment_roundtrip_def Let_def
  using assms
  by (intro unstopped_built unstopped_reads unstopped_assert unstopped_expect unstopped_pair) auto


definition xt_self_signed :: "string \<Rightarrow> (nat \<Rightarrow> byte) \<Rightarrow> certificate" where
  "xt_self_signed cn rng =
     \<lparr>cert_serial_number = serial_bytes rng, cert_issuer = as_bytes (''CN='' @ cn), cert_validity = demo_validity,
      cert_subject = as_bytes (''CN='' @ cn), cert_spki = demo_spki, cert_extensions = [], cert_signature = [9]\<rparr>"

definition xt_ca_cert :: certificate where "xt_ca_cert = xt_self_signed ''blapki Test CA'' (\<lambda>_. 4)"
definition xt_device_cert :: certificate where "xt_device_cert = xt_self_signed ''device-tmp'' (\<lambda>_. 5)"

definition xt_cert :: "bytes \<Rightarrow> certificate" where
  "xt_cert b = (if b = serial_bytes (\<lambda>_. 4) then xt_ca_cert else xt_device_cert)"

definition xt_platform :: platform where
  "xt_platform = ex_platform\<lparr>p_cms := cert_cms xt_cert, p_digest := demo_digest, p_x509 := ask_x509 DEVICE_SUBJECT CHALLENGE\<rparr>"

abbreviation xt_requests :: request_lib where "xt_requests \<equiv> ask_requests DEVICE_SUBJECT CHALLENGE"

definition xt_env :: test_env where
  "xt_env = \<lparr>te_ca_key_rng = (\<lambda>_. 1), te_ca_serial_rng = (\<lambda>_. 4), te_ca_now = 0, te_device_key_rng = (\<lambda>_. 2),
     te_device_serial_rng = (\<lambda>_. 5), te_device_now = 0, te_device = ex_env, te_server = ex_env\<rparr>"

lemma xt_platform_fields [simp]:
  "p_der xt_platform = demo_der" "p_cms xt_platform = cert_cms xt_cert" "p_digest xt_platform = demo_digest"
  "p_rsa xt_platform = demo_rsa" "p_cipher xt_platform = demo_cipher" "p_time xt_platform = demo_time"
  "p_x509 xt_platform = ask_x509 DEVICE_SUBJECT CHALLENGE"
  by (simp_all add: xt_platform_def)

lemma xt_documented: "exchange_documented xt_platform xt_requests"
  by (simp add: exchange_documented_def demo_der_documented demo_rsa_documented demo_cipher_documented rt_signed_data
      cert_cms_documented ask_documented)

lemma xt_x509_documented:
  "builder_documented (ask_x509 s c)" "serial_new_documented (ask_x509 s c)"
  using demo_builder_documented demo_serial_documented
  by (simp_all add: builder_documented_def serial_new_documented_def ask_x509_def)

lemma xt_names_and_keys: "names_and_keys_documented demo_rsa (ask_x509 s c)"
  by (simp add: names_and_keys_documented_def demo_rsa_def demo_spki_def ask_x509_def)

lemma xt_cas: "test_ca xt_platform xt_env = Inr (ca_new ''test-ca'' xt_ca_cert demo_key)"
  "test_device xt_platform xt_env = Inr (ca_new ''device'' xt_device_cert demo_key)"
  unfolding test_ca_def test_device_def generate_self_signed_def xt_platform_fields
    random_serial_value [OF xt_x509_documented(2)]
  by (simp_all add: xt_env_def demo_rsa_def demo_time_def ask_x509_def demo_build_def xt_ca_cert_def xt_device_cert_def
      xt_self_signed_def ca_new_def Let_def)

lemma serial_bytes_second: "serial_bytes (\<lambda>_. b) ! 1 = b"
  by (simp add: serial_bytes_def fill_bytes_def Let_def)

lemma xt_serials_differ: "serial_bytes (\<lambda>_. 5) \<noteq> serial_bytes (\<lambda>_. 4)"
  using serial_bytes_second [of 4] serial_bytes_second [of 5] by force

lemma xt_cert_keys: "xt_cert (cert_serial_number xt_ca_cert) = xt_ca_cert"
  "xt_cert (cert_serial_number xt_device_cert) = xt_device_cert"
  by (simp_all add: xt_cert_def xt_ca_cert_def xt_device_cert_def xt_self_signed_def xt_serials_differ)

lemma xt_build:
  assumes "cert = xt_ca_cert \<or> cert = xt_device_cert"
  shows "\<exists>e. build demo_der (cert_cms xt_cert) (ask_x509 s c) demo_rsa demo_cipher r1 r2 r3 pt cert = Inr e"
proof -
  have cert: "cert_spki cert = demo_spki" "length (cert_issuer cert) < 100" "length (cert_serial_number cert) < 100"
    using assms serial_bytes_ok by (auto simp: xt_ca_cert_def xt_device_cert_def xt_self_signed_def serial_ok_def)
  then have "rsa_public_key demo_rsa cert = Inr (to_public_key demo_key)"
    by (simp add: rsa_public_key_def rsa_public_key_from_spki_def demo_rsa_def demo_spki_def)
  moreover have "serial_new_raw (ask_x509 s c) b = Inr b" for b by (simp add: ask_x509_def demo_x509_def)
  moreover have "\<exists>e. build_for demo_der (cert_cms xt_cert) demo_rsa demo_cipher r1 r2 r3 pt
     \<lparr>rcp_public_key = to_public_key demo_key, rcp_issuer = cert_issuer cert, rcp_serial = cert_serial_number cert\<rparr> = Inr e"
    using cert by (intro rt_build_for) simp
  ultimately show ?thesis by (simp add: build_def Let_def)
qed

lemma xt_request:
  "\<exists>body. device_request xt_platform ex_env xt_ca_cert (ca_new i xt_device_cert demo_key) TRANSACTION_ID [4] = Inr body"
proof -
  obtain e where "build demo_der (cert_cms xt_cert) (ask_x509 DEVICE_SUBJECT CHALLENGE) demo_rsa demo_cipher
      (rq_cek_rng ex_env) (rq_iv_rng ex_env) (rq_wrap_rng ex_env) [4] xt_ca_cert = Inr e"
    using xt_build by blast
  moreover obtain as where "collect_results (\<lambda>a. a)
          [printable_attribute demo_der ID_MESSAGE_TYPE (message_type_value PkcsReq),
           printable_attribute demo_der ID_TRANSACTION_ID TRANSACTION_ID,
           octet_attribute demo_der ID_SENDER_NONCE (generate_nonce (rq_nonce_rng ex_env))] = Inr as"
    by (simp add: demo_der_eval)
  moreover obtain body where "build_cert_rep demo_der (cert_cms xt_cert) demo_key xt_device_cert (Some e) as = Inr body"
    using rt_build_cert_rep [of xt_cert, OF xt_cert_keys(2)] by blast
  ultimately show ?thesis
    by (simp add: device_request_def Let_def ca_new_def del: collect_results.simps message_type_value.simps)
qed

lemma xt_reply:
  "\<exists>made. test_reply xt_platform ex_env (ca_new i xt_ca_cert demo_key) xt_device_cert parsed leaf = Inr made"
proof -
  have "\<exists>c. certs_only (cert_cms xt_cert) leaf = Inr c"
    by (simp add: certs_only_def rt_cms_fields) (simp add: demo_cms_def cms_oids)
  then obtain c where "certs_only (cert_cms xt_cert) leaf = Inr c" ..
  moreover obtain e where "build demo_der (cert_cms xt_cert) (ask_x509 DEVICE_SUBJECT CHALLENGE) demo_rsa demo_cipher
      (rq_cek_rng ex_env) (rq_iv_rng ex_env) (rq_wrap_rng ex_env) c xt_device_cert = Inr e"
    using xt_build by blast
  moreover obtain as where "collect_results (\<lambda>a. a)
         [printable_attribute demo_der ID_MESSAGE_TYPE (message_type_value CertRep),
          printable_attribute demo_der ID_PKI_STATUS (pki_status_value Success),
          printable_attribute demo_der ID_TRANSACTION_ID (req_transaction_id parsed),
          octet_attribute demo_der ID_SENDER_NONCE (generate_nonce (rq_nonce_rng ex_env)),
          octet_attribute demo_der ID_RECIPIENT_NONCE (req_sender_nonce parsed)] = Inr as"
    by (simp add: demo_der_eval)
  moreover obtain body where "build_cert_rep demo_der (cert_cms xt_cert) demo_key xt_ca_cert (Some e) as = Inr body"
    using rt_build_cert_rep [of xt_cert, OF xt_cert_keys(1)] by blast
  ultimately show ?thesis
    by (simp add: test_reply_def ca_new_def del: collect_results.simps message_type_value.simps pki_status_value.simps)
qed

lemma xt_issue:
  assumes "parse demo_der (ask_x509 s c) der = Inr csr"
  shows "\<exists>leaf. issue demo_der (ask_x509 s c) demo_time now rng ca (pc_req csr) test_options = Inr leaf"
proof -
  have csr: "pc_req csr = ask_csr s c"
    using assms by (auto simp: parse_Inr ask_x509_def split: if_splits)
  have san: "requested_san demo_der (ask_x509 s c) (ask_csr s c) = Inr None"
    by (simp add: requested_san_def ask_csr_def ID_EXTENSION_REQ_def ID_CHALLENGE_PASSWORD_def)
  have ku: "key_usage [''digitalSignature'', ''keyEncipherment''] = Inr {DigitalSignature, KeyEncipherment}"
    by (auto simp: key_usage_def usage_flag_def)
  have ia5: "ia5_string_new demo_der ''http://pki.example.com/ocsp'' = Inr ''http://pki.example.com/ocsp''"
    "ia5_string_new demo_der ''http://pki.example.com/crl'' = Inr ''http://pki.example.com/crl''"
    by (simp_all add: demo_der_def ascii_def)
  have eku: "\<exists>e. extended_key_usage demo_der [''clientAuth''] = Inr e"
    by (simp add: extended_key_usage_def eku_oid_def)
  then obtain e where eku: "extended_key_usage demo_der [''clientAuth''] = Inr e" ..
  have time: "validity_from demo_time a b = Inr demo_validity" for a b by (simp add: demo_time_def)
  have x: "ski_from_spki (ask_x509 s c) k = Inr [1]" "aki_from_spki (ask_x509 s c) k = Inr [2]"
    "builder_new (ask_x509 s c) pr s' v su k sg = Inr \<lparr>bld_profile = pr, bld_serial = s', bld_validity = v,
       bld_subject = su, bld_spki = k, bld_signer = sg, bld_extensions = []\<rparr>"
    "builder_add (ask_x509 s c) bu ex = Inr (bu\<lparr>bld_extensions := bld_extensions bu @ [ex]\<rparr>)"
    "builder_build (ask_x509 s c) bu = Inr (demo_build bu)" for k pr s' v su sg bu ex
    by (simp_all add: ask_x509_def)
  show ?thesis
    by (simp add: csr issue_def test_options_def random_serial_value [OF xt_x509_documented(2)] ku eku x san time ia5
        Let_def add_extension_def add_optional_def authority_info_access_def crl_distribution_points_def)
qed


lemma ca_new_cert: "ca_cert (ca_new i c k) = c"
  by (simp add: ca_new_def)

lemma xt_unstopped: "unstopped (scep_enrolment_roundtrip xt_platform xt_requests xt_env)"
proof (rule course_unstopped [OF xt_cas])
  show "build_csr (p_x509 xt_platform) xt_requests DEVICE_SUBJECT CHALLENGE (ca_new ''device'' xt_device_cert demo_key) = Inr [4]"
    by (simp add: build_csr_def ask_requests_def ask_x509_def)
qed (use xt_request xt_reply xt_issue in \<open>simp_all add: xt_env_def ca_new_cert\<close>)

subsection \<open>The property\<close>

text \<open>
  C15: the enrolment test of the repository passes.  With a fresh CA and a fresh device, whatever
  the random bytes and the clock, no assertion of the test ever fails, and neither do the verification
  and the opening of the two messages nor the parsing of the request: the test ends well, or a library
  refuses to generate, encode or issue something.
\<close>

theorem enrolment_roundtrip_passes:
  assumes "exchange_documented p q" and "builder_documented (p_x509 p)" and "serial_new_documented (p_x509 p)"
    and "ia5_documented (p_der p)" and "names_and_keys_documented (p_rsa p) (p_x509 p)"
  shows "scep_enrolment_roundtrip p q t = Inr ()
    \<or> (\<exists>s\<in>{MakeCa, MakeDevice, MakeCsr, MakeRequest, IssueCertificate, MakeReply}.
         scep_enrolment_roundtrip p q t = Inl (Unwrapped s))"
  using enrolment_course [OF assms] by (simp add: course_sound_def building_def)

theorem enrolment_roundtrip_passes_witness:
  "scep_enrolment_roundtrip xt_platform xt_requests xt_env = Inr ()"
proof -
  have "scep_enrolment_roundtrip xt_platform xt_requests xt_env = Inr ()
    \<or> (\<exists>s\<in>building. scep_enrolment_roundtrip xt_platform xt_requests xt_env = Inl (Unwrapped s))"
    unfolding building_def
    by (rule enrolment_roundtrip_passes)
      (simp_all add: xt_documented xt_x509_documented demo_ia5_documented xt_names_and_keys)
  with xt_unstopped show ?thesis by (auto simp: unstopped_def)
qed

end
