(* ===== verification/Rejection.thy ===== *)
theory Rejection
  imports Exchange
begin

text \<open>
  Messages without content, the refusals of the server, and the two rejection tests of
  \<open>roundtrip.rs\<close>: a refusal is accepted by the verifier as it is, but not with a byte of its
  signature flipped, and not when the key that signed it is another than that of the certificate in it.
\<close>

definition test_failure_attrs :: "platform \<Rightarrow> (nat \<Rightarrow> byte) \<Rightarrow> attribute list app_result" where
  "test_failure_attrs p rng =
     collect_results (\<lambda>a. a)
       [printable_attribute (p_der p) ID_MESSAGE_TYPE (message_type_value CertRep),
        printable_attribute (p_der p) ID_PKI_STATUS (pki_status_value Failure),
        printable_attribute (p_der p) ID_FAIL_INFO (fail_info_value FailBadRequest),
        printable_attribute (p_der p) ID_TRANSACTION_ID TRANSACTION_ID,
        octet_attribute (p_der p) ID_SENDER_NONCE (generate_nonce rng)]"

text \<open>\<open>let last = der.len() - 5; der[last] ^= 0xff;\<close>, where a shorter message panics.\<close>

definition flip_near_end :: "bytes \<Rightarrow> bytes" where
  "flip_near_end der = (let last = length der - 5 in der[last := der ! last XOR 0xff])"

definition flipped :: "bytes \<Rightarrow> panic + bytes" where
  "flipped der = (if length der < 5 then Inl (Assertion ''attempt to subtract with overflow'') else Inr (flip_near_end der))"

definition tampered_signature_is_rejected :: "platform \<Rightarrow> test_env \<Rightarrow> panic + unit" where
  "tampered_signature_is_rejected p t =
     try_then (unwrap MakeCa (generate_self_signed (p_rsa p) (p_x509 p) (p_time p) (te_ca_now t) (te_ca_key_rng t)
       (te_ca_serial_rng t) ''ca'' ''tamper CA'' 2048)) (\<lambda>ca.
     try_then (unwrap MakeReply (test_failure_attrs p (rq_nonce_rng (te_server t)))) (\<lambda>attrs.
     try_then (unwrap MakeReply (build_cert_rep (p_der p) (p_cms p) (ca_signing_key ca) (ca_cert ca) None attrs)) (\<lambda>der.
     try_then (assert_that ''is_ok'' (is_ok (parse_and_verify (p_der p) (p_cms p) (p_digest p) (p_rsa p) der))) (\<lambda>_.
     try_then (flipped der) (\<lambda>der.
     assert_that ''is_err'' (\<not> is_ok (parse_and_verify (p_der p) (p_cms p) (p_digest p) (p_rsa p) der)))))))"

definition different_key_is_rejected :: "platform \<Rightarrow> test_env \<Rightarrow> panic + unit" where
  "different_key_is_rejected p t =
     try_then (unwrap MakeCa (generate_self_signed (p_rsa p) (p_x509 p) (p_time p) (te_ca_now t) (te_ca_key_rng t)
       (te_ca_serial_rng t) ''a'' ''a'' 2048)) (\<lambda>a.
     try_then (unwrap MakeDevice (generate_self_signed (p_rsa p) (p_x509 p) (p_time p) (te_device_now t) (te_device_key_rng t)
       (te_device_serial_rng t) ''b'' ''b'' 2048)) (\<lambda>b.
     try_then (unwrap MakeReply (test_failure_attrs p (rq_nonce_rng (te_server t)))) (\<lambda>attrs.
     try_then (unwrap MakeReply (build_cert_rep (p_der p) (p_cms p) (ca_signing_key b) (ca_cert a) None attrs)) (\<lambda>der.
     assert_that ''is_err'' (\<not> is_ok (parse_and_verify (p_der p) (p_cms p) (p_digest p) (p_rsa p) der))))))"

subsection \<open>Documented behaviour of messages without content\<close>

text \<open>
  Signed data without content decodes to its certificate and a signer whose attributes are, in
  DER order, the given ones, signed over their encoding with the signer's key.
\<close>

definition signs :: "cms_lib \<Rightarrow> rsa_lib \<Rightarrow> rsa_private_key \<Rightarrow> relaxed_signer_info \<Rightarrow> attribute list \<Rightarrow> bool" where
  "signs cm r key s as \<longleftrightarrow> rsi_digest_alg s = sha256_alg \<and> rsi_signed_attrs s = Some as
     \<and> (\<exists>signed sig. attributes_to_der cm as = Inr signed \<and> rsa_signature_parse r (rsi_signature s) = Inr sig
          \<and> rsa_verify_sha256 r (to_public_key key) signed sig)"

definition decodes_empty :: "cms_lib \<Rightarrow> content_info \<Rightarrow> certificate \<Rightarrow> relaxed_signer_info \<Rightarrow> bool" where
  "decodes_empty cm ci cert s \<longleftrightarrow> ci_content_type ci = ID_SIGNED_DATA \<and>
     (\<exists>sd certs b1 b2. decode_signed_data cm (ci_content ci) = Inr sd \<and> encap_content (rsd_encap_content_info sd) = None
        \<and> rsd_certificates sd = Some certs \<and> slice_reader cm (any_value certs) = Inr b1
        \<and> decode_relaxed_certificate cm b1 = Inr cert
        \<and> slice_reader cm (any_value (rsd_signer_infos sd)) = Inr b2 \<and> decode_signer_info cm b2 = Inr s)"

definition empty_data_documented :: "cms_lib \<Rightarrow> rsa_lib \<Rightarrow> bool" where
  "empty_data_documented cm r \<longleftrightarrow>
     (\<forall>key cert attrs ci. signed_data_build cm (cert_rep_spec key cert None attrs) = Inr ci \<longrightarrow>
        (\<exists>s as. decodes_empty cm ci cert s \<and> signs cm r key s as \<and> set as = set attrs))
     \<and> (\<forall>t a. content_type_attribute cm t = Inr a \<longrightarrow> attr_oid a = ID_CONTENT_TYPE)"

lemma empty_message_decodes:
  assumes "cms_documented d cm" "signer_documented cm" "der_documented d" "empty_data_documented cm r"
    and "build_cert_rep d cm key cert None attrs = Inr der"
  obtains ci s as ct where "signed_data_build cm (cert_rep_spec key cert None (ct # attrs)) = Inr ci"
    "content_info_to_der cm ci = Inr der" "content_info_from_der cm der = Inr ci"
    "decodes_empty cm ci cert s" "signs cm r key s as" "set as = insert ct (set attrs)" "attr_oid ct = ID_CONTENT_TYPE"
proof -
  from build_cert_rep_builds [OF assms(2,3,5)] obtain ci ct where
    ci: "signed_data_build cm (cert_rep_spec key cert None (ct # attrs)) = Inr ci" "content_info_to_der cm ci = Inr der"
    and ct: "content_type_attribute cm ID_DATA = Inr ct" by auto
  moreover have "content_info_from_der cm der = Inr ci" using assms(1) ci(2) by (simp add: cms_documented_def)
  moreover have "attr_oid ct = ID_CONTENT_TYPE" using assms(4) ct by (auto simp: empty_data_documented_def)
  moreover obtain s as where "decodes_empty cm ci cert s" "signs cm r key s as" "set as = set (ct # attrs)"
    using assms(4) ci(1) unfolding empty_data_documented_def by blast
  ultimately show ?thesis using that by simp
qed

text \<open>What the verifier makes of signed data that decodes so.\<close>

lemma accepted_empty:
  assumes "content_info_from_der cm der = Inr ci" and "decodes_empty cm ci cert s"
    and "rsi_digest_alg s = sha256_alg" and "rsi_signed_attrs s = Some as" and "attributes_to_der cm as = Inr msg"
    and "parse_and_verify d cm dg r der = Inr req"
  obtains sig key where "rsa_public_key r cert = Inr key" "rsa_signature_parse r (rsi_signature s) = Inr sig"
    "rsa_verify_sha256 r key msg sig"
proof -
  from parse_and_verify_sound [OF assms(6)] obtain m where m: "decodes_to cm r der m" "authentic d cm dg r m" by blast
  from m(1) assms(1,2,4) have "sm_signer m = s" "sm_cert m = cert" "sm_attrs m = as" "rsa_public_key r cert = Inr (sm_key m)"
    by (auto simp: decodes_to_def decodes_empty_def decode_first_def rsa_public_key_def)
  moreover from m(2) calculation assms(3,5) obtain sig where
    "rsa_signature_parse r (rsi_signature s) = Inr sig" "rsa_verify_sha256 r (sm_key m) msg sig"
    by (auto simp: authentic_def signature_valid_def digest_oid_def sha256_alg_def digest_alg_def)
  ultimately show ?thesis using that by blast
qed

text \<open>A refusal signed by the holder of its certificate's key is accepted as it is.\<close>

lemma failure_attrs_read:
  assumes d: "der_documented d" and attrs: "collect_results (\<lambda>a. a)
       [printable_attribute d ID_MESSAGE_TYPE (message_type_value CertRep),
        printable_attribute d ID_PKI_STATUS (pki_status_value Failure),
        printable_attribute d ID_FAIL_INFO (fail_info_value f),
        printable_attribute d ID_TRANSACTION_ID txn, octet_attribute d ID_SENDER_NONCE nonce] = Inr attrs"
  shows "distinct (map attr_oid attrs) \<and> ID_CONTENT_TYPE \<notin> set (map attr_oid attrs)
    \<and> read_string d attrs ID_MESSAGE_TYPE = Inr (message_type_value CertRep)
    \<and> read_string d attrs ID_TRANSACTION_ID = Inr txn \<and> read_octets d attrs ID_SENDER_NONCE = Inr nonce"
proof -
  from attrs obtain a1 a2 a3 a4 a5 where as: "attrs = [a1, a2, a3, a4, a5]"
    and built: "printable_attribute d ID_MESSAGE_TYPE (message_type_value CertRep) = Inr a1"
      "printable_attribute d ID_PKI_STATUS (pki_status_value Failure) = Inr a2"
      "printable_attribute d ID_FAIL_INFO (fail_info_value f) = Inr a3"
      "printable_attribute d ID_TRANSACTION_ID txn = Inr a4" "octet_attribute d ID_SENDER_NONCE nonce = Inr a5"
    by (auto simp: try_then_Inr_iff simp del: message_type_value.simps pki_status_value.simps)
  note oids = attribute_oids(1) [OF built(1)] attribute_oids(1) [OF built(2)] attribute_oids(1) [OF built(3)]
    attribute_oids(1) [OF built(4)] attribute_oids(2) [OF built(5)]
  show ?thesis
    unfolding as
    by (simp add: oids read_printable [OF d built(1)] read_printable_octets [OF d built(1)]
        read_printable [OF d built(2)] read_printable_octets [OF d built(2)]
        read_printable [OF d built(3)] read_printable_octets [OF d built(3)]
        read_printable [OF d built(4)] read_printable_octets [OF d built(4)]
        read_octet [OF d built(5)] del: message_type_value.simps pki_status_value.simps)
       (simp add: scep_oids ID_CONTENT_TYPE_def)
qed

lemma refusal_accepted:
  assumes lib: "cms_documented d cm" "signer_documented cm" "der_documented d" "empty_data_documented cm r"
    and keys: "holds_key r ca" and der: "build_cert_rep d cm (ca_signing_key ca) (ca_cert ca) None attrs = Inr der"
    and oids: "distinct (map attr_oid attrs)" "ID_CONTENT_TYPE \<notin> set (map attr_oid attrs)"
    and fields: "read_string d attrs ID_MESSAGE_TYPE = Inr (message_type_value t)"
      "read_string d attrs ID_TRANSACTION_ID = Inr txn" "read_octets d attrs ID_SENDER_NONCE = Inr nonce"
  shows "parse_and_verify d cm dg r der = Inr (received t txn nonce ca None)"
proof (rule empty_message_decodes [OF lib der])
  fix ci s as ct
  assume ci: "content_info_from_der cm der = Inr ci" "decodes_empty cm ci (ca_cert ca) s"
    and sig: "signs cm r (ca_signing_key ca) s as" and as: "set as = insert ct (set attrs)" "attr_oid ct = ID_CONTENT_TYPE"
  let ?m = "\<lparr>sm_signer = s, sm_cert = ca_cert ca, sm_attrs = as, sm_key = to_public_key (ca_private_key ca), sm_content = None\<rparr>"
  have same: "find_attribute as oid = find_attribute attrs oid" if "oid \<noteq> ID_CONTENT_TYPE" for oid
    using that as by (intro find_attribute_same [OF oids(1), of as ct ct]) auto
  have "authentic d cm dg r ?m"
    using sig keys by (auto simp: authentic_def signature_valid_def digest_oid_def signs_def holds_key_def sha256_alg_def digest_alg_def)
  moreover have "decodes_to cm r der ?m"
    using ci sig keys by (auto simp: decodes_to_def decodes_empty_def decode_first_def signs_def holds_key_def rsa_public_key_def)
  moreover have "request_of d cm ?m (received t txn nonce ca None)"
    using fields read_same [OF same]
    by (simp add: request_of_def received_def message_types.from_as_value not_sym [OF signed_attribute_oids(3)]
        not_sym [OF signed_attribute_oids(4)] not_sym [OF signed_attribute_oids(5)] split: bool.split)
  ultimately show ?thesis by (intro parse_and_verify_complete)
qed


text \<open>So a device learns of a refusal what it learns of a success, but for the envelope.\<close>

lemma refusal_reaches_device:
  assumes lib: "cms_documented (p_der p) (p_cms p)" "signer_documented (p_cms p)" "der_documented (p_der p)"
      "empty_data_documented (p_cms p) (p_rsa p)"
    and keys: "holds_key (p_rsa p) ca" and der: "build_failure p env ca (received t txn nonce device e) f = Inr der"
  shows "parse_and_verify (p_der p) (p_cms p) (p_digest p) (p_rsa p) der =
      Inr (received CertRep txn (generate_nonce (rq_nonce_rng env)) ca None)"
proof -
  from der obtain attrs where attrs: "failure_attrs (p_der p) (rq_nonce_rng env) txn nonce f = Inr attrs"
    and rep: "build_cert_rep (p_der p) (p_cms p) (ca_signing_key ca) (ca_cert ca) None attrs = Inr der"
    by (auto simp: build_failure_def try_then_Inr_iff)
  from attrs have "map attr_oid attrs =
      [ID_MESSAGE_TYPE, ID_PKI_STATUS, ID_FAIL_INFO, ID_TRANSACTION_ID, ID_SENDER_NONCE, ID_RECIPIENT_NONCE]"
    by (auto simp: failure_attrs_def try_then_Inr_iff dest: attribute_oids simp del: fail_info_value.simps)
  then have "distinct (map attr_oid attrs)" "ID_CONTENT_TYPE \<notin> set (map attr_oid attrs)"
    by (simp_all add: scep_oids ID_CONTENT_TYPE_def)
  moreover have "read_string (p_der p) attrs ID_MESSAGE_TYPE = Inr (message_type_value CertRep)"
    "read_string (p_der p) attrs ID_TRANSACTION_ID = Inr txn"
    "read_octets (p_der p) attrs ID_SENDER_NONCE = Inr (generate_nonce (rq_nonce_rng env))"
    using view_failure [OF lib(3) attrs] by (simp_all add: view_reply_def)
  ultimately show ?thesis by (rule refusal_accepted [OF lib keys rep])
qed


subsection \<open>The two tests\<close>

text \<open>
  What the tests rely on.  The DER encoding of a message without content ends with the
  signature, five bytes from the end included; an RSA signature of PKCS #1 v1.5 is unique for its key
  and message; and one that verifies under a key verifies under no other, which is the cryptographic
  assumption of the second test.
\<close>

definition signature_is_last :: "cms_lib \<Rightarrow> bool" where
  "signature_is_last cm \<longleftrightarrow>
     (\<forall>key cert attrs ci der s. signed_data_build cm (cert_rep_spec key cert None attrs) = Inr ci \<longrightarrow>
        content_info_to_der cm ci = Inr der \<longrightarrow> decodes_empty cm ci cert s \<longrightarrow>
        5 \<le> length der \<and> (\<exists>ci' sig'. content_info_from_der cm (flip_near_end der) = Inr ci'
          \<and> decodes_empty cm ci' cert (s\<lparr>rsi_signature := sig'\<rparr>) \<and> sig' \<noteq> rsi_signature s))"

definition signatures_unique :: "rsa_lib \<Rightarrow> bool" where
  "signatures_unique r \<longleftrightarrow>
     (\<forall>k m b b' s s'. rsa_signature_parse r b = Inr s \<longrightarrow> rsa_signature_parse r b' = Inr s' \<longrightarrow>
        rsa_verify_sha256 r k m s \<longrightarrow> rsa_verify_sha256 r k m s' \<longrightarrow> b = b')"

definition keys_separate :: "rsa_lib \<Rightarrow> bool" where
  "keys_separate r \<longleftrightarrow>
     (\<forall>k k' m s. rsa_verify_sha256 r k m s \<longrightarrow> rsa_verify_sha256 r k' m s \<longrightarrow> k = k')"

lemma flipped_message_rejected:
  assumes lib: "cms_documented d cm" "signer_documented cm" "der_documented d" "empty_data_documented cm r"
      "signature_is_last cm" "signatures_unique r"
    and keys: "holds_key r ca" and der: "build_cert_rep d cm (ca_signing_key ca) (ca_cert ca) None attrs = Inr der"
  shows "5 \<le> length der \<and> \<not> is_ok (parse_and_verify d cm dg r (flip_near_end der))"
proof (rule empty_message_decodes [OF lib(1-4) der])
  fix ci s as ct
  assume ci: "signed_data_build cm (cert_rep_spec (ca_signing_key ca) (ca_cert ca) None (ct # attrs)) = Inr ci"
      "content_info_to_der cm ci = Inr der" "decodes_empty cm ci (ca_cert ca) s"
    and sig: "signs cm r (ca_signing_key ca) s as"
  from lib(5) ci obtain ci' sig' where len: "5 \<le> length der"
    and flip: "content_info_from_der cm (flip_near_end der) = Inr ci'"
      "decodes_empty cm ci' (ca_cert ca) (s\<lparr>rsi_signature := sig'\<rparr>)" "sig' \<noteq> rsi_signature s"
    unfolding signature_is_last_def by metis
  from sig obtain msg v where s: "rsi_digest_alg s = sha256_alg" "rsi_signed_attrs s = Some as"
    "attributes_to_der cm as = Inr msg" "rsa_signature_parse r (rsi_signature s) = Inr v"
    "rsa_verify_sha256 r (to_public_key (ca_signing_key ca)) msg v"
    by (auto simp: signs_def)
  have False if ok: "parse_and_verify d cm dg r (flip_near_end der) = Inr req" for req
  proof (rule accepted_empty [OF flip(1,2) _ _ s(3) ok])
    fix v' key assume "rsa_public_key r (ca_cert ca) = Inr key"
      "rsa_signature_parse r (rsi_signature (s\<lparr>rsi_signature := sig'\<rparr>)) = Inr v'" "rsa_verify_sha256 r key msg v'"
    with keys s(4,5) flip(3) lib(6) show False
      by (auto simp: holds_key_def signatures_unique_def)
  qed (use s in simp_all)
  with len show ?thesis by (auto simp: is_ok_iff)
qed

lemma foreign_signature_rejected:
  assumes lib: "cms_documented d cm" "signer_documented cm" "der_documented d" "empty_data_documented cm r" "keys_separate r"
    and cert: "rsa_public_key r cert = Inr k" "k \<noteq> to_public_key key"
    and der: "build_cert_rep d cm key cert None attrs = Inr der"
  shows "\<not> is_ok (parse_and_verify d cm dg r der)"
proof (rule empty_message_decodes [OF lib(1-4) der])
  fix ci s as ct
  assume ci: "content_info_from_der cm der = Inr ci" "decodes_empty cm ci cert s" and sig: "signs cm r key s as"
  from sig obtain msg v where s: "rsi_digest_alg s = sha256_alg" "rsi_signed_attrs s = Some as"
    "attributes_to_der cm as = Inr msg" "rsa_signature_parse r (rsi_signature s) = Inr v"
    "rsa_verify_sha256 r (to_public_key key) msg v"
    by (auto simp: signs_def)
  have False if ok: "parse_and_verify d cm dg r der = Inr req" for req
  proof (rule accepted_empty [OF ci s(1-3) ok])
    fix v' key' assume "rsa_public_key r cert = Inr key'" "rsa_signature_parse r (rsi_signature s) = Inr v'"
      "rsa_verify_sha256 r key' msg v'"
    with cert s(4,5) lib(5) show False by (auto simp: keys_separate_def)
  qed
  then show ?thesis by (auto simp: is_ok_iff)
qed

lemma tampering_course:
  assumes lib: "cms_documented (p_der p) (p_cms p)" "signer_documented (p_cms p)" "der_documented (p_der p)"
      "empty_data_documented (p_cms p) (p_rsa p)" "signature_is_last (p_cms p)" "signatures_unique (p_rsa p)"
    and x: "builder_documented (p_x509 p)" "serial_new_documented (p_x509 p)" "names_and_keys_documented (p_rsa p) (p_x509 p)"
  shows "course_sound (tampered_signature_is_rejected p t)"
  unfolding tampered_signature_is_rejected_def
  apply (rule sound_built)+
  subgoal premises prems for ca attrs der
  proof -
    have keys: "holds_key (p_rsa p) ca" by (rule generated_holds_key [OF x prems(1)])
    have "parse_and_verify (p_der p) (p_cms p) (p_digest p) (p_rsa p) der =
        Inr (received CertRep TRANSACTION_ID (generate_nonce (rq_nonce_rng (te_server t))) ca None)"
      using failure_attrs_read [OF lib(3) prems(2) [unfolded test_failure_attrs_def]]
      by (intro refusal_accepted [OF lib(1-4) keys prems(3)]) auto
    then show ?thesis
      using flipped_message_rejected [OF lib keys prems(3), of "p_digest p"]
      by (simp add: assert_that_def flipped_def course_sound_def not_less)
  qed
  done

lemma foreign_key_course:
  assumes lib: "cms_documented (p_der p) (p_cms p)" "signer_documented (p_cms p)" "der_documented (p_der p)"
      "empty_data_documented (p_cms p) (p_rsa p)" "keys_separate (p_rsa p)"
    and x: "builder_documented (p_x509 p)" "serial_new_documented (p_x509 p)" "names_and_keys_documented (p_rsa p) (p_x509 p)"
    and apart: "\<And>k k'. rsa_generate (p_rsa p) (te_ca_key_rng t) 2048 = Inr k \<Longrightarrow>
      rsa_generate (p_rsa p) (te_device_key_rng t) 2048 = Inr k' \<Longrightarrow> to_public_key k \<noteq> to_public_key k'"
  shows "course_sound (different_key_is_rejected p t)"
  unfolding different_key_is_rejected_def
  apply (rule sound_built)+
  subgoal premises prems for a b attrs der
  proof -
    have keys: "holds_key (p_rsa p) a" "holds_key (p_rsa p) b" by (rule generated_holds_key [OF x prems(1)] generated_holds_key [OF x prems(2)])+
    have "to_public_key (ca_private_key a) \<noteq> to_public_key (ca_signing_key b)"
      using apart generated_ca_is_consistent [OF x(1,2) prems(1)] generated_ca_is_consistent [OF x(1,2) prems(2)] by simp
    with keys(1) have "\<not> is_ok (parse_and_verify (p_der p) (p_cms p) (p_digest p) (p_rsa p) der)"
      by (intro foreign_signature_rejected [OF lib _ _ prems(4)]) (auto simp: holds_key_def)
    then show ?thesis by (rule sound_assert(2))
  qed
  done


subsection \<open>A refused device\<close>

lemma refusal_exchange:
  assumes doc: "exchange_documented p q" "empty_data_documented (p_cms p) (p_rsa p)"
    and profile: "st_profiles state profile = Some rt" "st_cas state (rt_ca_id rt) = Some ca"
      "rt_validator rt = StaticSecretValidator secret"
    and keys: "holds_key (p_rsa p) ca" "holds_key (p_rsa p) device"
    and device: "build_csr (p_x509 p) q subject challenge device = Inr csr_der" "challenge \<noteq> secret"
      "device_request p dev (ca_cert ca) device txn csr_der = Inr body"
    and db: "\<And>n. p_fault p n = None" "set SCHEMA \<subseteq> set (tables (w_db w))"
    and reply: "build_failure p env ca (received PkcsReq txn (generate_nonce (rq_nonce_rng dev)) device None) FailBadRequest
      = Inr reply_der"
  shows "\<exists>w'. pki_operation p state env profile body w = (Inr reply_der, w')
    \<and> parse_and_verify (p_der p) (p_cms p) (p_digest p) (p_rsa p) reply_der =
        Inr (received CertRep txn (generate_nonce (rq_nonce_rng env)) ca None)
    \<and> issued (w_db w') = issued (w_db w)
    \<and> (\<exists>t\<in>set (transactions (w_db w')). tx_transaction_id t = txn \<and> tx_status t = ''failed'')"
proof -
  obtain csr where csr: "parse (p_der p) (p_x509 p) csr_der = Inr csr" "pc_challenge_password csr = Some challenge"
    using built_csr_decodes [OF doc(1) device(1)] by blast
  from device_request_received [OF doc(1) keys device(3)] obtain enveloped where
    req: "parse_and_verify (p_der p) (p_cms p) (p_digest p) (p_rsa p) body =
      Inr (received PkcsReq txn (generate_nonce (rq_nonce_rng dev)) device (Some enveloped))" (is "_ = Inr ?req")
    "open_request p ca enveloped = Inr csr"
    using csr(1) by auto
  have opened: "opened_request p state profile body rt ca ?req csr"
    unfolding opened_request_def enveloped_request_def using profile(1,2) req by (auto simp: received_def)
  have refused: "\<not> approved p rt ?req csr w"
    using csr(2) device(2)
    by (simp add: approved_def profile(3) static_secret.validate_pure static_validate_def constant_time_eq_iff
        validation_input_of_def)
  have built: "build_failure p env ca ?req FailBadRequest = Inr reply_der"
    using reply by (simp add: build_failure_def)
  have lib: "cms_documented (p_der p) (p_cms p)" "signer_documented (p_cms p)" "der_documented (p_der p)"
    using doc(1) by (simp_all add: exchange_documented_def)
  have "''scep_transaction'' \<in> set (tables (w_db w))" using db(2) by (simp add: SCHEMA_def)
  from record_transaction_healthy [of "p_fault p", OF db(1) this] validate_and_issue_rejected [OF refused]
  show ?thesis
    using built refusal_reaches_device [OF lib doc(2) keys(1) built]
    by (intro exI [of _ "snd (pki_operation p state env profile body w)"])
       (fastforce simp: pki_opened [OF opened] prod_eq_iff)
qed

text \<open>
  C7: a device with a wrong secret is told so.  The server answers its request with status 200
  and a signed refusal that the device's verifier accepts, under the device's own transaction
  identifier and without an envelope; no certificate is issued, and the transaction is recorded as failed.
  The premises are that the libraries can encode the messages and the database works.
\<close>

theorem wrong_secret_is_told:
  assumes doc: "exchange_documented p q" "empty_data_documented (p_cms p) (p_rsa p)" "sv_platform sv = p"
    and profile: "st_profiles (sv_state sv) profile = Some rt" "st_cas (sv_state sv) (rt_ca_id rt) = Some ca"
      "rt_validator rt = StaticSecretValidator secret"
    and keys: "holds_key (p_rsa p) ca" "holds_key (p_rsa p) device"
    and device: "build_csr (p_x509 p) q subject challenge device = Inr csr_der" "challenge \<noteq> secret"
      "device_request p dev (ca_cert ca) device txn csr_der = Inr body"
    and call: "router (hc_path call) = Some (RScep profile)" "hc_method call = POST" "hc_body call = body"
      "hc_query call ''operation'' \<in> {None, Some ''PKIOperation''}"
    and db: "\<And>n. p_fault p n = None" "set SCHEMA \<subseteq> set (tables (w_db w))"
    and reply: "build_failure p env ca (received PkcsReq txn (generate_nonce (rq_nonce_rng dev)) device None) FailBadRequest
      = Inr reply_der"
  shows "\<exists>w'. serve sv env clock call w =
      (\<lparr>resp_status = 200, resp_content_type = Some CT_PKI_MESSAGE, resp_body = reply_der\<rparr>, w')
    \<and> parse_and_verify (p_der p) (p_cms p) (p_digest p) (p_rsa p) reply_der =
        Inr (received CertRep txn (generate_nonce (rq_nonce_rng env)) ca None)
    \<and> issued (w_db w') = issued (w_db w)
    \<and> (\<exists>t\<in>set (transactions (w_db w')). tx_transaction_id t = txn \<and> tx_status t = ''failed'')"
proof -
  from refusal_exchange [OF doc(1,2) profile keys device db reply]
  show ?thesis using serve_pki [OF doc(3) call] by blast
qed


subsection \<open>Concrete libraries\<close>

lemma cert_decodes_empty:
  assumes "f (cert_serial_number cert) = cert" and "length sig = 5"
  shows "decodes_empty (cert_cms f) \<lparr>ci_content_type = ID_SIGNED_DATA, ci_content = \<lparr>any_tag = 48,
      any_value = number (cert_serial_number cert, None :: any option, attrs) @ sig\<rparr>\<rparr> cert s
    \<longleftrightarrow> s = \<lparr>rsi_version = any_null, rsi_sid = any_null, rsi_digest_alg = sha256_alg,
       rsi_signed_attrs = Some attrs, rsi_signature_algorithm = digest_alg RSA_ENCRYPTION,
       rsi_signature = sig, rsi_unsigned_attrs = None\<rparr>"
  using assms by (auto simp: decodes_empty_def rt_codec rt_decode_number rt_signer_info_def rt_attrs_def)

lemma cert_empty_documented:
  assumes "rsa_signature_parse r rt_signature = Inr sig" and "rsa_verify_sha256 r (to_public_key demo_key) rt_signature sig"
  shows "empty_data_documented (cert_cms f) r"
proof -
  have sig: "signs (cert_cms f) r demo_key s attrs"
    if "s = \<lparr>rsi_version = any_null, rsi_sid = any_null, rsi_digest_alg = sha256_alg,
       rsi_signed_attrs = Some attrs, rsi_signature_algorithm = digest_alg RSA_ENCRYPTION,
       rsi_signature = rt_signature, rsi_unsigned_attrs = None\<rparr>" for s attrs
    using that assms by (simp add: signs_def rt_codec)
  show ?thesis
    unfolding empty_data_documented_def rt_codec rt_build_spec
    using sig cert_decodes_empty [of f _ rt_signature]
    by (auto simp: rt_cms_fields demo_cms_def ID_CONTENT_TYPE_def split: if_splits)
qed

lemma rt_refusal:
  "\<exists>der. build_failure (ask_platform s c) ex_env demo_ca (received t txn nonce rt_device enveloped) f = Inr der"
proof -
  obtain as where "failure_attrs demo_der (rq_nonce_rng ex_env) txn nonce f = Inr as"
    by (simp add: demo_der_eval del: fail_info_value.simps)
  moreover obtain der where "build_cert_rep demo_der rt_cms demo_key (demo_cert [7]) None as = Inr der"
    using rt_build_cert_rep [of demo_cert, OF demo_cert_key] by blast
  ultimately show ?thesis by (simp add: build_failure_def received_def demo_ca_def ca_new_def)
qed

theorem wrong_secret_is_told_witness:
  "\<exists>body reply_der w'. serve (ask_server ''A'' ''no'') ex_env (\<lambda>_. 0) (post_call [''scep'', ''p''] body) ex_world =
        (\<lparr>resp_status = 200, resp_content_type = Some CT_PKI_MESSAGE, resp_body = reply_der\<rparr>, w')
    \<and> issued (w_db w') = [] \<and> (\<exists>t\<in>set (transactions (w_db w')). tx_status t = ''failed'')"
proof -
  let ?p = "ask_platform ''A'' ''no''" and ?q = "ask_requests ''A'' ''no''"
  obtain body where body: "device_request ?p ex_env (ca_cert demo_ca) rt_device ''t1'' [4] = Inr body"
    using rt_request by blast
  obtain der where reply: "build_failure ?p ex_env demo_ca
      (received PkcsReq ''t1'' (generate_nonce (rq_nonce_rng ex_env)) rt_device None) FailBadRequest = Inr der"
    using rt_refusal by blast
  have server: "sv_platform (ask_server ''A'' ''no'') = ?p" "sv_state (ask_server ''A'' ''no'') = ex_state"
    by (simp_all add: ask_server_def)
  have profile: "st_profiles (sv_state (ask_server ''A'' ''no'')) ''p'' = Some ex_profile"
    "st_cas (sv_state (ask_server ''A'' ''no'')) (rt_ca_id ex_profile) = Some demo_ca"
    "rt_validator ex_profile = StaticSecretValidator ''pw''"
    by (simp_all add: server ex_state_def ex_profile_def)
  have built: "build_csr (p_x509 ?p) ?q ''A'' ''no'' rt_device = Inr [4]" "''no'' \<noteq> ''pw''"
    by (simp_all add: build_csr_def ask_requests_def ask_x509_def demo_x509_def)
  have empty: "empty_data_documented (p_cms ?p) (p_rsa ?p)" by (simp add: cert_empty_documented demo_rsa_def)
  have db: "\<And>n. p_fault ?p n = None" "set SCHEMA \<subseteq> set (tables (w_db ex_world))"
    by (simp_all add: new_database_def)
  have call: "router (hc_path (post_call [''scep'', ''p''] body)) = Some (RScep ''p'')"
    "hc_method (post_call [''scep'', ''p''] body) = POST" "hc_body (post_call [''scep'', ''p''] body) = body"
    "hc_query (post_call [''scep'', ''p''] body) ''operation'' \<in> {None, Some ''PKIOperation''}"
    by (simp_all add: post_call_def)
  from wrong_secret_is_told [OF rt_documented empty server(1) profile rt_keys built body call db reply, of "\<lambda>_. 0"]
  obtain w' where "serve (ask_server ''A'' ''no'') ex_env (\<lambda>_. 0) (post_call [''scep'', ''p''] body) ex_world =
        (\<lparr>resp_status = 200, resp_content_type = Some CT_PKI_MESSAGE, resp_body = der\<rparr>, w')"
    "issued (w_db w') = issued (w_db ex_world)" "\<exists>t\<in>set (transactions (w_db w')). tx_status t = ''failed''"
    by blast
  then show ?thesis by (auto simp: new_database_def)
qed


lemma rt_signature_Cons: "rt_signature = 0 # replicate 4 0"
  by (simp add: rt_signature_def flip: replicate_Suc)

lemma flip_signature:
  "flip_near_end (1 # b @ rt_signature) = 1 # b @ 0xff # replicate 4 0"
  by (simp add: flip_near_end_def Let_def rt_signature_Cons nth_append list_update_append)

lemma cert_signature_is_last: "signature_is_last (cert_cms f)"
proof -
  have to_der: "content_info_to_der (cert_cms f) \<lparr>ci_content_type = ID_SIGNED_DATA, ci_content = \<lparr>any_tag = 48, any_value = b\<rparr>\<rparr>
      = Inr (1 # b)" for b
    by (simp add: rt_cms_fields) (simp add: demo_cms_def cms_oids)
  have from_der: "content_info_from_der (cert_cms f) (1 # b)
      = Inr \<lparr>ci_content_type = ID_SIGNED_DATA, ci_content = \<lparr>any_tag = 48, any_value = b\<rparr>\<rparr>" for b
    by (simp add: rt_cms_fields) (simp add: demo_cms_def)
  have flip: "0xff # replicate 4 0 \<noteq> rt_signature" "length (0xff # replicate 4 0 :: bytes) = 5"
    by (simp_all add: rt_signature_Cons)
  show ?thesis
    unfolding signature_is_last_def rt_codec rt_build_spec
  proof (intro allI impI)
    fix key :: rsa_private_key and cert and attrs :: "attribute list" and ci der s
    assume build: "(if cert = f (cert_serial_number cert) \<and> key = demo_key
      then Inr \<lparr>ci_content_type = ID_SIGNED_DATA, ci_content = \<lparr>any_tag = 48,
             any_value = number (cert_serial_number cert, None :: any option, attrs) @ rt_signature\<rparr>\<rparr>
      else Inl ''certificate'') = Inr ci" and der: "content_info_to_der (cert_cms f) ci = Inr der"
      and s: "decodes_empty (cert_cms f) ci cert s"
    let ?b = "number (cert_serial_number cert, None :: any option, attrs)"
    from build have cert: "f (cert_serial_number cert) = cert"
      and ci: "ci = \<lparr>ci_content_type = ID_SIGNED_DATA, ci_content = \<lparr>any_tag = 48, any_value = ?b @ rt_signature\<rparr>\<rparr>"
      by (auto split: if_splits)
    from der have d: "der = 1 # ?b @ rt_signature" by (simp add: ci to_der)
    show "5 \<le> length der \<and> (\<exists>ci' sig'. content_info_from_der (cert_cms f) (flip_near_end der) = Inr ci'
          \<and> decodes_empty (cert_cms f) ci' cert (s\<lparr>rsi_signature := sig'\<rparr>) \<and> sig' \<noteq> rsi_signature s)"
    proof -
      let ?sig = "0xff # replicate 4 0 :: bytes"
      have "decodes_empty (cert_cms f) \<lparr>ci_content_type = ID_SIGNED_DATA, ci_content = \<lparr>any_tag = 48, any_value = ?b @ ?sig\<rparr>\<rparr>
          cert (s\<lparr>rsi_signature := ?sig\<rparr>) \<and> ?sig \<noteq> rsi_signature s"
        using s flip(1) unfolding ci cert_decodes_empty [of f, OF cert five_bytes(3)] cert_decodes_empty [of f, OF cert flip(2)]
        by simp
      moreover have "5 \<le> length der" by (simp add: d)
      ultimately show ?thesis unfolding d flip_signature from_der by blast
    qed
  qed
qed

text \<open>
  A key that is not \<open>demo_key\<close>, generated from the byte 1, and a verifier that only accepts signatures of
  \<open>demo_key\<close>.
\<close>

definition other_key :: rsa_private_key where "other_key = \<lparr>sk_n = 2773, sk_e = 17, sk_d = 157\<rparr>"
definition other_spki :: spki where "other_spki = demo_spki\<lparr>spki_public_key := [4]\<rparr>"

definition lone_rsa :: rsa_lib where
  "lone_rsa = demo_rsa\<lparr>rsa_generate := \<lambda>rng bits. Inr (if rng 0 = 1 then other_key else demo_key),
     rsa_spki_from_key := \<lambda>k. Inr (if k = to_public_key demo_key then demo_spki else other_spki),
     rsa_public_from_pkcs1 := \<lambda>b. Inr (to_public_key (if b = [1, 2, 3] then demo_key else other_key)),
     rsa_verify_sha256 := \<lambda>k m s. s = m \<and> k = to_public_key demo_key\<rparr>"

lemma lone_rsa_documented:
  "names_and_keys_documented lone_rsa (demo_x509)" "signatures_unique lone_rsa" "keys_separate lone_rsa"
  "rsa_signature_parse lone_rsa b = Inr b" "rsa_verify_sha256 lone_rsa (to_public_key demo_key) b b"
  by (auto simp: names_and_keys_documented_def signatures_unique_def keys_separate_def lone_rsa_def demo_rsa_def
      other_spki_def demo_spki_def other_key_def demo_key_def to_public_key_def)

definition refusal_platform :: "certificate \<Rightarrow> platform" where
  "refusal_platform cert =
     ex_platform\<lparr>p_cms := cert_cms (\<lambda>_. cert), p_digest := demo_digest, p_rsa := lone_rsa, p_x509 := demo_x509\<rparr>"

lemma refusal_platform_fields [simp]:
  "p_der (refusal_platform c) = demo_der" "p_cms (refusal_platform c) = cert_cms (\<lambda>_. c)"
  "p_rsa (refusal_platform c) = lone_rsa" "p_x509 (refusal_platform c) = demo_x509" "p_time (refusal_platform c) = demo_time"
  by (simp_all add: refusal_platform_def)

lemma refusal_libraries:
  "cms_documented (p_der (refusal_platform c)) (p_cms (refusal_platform c))" "signer_documented (p_cms (refusal_platform c))"
  "der_documented (p_der (refusal_platform c))"
  "empty_data_documented (p_cms (refusal_platform c)) (p_rsa (refusal_platform c))"
  by (simp_all add: cert_cms_documented demo_der_documented cert_empty_documented [OF lone_rsa_documented(4,5)])


lemma lone_generated:
  "generate_self_signed lone_rsa demo_x509 demo_time now krng srng i cn bits =
     (let key = (if krng 0 = 1 then other_key else demo_key) in
      Inr (ca_new i ((xt_self_signed cn srng)\<lparr>cert_spki := if key = demo_key then demo_spki else other_spki\<rparr>) key))"
  unfolding generate_self_signed_def demo_random_serial
  by (simp add: lone_rsa_def demo_rsa_def demo_time_def demo_build_def xt_self_signed_def ca_new_def Let_def
      other_key_def demo_key_def to_public_key_def)

lemma unstopped_flipped: "(\<And>d. unstopped (f d)) \<Longrightarrow> unstopped (try_then (flipped der) f)"
  by (simp add: unstopped_def flipped_def)

lemma refusal_built:
  "\<exists>as. test_failure_attrs (refusal_platform c) rng = Inr as"
  "\<exists>der. build_cert_rep demo_der (cert_cms (\<lambda>_. c)) demo_key c None as = Inr der"
  using rt_build_cert_rep [of "\<lambda>_. c" c]
  by (simp_all add: test_failure_attrs_def demo_der_eval del: fail_info_value.simps message_type_value.simps pki_status_value.simps)

lemma unstopped_Inr: "r = Inr v \<Longrightarrow> unstopped (f v) \<Longrightarrow> unstopped (try_then (unwrap s r) f)"
  by (simp add: unwrap_def)

lemma course_ends: "course_sound r \<Longrightarrow> unstopped r \<Longrightarrow> r = Inr ()"
  by (auto simp: course_sound_def unstopped_def)

text \<open>Both tests end well on these libraries, so what they rely on can hold.\<close>

theorem tampering_test_passes:
  "tampered_signature_is_rejected (refusal_platform (xt_self_signed ''tamper CA'' (\<lambda>_. 4)))
     (xt_env\<lparr>te_ca_key_rng := \<lambda>_. 2\<rparr>) = Inr ()"
proof (rule course_ends)
  let ?c = "xt_self_signed ''tamper CA'' (\<lambda>_. 4)"
  show "course_sound (tampered_signature_is_rejected (refusal_platform ?c) (xt_env\<lparr>te_ca_key_rng := \<lambda>_. 2\<rparr>))"
    by (rule tampering_course [OF refusal_libraries])
      (simp_all add: cert_signature_is_last lone_rsa_documented demo_builder_documented demo_serial_documented)
  have ca: "?c\<lparr>cert_spki := demo_spki\<rparr> = ?c" by (simp add: xt_self_signed_def)
  show "unstopped (tampered_signature_is_rejected (refusal_platform ?c) (xt_env\<lparr>te_ca_key_rng := \<lambda>_. 2\<rparr>))"
    unfolding tampered_signature_is_rejected_def
    by (rule unstopped_Inr, simp add: lone_generated xt_env_def ca, simp)
      (intro unstopped_built unstopped_assert unstopped_flipped; simp add: refusal_built ca_new_def)
qed

theorem foreign_key_test_passes:
  "different_key_is_rejected (refusal_platform ((xt_self_signed ''a'' (\<lambda>_. 4))\<lparr>cert_spki := other_spki\<rparr>)) xt_env = Inr ()"
proof (rule course_ends)
  let ?c = "(xt_self_signed ''a'' (\<lambda>_. 4))\<lparr>cert_spki := other_spki\<rparr>"
  have keys: "other_key \<noteq> demo_key" "to_public_key other_key \<noteq> to_public_key demo_key"
    by (simp_all add: other_key_def demo_key_def to_public_key_def)
  show "course_sound (different_key_is_rejected (refusal_platform ?c) xt_env)"
  proof (rule foreign_key_course [OF refusal_libraries])
    fix k k' assume "rsa_generate (p_rsa (refusal_platform ?c)) (te_ca_key_rng xt_env) 2048 = Inr k"
      "rsa_generate (p_rsa (refusal_platform ?c)) (te_device_key_rng xt_env) 2048 = Inr k'"
    with keys show "to_public_key k \<noteq> to_public_key k'" by (auto simp: lone_rsa_def xt_env_def)
  qed (simp_all add: lone_rsa_documented demo_builder_documented demo_serial_documented)
  show "unstopped (different_key_is_rejected (refusal_platform ?c) xt_env)"
    unfolding different_key_is_rejected_def
    by (rule unstopped_Inr, simp add: lone_generated xt_env_def, rule unstopped_Inr, simp add: lone_generated xt_env_def)
      (intro unstopped_built unstopped_assert; simp add: keys refusal_built ca_new_def)
qed

end
