(* ===== verification/Recorders.thy ===== *)
theory Recorders
  imports Registry
begin

text \<open>
  \<open>record_transaction\<close> under concurrency.  The function sends two statements, a \<open>SELECT\<close>
  and then an \<open>UPDATE\<close> or an \<open>INSERT\<close>, with no transaction around them, and the server
  handles requests concurrently.  A recorder is one call of the function at one of its two
  statements; a step lets one recorder send its next statement, the database running one
  statement at a time.
\<close>

datatype recorder =
    Start scep_transaction
  | WillUpdate scep_transaction
  | WillInsert scep_transaction
  | Done scep_transaction "unit app_result"

fun recorder_step :: "db_fault \<Rightarrow> recorder \<Rightarrow> database \<Rightarrow> recorder \<times> database" where
  "recorder_step fault (Start row) db =
     (case select_transaction fault (tx_transaction_id row) db of
        (Inl e, db1) \<Rightarrow> (Done row (Inl e), db1)
      | (Inr (Some x), db1) \<Rightarrow> (WillUpdate row, db1)
      | (Inr None, db1) \<Rightarrow> (WillInsert row, db1))"
| "recorder_step fault (WillUpdate row) db =
     (case update_transaction fault (tx_transaction_id row) (tx_status row) (tx_message_type row) db of
        (r, db1) \<Rightarrow> (Done row r, db1))"
| "recorder_step fault (WillInsert row) db =
     (case insert_transaction fault row db of (r, db1) \<Rightarrow> (Done row r, db1))"
| "recorder_step fault (Done row r) db = (Done row r, db)"

fun recorder_row :: "recorder \<Rightarrow> scep_transaction" where
  "recorder_row (Start row) = row"
| "recorder_row (WillUpdate row) = row"
| "recorder_row (WillInsert row) = row"
| "recorder_row (Done row r) = row"

type_synonym rec_state = "recorder list \<times> database"

inductive rec_step :: "db_fault \<Rightarrow> rec_state \<Rightarrow> rec_state \<Rightarrow> bool" for fault where
  send: "i < length rs \<Longrightarrow> recorder_step fault (rs ! i) db = (q, db') \<Longrightarrow>
     rec_step fault (rs, db) (rs[i := q], db')"

inductive_cases rec_stepE: "rec_step fault (rs, db) t"

inductive rec_reachable :: "db_fault \<Rightarrow> rec_state \<Rightarrow> rec_state \<Rightarrow> bool" for fault start where
  initial: "rec_reachable fault start start"
| more: "rec_reachable fault start s \<Longrightarrow> rec_step fault s t \<Longrightarrow> rec_reachable fault start t"

lemma transaction_eta [simp]:
  "\<lparr>tx_transaction_id = tx_transaction_id row, tx_profile = tx_profile row,
    tx_status = tx_status row, tx_message_type = tx_message_type row,
    tx_created_at = tx_created_at row\<rparr> = (row :: scep_transaction)"
  by simp

lemma reach_send:
  "rec_reachable fault start (rs, db) \<Longrightarrow> i < length rs \<Longrightarrow>
     recorder_step fault (rs ! i) db = (q, db') \<Longrightarrow> rec_reachable fault start (rs[i := q], db')"
  by (blast intro: rec_reachable.more rec_step.send)

text \<open>One recorder alone runs exactly \<open>record_transaction\<close>.\<close>

lemma recorder_alone:
  "recorder_step fault (Start row) db = (q, db1) \<Longrightarrow> recorder_step fault q db1 = (q', db2) \<Longrightarrow>
     q' = Done row (fst (record_transaction fault (tx_transaction_id row) (tx_profile row)
             (tx_status row) (tx_message_type row) (tx_created_at row) db))
     \<and> db2 = snd (record_transaction fault (tx_transaction_id row) (tx_profile row)
             (tx_status row) (tx_message_type row) (tx_created_at row) db)"
  by (auto simp: record_transaction_def split: prod.splits sum.splits option.splits)

subsection \<open>Invariant of every interleaving\<close>

text \<open>What holds of one recorder in a state: what it has found or done is in the table.\<close>

fun recorder_ok :: "database \<Rightarrow> recorder \<Rightarrow> bool" where
  "recorder_ok db (Start row) = True"
| "recorder_ok db (WillInsert row) = True"
| "recorder_ok db (WillUpdate row) = (tx_transaction_id row \<in> tx_transaction_id ` set (transactions db))"
| "recorder_ok db (Done row (Inr u)) = (tx_transaction_id row \<in> tx_transaction_id ` set (transactions db))"
| "recorder_ok db (Done row (Inl e)) = (\<exists>m. e = Database m)"

definition rec_inv :: "database \<Rightarrow> rec_state \<Rightarrow> bool" where
  "rec_inv db0 s \<longleftrightarrow> tx_extends db0 (snd s) \<and> db_ok (snd s) \<and> list_all (recorder_ok (snd s)) (fst s)"

lemma recorder_step_extends:
  "recorder_step fault q db = (q', db') \<Longrightarrow> tx_extends db db'"
proof (cases q)
  case (Start row)
  assume "recorder_step fault q db = (q', db')"
  with Start show ?thesis
    using select_transaction_extends [of db fault "tx_transaction_id row"]
    by (auto split: prod.splits sum.splits option.splits)
next
  case (WillUpdate row)
  assume "recorder_step fault q db = (q', db')"
  with WillUpdate show ?thesis
    using update_transaction_extends [of db fault "tx_transaction_id row"]
    by (auto split: prod.splits) (metis snd_conv)
next
  case (WillInsert row)
  assume "recorder_step fault q db = (q', db')"
  with WillInsert show ?thesis
    using insert_transaction_extends [of db fault row] by (auto split: prod.splits)
qed auto

lemma tx_extends_keys:
  assumes "tx_extends db db'" "tid \<in> tx_transaction_id ` set (transactions db)"
  shows "tid \<in> tx_transaction_id ` set (transactions db')"
proof -
  from assms(2) obtain t where "t \<in> set (transactions db)" and tid: "tid = tx_transaction_id t"
    by blast
  with assms(1) obtain t' where "t' \<in> set (transactions db')" "tx_transaction_id t' = tx_transaction_id t"
    unfolding tx_extends_def by blast
  then show ?thesis unfolding tid by (metis imageI)
qed

lemma recorder_ok_mono: "tx_extends db db' \<Longrightarrow> recorder_ok db q \<Longrightarrow> recorder_ok db' q"
proof (cases q)
  case (Done row r)
  assume "tx_extends db db'" "recorder_ok db q"
  with Done show ?thesis by (cases r) (auto dest: tx_extends_keys)
qed (auto dest: tx_extends_keys)

lemma recorder_step_ok:
  "recorder_ok db q \<Longrightarrow> recorder_step fault q db = (q', db') \<Longrightarrow> recorder_ok db' q'"
proof (cases q)
  case (Start row)
  assume "recorder_step fault q db = (q', db')"
  with Start show ?thesis
    by (auto split: prod.splits sum.splits option.splits
        dest!: select_transaction_ok select_transaction_err)
next
  case (WillUpdate row)
  assume "recorder_ok db q" "recorder_step fault q db = (q', db')"
  with WillUpdate show ?thesis
    by (cases "fst (update_transaction fault (tx_transaction_id row) (tx_status row) (tx_message_type row) db)")
      (auto simp: image_image split: prod.splits dest!: update_transaction_ok update_transaction_err)
next
  case (WillInsert row)
  assume "recorder_step fault q db = (q', db')"
  with WillInsert show ?thesis
    by (cases "fst (insert_transaction fault row db)")
      (auto split: prod.splits dest!: insert_transaction_ok insert_transaction_err)
qed simp

lemma rec_step_inv: "rec_step fault s t \<Longrightarrow> rec_inv db0 s \<Longrightarrow> rec_inv db0 t"
proof (induction rule: rec_step.induct)
  case (send i rs db q db')
  from send.hyps(2) have ext: "tx_extends db db'"
    by (rule recorder_step_extends)
  from send.prems have inv: "tx_extends db0 db" "db_ok db" "list_all (recorder_ok db) rs"
    by (simp_all add: rec_inv_def)
  with send.hyps have "recorder_ok db' q"
    by (auto simp: list_all_length intro: recorder_step_ok)
  moreover have "list_all (recorder_ok db') rs"
    using inv(3) ext by (auto simp: list_all_iff intro: recorder_ok_mono)
  ultimately have "list_all (recorder_ok db') (rs[i := q])"
    by (auto simp: list_all_iff dest!: set_update_subset_insert [THEN subsetD])
  moreover have "tx_extends db0 db'"
    using inv(1) ext by (rule tx_extends_trans)
  moreover have "db_ok db'"
    using inv(2) ext by (simp add: tx_extends_def)
  ultimately show ?case by (simp add: rec_inv_def)
qed

lemma rec_reachable_inv:
  "rec_reachable fault start s \<Longrightarrow> rec_inv db0 start \<Longrightarrow> rec_inv db0 s"
  by (induction rule: rec_reachable.induct) (auto intro: rec_step_inv)

lemma rec_reachable_rows:
  "rec_reachable fault start s \<Longrightarrow> map recorder_row (fst s) = map recorder_row (fst start)"
proof (induction rule: rec_reachable.induct)
  case (more s t)
  from more.hyps(2) show ?case
  proof (cases rule: rec_step.cases)
    case (send i rs db q db')
    have "recorder_row q = recorder_row (rs ! i)"
      using send(4) by (cases "rs ! i") (auto split: prod.splits sum.splits option.splits)
    with send(3) have "map recorder_row (rs[i := q]) = (map recorder_row rs)[i := map recorder_row rs ! i]"
      by (simp add: map_update)
    with send more.IH show ?thesis by simp
  qed
qed simp

text \<open>
  C20: concurrent calls of \<open>record_transaction\<close>, interleaved statement by statement in any
  order and with any database faults, keep the table sound: transaction identifiers stay
  unique, the certificates are untouched, the profile and creation time of a recorded
  transaction never change, a call that returned \<open>Ok\<close> has its transaction in the table, and
  a call that failed failed with a database error.
\<close>

theorem concurrent_recording_sound:
  assumes ok: "db_ok db"
    and reach: "rec_reachable fault (map Start rows, db) (rs, db')"
  shows "distinct (map tx_transaction_id (transactions db')) \<and> issued db' = issued db
    \<and> map recorder_row rs = rows
    \<and> (\<forall>t\<in>set (transactions db). \<exists>t'\<in>set (transactions db').
         tx_transaction_id t' = tx_transaction_id t \<and> tx_profile t' = tx_profile t
         \<and> tx_created_at t' = tx_created_at t)
    \<and> (\<forall>row r. Done row r \<in> set rs \<longrightarrow>
         (case r of Inr u \<Rightarrow> tx_transaction_id row \<in> tx_transaction_id ` set (transactions db')
          | Inl e \<Rightarrow> \<exists>m. e = Database m))"
proof -
  have "rec_inv db (map Start rows, db)"
    using ok by (auto simp: rec_inv_def list_all_iff)
  with reach have inv: "rec_inv db (rs, db')"
    by (rule rec_reachable_inv)
  have rows: "map recorder_row rs = rows"
    using rec_reachable_rows [OF reach] by (simp add: comp_def)
  have ext: "tx_extends db db'" and ok': "db_ok db'"
    and all: "\<And>q. q \<in> set rs \<Longrightarrow> recorder_ok db' q"
    using inv by (auto simp: rec_inv_def list_all_iff)
  have "case r of Inr u \<Rightarrow> tx_transaction_id row \<in> tx_transaction_id ` set (transactions db')
      | Inl e \<Rightarrow> \<exists>m. e = Database m" if "Done row r \<in> set rs" for row r
    using all [OF that] by (cases r) auto
  with rows ext ok' show ?thesis
    unfolding tx_extends_def db_ok_def by blast
qed

definition sample_tx :: "string \<Rightarrow> scep_transaction" where
  "sample_tx st = \<lparr>tx_transaction_id = ''txn-1'', tx_profile = ''p'', tx_status = st,
     tx_message_type = ''PKCSReq'', tx_created_at = ''2026-01-01T00:00:00Z''\<rparr>"

lemmas tx_eval =
  select_transaction_def insert_transaction_def update_transaction_def run_statement_def Let_def

text \<open>Two calls for the same new transaction: both find nothing, then both insert.\<close>

lemma race_states:
  fixes a b :: scep_transaction
  defines "a \<equiv> sample_tx ''issued''" and "b \<equiv> sample_tx ''failed''"
  shows "\<exists>m db'. rec_reachable (\<lambda>_. None) ([Start a, Start b], new_database)
     ([Done a (Inr ()), Done b (Inl (Database m))], db') \<and> transactions db' = [a]"
proof -
  let ?f = "\<lambda>_. None :: string option"
  let ?db = "\<lambda>n. new_database\<lparr>db_calls := n\<rparr>"
  let ?db' = "\<lambda>n. new_database\<lparr>transactions := [a], db_calls := n\<rparr>"
  let ?m = "''UNIQUE constraint failed: scep_transaction.transaction_id''"
  note ev = tx_eval new_database_def SCHEMA_def a_def b_def sample_tx_def
  have s0: "rec_reachable ?f ([Start a, Start b], new_database) ([Start a, Start b], new_database)"
    by (rule rec_reachable.initial)
  have s1: "rec_reachable ?f ([Start a, Start b], new_database) ([WillInsert a, Start b], ?db 1)"
    using reach_send [OF s0, of 0 "WillInsert a" "?db 1"] by (simp add: ev)
  have s2: "rec_reachable ?f ([Start a, Start b], new_database) ([WillInsert a, WillInsert b], ?db 2)"
    using reach_send [OF s1, of 1 "WillInsert b" "?db 2"] by (simp add: ev)
  have s3: "rec_reachable ?f ([Start a, Start b], new_database) ([Done a (Inr ()), WillInsert b], ?db' 3)"
    using reach_send [OF s2, of 0 "Done a (Inr ())" "?db' 3"] by (simp add: ev)
  have "rec_reachable ?f ([Start a, Start b], new_database)
      ([Done a (Inr ()), Done b (Inl (Database ?m))], ?db' 4)"
    using reach_send [OF s3, of 1 "Done b (Inl (Database ?m))" "?db' 4"] by (simp add: ev)
  then show ?thesis by (intro exI conjI) auto
qed

theorem concurrent_recording_sound_witness:
  "\<exists>rs db'. rec_reachable (\<lambda>_. None) (map Start [sample_tx ''issued'', sample_tx ''failed''], new_database) (rs, db')
     \<and> distinct (map tx_transaction_id (transactions db')) \<and> transactions db' = [sample_tx ''issued'']"
proof -
  obtain rs db' where
    r: "rec_reachable (\<lambda>_. None) (map Start [sample_tx ''issued'', sample_tx ''failed''], new_database) (rs, db')"
    and t: "transactions db' = [sample_tx ''issued'']"
    using race_states by fastforce
  from concurrent_recording_sound [OF new_database_ok r] r t show ?thesis by blast
qed

text \<open>
  Recording is not an atomic upsert.  On a healthy database two concurrent calls for the
  same new transaction identifier can end with one of them rejected by the primary key: its
  outcome is lost, where the same two calls one after the other would have recorded it.
\<close>

theorem recording_race_loses_an_outcome:
  "(\<exists>m db'. rec_reachable (\<lambda>_. None)
       ([Start (sample_tx ''issued''), Start (sample_tx ''failed'')], new_database)
       ([Done (sample_tx ''issued'') (Inr ()), Done (sample_tx ''failed'') (Inl (Database m))], db')
       \<and> transactions db' = [sample_tx ''issued''])
   \<and> transactions (db_step (\<lambda>_. None) (RecordTransaction ''txn-1'' ''p'' ''failed'' ''PKCSReq'' ''later'')
        (db_step (\<lambda>_. None)
          (RecordTransaction ''txn-1'' ''p'' ''issued'' ''PKCSReq'' ''2026-01-01T00:00:00Z'') new_database))
       = [sample_tx ''failed'']"
  using race_states
  by (simp add: record_transaction_def tx_eval new_database_def SCHEMA_def sample_tx_def)

end
