(* ===== verification/Concurrent.thy ===== *)
theory Concurrent
  imports System Recorders
begin

text \<open>
  Concurrent requests.  The handlers run as asynchronous tasks, so between two statements of one
  request the database may carry out statements of others.  Here a request is what it still has
  to send to the database: the end of an enrolment (\<open>persist\<close>, or \<open>record\<close> after a rejected
  challenge), the loop of the OCSP responder, the query of the CRL, or an operator's revocation.
  A step sends the next statement of any one request, and new requests may arrive at any time.
  Everything else a handler does leaves the database alone.
\<close>

datatype request =
    Persist issued_certificate scep_transaction
  | PersistRecord issued_certificate recorder
  | Persisted issued_certificate "unit app_result"
  | Record recorder
  | Lookups string "string list" "(string \<times> revocation_status) list"
  | LookupsFailed string "string list" app_error
  | ListQuery string
  | Listed string "revoked_entry list app_result"
  | RevokeQuery string string int string
  | RevokeDone string string int string "bool app_result"

text \<open>The insertion of \<open>persist\<close> and what follows it, and one turn of the loop of the responder.\<close>

fun insert_next :: "db_fault \<Rightarrow> issued_certificate \<Rightarrow> scep_transaction \<Rightarrow> database \<Rightarrow> request \<times> database" where
  "insert_next fault c row db =
     (case insert_issued fault c db of
        (Inl e, db1) \<Rightarrow> (Persisted c (Inl e), db1)
      | (Inr u, db1) \<Rightarrow> (PersistRecord c (Start row), db1))"

fun lookup_next :: "db_fault \<Rightarrow> string \<Rightarrow> string \<Rightarrow> string list \<Rightarrow> (string \<times> revocation_status) list \<Rightarrow>
    database \<Rightarrow> request \<times> database" where
  "lookup_next fault ca s ss sofar db =
     (case status_by_serial fault ca s db of
        (Inl e, db1) \<Rightarrow> (LookupsFailed ca (map fst sofar @ s # ss) e, db1)
      | (Inr st, db1) \<Rightarrow> (Lookups ca ss (sofar @ [(s, st)]), db1))"

fun request_step :: "db_fault \<Rightarrow> request \<Rightarrow> database \<Rightarrow> request \<times> database" where
  "request_step fault (Persist c row) db = insert_next fault c row db"
| "request_step fault (PersistRecord c q) db =
     (case recorder_step fault q db of
        (Done row r, db1) \<Rightarrow> (Persisted c (Inr ()), db1)
      | (q1, db1) \<Rightarrow> (PersistRecord c q1, db1))"
| "request_step fault (Record q) db = (case recorder_step fault q db of (q1, db1) \<Rightarrow> (Record q1, db1))"
| "request_step fault (Lookups ca (s # ss) sofar) db = lookup_next fault ca s ss sofar db"
| "request_step fault (ListQuery ca) db =
     (case list_revoked fault ca db of (r, db1) \<Rightarrow> (Listed ca r, db1))"
| "request_step fault (RevokeQuery ca s n t) db =
     (case revoke fault ca s n t db of (r, db1) \<Rightarrow> (RevokeDone ca s n t r, db1))"
| "request_step fault r db = (r, db)"

text \<open>A request as it arrives; \<open>admissible\<close> are those the handlers can start.\<close>

fun admissible :: "request \<Rightarrow> bool" where
  "admissible (Persist c row) \<longleftrightarrow> fresh_row c"
| "admissible (Record (Start row)) \<longleftrightarrow> True"
| "admissible (Lookups ca ss sofar) \<longleftrightarrow> sofar = []"
| "admissible (ListQuery ca) \<longleftrightarrow> True"
| "admissible (RevokeQuery ca s n t) \<longleftrightarrow> True"
| "admissible r \<longleftrightarrow> False"

text \<open>
  A job is a request with what it asked for and, for the specification only, the registry at the
  time it arrived.
\<close>

record job =
  job_asked :: request
  job_found :: "string \<Rightarrow> string \<Rightarrow> revocation_status"
  job_now :: request

inductive conc_step :: "db_fault \<Rightarrow> job list \<times> database \<Rightarrow> job list \<times> database \<Rightarrow> bool" for fault where
  arrive: "admissible r \<Longrightarrow>
     conc_step fault (jobs, db) (jobs @ [\<lparr>job_asked = r, job_found = registry db, job_now = r\<rparr>], db)"
| statement: "i < length jobs \<Longrightarrow> request_step fault (job_now (jobs ! i)) db = (r, db') \<Longrightarrow>
     conc_step fault (jobs, db) (jobs[i := (jobs ! i)\<lparr>job_now := r\<rparr>], db')"

inductive_cases conc_stepE: "conc_step fault (jobs, db) t"

abbreviation conc_run :: "db_fault \<Rightarrow> job list \<times> database \<Rightarrow> job list \<times> database \<Rightarrow> bool" where
  "conc_run fault \<equiv> (conc_step fault)\<^sup>*\<^sup>*"

subsection \<open>A request alone\<close>

definition next_statement :: "db_fault \<Rightarrow> request \<times> database \<Rightarrow> request \<times> database" where
  "next_statement fault = (\<lambda>(r, db). request_step fault r db)"

text \<open>Alone, the statements of an enrolment are \<open>persist\<close> and those of a rejection \<open>record\<close>.\<close>

lemma record_alone:
  "(next_statement fault ^^ 2) (Record (Start row), db) =
     (Record (Done row (fst (record_transaction fault (tx_transaction_id row) (tx_profile row)
             (tx_status row) (tx_message_type row) (tx_created_at row) db))),
      snd (record_transaction fault (tx_transaction_id row) (tx_profile row)
             (tx_status row) (tx_message_type row) (tx_created_at row) db))"
proof -
  obtain q db1 where one: "recorder_step fault (Start row) db = (q, db1)" by force
  obtain q' db2 where two: "recorder_step fault q db1 = (q', db2)" by force
  from recorder_alone [OF one two] one two show ?thesis
    by (simp add: next_statement_def numeral_2_eq_2 del: recorder_step.simps)
qed

text \<open>The row an enrolment records.\<close>

definition issued_row :: "platform \<Rightarrow> request_env \<Rightarrow> profile_runtime \<Rightarrow> parsed_request \<Rightarrow> scep_transaction" where
  "issued_row p env rt parsed =
     \<lparr>tx_transaction_id = req_transaction_id parsed, tx_profile = rt_name rt, tx_status = ''issued'',
      tx_message_type = ''PKCSReq'', tx_created_at = now_utc p (rq_record_time env)\<rparr>"

lemma persist_record_done:
  assumes "recorder_step fault (Start row) db = (q, db1)" and "recorder_step fault q db1 = (q', db2)"
  shows "(next_statement fault ^^ 2) (PersistRecord c (Start row), db) = (Persisted c (Inr ()), db2)"
proof -
  obtain row' r where "q' = Done row' r" using recorder_alone [OF assms] by blast
  moreover have "q = WillUpdate row \<or> q = WillInsert row \<or> (\<exists>r. q = Done row r)"
    using assms(1) by (auto split: prod.splits sum.splits option.splits)
  ultimately show ?thesis
    using assms by (auto simp: next_statement_def numeral_2_eq_2 simp del: recorder_step.simps)
       (auto simp: next_statement_def)
qed

lemma persist_alone:
  fixes p env rt ca parsed leaf der w
  defines "row \<equiv> issued_record p env rt ca parsed leaf der"
  shows "\<exists>r. (next_statement (p_fault p) ^^ 3) (Persist row (issued_row p env rt parsed), w_db w) =
      (Persisted row r, w_db (snd (persist p env rt ca parsed leaf der w)))"
proof (cases "insert_issued (p_fault p) row (w_db w)")
  case (Pair r db)
  show ?thesis
  proof (cases r)
    case (Inl e)
    with Pair show ?thesis
      by (simp add: next_statement_def numeral_3_eq_3 persist_db row_def [symmetric])
  next
    case (Inr u)
    let ?t = "issued_row p env rt parsed"
    obtain q db1 where one: "recorder_step (p_fault p) (Start ?t) db = (q, db1)" by force
    obtain q' db2 where two: "recorder_step (p_fault p) q db1 = (q', db2)" by force
    have "db2 = snd (record_transaction (p_fault p) (req_transaction_id parsed) (rt_name rt) ''issued'' ''PKCSReq''
        (now_utc p (rq_record_time env)) db)"
      using recorder_alone [OF one two] by (simp add: issued_row_def)
    with Pair Inr have "w_db (snd (persist p env rt ca parsed leaf der w)) = db2"
      by (simp add: persist_db row_def [symmetric])
    moreover have "(next_statement (p_fault p) ^^ Suc 2) (Persist row ?t, w_db w) =
        (next_statement (p_fault p) ^^ 2) (PersistRecord row (Start ?t), db)"
      using Pair Inr unfolding funpow_Suc_right o_apply by (simp add: next_statement_def)
    ultimately show ?thesis
      using persist_record_done [OF one two] by (simp add: numeral_3_eq_3 numeral_2_eq_2)
  qed
qed

text \<open>Alone, the lookups are the loop of the responder.\<close>

lemma lookups_alone:
  assumes "answer_entries p clock ca tu nu n cids b w = (Inr b', w')"
  shows "\<exists>found new. (next_statement (p_fault p) ^^ length cids)
        (Lookups ca (map (\<lambda>cid. hex_encode (p_codec p) (cid_serial_number cid)) cids) sofar, w_db w)
        = (Lookups ca [] (sofar @ found), w_db w')
    \<and> orb_responses b' = orb_responses b @ new
    \<and> list_all2 (\<lambda>single (s, st). hex_encode (p_codec p) (cid_serial_number (sr_cert_id single)) = s
         \<and> (\<exists>i. sr_status single = to_cert_status p (clock i) st)) new found"
  using assms
proof (induction cids arbitrary: n b w sofar)
  case Nil
  then show ?case by auto
next
  case (Cons cid cids)
  let ?s = "hex_encode (p_codec p) (cid_serial_number cid)"
  obtain r db where run: "status_by_serial (p_fault p) ca ?s (w_db w) = (r, db)" by force
  with Cons.prems obtain st where st: "r = Inr st"
    by (cases r) (auto simp: and_then_def on_db_def Let_def)
  let ?single = "\<lparr>sr_cert_id = cid, sr_status = to_cert_status p (clock n) st, sr_this_update = tu, sr_next_update = Some nu\<rparr>"
  have "answer_entries p clock ca tu nu (Suc n) cids (b\<lparr>orb_responses := orb_responses b @ [?single]\<rparr>) (w\<lparr>w_db := db\<rparr>)
      = (Inr b', w')"
    using Cons.prems run st by (simp add: and_then_def on_db_def Let_def)
  from Cons.IH [OF this, of "sofar @ [(?s, st)]"] obtain found new where IH:
    "(next_statement (p_fault p) ^^ length cids)
        (Lookups ca (map (\<lambda>cid. hex_encode (p_codec p) (cid_serial_number cid)) cids) (sofar @ [(?s, st)]), db)
        = (Lookups ca [] ((sofar @ [(?s, st)]) @ found), w_db w')"
    "orb_responses b' = (orb_responses b @ [?single]) @ new"
    "list_all2 (\<lambda>single (s, st). hex_encode (p_codec p) (cid_serial_number (sr_cert_id single)) = s
         \<and> (\<exists>i. sr_status single = to_cert_status p (clock i) st)) new found" by auto
  have "(next_statement (p_fault p) ^^ Suc (length cids))
        (Lookups ca (?s # map (\<lambda>cid. hex_encode (p_codec p) (cid_serial_number cid)) cids) sofar, w_db w)
      = (Lookups ca [] (sofar @ (?s, st) # found), w_db w')"
    unfolding funpow_Suc_right o_apply using IH(1) by (simp add: next_statement_def run st)
  with IH(2,3) show ?case
    by (intro exI [of _ "(?s, st) # found"] exI [of _ "?single # new"]) auto
qed

subsection \<open>One statement\<close>

text \<open>What a statement of a request can do to the table, and to the status of a certificate.\<close>

fun request_ok :: "request \<Rightarrow> bool" where
  "request_ok (Persist c row) \<longleftrightarrow> fresh_row c"
| "request_ok r \<longleftrightarrow> True"

lemma request_step_effect:
  assumes "db_ok db" and "request_ok r" and "request_step fault r db = (r', db')"
  shows "db_ok db' \<and> (registry db' ca s = registry db ca s
    \<or> registry db ca s = Unknown \<and> registry db' ca s = Good
    \<or> registry db ca s = Good \<and> (\<exists>n t. r = RevokeQuery ca s n t \<and> registry db' ca s = Revoked (Some t) (Some n)))"
proof -
  have one: ?thesis if "db' = db_step fault e db" "db_event_ok e" "\<And>ca s n t. e = RevokeSerial ca s n t \<Longrightarrow> r = RevokeQuery ca s n t" for e
    using that(1) db_history.step_inv [OF assms(1) that(2)] db_step_change [OF assms(1) that(2), of fault ca s] that(3) by auto
  have rec: ?thesis if "recorder_step fault q db = (q', db')" for q q'
    using recorder_step_extends [OF that] assms(1) registry_tx_extends [of db db'] by (auto simp: tx_extends_def)
  show ?thesis
  proof (cases r)
    case (Persist c row)
    with assms(2,3) show ?thesis
      by (intro one [of "InsertIssued c"]) (auto split: prod.splits sum.splits)
  next
    case (PersistRecord c q)
    obtain q' db1 where "recorder_step fault q db = (q', db1)" by force
    with PersistRecord assms(3) show ?thesis by (intro rec [of q q']) (cases q'; simp)
  next
    case (Record q)
    obtain q' db1 where "recorder_step fault q db = (q', db1)" by force
    with Record assms(3) show ?thesis by (intro rec [of q q']) simp
  next
    case (Lookups ca' ss sofar)
    show ?thesis
    proof (cases ss)
      case Nil
      with Lookups assms(1,3) show ?thesis by simp
    next
      case (Cons s' ss')
      with Lookups assms(3) show ?thesis
        by (intro one [of "StatusQuery ca' s'"])
          (auto split: prod.splits sum.splits dest: status_by_serial_ok status_by_serial_err)
    qed
  next
    case (ListQuery ca')
    with assms(3) list_revoked_state [of fault ca' db] show ?thesis
      by (intro one [of "ListRevoked ca'"]) (auto split: prod.splits simp del: list_revoked_state)
  next
    case (RevokeQuery ca' s' n t)
    with assms(3) show ?thesis by (intro one [of "RevokeSerial ca' s' n t"]) (auto split: prod.splits)
  qed (use assms(1,3) in auto)
qed

subsection \<open>The invariant of every interleaving\<close>

text \<open>
  What a job may be at, given what it asked for, with what it can rely on.  \<open>asked ca s\<close> are the
  revocations requested for a certificate so far.  An OCSP answer is a status the certificate had
  while the request was served; a CRL lists what is revoked, among it all that was revoked when
  the request arrived; a persisted certificate is known; a revocation that reports \<open>true\<close> is the
  one in the table.
\<close>

fun progress :: "(string \<Rightarrow> string \<Rightarrow> (int \<times> string) set) \<Rightarrow> (string \<Rightarrow> string \<Rightarrow> revocation_status) \<Rightarrow>
    (string \<Rightarrow> string \<Rightarrow> revocation_status) \<Rightarrow> request \<Rightarrow> request \<Rightarrow> bool" where
  "progress asked found reg (Persist c row) now \<longleftrightarrow>
     now = Persist c row
     \<or> (\<exists>q. now = PersistRecord c q) \<and> reg (ic_ca_id c) (ic_serial c) \<noteq> Unknown
     \<or> (\<exists>r. now = Persisted c r \<and> (r = Inr () \<longrightarrow> reg (ic_ca_id c) (ic_serial c) \<noteq> Unknown))"
| "progress asked found reg (Lookups ca ss sofar) now \<longleftrightarrow>
     (\<exists>rest got. now = Lookups ca rest got \<and> ss = map fst got @ rest
        \<and> (\<forall>(s, st)\<in>set got. life_path (asked ca s) (found ca s) st \<and> life_path (asked ca s) st (reg ca s)))
     \<or> (\<exists>e. now = LookupsFailed ca ss e)"
| "progress asked found reg (ListQuery ca) now \<longleftrightarrow>
     now = ListQuery ca
     \<or> (\<exists>r. now = Listed ca r \<and> (\<forall>es. r = Inr es \<longrightarrow>
          (\<forall>e\<in>set es. reg ca (re_serial e) = Revoked (re_revoked_at e) (re_reason e))
          \<and> (\<forall>s t n. found ca s = Revoked t n \<longrightarrow> s \<in> re_serial ` set es)))"
| "progress asked found reg (RevokeQuery ca s n t) now \<longleftrightarrow>
     now = RevokeQuery ca s n t
     \<or> (\<exists>r. now = RevokeDone ca s n t r \<and> (r = Inr True \<longrightarrow> reg ca s = Revoked (Some t) (Some n)))"
| "progress asked found reg r now \<longleftrightarrow> (\<exists>q. r = Record q) \<and> (\<exists>q. now = Record q)"

definition asked_in :: "job list \<Rightarrow> string \<Rightarrow> string \<Rightarrow> (int \<times> string) set" where
  "asked_in jobs ca s = {(n, t). RevokeQuery ca s n t \<in> job_asked ` set jobs}"

definition job_sound :: "(string \<Rightarrow> string \<Rightarrow> (int \<times> string) set) \<Rightarrow> database \<Rightarrow> job \<Rightarrow> bool" where
  "job_sound asked db j \<longleftrightarrow> admissible (job_asked j)
     \<and> (\<forall>ca s. life_path (asked ca s) (job_found j ca s) (registry db ca s))
     \<and> progress asked (job_found j) (registry db) (job_asked j) (job_now j)"

text \<open>Two revocations of one certificate never both report \<open>true\<close>.\<close>

definition one_winner :: "job list \<Rightarrow> bool" where
  "one_winner jobs \<longleftrightarrow> (\<forall>i k ca s n t n' t'. i < length jobs \<longrightarrow> k < length jobs \<longrightarrow>
     job_now (jobs ! i) = RevokeDone ca s n t (Inr True) \<longrightarrow>
     job_now (jobs ! k) = RevokeDone ca s n' t' (Inr True) \<longrightarrow> i = k)"

definition conc_inv :: "database \<Rightarrow> job list \<times> database \<Rightarrow> bool" where
  "conc_inv db0 s \<longleftrightarrow> db_ok (snd s)
     \<and> (\<forall>ca n. life_path (asked_in (fst s) ca n) (registry db0 ca n) (registry (snd s) ca n))
     \<and> list_all (job_sound (asked_in (fst s)) (snd s)) (fst s) \<and> one_winner (fst s)"

lemma life_path_known: "life_path A st st' \<Longrightarrow> st \<noteq> Unknown \<Longrightarrow> st' \<noteq> Unknown"
  by (induction rule: rtranclp_induct) (auto elim: life_stepE)

text \<open>Whatever moves the registry along life paths keeps the soundness of every job.\<close>

lemma progress_mono:
  assumes "progress A found reg r now" and "\<And>ca s. life_path (B ca s) (reg ca s) (reg' ca s)" and "\<And>ca s. A ca s \<subseteq> B ca s"
  shows "progress B found reg' r now"
proof -
  have known: "reg ca s \<noteq> Unknown \<Longrightarrow> reg' ca s \<noteq> Unknown" for ca s
    using assms(2) life_path_known by metis
  have revoked: "reg ca s = Revoked t n \<Longrightarrow> reg' ca s = Revoked t n" for ca s t n
    using assms(2) revoked_is_final by metis
  have path: "life_path (A ca s) st st' \<Longrightarrow> life_path (B ca s) st st'" for ca s st st'
    using assms(3) life_path_mono by blast
  show ?thesis
  proof (cases r)
    case (Lookups ca ss sofar)
    have "life_path (A ca s) st (reg ca s) \<Longrightarrow> life_path (B ca s) st (reg' ca s)" for s st
      using path assms(2) by (meson rtranclp_trans)
    with assms(1) Lookups path show ?thesis by fastforce
  qed (use assms(1) known revoked in auto)
qed

lemma job_sound_mono:
  assumes "job_sound A db j" and "\<And>ca s. life_path (B ca s) (registry db ca s) (registry db' ca s)" and "\<And>ca s. A ca s \<subseteq> B ca s"
  shows "job_sound B db' j"
proof -
  have "life_path (B ca s) (job_found j ca s) (registry db' ca s)" for ca s
    using assms life_path_mono [of "A ca s" _ _ "B ca s"] unfolding job_sound_def by (meson rtranclp_trans)
  with assms(1) progress_mono [OF _ assms(2,3)] show ?thesis by (auto simp: job_sound_def)
qed


lemma progress_now:
  assumes "progress A found reg r now" and "admissible r"
  shows "request_ok now" and "now = RevokeQuery ca s n t \<Longrightarrow> r = now"
    and "now = RevokeDone ca s n t (Inr True) \<Longrightarrow> reg ca s = Revoked (Some t) (Some n)"
  using assms by (cases r; auto)+

lemma statement_path:
  assumes "db_ok db" and "request_ok r" and "request_step fault r db = (r', db')"
    and "\<And>n t. r = RevokeQuery ca s n t \<Longrightarrow> (n, t) \<in> A"
  shows "life_path A (registry db ca s) (registry db' ca s)"
  using request_step_effect [OF assms(1-3), of ca s] assms(4)
  by (auto simp: life_path_issued life_path_revoked)

text \<open>A query of the revoked certificates lists the registry.\<close>

lemma listed_registry:
  assumes "db_ok db" and "list_revoked fault ca db = (Inr es, db')"
  shows "e \<in> set es \<Longrightarrow> registry db ca (re_serial e) = Revoked (re_revoked_at e) (re_reason e)"
    and "registry db ca s = Revoked t n \<Longrightarrow> s \<in> re_serial ` set es"
  using revoked_rows_status [OF assms] by (cases e, auto) force

text \<open>The statement of a job brings the job itself one sound step further.\<close>

lemma progress_statement:
  assumes ok: "db_ok db" and adm: "admissible r" and now: "progress A found (registry db) r now"
    and step: "request_step fault now db = (now', db')"
    and path: "\<And>ca s. life_path (A ca s) (registry db ca s) (registry db' ca s)"
    and found: "\<And>ca s. life_path (A ca s) (found ca s) (registry db ca s)"
  shows "progress A found (registry db') r now'"
proof -
  have keep: "progress A found (registry db') r now"
    using progress_mono [OF now path] by blast
  show ?thesis
  proof (cases r)
    case (Persist c row)
    have known: "registry db ca s \<noteq> Unknown \<Longrightarrow> registry db' ca s \<noteq> Unknown" for ca s
      using path life_path_known by metis
    from now Persist consider "now = Persist c row"
      | q where "now = PersistRecord c q" "registry db (ic_ca_id c) (ic_serial c) \<noteq> Unknown"
      | x where "now = Persisted c x" by auto
    then show ?thesis
    proof cases
      case 1
      obtain x db1 where ins: "insert_issued fault c db = (x, db1)" by force
      with 1 Persist step adm insert_issued_registry(2) [of fault c db db1 "ic_ca_id c" "ic_serial c"]
      show ?thesis by (cases x) auto
    next
      case 2
      with Persist step known show ?thesis
        by (auto split: prod.splits recorder.splits simp del: recorder_step.simps)
    qed (use keep step in auto)
  next
    case (Record q)
    with now step adm show ?thesis by (auto split: prod.splits simp del: recorder_step.simps)
  next
    case (Lookups ca ss sofar)
    show ?thesis
    proof (cases "\<exists>s rest got. now = Lookups ca (s # rest) got")
      case True
      then obtain s rest got where at: "now = Lookups ca (s # rest) got" by blast
      obtain x db1 where look: "status_by_serial fault ca s db = (x, db1)" by force
      with at Lookups step keep found [of ca s] path [of ca s] show ?thesis
        by (cases x) (auto dest!: status_by_serial_ok)
    next
      case False
      from now Lookups consider got where "now = Lookups ca [] got" | e where "now = LookupsFailed ca ss e"
        using False by (auto simp: neq_Nil_conv) (metis neq_Nil_conv)
      then have "now' = now" using step by cases auto
      with keep show ?thesis by simp
    qed
  next
    case (ListQuery ca)
    obtain x db1 where list: "list_revoked fault ca db = (x, db1)" by force
    have final: "registry db' ca s = Revoked t n" if "registry db ca s = Revoked t n" for s t n
      using path [of ca s] that revoked_is_final by metis
    have was: "registry db ca s = Revoked t n" if "found ca s = Revoked t n" for s t n
      using found [of ca s] that revoked_is_final by metis
    show ?thesis
    proof (cases "now = r")
      case True
      with ListQuery list step have "now' = Listed ca x" by auto
      with ListQuery list listed_registry [OF ok] final was show ?thesis
        by (cases x) fastforce+
    next
      case False
      with now ListQuery step have "now' = now" by auto
      with keep show ?thesis by simp
    qed
  next
    case (RevokeQuery ca s n t)
    obtain x db1 where rev: "revoke fault ca s n t db = (x, db1)" by force
    show ?thesis
    proof (cases "now = r")
      case True
      with RevokeQuery rev step repo.revoke_status [OF ok, of fault ca s n t True db1 ca s] show ?thesis
        by (cases x) auto
    next
      case False
      with now RevokeQuery step have "now' = now" by auto
      with keep show ?thesis by simp
    qed
  qed (use adm in auto)
qed


text \<open>Only an active certificate can be revoked with the report \<open>true\<close>.\<close>

lemma winner_statement:
  assumes ok: "db_ok db" and step: "request_step fault now db = (RevokeDone ca s n t (Inr True), db')"
  shows "now = RevokeDone ca s n t (Inr True) \<or> registry db ca s = Good"
proof (cases now)
  case (RevokeQuery ca' s' n' t')
  obtain x db1 where rev: "revoke fault ca' s' n' t' db = (x, db1)" by force
  with RevokeQuery step repo.revoke_status [OF ok, of fault ca' s' n' t' True db1 ca s] show ?thesis by auto
next
  case (Lookups ca' ss sofar)
  with step show ?thesis by (cases ss) (auto split: prod.splits sum.splits)
qed (use step in \<open>auto split: prod.splits sum.splits recorder.splits simp del: recorder_step.simps\<close>)

lemma statement_one_winner:
  assumes ok: "db_ok db" and sound: "list_all (job_sound A db) jobs" and one: "one_winner jobs"
    and i: "i < length jobs" and step: "request_step fault (job_now (jobs ! i)) db = (r, db')"
  shows "one_winner (jobs[i := (jobs ! i)\<lparr>job_now := r\<rparr>])"
proof -
  let ?new = "jobs[i := (jobs ! i)\<lparr>job_now := r\<rparr>]"
  have taken: "registry db ca s \<noteq> Good"
    if "k < length jobs" "job_now (jobs ! k) = RevokeDone ca s n t (Inr True)" for k ca s n t
  proof -
    have "job_sound A db (jobs ! k)" using sound that(1) by (simp add: list_all_length)
    with that(2) progress_now(3) show ?thesis by (fastforce simp: job_sound_def)
  qed
  have same: "job_now (jobs ! i) = r" if "r = RevokeDone ca s n t (Inr True)"
    "k < length jobs" "job_now (jobs ! k) = RevokeDone ca s n' t' (Inr True)" for k ca s n t n' t'
    using winner_statement [OF ok] step that taken by metis
  show ?thesis
    unfolding one_winner_def
  proof (intro allI impI)
    fix j k ca s n t n' t'
    assume jk: "j < length ?new" "k < length ?new"
      and won: "job_now (?new ! j) = RevokeDone ca s n t (Inr True)" "job_now (?new ! k) = RevokeDone ca s n' t' (Inr True)"
    show "j = k"
    proof (cases "r = job_now (jobs ! i)")
      case True
      with i have "?new = jobs" by simp
      with jk won one show ?thesis unfolding one_winner_def by metis
    next
      case False
      have len: "length ?new = length jobs" by simp
      consider "j = k" | "j = i" "k \<noteq> i" | "k = i" "j \<noteq> i" | "j \<noteq> i" "k \<noteq> i" by blast
      then show ?thesis
      proof cases
        case 2
        with won i have "r = RevokeDone ca s n t (Inr True)" "job_now (jobs ! k) = RevokeDone ca s n' t' (Inr True)" by simp_all
        with same jk(2) len False show ?thesis by metis
      next
        case 3
        with won i have "r = RevokeDone ca s n' t' (Inr True)" "job_now (jobs ! j) = RevokeDone ca s n t (Inr True)" by simp_all
        with same jk(1) len False show ?thesis by metis
      next
        case 4
        with won have "job_now (jobs ! j) = RevokeDone ca s n t (Inr True)" "job_now (jobs ! k) = RevokeDone ca s n' t' (Inr True)" by simp_all
        with one jk len show ?thesis unfolding one_winner_def by metis
      qed
    qed
  qed
qed

lemma job_statement:
  assumes ok: "db_ok db" and sound: "job_sound A db j"
    and step: "request_step fault (job_now j) db = (r, db')"
    and path: "\<And>ca s. life_path (A ca s) (registry db ca s) (registry db' ca s)"
  shows "job_sound A db' (j\<lparr>job_now := r\<rparr>)"
proof -
  from sound have adm: "admissible (job_asked j)"
    and found: "\<And>ca s. life_path (A ca s) (job_found j ca s) (registry db ca s)"
    and now: "progress A (job_found j) (registry db) (job_asked j) (job_now j)"
    by (auto simp: job_sound_def)
  have "life_path (A ca s) (job_found j ca s) (registry db' ca s)" for ca s
    using found path rtranclp_trans by metis
  with adm progress_statement [OF ok adm now step path found] show ?thesis
    by (simp add: job_sound_def)
qed

lemma asked_update [simp]: "i < length jobs \<Longrightarrow> asked_in (jobs[i := (jobs ! i)\<lparr>job_now := r\<rparr>]) = asked_in jobs"
proof -
  assume i: "i < length jobs"
  have "map job_asked (jobs[i := (jobs ! i)\<lparr>job_now := r\<rparr>]) = map job_asked jobs"
    using i by (simp add: map_update list_update_same_conv)
  then have "job_asked ` set (jobs[i := (jobs ! i)\<lparr>job_now := r\<rparr>]) = job_asked ` set jobs"
    by (metis list.set_map)
  then show ?thesis by (intro ext) (simp only: asked_in_def)
qed

lemma conc_step_inv:
  assumes step: "conc_step fault (jobs, db) t" and inv: "conc_inv db0 (jobs, db)"
  shows "conc_inv db0 t"
proof -
  let ?A = "asked_in jobs"
  from inv have ok: "db_ok db" and all: "list_all (job_sound ?A db) jobs" and one: "one_winner jobs"
    and life: "\<And>ca n. life_path (?A ca n) (registry db0 ca n) (registry db ca n)"
    by (simp_all add: conc_inv_def)
  from step consider
      (arrive) r where "t = (jobs @ [\<lparr>job_asked = r, job_found = registry db, job_now = r\<rparr>], db)" "admissible r"
    | (statement) i r db' where "t = (jobs[i := (jobs ! i)\<lparr>job_now := r\<rparr>], db')" "i < length jobs"
        "request_step fault (job_now (jobs ! i)) db = (r, db')"
    by (elim conc_stepE) blast+
  then show ?thesis
  proof cases
    case arrive
    let ?j = "\<lparr>job_asked = r, job_found = registry db, job_now = r\<rparr>"
    let ?B = "asked_in (jobs @ [?j])"
    have sub: "?A ca s \<subseteq> ?B ca s" for ca s by (auto simp: asked_in_def)
    have "job_sound ?B db x" if "x \<in> set jobs" for x
      using all that job_sound_mono [of ?A db x ?B db] sub by (auto simp: list_all_iff)
    moreover have "job_sound ?B db ?j"
      using arrive(2) by (cases r) (auto simp: job_sound_def)
    moreover have "one_winner (jobs @ [?j])"
      using one arrive(2) unfolding one_winner_def
      by (auto simp: nth_append less_Suc_eq split: if_splits)
    moreover have "life_path (?B ca n) (registry db0 ca n) (registry db ca n)" for ca n
      using life sub life_path_mono by metis
    ultimately show ?thesis
      using ok arrive(1) by (simp add: conc_inv_def list_all_iff)
  next
    case statement
    let ?j = "jobs ! i"
    have j: "job_sound ?A db ?j" using all statement(2) by (simp add: list_all_length)
    then have rok: "request_ok (job_now ?j)" and asked: "\<And>ca s n t. job_now ?j = RevokeQuery ca s n t \<Longrightarrow> (n, t) \<in> ?A ca s"
      using progress_now statement(2) by (auto simp: job_sound_def asked_in_def image_iff) (metis nth_mem)
    have path: "life_path (?A ca s) (registry db ca s) (registry db' ca s)" for ca s
      using statement_path [OF ok rok statement(3)] asked by blast
    have "db_ok db'" using request_step_effect [OF ok rok statement(3)] by blast
    moreover have "life_path (?A ca n) (registry db0 ca n) (registry db' ca n)" for ca n
      using life path rtranclp_trans by metis
    moreover have "list_all (job_sound ?A db') jobs"
      using all path by (auto simp: list_all_iff intro: job_sound_mono [where A = ?A])
    then have "list_all (job_sound ?A db') (jobs[i := ?j\<lparr>job_now := r\<rparr>])"
      using job_statement [OF ok j statement(3) path]
      by (auto simp: list_all_iff dest!: set_update_subset_insert [THEN subsetD])
    moreover have "one_winner (jobs[i := ?j\<lparr>job_now := r\<rparr>])"
      by (rule statement_one_winner [OF ok all one statement(2,3)])
    ultimately show ?thesis
      using statement(1,2) by (simp add: conc_inv_def)
  qed
qed

lemma conc_run_inv: "conc_run fault s t \<Longrightarrow> conc_inv db0 s \<Longrightarrow> conc_inv db0 t"
  by (induction rule: rtranclp_induct) (auto intro: conc_step_inv)


subsection \<open>The property\<close>

lemma conc_start_inv: "db_ok db \<Longrightarrow> conc_inv db ([], db)"
  by (simp add: conc_inv_def one_winner_def)


text \<open>Two revocations of one certificate while an OCSP request looks it up twice.\<close>

definition race_jobs :: "request \<Rightarrow> request \<Rightarrow> request \<Rightarrow> job list" where
  "race_jobs a b c = map2 (\<lambda>r now. \<lparr>job_asked = r, job_found = registry sample_db, job_now = now\<rparr>)
     [Lookups ''default'' [''aa11'', ''aa11''] [], RevokeQuery ''default'' ''aa11'' 1 ''noon'',
      RevokeQuery ''default'' ''aa11'' 4 ''later''] [a, b, c]"

lemma race_run:
  "\<exists>db. conc_run (\<lambda>_. None) ([], sample_db)
     (race_jobs (Lookups ''default'' [] [(''aa11'', Good), (''aa11'', Revoked (Some ''noon'') (Some 1))])
        (RevokeDone ''default'' ''aa11'' 1 ''noon'' (Inr True))
        (RevokeDone ''default'' ''aa11'' 4 ''later'' (Inr False)), db)"
proof -
  let ?f = "\<lambda>_. None :: string option"
  let ?run = "conc_run ?f ([], sample_db)"
  let ?l = "Lookups ''default''" and ?r1 = "RevokeQuery ''default'' ''aa11'' 1 ''noon''"
    and ?r2 = "RevokeQuery ''default'' ''aa11'' 4 ''later''"
  let ?d1 = "RevokeDone ''default'' ''aa11'' 1 ''noon'' (Inr True)"
    and ?d2 = "RevokeDone ''default'' ''aa11'' 4 ''later'' (Inr False)"
  let ?n = "\<lambda>n. sample_db\<lparr>db_calls := n\<rparr>"
  let ?m = "\<lambda>n. new_database\<lparr>issued := [revoke_row 1 ''noon'' (sample_row ''aa11'')], db_calls := n\<rparr>"
  have arrived: "?run (race_jobs (?l [''aa11'', ''aa11''] []) ?r1 ?r2, ?n 0)"
    using conc_step.arrive [of "?l [''aa11'', ''aa11''] []" ?f "[]" sample_db]
      conc_step.arrive [of ?r1 ?f "race_jobs (?l [''aa11'', ''aa11''] []) ?r1 ?r2 ! 0 # []" sample_db]
      conc_step.arrive [of ?r2 ?f "take 2 (race_jobs (?l [''aa11'', ''aa11''] []) ?r1 ?r2)" sample_db]
    by (simp add: race_jobs_def sample_db_def new_database_def)
  have statement: "?run (jobs[i := (jobs ! i)\<lparr>job_now := r\<rparr>], db')"
    if "?run (jobs, db)" "i < length jobs" "request_step ?f (job_now (jobs ! i)) db = (r, db')" for jobs db i r db'
    using that conc_step.statement [of i jobs ?f db r db'] by (rule_tac rtranclp.rtrancl_into_rtrancl)
  note ev = status_by_serial_def revoke_def run_statement_healthy Let_def sample_db_def new_database_def
    revocable_def row_matches_def race_jobs_def row_status_def STATUS_VALID_def STATUS_REVOKED_def revoke_row_def
  have "?run (race_jobs (?l [''aa11''] [(''aa11'', Good)]) ?r1 ?r2, ?n 1)"
    using statement [OF arrived, of 0 "?l [''aa11''] [(''aa11'', Good)]" "?n 1"] by (simp add: ev)
  from statement [OF this, of 1 ?d1 "?m 2"]
  have "?run (race_jobs (?l [''aa11''] [(''aa11'', Good)]) ?d1 ?r2, ?m 2)"
    by (simp add: ev)
  from statement [OF this, of 2 ?d2 "?m 3"]
  have "?run (race_jobs (?l [''aa11''] [(''aa11'', Good)]) ?d1 ?d2, ?m 3)"
    by (simp add: ev)
  from statement [OF this, of 0 "?l [] [(''aa11'', Good), (''aa11'', Revoked (Some ''noon'') (Some 1))]" "?m 4"]
  have "?run (race_jobs (?l [] [(''aa11'', Good), (''aa11'', Revoked (Some ''noon'') (Some 1))]) ?d1 ?d2, ?m 4)"
    by (simp add: ev)
  then show ?thesis by blast
qed


end
