(* ===== verification/Spec2Isabelle.thy ===== *)
theory Spec2Isabelle
  imports Histories Responses Rejection Concurrent
begin

text \<open>
  blapki is a small PKI server.  Devices enrol over SCEP (RFC 8894): a request is a CMS signed
  message around an envelope that only the CA can open, the envelope holds a certificate request
  with a challenge, and the reply is a signed message around an envelope with the certificate.
  The server keeps what it issued in a database, and tells relying parties what was revoked
  through an OCSP responder and a CRL.  This development models the Rust program under \<open>src/src\<close>
  function by function and proves what makes it correct; this text is its map.

  The theories, bottom up, and the files they model.

  \<^item> \<open>Prelude\<close>: the idioms of the source.  \<open>Result\<close> is a sum, \<open>try_then\<close> is \<open>?\<close>, \<open>map_err\<close>,
    \<open>ok_or\<close> and the others carry their Rust names; a call that changes state is an \<open>effect\<close>, with
    \<open>and_then\<close> for \<open>?\<close>.  A string is the list of its UTF-8 bytes read as characters, and the
    methods of \<open>str\<close> the program calls (\<open>trim\<close>, \<open>lines\<close>, \<open>split\<close>, \<open>strip_prefix\<close>, ...) are
    functions on it.  The lemmas are introduction and elimination rules for these combinators.
  \<^item> \<open>Errors\<close> (\<open>error.rs\<close>): \<open>AppError\<close>, its text, its status, its response.
  \<^item> \<open>Externals\<close>: the types and the libraries outside the repository.  Each library is a record
    of functions, and a definition that uses one takes it as an argument: DER (\<open>der_lib\<close>), X.509
    and its builder (\<open>x509_lib\<close>), hashes, RSA, ciphers, base64 and hexadecimal, time.  What a
    library is documented to do is a predicate \<open>..._documented\<close>, named in the theorems that need
    it; random bytes and clock readings are arguments.
  \<^item> \<open>Config\<close> (\<open>config.rs\<close>): the settings, the inline material of a CA, validation.
  \<^item> \<open>Repo\<close>, \<open>Registry\<close>, \<open>Recorders\<close> (\<open>db/mod.rs\<close>, \<open>db/repo.rs\<close>): tables as lists of rows, one
    definition per statement, with a fault pattern that decides which statements the engine
    refuses.  \<open>registry\<close> is the abstraction: the status of a serial under a CA.  The locale
    \<open>certificate_registry\<close> is the contract of the calls and \<open>status_machine\<close> that of a history;
    both are interpreted on the repository functions, and \<open>status_machine\<close> again on the whole
    server in \<open>System\<close>.  \<open>Recorders\<close> interleaves the two statements of \<open>record_transaction\<close>.
  \<^item> \<open>Attributes\<close> (\<open>scep/\<close>), \<open>Extensions\<close>, \<open>Csr\<close>, \<open>Serial\<close>, \<open>Authority\<close>, \<open>Keystore\<close> (\<open>ca/\<close>):
    SCEP attributes and replies; the requested and configured extensions; the request; serial
    numbers; the CA and its two constructors; PEM reading and the two key stores, which share the
    locale \<open>key_store\<close>, the trait of the source.
  \<^item> \<open>Cms\<close>, \<open>Envelope\<close>, \<open>Sign\<close>, \<open>Verify\<close> (\<open>crypto/\<close>): object identifiers and the CMS codec;
    building and opening envelopes, with the implicit rejection of bad RSA padding; signed replies;
    verification of a request.
  \<^item> \<open>Intune\<close>, \<open>Challenge\<close> (\<open>intune/mod.rs\<close>, \<open>challenge/mod.rs\<close>): the Intune client over a network
    that answers the \<open>n\<close>-th request, its token cache and the log of what it sent; the three
    validators.
  \<^item> \<open>HttpState\<close> (\<open>http/mod.rs\<close>, \<open>http/health.rs\<close>), \<open>ScepHandler\<close> (\<open>http/scep.rs\<close>), \<open>OcspHandler\<close>
    (\<open>http/ocsp.rs\<close>), \<open>CrlHandler\<close> (\<open>http/crl.rs\<close>): the shared state, the routing table and the
    handlers.  What handlers change, the database and the Intune client, is the record \<open>world\<close>.
    \<open>Enrolment\<close> holds the properties of \<open>pki_operation\<close>, \<open>Example\<close> a concrete enrolment.
  \<^item> \<open>App\<close> (\<open>app.rs\<close>): start-up over the files and the environment of a host.
  \<^item> \<open>System\<close>: requests dispatched through the router, operators that revoke, and the histories
    of a running server.  \<open>Histories\<close> follows the status of one certificate through such a
    history, \<open>Responses\<close> classifies the errors of every handler and types its answers.
    \<open>Concurrent\<close> interleaves enrolments, OCSP lookups, CRL queries and revocations statement by
    statement; \<open>persist_alone\<close>, \<open>record_alone\<close> and \<open>lookups_alone\<close> show that a request left alone
    runs what the handlers of \<open>ScepHandler\<close> and \<open>OcspHandler\<close> run.
  \<^item> \<open>Roundtrip\<close> (\<open>roundtrip.rs\<close>): the device.  It builds its request with the builders of
    \<open>Envelope\<close> and \<open>Sign\<close> and reads the reply with \<open>Verify\<close> and \<open>Envelope\<close>, so both ends of an
    enrolment are in the model.  \<open>Exchange\<close> is the enrolment test of that file as a
    whole, \<open>Rejection\<close> its two rejection tests and the way of a refusal to the device.

  How the parts interact.  \<open>App.build_state\<close> makes the \<open>app_state\<close> that never changes afterwards;
  \<open>System.serve\<close> leads a request through \<open>router\<close> to its handler; \<open>pki_operation\<close> verifies
  (\<open>Verify\<close>), opens (\<open>Envelope\<close>, \<open>Csr\<close>), asks the validator (\<open>Challenge\<close>, \<open>Intune\<close>), issues
  (\<open>Authority\<close>), persists (\<open>Repo\<close>), notifies, and replies (\<open>Sign\<close>, \<open>Envelope\<close>).  OCSP and CRL
  read the registry the enrolment wrote.

  What the lemmas show, group by group.  Safety of issuance: no certificate without an authentic
  request and an approval; a leaf is never a CA; a refused or unreadable request tells its sender
  nothing about the RSA step; internal errors stay inside.  Fidelity: the reply answers the request
  and opens for the requester, a recorded certificate is found by OCSP, the CRL lists exactly what
  is revoked, and the two agree at any time.  Histories: whatever the database and the network do,
  tables keep their keys, a status moves from unknown to good to revoked and never back, so it
  changes at most twice.  Concurrency: interleaved requests keep all that, an OCSP answer was true
  while it was served, and of several revocations of a certificate at most one reports success.
  Equivalences: verification accepts exactly the authentic messages, validation exactly the usable
  settings, the constant-time comparison exactly equal secrets.  Round trips: envelopes, the
  request of a device, reply attributes, PEM, a bootstrapped CA across a restart.  Liveness: a
  device that knows the secret gets its certificate in one exchange, and one that does not is told so.  Types: statuses and content
  types of all answers.  Errors: each failure has one of the listed
  causes.  Bounds: serials fit 16 bytes and their decimal form 128 bits.

  Bounds and fuel.  No definition uses fuel: every loop of the program is a structural recursion or
  a \<open>function\<close> with a measure (the lines left, the characters left).  Integers keep their width
  where the source computes with them: bytes, the 128-bit accumulator of \<open>serial_decimal\<close>, the
  32- and 64-bit validity; times are nanoseconds as integers.

  The theorems with hypotheses on a library have a witness that discharges them on concrete
  functions, the \<open>demo_...\<close>, \<open>ex_...\<close>, \<open>boot_...\<close>, \<open>crl_...\<close>, \<open>rt_...\<close>,
  \<open>xt_...\<close>, \<open>ask_...\<close> and \<open>lone_...\<close> definitions.  These are no part of
  the model: they encode and decrypt in the simplest way that satisfies the hypotheses.

  Not modelled.  \<open>main.rs\<close> (the runtime, the listener, signals) and \<open>lib.rs\<close> are I/O and module
  declarations; the calls of \<open>tracing\<close> have no effect on what is modelled; the other tests
  reappear as witnesses.  TOML and environment merging (figment), SQL beyond the statements of the program,
  axum beyond the routes, and the cryptography itself are outside the repository.  Handlers run
  one after the other in \<open>System\<close>; what concurrent requests can do to each other's statements is in
  \<open>Concurrent\<close> and \<open>Recorders\<close>, with one engine that runs one statement at a time.  The lock of
  the Intune token cache is not interleaved.  Timing is not modelled, so \<open>constant_time_eq\<close> is about its result only.
\<close>

end
